(* ===== verification/Gaofs_Prelude.thy ===== *)
theory Gaofs_Prelude
  imports Main "HOL-Library.Word"
begin

unbundle bit_operations_syntax

text \<open>
  Shared vocabulary of the GaoFS development: machine integer types, the C++ exceptions of
  the program as a datatype, stateful computations that may throw, C strings, the decimal
  conversions of the C++ standard library that the program uses
  (\<open>std::to_string\<close> / \<open>fmt::format_int\<close>, \<open>std::stoul\<close>, \<open>std::stol\<close>), POSIX constants and
  the generic lemmas the component theories share.
\<close>

section \<open>Collections\<close>

named_theorems unat_simps \<open>reading of 64-bit operations through unat\<close>
named_theorems cmd_simps \<open>unfolding of throwing computations\<close>

section \<open>Types\<close>

type_synonym u64 = "64 word"
type_synonym u32 = "32 word"
type_synonym bytes = "char list"
type_synonym path = string
type_synonym errno = int

text \<open>The exceptions the program throws or lets through; \<open>Abort\<close> is the end of the process
  by a failed \<open>assert\<close>, a trap or undefined behaviour, and \<open>Hang\<close> a call that never returns;
  no handler sees these two. \<open>SystemError\<close> is
  \<open>std::system_error\<close> with its error code, \<open>ChunkStorageException\<close> its subclass of
  \<open>daemon/backend/data/chunk_storage.hpp\<close>.\<close>

datatype exn =
    NotFoundException
  | ExistsException
  | DBException
  | ChunkStorageException errno
  | ChunkOpException
  | RuntimeError
  | InvalidArgument
  | OutOfRange
  | SystemError errno
  | Abort
  | Hang

text \<open>\<open>NotFoundException\<close> and \<open>ExistsException\<close> are subclasses of \<open>DBException\<close>
  (\<open>daemon/backend/exceptions.hpp\<close>); every C++ exception derives from \<open>std::exception\<close>.\<close>

definition is_DBException :: "exn \<Rightarrow> bool" where
  "is_DBException e = (e \<in> {NotFoundException, ExistsException, DBException})"

definition is_std_exception :: "exn \<Rightarrow> bool" where
  "is_std_exception e = (e \<noteq> Abort \<and> e \<noteq> Hang)"

lemma is_DBException_simps [simp]:
  "is_DBException NotFoundException" "is_DBException ExistsException" "is_DBException DBException"
  "\<not> is_DBException (ChunkStorageException n)" "\<not> is_DBException ChunkOpException"
  "\<not> is_DBException RuntimeError" "\<not> is_DBException InvalidArgument"
  "\<not> is_DBException OutOfRange" "\<not> is_DBException (SystemError n)"
  "\<not> is_DBException Abort" "\<not> is_DBException Hang"
  by (simp_all add: is_DBException_def)

lemma is_std_exception_simps [simp]:
  "is_std_exception NotFoundException" "is_std_exception ExistsException"
  "is_std_exception DBException" "is_std_exception (ChunkStorageException n)"
  "is_std_exception ChunkOpException" "is_std_exception RuntimeError"
  "is_std_exception InvalidArgument" "is_std_exception OutOfRange"
  "is_std_exception (SystemError n)" "\<not> is_std_exception Abort" "\<not> is_std_exception Hang"
  by (simp_all add: is_std_exception_def)

section \<open>Computations that throw\<close>

type_synonym 'a res = "exn + 'a"
type_synonym ('s, 'a) cmd = "'s \<Rightarrow> 'a res \<times> 's"

definition res_bind :: "'a res \<Rightarrow> ('a \<Rightarrow> 'b res) \<Rightarrow> 'b res" where
  "res_bind m f = (case m of Inl e \<Rightarrow> Inl e | Inr x \<Rightarrow> f x)"

definition assert_res :: "bool \<Rightarrow> unit res" where
  "assert_res b = (if b then Inr () else Inl Abort)"

definition cret :: "'a \<Rightarrow> ('s, 'a) cmd" where
  "cret x = (\<lambda>s. (Inr x, s))"

definition craise :: "exn \<Rightarrow> ('s, 'a) cmd" where
  "craise e = (\<lambda>s. (Inl e, s))"

definition cbind :: "('s, 'a) cmd \<Rightarrow> ('a \<Rightarrow> ('s, 'b) cmd) \<Rightarrow> ('s, 'b) cmd" where
  "cbind m f = (\<lambda>s. case m s of (Inl e, s') \<Rightarrow> (Inl e, s') | (Inr x, s') \<Rightarrow> f x s')"

text \<open>A \<open>try\<close> block: the handler sees the exception and the state it was thrown in
  (there is no rollback in C++).\<close>

definition ccatch :: "('s, 'a) cmd \<Rightarrow> (exn \<Rightarrow> ('s, 'a) cmd) \<Rightarrow> ('s, 'a) cmd" where
  "ccatch m h = (\<lambda>s. case m s of (Inl e, s') \<Rightarrow> h e s' | (Inr x, s') \<Rightarrow> (Inr x, s'))"

definition clift :: "'a res \<Rightarrow> ('s, 'a) cmd" where
  "clift r = (\<lambda>s. (r, s))"

definition cget :: "('s \<Rightarrow> 'a) \<Rightarrow> ('s, 'a) cmd" where
  "cget f = (\<lambda>s. (Inr (f s), s))"

definition cassert :: "bool \<Rightarrow> ('s, unit) cmd" where
  "cassert b = clift (assert_res b)"

lemma res_bind_simps [simp]:
  "res_bind (Inl e) f = Inl e" "res_bind (Inr x) f = f x"
  by (simp_all add: res_bind_def)

lemma res_bind_eq_Inr:
  "res_bind m f = Inr y \<longleftrightarrow> (\<exists>x. m = Inr x \<and> f x = Inr y)"
  by (cases m) auto

lemma assert_res_simps [simp]:
  "assert_res True = Inr ()" "assert_res False = Inl Abort"
  by (simp_all add: assert_res_def)

lemma assert_res_eq_Inr [simp]: "assert_res b = Inr u \<longleftrightarrow> b"
  by (simp add: assert_res_def)

lemmas cmd_defs = cret_def craise_def cbind_def ccatch_def clift_def cget_def cassert_def

lemma cret_apply [cmd_simps]: "cret x s = (Inr x, s)" by (simp add: cret_def)
lemma craise_apply [cmd_simps]: "craise e s = (Inl e, s)" by (simp add: craise_def)
lemma clift_apply [cmd_simps]: "clift r s = (r, s)" by (simp add: clift_def)
lemma cget_apply [cmd_simps]: "cget f s = (Inr (f s), s)" by (simp add: cget_def)
lemma cassert_apply [cmd_simps]: "cassert b s = (assert_res b, s)"
  by (simp add: cassert_def clift_def)
lemma cbind_apply [cmd_simps]:
  "cbind m f s = (case m s of (Inl e, s') \<Rightarrow> (Inl e, s') | (Inr x, s') \<Rightarrow> f x s')"
  by (simp add: cbind_def)
lemma ccatch_apply [cmd_simps]:
  "ccatch m h s = (case m s of (Inl e, s') \<Rightarrow> h e s' | (Inr x, s') \<Rightarrow> (Inr x, s'))"
  by (simp add: ccatch_def)

lemma cbind_ok: "m s = (Inr x, s') \<Longrightarrow> cbind m f s = f x s'"
  by (simp add: cbind_def)

lemma cbind_err: "m s = (Inl e, s') \<Longrightarrow> cbind m f s = (Inl e, s')"
  by (simp add: cbind_def)

lemma ccatch_ok: "m s = (Inr x, s') \<Longrightarrow> ccatch m h s = (Inr x, s')"
  by (simp add: ccatch_def)

lemma ccatch_err: "m s = (Inl e, s') \<Longrightarrow> ccatch m h s = h e s'"
  by (simp add: ccatch_def)

text \<open>A loop over a list whose body may throw.\<close>

fun res_map :: "('a \<Rightarrow> 'b res) \<Rightarrow> 'a list \<Rightarrow> 'b list res" where
  "res_map f [] = Inr []"
| "res_map f (x # xs) = res_bind (f x) (\<lambda>y. res_bind (res_map f xs) (\<lambda>ys. Inr (y # ys)))"

lemma res_map_Inr: "(\<And>x. x \<in> set xs \<Longrightarrow> f x = Inr (g x)) \<Longrightarrow> res_map f xs = Inr (map g xs)"
  by (induction xs) auto

section \<open>POSIX constants\<close>

abbreviation ENOENT :: errno where "ENOENT \<equiv> 2"
abbreviation EINTR :: errno where "EINTR \<equiv> 4"
abbreviation EIO :: errno where "EIO \<equiv> 5"
abbreviation EBADF :: errno where "EBADF \<equiv> 9"
abbreviation EAGAIN :: errno where "EAGAIN \<equiv> 11"
abbreviation EBUSY :: errno where "EBUSY \<equiv> 16"
abbreviation EEXIST :: errno where "EEXIST \<equiv> 17"
abbreviation ENOTDIR :: errno where "ENOTDIR \<equiv> 20"
abbreviation EISDIR :: errno where "EISDIR \<equiv> 21"
abbreviation EINVAL :: errno where "EINVAL \<equiv> 22"
abbreviation ERANGE :: errno where "ERANGE \<equiv> 34"
abbreviation ENAMETOOLONG :: errno where "ENAMETOOLONG \<equiv> 36"
abbreviation ENOTEMPTY :: errno where "ENOTEMPTY \<equiv> 39"
abbreviation ELOOP :: errno where "ELOOP \<equiv> 40"
abbreviation EOVERFLOW :: errno where "EOVERFLOW \<equiv> 75"
abbreviation ENOTSUP :: errno where "ENOTSUP \<equiv> 95"
abbreviation ENOBUFS :: errno where "ENOBUFS \<equiv> 105"

definition S_IFMT :: u32 where "S_IFMT = 61440"
definition S_IFDIR :: u32 where "S_IFDIR = 16384"
definition S_IFREG :: u32 where "S_IFREG = 32768"
definition S_IFLNK :: u32 where "S_IFLNK = 40960"

definition S_ISDIR :: "u32 \<Rightarrow> bool" where "S_ISDIR m = (m AND S_IFMT = S_IFDIR)"
definition S_ISREG :: "u32 \<Rightarrow> bool" where "S_ISREG m = (m AND S_IFMT = S_IFREG)"
definition S_ISLNK :: "u32 \<Rightarrow> bool" where "S_ISLNK m = (m AND S_IFMT = S_IFLNK)"

lemmas mode_defs = S_ISDIR_def S_ISREG_def S_ISLNK_def S_IFMT_def S_IFDIR_def S_IFREG_def
  S_IFLNK_def

lemma S_IS_exclusive:
  "S_ISDIR m \<Longrightarrow> \<not> S_ISREG m" "S_ISDIR m \<Longrightarrow> \<not> S_ISLNK m" "S_ISREG m \<Longrightarrow> \<not> S_ISLNK m"
  by (simp_all add: mode_defs)

section \<open>C strings\<close>

abbreviation NUL :: char where "NUL \<equiv> CHR 0x00"

text \<open>What a \<open>const char*\<close> to the given buffer denotes: everything before the first NUL.\<close>

definition c_str :: "bytes \<Rightarrow> bytes" where
  "c_str s = takeWhile (\<lambda>c. c \<noteq> NUL) s"

lemma c_str_id [simp]: "NUL \<notin> set s \<Longrightarrow> c_str s = s"
  unfolding c_str_def by (rule takeWhile_eq_all_conv [THEN iffD2]) auto

lemma c_str_no_NUL [simp]: "NUL \<notin> set (c_str s)"
  unfolding c_str_def using set_takeWhileD by fastforce

lemma c_str_Nil [simp]: "c_str [] = []"
  by (simp add: c_str_def)

section \<open>Decimal conversions\<close>

fun digit_char :: "nat \<Rightarrow> char" where
  "digit_char d = ''0123456789'' ! d"

definition is_digit :: "char \<Rightarrow> bool" where
  "is_digit c = (c \<in> set ''0123456789'')"

definition digit_val :: "char \<Rightarrow> nat" where
  "digit_val c = of_char c - 48"

text \<open>\<open>std::to_string\<close> and \<open>fmt::format_int\<close> on an unsigned value.\<close>

fun dec :: "nat \<Rightarrow> string" where
  "dec n = (if n < 10 then [digit_char n] else dec (n div 10) @ [digit_char (n mod 10)])"

declare dec.simps [simp del]
declare digit_char.simps [simp del]

text \<open>\<open>fmt::format_int\<close> on a signed value.\<close>

definition dec_int :: "int \<Rightarrow> string" where
  "dec_int i = (if i < 0 then CHR ''-'' # dec (nat (- i)) else dec (nat i))"

definition num_of_digits :: "string \<Rightarrow> nat" where
  "num_of_digits ds = foldl (\<lambda>a c. 10 * a + digit_val c) 0 ds"

text \<open>The C library scanner behind \<open>stoul\<close> and \<open>stol\<close> (base 10): white space, an optional
  sign, digits. The result is the sign, the magnitude and the number of characters consumed;
  None when there is no digit.\<close>

definition is_space :: "char \<Rightarrow> bool" where
  "is_space c = (c \<in> {CHR '' '', CHR 0x09, CHR 0x0A, CHR 0x0B, CHR 0x0C, CHR 0x0D})"

definition scan_num :: "string \<Rightarrow> (bool \<times> nat \<times> nat) option" where
  "scan_num s =
    (let ws = takeWhile is_space s;
         r = drop (length ws) s;
         (neg, sg) = (case r of [] \<Rightarrow> (False, 0)
                      | c # _ \<Rightarrow> (c = CHR ''-'', if c = CHR ''-'' \<or> c = CHR ''+'' then 1 else 0));
         ds = takeWhile is_digit (drop sg r)
     in if ds = [] then None
        else Some (neg, num_of_digits ds, length ws + sg + length ds))"

text \<open>\<open>std::stoul\<close>: the value (modulo \<open>2 ^ 64\<close> after a minus sign) and the count written to
  its second argument.\<close>

definition stoul :: "string \<Rightarrow> (u64 \<times> nat) res" where
  "stoul s = (case scan_num s of
      None \<Rightarrow> Inl InvalidArgument
    | Some (neg, v, n) \<Rightarrow>
        if v \<ge> 2 ^ 64 then Inl OutOfRange
        else Inr (if neg then - of_nat v else of_nat v, n))"

text \<open>\<open>std::stol\<close>: a signed 64-bit value, here its two's complement word.\<close>

definition stol :: "string \<Rightarrow> (u64 \<times> nat) res" where
  "stol s = (case scan_num s of
      None \<Rightarrow> Inl InvalidArgument
    | Some (neg, v, n) \<Rightarrow>
        if (if neg then v > 2 ^ 63 else v \<ge> 2 ^ 63) then Inl OutOfRange
        else Inr (if neg then - of_nat v else of_nat v, n))"

lemma digit_cases: "d < 10 \<Longrightarrow> d \<in> {0, 1, 2, 3, 4, 5, 6, 7, 8, (9::nat)}"
  by (auto simp: numeral_eq_Suc less_Suc_eq)

lemma digit_char_props:
  assumes "d < 10"
  shows "is_digit (digit_char d)" "digit_val (digit_char d) = d" "\<not> is_space (digit_char d)"
    "digit_char d \<noteq> CHR ''-''" "digit_char d \<noteq> CHR ''+''"
  using digit_cases [OF assms]
  by (auto simp: is_digit_def digit_val_def is_space_def digit_char.simps)

lemma dec_digits: "\<forall>c \<in> set (dec n). is_digit c"
proof (induction n rule: dec.induct)
  case (1 n)
  then show ?case
    by (subst dec.simps) (auto simp: digit_char_props)
qed

lemma dec_nonempty [simp]: "dec n \<noteq> []"
  by (subst dec.simps) simp

lemma num_of_digits_snoc: "num_of_digits (ds @ [c]) = 10 * num_of_digits ds + digit_val c"
  by (simp add: num_of_digits_def)

lemma num_of_digits_dec [simp]: "num_of_digits (dec n) = n"
proof (induction n rule: dec.induct)
  case (1 n)
  show ?case
  proof (cases "n < 10")
    case True
    then show ?thesis
      by (subst dec.simps) (simp add: num_of_digits_def digit_char_props)
  next
    case False
    then show ?thesis
      using 1 by (subst dec.simps) (simp add: num_of_digits_snoc digit_char_props)
  qed
qed

lemma is_digit_not_special:
  "is_digit c \<Longrightarrow> \<not> is_space c \<and> c \<noteq> CHR ''-'' \<and> c \<noteq> CHR ''+'' \<and> c \<noteq> NUL \<and> c \<noteq> CHR ''|''
     \<and> c \<noteq> CHR '':'' \<and> c \<noteq> CHR '','' \<and> c \<noteq> CHR ''/''"
  by (auto simp: is_digit_def is_space_def)

definition stops :: "string \<Rightarrow> bool" where
  "stops r = (case r of [] \<Rightarrow> True | c # _ \<Rightarrow> \<not> is_digit c)"

lemma stops_simps [simp]: "stops []" "stops (c # r) = (\<not> is_digit c)"
  by (simp_all add: stops_def)

lemma takeWhile_digits:
  "\<forall>c \<in> set ds. is_digit c \<Longrightarrow> stops r \<Longrightarrow> takeWhile is_digit (ds @ r) = ds"
  by (cases r) (auto simp: takeWhile_append2 takeWhile_tail)

lemma dec_hd_digit: "\<exists>c cs. dec n = c # cs \<and> is_digit c"
  using dec_digits [of n] by (cases "dec n") auto

lemma scan_num_dec:
  assumes "stops r"
  shows "scan_num (dec n @ r) = Some (False, n, length (dec n))"
proof -
  obtain c cs where d: "dec n = c # cs" and c: "is_digit c" using dec_hd_digit by blast
  note sp = is_digit_not_special [OF c]
  have tw: "takeWhile is_digit (dec n @ r) = dec n"
    by (rule takeWhile_digits [OF dec_digits assms])
  from d sp have "takeWhile is_space (dec n @ r) = []" by simp
  with tw sp d show ?thesis
    unfolding scan_num_def Let_def
    by (simp add: num_of_digits_dec [of n, unfolded d] split: if_splits)
qed

lemma scan_num_neg_dec:
  assumes "stops r"
  shows "scan_num (CHR ''-'' # dec n @ r) = Some (True, n, Suc (length (dec n)))"
proof -
  have tw: "takeWhile is_digit (dec n @ r) = dec n"
    by (rule takeWhile_digits [OF dec_digits assms])
  show ?thesis
    unfolding scan_num_def Let_def by (simp add: is_space_def tw)
qed

lemma stoul_dec:
  "n < 2 ^ 64 \<Longrightarrow> stops r \<Longrightarrow> stoul (dec n @ r) = Inr (of_nat n, length (dec n))"
  by (simp add: stoul_def scan_num_dec)

lemma stol_dec:
  "n < 2 ^ 63 \<Longrightarrow> stops r \<Longrightarrow> stol (dec n @ r) = Inr (of_nat n, length (dec n))"
  by (simp add: stol_def scan_num_dec)

lemma stol_dec_out_of_range:
  "n \<ge> 2 ^ 63 \<Longrightarrow> stops r \<Longrightarrow> stol (dec n @ r) = Inl OutOfRange"
  by (simp add: stol_def scan_num_dec)

lemma sint_range64: "- (2 ^ 63) \<le> sint (w :: u64)" "sint (w :: u64) < 2 ^ 63"
  using sint_ge [of w] sint_lt [of w] by simp_all

lemma of_nat_nat_sint: "0 \<le> sint (w :: u64) \<Longrightarrow> of_nat (nat (sint w)) = w"
  by simp

lemma neg_of_nat_sint: "sint (w :: u64) < 0 \<Longrightarrow> - of_nat (nat (- sint w)) = w"
  by simp

lemma stol_dec_int:
  assumes "stops r"
  shows "stol (dec_int (sint w) @ r) = Inr (w, length (dec_int (sint w)))"
proof (cases "sint w < 0")
  case True
  then have b: "nat (- sint w) \<le> 2 ^ 63" using sint_range64(1) [of w] by simp
  show ?thesis
    using True b assms
    by (simp add: dec_int_def stol_def scan_num_neg_dec neg_of_nat_sint)
next
  case False
  then have b: "nat (sint w) < 2 ^ 63" using sint_range64(2) [of w] by simp
  show ?thesis
    using False b assms by (simp add: dec_int_def stol_def scan_num_dec)
qed

text \<open>A negative value printed with its sign and read with \<open>stoul\<close> still returns the same
  64 bits: \<open>strtoul\<close> negates modulo \<open>2 ^ 64\<close>.\<close>

lemma stoul_dec_int:
  assumes "stops r"
  shows "stoul (dec_int (sint w) @ r) = Inr (w, length (dec_int (sint w)))"
proof (cases "sint w < 0")
  case True
  then have b: "nat (- sint w) < 2 ^ 64" using sint_range64(1) [of w] by simp
  show ?thesis
    using True b assms
    by (simp add: dec_int_def stoul_def scan_num_neg_dec neg_of_nat_sint)
next
  case False
  then have b: "nat (sint w) < 2 ^ 64" using sint_range64(2) [of w] by simp
  show ?thesis
    using False b assms by (simp add: dec_int_def stoul_def scan_num_dec)
qed

lemma dec_no_special:
  "NUL \<notin> set (dec n)" "CHR ''/'' \<notin> set (dec n)" "CHR '':'' \<notin> set (dec n)"
  "CHR ''|'' \<notin> set (dec n)" "CHR '','' \<notin> set (dec n)"
  using dec_digits [of n] is_digit_not_special by blast+

lemma dec_int_no_NUL [simp]: "NUL \<notin> set (dec_int i)"
  by (simp add: dec_int_def dec_no_special)

lemma dec_inject [simp]: "dec m = dec n \<longleftrightarrow> m = n"
  by (metis num_of_digits_dec)

section \<open>64-bit words through unat\<close>

lemma unat_lt64: "unat (w :: u64) < 2 ^ 64"
  using unsigned_less [of w] by simp

lemma unat_lt32: "unat (w :: u32) < 2 ^ 32"
  using unsigned_less [of w] by simp

lemma unat_ucast_32_64 [simp]: "unat (ucast (w :: u32) :: u64) = unat w"
proof -
  have "unat w < 2 ^ 64" using unat_lt32 [of w] by simp
  then show ?thesis by (simp add: unsigned_ucast_eq take_bit_nat_eq_self)
qed

lemma unat_ucast_64_32: "unat (ucast (w :: u64) :: u32) = unat w mod 2 ^ 32"
  by (simp add: unsigned_ucast_eq take_bit_eq_mod)

lemma unat_add64: "unat (a :: u64) + unat b < 2 ^ 64 \<Longrightarrow> unat (a + b) = unat a + unat b"
  by (simp add: unat_word_ariths)

lemma unat_sub64: "unat (b :: u64) \<le> unat a \<Longrightarrow> unat (a - b) = unat a - unat b"
  by (simp add: unat_sub word_le_nat_alt)

lemma unat_mult64: "unat (a :: u64) * unat b < 2 ^ 64 \<Longrightarrow> unat (a * b) = unat a * unat b"
  by (simp add: unat_word_ariths)

lemma unat_of_nat64 [simp]: "n < 2 ^ 64 \<Longrightarrow> unat (of_nat n :: u64) = n"
  by (simp add: unsigned_of_nat take_bit_nat_eq_self)

lemma sint_small64:
  assumes "unat (w :: u64) < 2 ^ 63"
  shows "sint w = int (unat w)"
proof -
  have "sint w = signed_take_bit 63 (int (unat w))"
    using sint_uint [of w] by simp
  also have "int (unat w) < 2 ^ 63"
    using assms by (metis of_nat_less_iff of_nat_numeral of_nat_power)
  then have "signed_take_bit 63 (int (unat w)) = int (unat w)"
    by (intro signed_take_bit_int_eq_self order_trans [OF _ of_nat_0_le_iff]) simp_all
  finally show ?thesis .
qed

lemma word_eq_unat64: "(a :: u64) = b \<longleftrightarrow> unat a = unat b"
  by (simp add: word_unat_eq_iff)

section \<open>Lists\<close>

lemma take_drop_nth_eq:
  "length xs = length ys \<Longrightarrow> (\<And>i. i < length xs \<Longrightarrow> xs ! i = ys ! i) \<Longrightarrow> xs = ys"
  by (rule nth_equalityI)

text \<open>\<open>std::string::resize\<close>: cut, or pad with NUL characters.\<close>

definition resize :: "nat \<Rightarrow> bytes \<Rightarrow> bytes" where
  "resize n s = take n s @ replicate (n - length s) NUL"

text \<open>\<open>std::copy_n(buf, n, dst.begin() + off)\<close> into a long enough string.\<close>

definition overwrite :: "nat \<Rightarrow> bytes \<Rightarrow> bytes \<Rightarrow> bytes" where
  "overwrite off b s = take off s @ b @ drop (off + length b) s"

lemma length_resize [simp]: "length (resize n s) = n"
  by (simp add: resize_def)

lemma length_overwrite:
  "off + length b \<le> length s \<Longrightarrow> length (overwrite off b s) = length s"
  by (simp add: overwrite_def)

lemma nth_overwrite:
  assumes "off + length b \<le> length s" "i < length s"
  shows "overwrite off b s ! i =
    (if off \<le> i \<and> i < off + length b then b ! (i - off) else s ! i)"
  using assms by (auto simp: overwrite_def nth_append min_def)

lemma nth_resize:
  "i < n \<Longrightarrow> resize n s ! i = (if i < length s then s ! i else NUL)"
  by (auto simp: resize_def nth_append)

lemma take_drop_overwrite:
  "off + length b \<le> length s \<Longrightarrow> take (length b) (drop off (overwrite off b s)) = b"
  by (simp add: overwrite_def)

end
