(* ===== verification/Arithmetic.thy ===== *)
theory Arithmetic
  imports Gaofs_Prelude
begin

text \<open>
  \<open>include/common/arithmetic/arithmetic.hpp\<close>: block arithmetic on 64-bit words. Each
  function is the C++ expression over \<open>uint64_t\<close> with its wrap-around. The
  \<open>assert(is_power_of_2(block_size))\<close> of the source (which its comments declare absent from
  release builds) is the hypothesis of the lemmas. The locale \<open>block_size\<close> holds the
  facts about one power of two; it is interpreted on the file system's chunk size in
  \<open>Config\<close>.
\<close>

section \<open>Definitions\<close>

definition is_power_of_2 :: "u64 \<Rightarrow> bool" where
  "is_power_of_2 n = (n \<noteq> 0 \<and> \<not> (n AND (n - 1) \<noteq> 0))"

text \<open>\<open>__builtin_clzll\<close>: the number of zero bits above the highest one (undefined at 0).\<close>

fun clz_from :: "nat \<Rightarrow> u64 \<Rightarrow> nat" where
  "clz_from 0 n = 64"
| "clz_from (Suc k) n = (if bit n k then 63 - k else clz_from k n)"

definition builtin_clzll :: "u64 \<Rightarrow> nat" where
  "builtin_clzll n = clz_from 64 n"

definition log2 :: "u64 \<Rightarrow> nat" where
  "log2 n = 8 * 8 - builtin_clzll n - 1"

text \<open>The mask is built from the 32-bit constant \<open>1u\<close> and only then widened.\<close>

definition is_aligned :: "u64 \<Rightarrow> u64 \<Rightarrow> bool" where
  "is_aligned n block_size = (n AND ucast (push_bit (log2 block_size) (1 :: u32) - 1) = 0)"

definition align_left :: "u64 \<Rightarrow> u64 \<Rightarrow> u64" where
  "align_left offset block_size = offset AND NOT (block_size - 1)"

definition align_right :: "u64 \<Rightarrow> u64 \<Rightarrow> u64" where
  "align_right offset block_size = align_left offset block_size + block_size"

definition block_overrun :: "u64 \<Rightarrow> u64 \<Rightarrow> u64" where
  "block_overrun offset block_size = offset AND (block_size - 1)"

definition block_underrun :: "u64 \<Rightarrow> u64 \<Rightarrow> u64" where
  "block_underrun offset block_size = align_right offset block_size - offset"

definition block_index :: "u64 \<Rightarrow> u64 \<Rightarrow> u64" where
  "block_index offset block_size = drop_bit (log2 block_size) (align_left offset block_size)"

definition block_count :: "u64 \<Rightarrow> u64 \<Rightarrow> u64 \<Rightarrow> u64" where
  "block_count offset sz block_size =
    (let first_block = align_left offset block_size;
         final_block = align_left (offset + sz) block_size;
         mask = - of_bool (sz \<noteq> 0)
     in (drop_bit (log2 block_size) final_block - drop_bit (log2 block_size) first_block
          + of_bool (\<not> is_aligned (offset + sz) block_size)) AND mask)"

section \<open>Powers of two\<close>

lemma unat_exp2: "k < 64 \<Longrightarrow> unat ((2 :: u64) ^ k) = 2 ^ k"
  by (metis unat_of_nat64 of_nat_numeral of_nat_power one_less_numeral_iff
      power_strict_increasing_iff semiring_norm(76))

lemma mask_minus_1: "(2 :: u64) ^ k - 1 = mask k"
  by (simp add: mask_eq_exp_minus_1)

lemma unat_and_mask64: "unat (x AND mask k :: u64) = unat x mod 2 ^ k"
  unfolding take_bit_eq_mask [symmetric] unsigned_take_bit_eq by (rule take_bit_eq_mod)

lemma and_not_mask_push_drop: "(x :: u64) AND NOT (mask k) = push_bit k (drop_bit k x)"
  by (rule bit_word_eqI) (auto simp: bit_simps)

lemma unat_drop_bit64: "unat (drop_bit k x :: u64) = unat x div 2 ^ k"
  unfolding unat_drop_bit_eq by (rule drop_bit_eq_div)

lemma unat_push_drop: "unat (push_bit k (drop_bit k x) :: u64) = unat x div 2 ^ k * 2 ^ k"
proof -
  have "unat x div 2 ^ k * 2 ^ k \<le> unat x" by (simp add: div_times_less_eq_dividend)
  then have "unat x div 2 ^ k * 2 ^ k < 2 ^ 64" using unat_lt64 [of x] by linarith
  then have t: "take_bit LENGTH(64) (unat x div 2 ^ k * 2 ^ k) = unat x div 2 ^ k * 2 ^ k"
    by (simp add: take_bit_nat_eq_self)
  show ?thesis
    unfolding unsigned_push_bit_eq unat_drop_bit64 unfolding push_bit_eq_mult by (rule t)
qed

lemma is_power_of_2_exp: "k < 64 \<Longrightarrow> is_power_of_2 (2 ^ k)"
proof -
  assume k: "k < 64"
  have "(2 :: u64) ^ k AND mask k = take_bit k (2 ^ k)"
    by (simp only: take_bit_eq_mask)
  then have "(2 :: u64) ^ k AND mask k = 0"
    by (simp only: take_bit_eq_0_iff dvd_refl)
  moreover have "(2 :: u64) ^ k \<noteq> 0"
    using unat_exp2 [OF k] by (metis power_not_zero unat_0 zero_neq_numeral)
  ultimately show ?thesis by (simp add: is_power_of_2_def mask_minus_1)
qed

lemma highest_bit:
  assumes "(n :: nat) \<noteq> 0"
  obtains k where "2 ^ k \<le> n" "n < 2 ^ Suc k"
proof -
  have "n < 2 ^ n" by simp
  moreover have "\<not> n < 2 ^ 0" using assms by simp
  ultimately obtain k where "\<forall>i\<le>k. \<not> n < 2 ^ i" "n < 2 ^ Suc k"
    using ex_least_nat_less [of "\<lambda>i. n < 2 ^ i" n] by blast
  then show thesis using that [of k] by (meson le_refl not_less)
qed

lemma power_of_2_is_exp:
  assumes "is_power_of_2 n"
  obtains k where "k < 64" "n = 2 ^ k"
proof -
  let ?n = "unat n"
  from assms have nz: "?n \<noteq> 0" and a: "n AND (n - 1) = 0"
    by (auto simp: is_power_of_2_def unat_eq_0)
  obtain k where k1: "2 ^ k \<le> ?n" and k2: "?n < 2 ^ Suc k" by (rule highest_bit [OF nz])
  have k64: "k < 64"
  proof (rule ccontr)
    assume "\<not> k < 64"
    then have "(2 :: nat) ^ 64 \<le> 2 ^ k" by (intro power_increasing) auto
    with k1 unat_lt64 [of n] show False by linarith
  qed
  have "?n = 2 ^ k"
  proof (rule ccontr)
    assume "?n \<noteq> 2 ^ k"
    with k1 have gt: "2 ^ k \<le> ?n - 1" by linarith
    have "?n div 2 ^ k = 1" "(?n - 1) div 2 ^ k = 1"
      using k1 k2 gt by (auto intro!: div_nat_eqI)
    moreover have "unat (n - 1) = ?n - 1" using nz by (simp add: unat_sub64)
    ultimately have "bit n k" "bit (n - 1) k"
      by (metis bit_iff_odd odd_one unsigned_and_eq bit_unsigned_iff)+
    then have "bit (n AND (n - 1)) k" by (simp add: bit_and_iff)
    with a show False by simp
  qed
  then have "n = 2 ^ k" using unat_exp2 [OF k64] by (simp add: word_eq_unat64)
  with k64 show thesis by (rule that)
qed

lemma clz_from_exp: "k < 64 \<Longrightarrow> k < m \<Longrightarrow> clz_from m (2 ^ k) = 63 - k"
proof (induction m)
  case (Suc m)
  then show ?case by (cases "k = m") (auto simp: bit_simps)
qed simp

lemma log2_exp: "k < 64 \<Longrightarrow> log2 (2 ^ k) = k"
  by (simp add: log2_def builtin_clzll_def clz_from_exp)

lemma div_image_interval:
  fixes a n b :: nat
  assumes "0 < n" "0 < b"
  shows "(\<lambda>x. x div b) ` {a..<a + n} = {a div b..(a + n - 1) div b}"
proof
  show "(\<lambda>x. x div b) ` {a..<a + n} \<subseteq> {a div b..(a + n - 1) div b}"
    by (auto intro!: div_le_mono)
next
  show "{a div b..(a + n - 1) div b} \<subseteq> (\<lambda>x. x div b) ` {a..<a + n}"
  proof
    fix i assume i: "i \<in> {a div b..(a + n - 1) div b}"
    define x where "x = max a (i * b)"
    have "i * b \<le> a + n - 1"
      using i assms(2) by (metis atLeastAtMost_iff div_le_mono less_eq_div_iff_mult_less_eq)
    then have x: "x \<in> {a..<a + n}" using assms(1) by (auto simp: x_def)
    have "x div b = i"
    proof (cases "a \<le> i * b")
      case True
      then show ?thesis using assms(2) by (simp add: x_def max_def)
    next
      case False
      then have "i * b \<le> a" by simp
      then have "i \<le> a div b" using assms(2) by (simp add: less_eq_div_iff_mult_less_eq)
      then show ?thesis using False i by (simp add: x_def max_def)
    qed
    then show "i \<in> (\<lambda>x. x div b) ` {a..<a + n}" using x by auto
  qed
qed

lemma last_block:
  fixes e b :: nat
  assumes "0 < e" "0 < b"
  shows "Suc ((e - 1) div b) = e div b + (if e mod b = 0 then 0 else 1)"
  using assms by (cases e) (auto simp: div_Suc)

section \<open>Facts about one block size\<close>

locale block_size =
  fixes bs :: u64 and k :: nat
  assumes bs: "bs = 2 ^ k" and k: "k < 64"
begin

lemma unat_bs: "unat bs = 2 ^ k"
  by (simp add: bs unat_exp2 k)

lemma bs_pos: "0 < unat bs"
  by (simp add: unat_bs)

lemma log2_bs: "log2 bs = k"
  by (simp add: bs log2_exp k)

lemma unat_align_left: "unat (align_left x bs) = unat x div unat bs * unat bs"
  by (simp add: align_left_def bs mask_minus_1 and_not_mask_push_drop unat_push_drop
      unat_exp2 k)

lemma unat_block_overrun: "unat (block_overrun x bs) = unat x mod unat bs"
  by (simp add: block_overrun_def bs mask_minus_1 unat_and_mask64 unat_exp2 k)

lemma unat_block_index: "unat (block_index x bs) = unat x div unat bs"
proof -
  have "align_left x bs = push_bit k (drop_bit k x)"
    by (simp add: align_left_def bs mask_minus_1 and_not_mask_push_drop)
  then have "unat (block_index x bs) = unat (push_bit k (drop_bit k x)) div 2 ^ k"
    unfolding block_index_def log2_bs unat_drop_bit64 by (simp only:)
  then show ?thesis by (simp only: unat_push_drop unat_bs) simp
qed

text \<open>The block to the right must not pass the end of the address space.\<close>

definition fits :: "u64 \<Rightarrow> bool" where
  "fits x \<longleftrightarrow> unat x div unat bs * unat bs + unat bs < 2 ^ 64"

lemma unat_align_right:
  "fits x \<Longrightarrow> unat (align_right x bs) = (unat x div unat bs + 1) * unat bs"
  by (simp add: align_right_def unat_add64 unat_align_left fits_def)

lemma unat_block_underrun:
  assumes "fits x"
  shows "unat (block_underrun x bs) = unat bs - unat x mod unat bs"
proof -
  have le: "unat x \<le> (unat x div unat bs + 1) * unat bs"
    using div_mult_mod_eq [of "unat x" "unat bs"] mod_less_divisor [OF bs_pos, of "unat x"]
    by (simp only: add_mult_distrib mult_1)
  have "unat (block_underrun x bs) = (unat x div unat bs + 1) * unat bs - unat x"
    using assms le by (simp add: block_underrun_def unat_sub64 unat_align_right)
  also have "\<dots> = unat bs - unat x mod unat bs"
    using div_mult_mod_eq [of "unat x" "unat bs"]
    by (simp only: add_mult_distrib mult_1)
  finally show ?thesis .
qed

lemma is_aligned_iff:
  assumes "k < 32"
  shows "is_aligned x bs \<longleftrightarrow> unat x mod unat bs = 0"
proof -
  have "ucast (push_bit k (1 :: u32) - 1) = (mask k :: u64)"
    using assms by (intro bit_word_eqI) (auto simp: bit_simps simp flip: mask_eq_exp_minus_1)
  then have "x AND ucast (push_bit k (1 :: u32) - 1) = x AND mask k" by (rule arg_cong)
  then show ?thesis
    unfolding is_aligned_def log2_bs unat_bs word_eq_unat64 by (simp only: unat_and_mask64 unat_0)
qed

lemma unat_block_count:
  assumes "k < 32" "unat x + unat n < 2 ^ 64" "0 < unat n"
  shows "unat (block_count x n bs) = Suc ((unat x + unat n - 1) div unat bs) - unat x div unat bs"
proof -
  have e: "unat (x + n) = unat x + unat n" using assms(2) by (rule unat_add64)
  have n: "n \<noteq> 0" using assms(3) by auto
  have le: "unat (block_index x bs) \<le> unat (block_index (x + n) bs)"
    by (simp add: unat_block_index e div_le_mono)
  let ?up = "of_bool (\<not> is_aligned (x + n) bs) :: u64"
  have last: "unat (block_index (x + n) bs) + unat ?up = Suc ((unat x + unat n - 1) div unat bs)"
    using last_block [of "unat x + unat n" "unat bs"] assms(3) bs_pos
    by (simp add: unat_block_index e is_aligned_iff assms(1))
  have "(unat x + unat n - 1) div unat bs \<le> unat x + unat n - 1" by (rule div_le_dividend)
  then have small: "Suc ((unat x + unat n - 1) div unat bs) < 2 ^ 64" using assms(2,3) by linarith
  have "unat (block_index (x + n) bs - block_index x bs + ?up) =
      unat (block_index (x + n) bs) - unat (block_index x bs) + unat ?up"
    using le last small by (simp add: unat_add64 unat_sub64)
  also have "\<dots> = Suc ((unat x + unat n - 1) div unat bs) - unat x div unat bs"
    using le last by (simp add: unat_block_index)
  finally show ?thesis
    using n by (simp add: block_count_def Let_def block_index_def)
qed

end

section \<open>The functions on every power of two\<close>

text \<open>A 64-bit word passes \<open>is_power_of_2\<close> exactly when it is one of the 64 powers of two.\<close>

lemma is_power_of_2_iff: "is_power_of_2 n \<longleftrightarrow> n \<in> (\<lambda>k. 2 ^ k) ` {..<64}"
  using power_of_2_is_exp [of n] is_power_of_2_exp by (metis imageE image_eqI lessThan_iff)

text \<open>For a power of two below \<open>2 ^ 32\<close> and a range that does not wrap around,
  \<open>block_count\<close> is the number of different blocks the bytes of the range lie in.\<close>

lemma block_count_range:
  assumes "k < 32" "unat offset + unat sz < 2 ^ 64"
  shows "unat (block_count offset sz (2 ^ k)) =
    card ((\<lambda>x. x div 2 ^ k) ` {unat offset..<unat offset + unat sz})"
proof (cases "sz = 0")
  case True
  then show ?thesis by (simp add: block_count_def)
next
  case False
  then have pos: "0 < unat sz" by (simp add: unat_gt_0)
  have bs: "block_size (2 ^ k) k" using assms(1) by unfold_locales auto
  have "unat (2 ^ k :: u64) = 2 ^ k" using assms(1) by (simp add: unat_exp2)
  then show ?thesis
    using block_size.unat_block_count [OF bs assms pos] div_image_interval [OF pos, of "2 ^ k"]
    by simp
qed

lemma block_count_range_witness:
  "unat (block_count 5 20 8) = card ((\<lambda>x. x div 8) ` {5..<25 :: nat})"
  using block_count_range [of 3 5 20] by simp

end
