(* ===== verification/Config.thy ===== *)
theory Config
  imports Arithmetic
begin

text \<open>
  \<open>include/config.hpp\<close>: the compile-time configuration. The locale \<open>block_size\<close> is
  interpreted here on the chunk size, which gives the \<open>chunk.\<close> facts every data path uses.
  The \<open>use_...\<close> flags of the metadata are collected in a record so that the serializer is
  modelled for every configuration; \<open>config_metadata\<close> is the one of the repository.
\<close>

definition chunksize :: u64 where
  "chunksize = 524288"

definition dirents_buff_size :: u64 where
  "dirents_buff_size = 8 * 1024 * 1024"

record md_config =
  use_atime :: bool
  use_ctime :: bool
  use_mtime :: bool
  use_link_cnt :: bool
  use_blocks :: bool

definition config_metadata :: md_config where
  "config_metadata = \<lparr>use_atime = False, use_ctime = False, use_mtime = False,
     use_link_cnt = False, use_blocks = False\<rparr>"

definition create_exist_check :: bool where
  "create_exist_check = True"

definition implicit_data_removal :: bool where
  "implicit_data_removal = True"

definition max_stats :: nat where
  "max_stats = 1000000"

lemma chunksize_exp: "chunksize = 2 ^ 19"
  by (simp add: chunksize_def)

interpretation chunk: block_size chunksize 19
  by unfold_locales (simp_all add: chunksize_def)

lemma unat_chunksize [simp]: "unat chunksize = 524288"
  by (simp add: chunksize_def)

lemmas chunk_unat = chunk.unat_block_index chunk.unat_block_overrun chunk.unat_align_left

lemma chunk_aligned_iff: "is_aligned x chunksize \<longleftrightarrow> unat x mod 524288 = 0"
  by (simp add: chunk.is_aligned_iff)

lemma chunk_fits: "unat x < 2 ^ 63 \<Longrightarrow> chunk.fits x"
proof -
  assume x: "unat x < 2 ^ 63"
  have "unat x div 524288 * 524288 \<le> unat x" by (simp add: div_times_less_eq_dividend)
  with x show ?thesis by (simp add: chunk.fits_def)
qed

end
