(* ===== verification/Metadata.thy ===== *)
theory Metadata
  imports Config
begin

text \<open>
  \<open>common/metadata.cpp\<close> and \<open>common/first_chunk.cpp\<close>: the two values the key-value store
  holds, and their text formats. Times and block counts are signed 64-bit values kept as
  their two's complement words. The parsers walk a pointer over the NUL terminated buffer;
  the model keeps the rest of the buffer behind the pointer.
\<close>

section \<open>Metadata\<close>

record metadata =
  md_atime :: u64
  md_mtime :: u64
  md_ctime :: u64
  md_mode :: u32
  md_link_count :: u64
  md_size :: u64
  md_blocks :: u64
  md_target_path :: string

definition MSP :: char where "MSP = CHR ''|''"

definition LINK_MODE :: u32 where
  "LINK_MODE = (448 OR 56 OR 7) OR S_IFLNK"

text \<open>\<open>Metadata() = default\<close>, with the default member initializers.\<close>

definition empty_metadata :: metadata where
  "empty_metadata = \<lparr>md_atime = 0, md_mtime = 0, md_ctime = 0, md_mode = 0, md_link_count = 0,
     md_size = 0, md_blocks = 0, md_target_path = []\<rparr>"

definition new_metadata :: "u32 \<Rightarrow> metadata res" where
  "new_metadata m =
    res_bind (assert_res (S_ISDIR m \<or> S_ISREG m))
      (\<lambda>_. Inr (empty_metadata\<lparr>md_mode := m\<rparr>))"

definition new_link_metadata :: "u32 \<Rightarrow> string \<Rightarrow> metadata res" where
  "new_link_metadata m target =
    res_bind (assert_res (S_ISLNK m \<or> S_ISDIR m \<or> S_ISREG m)) (\<lambda>_.
    res_bind (assert_res (target = [] \<or> S_ISLNK m)) (\<lambda>_.
    res_bind (assert_res (target = [] \<or> hd target = CHR ''/'')) (\<lambda>_.
      Inr (empty_metadata\<lparr>md_mode := m, md_target_path := target\<rparr>))))"

text \<open>\<open>*ptr\<close>: the character behind the pointer, the terminating NUL at the end.\<close>

definition deref :: "bytes \<Rightarrow> char" where
  "deref p = (case p of [] \<Rightarrow> NUL | c # _ \<Rightarrow> c)"

text \<open>One \<open>assert(*ptr == MSP); x = std::sto..(++ptr, &read); assert(read > 0); ptr += read\<close>.\<close>

definition parse_field :: "(string \<Rightarrow> (u64 \<times> nat) res) \<Rightarrow> bytes \<Rightarrow> (u64 \<times> bytes) res" where
  "parse_field conv p =
    res_bind (assert_res (deref p = MSP)) (\<lambda>_.
    res_bind (conv (c_str (tl p))) (\<lambda>(v, n).
    res_bind (assert_res (n > 0)) (\<lambda>_. Inr (v, drop n (tl p)))))"

definition parse_opt_field ::
    "bool \<Rightarrow> (string \<Rightarrow> (u64 \<times> nat) res) \<Rightarrow> bytes \<Rightarrow> (u64 \<times> bytes) res" where
  "parse_opt_field enabled conv p = (if enabled then parse_field conv p else Inr (0, p))"

text \<open>\<open>Metadata::Metadata(const std::string& binary_str)\<close>.\<close>

definition deserialize :: "md_config \<Rightarrow> bytes \<Rightarrow> metadata res" where
  "deserialize cfg binary_str =
    res_bind (stoul (c_str binary_str)) (\<lambda>(m, n).
    res_bind (assert_res (n > 0)) (\<lambda>_.
    res_bind (parse_field stol (drop n binary_str)) (\<lambda>(sz, p).
    res_bind (parse_opt_field (use_atime cfg) stol p) (\<lambda>(at, p).
    res_bind (parse_opt_field (use_mtime cfg) stol p) (\<lambda>(mt, p).
    res_bind (parse_opt_field (use_ctime cfg) stol p) (\<lambda>(ct, p).
    res_bind (parse_opt_field (use_link_cnt cfg) stoul p) (\<lambda>(lc, p).
    res_bind (parse_opt_field (use_blocks cfg) stoul p) (\<lambda>(bl, p).
    res_bind (assert_res (deref p = MSP)) (\<lambda>_.
      let target = c_str (tl p); p = drop (length target) (tl p); mode = ucast m
      in res_bind (assert_res (target = [] \<or> S_ISLNK mode)) (\<lambda>_.
         res_bind (assert_res (deref p = NUL)) (\<lambda>_.
           Inr \<lparr>md_atime = at, md_mtime = mt, md_ctime = ct, md_mode = mode,
                md_link_count = lc, md_size = sz, md_blocks = bl,
                md_target_path = target\<rparr>)))))))))))"

definition opt_text :: "bool \<Rightarrow> string \<Rightarrow> string" where
  "opt_text enabled s = (if enabled then MSP # s else [])"

definition serialize :: "md_config \<Rightarrow> metadata \<Rightarrow> bytes" where
  "serialize cfg md =
     dec (unat (md_mode md)) @ [MSP] @ dec (unat (md_size md)) @
     opt_text (use_atime cfg) (dec_int (sint (md_atime md))) @
     opt_text (use_mtime cfg) (dec_int (sint (md_mtime md))) @
     opt_text (use_ctime cfg) (dec_int (sint (md_ctime md))) @
     opt_text (use_link_cnt cfg) (dec (unat (md_link_count md))) @
     opt_text (use_blocks cfg) (dec_int (sint (md_blocks md))) @
     [MSP] @ md_target_path md"

definition init_ACM_time :: "u64 \<Rightarrow> metadata \<Rightarrow> metadata" where
  "init_ACM_time now md = md\<lparr>md_atime := now, md_mtime := now, md_ctime := now\<rparr>"

definition update_ACM_time :: "bool \<Rightarrow> bool \<Rightarrow> bool \<Rightarrow> u64 \<Rightarrow> metadata \<Rightarrow> metadata" where
  "update_ACM_time a c m now md =
    (let md = (if a then md\<lparr>md_atime := now\<rparr> else md);
         md = (if c then md\<lparr>md_ctime := now\<rparr> else md)
     in if m then md\<lparr>md_mtime := now\<rparr> else md)"

definition get_target_path :: "metadata \<Rightarrow> string res" where
  "get_target_path md =
    res_bind (assert_res (md_target_path md \<noteq> [])) (\<lambda>_. Inr (md_target_path md))"

definition set_target_path :: "string \<Rightarrow> metadata \<Rightarrow> metadata res" where
  "set_target_path target md =
    res_bind (assert_res (target = [] \<or> S_ISLNK (md_mode md))) (\<lambda>_.
    res_bind (assert_res (target = [] \<or> hd target = CHR ''/'')) (\<lambda>_.
      Inr (md\<lparr>md_target_path := target\<rparr>)))"

definition is_link :: "metadata \<Rightarrow> bool" where
  "is_link md = S_ISLNK (md_mode md)"

section \<open>First chunk\<close>

record first_chunk =
  fc_size :: u64
  fc_content :: bytes

definition new_first_chunk :: "u64 \<Rightarrow> first_chunk res" where
  "new_first_chunk sz =
    res_bind (assert_res (sz \<le> chunksize)) (\<lambda>_. Inr \<lparr>fc_size = sz, fc_content = []\<rparr>)"

definition deserialize_first_chunk :: "bytes \<Rightarrow> first_chunk res" where
  "deserialize_first_chunk binary_str =
    res_bind (stol (c_str binary_str)) (\<lambda>(sz, n).
    res_bind (assert_res (n > 0)) (\<lambda>_.
      let p = drop n binary_str
      in res_bind (assert_res (deref p = MSP)) (\<lambda>_.
           let content = c_str (tl p); p = drop (length content) (tl p)
           in res_bind (assert_res (deref p = NUL)) (\<lambda>_.
                Inr \<lparr>fc_size = sz, fc_content = content\<rparr>))))"

definition serialize_first_chunk :: "first_chunk \<Rightarrow> bytes" where
  "serialize_first_chunk fc = dec (unat (fc_size fc)) @ [MSP] @ fc_content fc"

section \<open>What survives serialization\<close>

text \<open>The fields a configuration stores; the others come back as 0.\<close>

definition stored_fields :: "md_config \<Rightarrow> metadata \<Rightarrow> metadata" where
  "stored_fields cfg md = md\<lparr>
     md_atime := (if use_atime cfg then md_atime md else 0),
     md_mtime := (if use_mtime cfg then md_mtime md else 0),
     md_ctime := (if use_ctime cfg then md_ctime md else 0),
     md_link_count := (if use_link_cnt cfg then md_link_count md else 0),
     md_blocks := (if use_blocks cfg then md_blocks md else 0)\<rparr>"

text \<open>The values the program stores: sizes within \<open>off_t\<close>, targets only in links.\<close>

definition storable :: "metadata \<Rightarrow> bool" where
  "storable md = (unat (md_size md) < 2 ^ 63 \<and> NUL \<notin> set (md_target_path md) \<and>
     (md_target_path md = [] \<or> S_ISLNK (md_mode md)))"

lemma deref_simps [simp]: "deref [] = NUL" "deref (c # p) = c"
  by (simp_all add: deref_def)

lemma deref_after_c_str [simp]: "deref (drop (length (c_str s)) s) = NUL"
proof -
  have "drop (length (c_str s)) s = dropWhile (\<lambda>c. c \<noteq> NUL) s"
    by (simp add: c_str_def dropWhile_eq_drop)
  then show ?thesis
    using hd_dropWhile [of "\<lambda>c. c \<noteq> NUL" s] by (cases "dropWhile (\<lambda>c. c \<noteq> NUL) s") auto
qed

lemma MSP_simps [simp]: "MSP \<noteq> NUL" "\<not> is_digit MSP"
  by (simp_all add: MSP_def is_digit_def)

lemma c_str_append: "NUL \<notin> set a \<Longrightarrow> c_str (a @ b) = a @ c_str b"
  unfolding c_str_def by (subst takeWhile_append2) auto

lemma stops_c_str: "stops r \<Longrightarrow> stops (c_str r)"
  by (cases r) (auto simp: c_str_def)

lemma stops_MSP [simp]: "stops (MSP # r)"
  by simp

lemma stops_opt_text: "stops r \<Longrightarrow> stops (opt_text b s @ r)"
  by (simp add: opt_text_def)

lemma parse_field_ok:
  assumes "NUL \<notin> set t" "\<And>r. stops r \<Longrightarrow> conv (t @ r) = Inr (v, length t)" "t \<noteq> []" "stops r"
  shows "parse_field conv (MSP # t @ r) = Inr (v, r)"
  using assms by (simp add: parse_field_def c_str_append stops_c_str)

lemma parse_opt_field_ok:
  assumes "NUL \<notin> set t" "\<And>r. stops r \<Longrightarrow> conv (t @ r) = Inr (v, length t)" "t \<noteq> []" "stops r"
  shows "parse_opt_field b conv (opt_text b t @ r) = Inr (if b then v else 0, r)"
  using parse_field_ok [where conv = conv, OF assms(1) assms(2) assms(3,4)] assms(4)
  by (cases b) (simp_all add: parse_opt_field_def opt_text_def)

lemma dec_int_nonempty [simp]: "dec_int i \<noteq> []"
  by (simp add: dec_int_def)

lemma parse_signed:
  "stops r \<Longrightarrow>
   parse_opt_field b stol (opt_text b (dec_int (sint w)) @ r) = Inr (if b then w else 0, r)"
  by (rule parse_opt_field_ok) (simp_all add: stol_dec_int)

lemma parse_blocks:
  "stops r \<Longrightarrow>
   parse_opt_field b stoul (opt_text b (dec_int (sint w)) @ r) = Inr (if b then w else 0, r)"
  by (rule parse_opt_field_ok) (simp_all add: stoul_dec_int)

lemma stoul_dec_word:
  "stops r \<Longrightarrow> stoul (dec (unat (w :: u64)) @ r) = Inr (w, length (dec (unat w)))"
  using unat_lt64 [of w] by (simp add: stoul_dec)

lemma parse_unsigned:
  "stops r \<Longrightarrow>
   parse_opt_field b stoul (opt_text b (dec (unat w)) @ r) = Inr (if b then w else 0, r)"
  by (rule parse_opt_field_ok) (simp_all add: stoul_dec_word dec_no_special)

lemma parse_size:
  assumes "unat w < 2 ^ 63" "stops r"
  shows "parse_field stol (MSP # dec (unat w) @ r) = Inr (w, r)"
proof (rule parse_field_ok [OF dec_no_special(1) _ dec_nonempty assms(2)])
  show "stol (dec (unat w) @ r) = Inr (w, length (dec (unat w)))" if "stops r" for r
    using stol_dec [OF assms(1) that] by simp
qed

lemma unat_lt_mode: "unat (m :: u32) < 2 ^ 64"
proof -
  have "unat m < 2 ^ 32" using unsigned_less [of m] by simp
  then show ?thesis by simp
qed

lemma stoul_mode:
  assumes "stops r"
  shows "stoul (c_str (dec (unat (m :: u32)) @ r)) = Inr (ucast m, length (dec (unat m)))"
proof -
  have "stoul (dec (unat m) @ c_str r) = Inr (of_nat (unat m), length (dec (unat m)))"
    using assms unat_lt_mode by (intro stoul_dec stops_c_str) auto
  then show ?thesis by (simp add: c_str_append dec_no_special)
qed

lemma ucast_ucast_mode [simp]: "ucast (ucast (m :: u32) :: u64) = m"
  by (rule bit_word_eqI) (simp add: bit_simps)

lemma deserialize_serialize:
  assumes "storable md"
  shows "deserialize cfg (serialize cfg md) = Inr (stored_fields cfg md)"
proof -
  have sz: "unat (md_size md) < 2 ^ 63" and t: "NUL \<notin> set (md_target_path md)"
      "md_target_path md = [] \<or> S_ISLNK (md_mode md)"
    using assms by (simp_all add: storable_def)
  define r5 where "r5 = MSP # md_target_path md"
  define r4 where "r4 = opt_text (use_blocks cfg) (dec_int (sint (md_blocks md))) @ r5"
  define r3 where "r3 = opt_text (use_link_cnt cfg) (dec (unat (md_link_count md))) @ r4"
  define r2 where "r2 = opt_text (use_ctime cfg) (dec_int (sint (md_ctime md))) @ r3"
  define r1 where "r1 = opt_text (use_mtime cfg) (dec_int (sint (md_mtime md))) @ r2"
  define r0 where "r0 = opt_text (use_atime cfg) (dec_int (sint (md_atime md))) @ r1"
  define rm where "rm = MSP # dec (unat (md_size md)) @ r0"
  note rs = r5_def r4_def r3_def r2_def r1_def r0_def rm_def
  have st: "stops r5" "stops r4" "stops r3" "stops r2" "stops r1" "stops r0" "stops rm"
    by (simp_all add: rs stops_opt_text)
  have ser: "serialize cfg md = dec (unat (md_mode md)) @ rm"
    by (simp add: serialize_def rs)
  note steps = stoul_mode [OF st(7)] parse_size [OF sz st(6), folded rm_def]
    parse_signed [OF st(5), of "use_atime cfg" "md_atime md", folded r0_def]
    parse_signed [OF st(4), of "use_mtime cfg" "md_mtime md", folded r1_def]
    parse_signed [OF st(3), of "use_ctime cfg" "md_ctime md", folded r2_def]
    parse_unsigned [OF st(2), of "use_link_cnt cfg" "md_link_count md", folded r3_def]
    parse_blocks [OF st(1), of "use_blocks cfg" "md_blocks md", folded r4_def]
  have last: "deref r5 = MSP" "c_str (tl r5) = md_target_path md"
      "drop (length (md_target_path md)) (tl r5) = []"
    using t(1) by (simp_all add: r5_def)
  show ?thesis
    unfolding deserialize_def ser steps
    using t(2) by (simp add: steps last Let_def stored_fields_def split del: if_split)
qed

text \<open>A size the signed parser rejects.\<close>

lemma deserialize_size_out_of_range:
  assumes "2 ^ 63 \<le> unat (md_size md)"
  shows "deserialize cfg (serialize cfg md) = Inl OutOfRange"
proof -
  obtain r where ser: "serialize cfg md = dec (unat (md_mode md)) @ MSP # dec (unat (md_size md)) @ r"
      and r: "stops r"
    by (simp add: serialize_def stops_opt_text)
  have m: "stoul (c_str (serialize cfg md)) = Inr (ucast (md_mode md), length (dec (unat (md_mode md))))"
    unfolding ser by (rule stoul_mode) simp
  have "stol (dec (unat (md_size md)) @ c_str r) = Inl OutOfRange"
    by (rule stol_dec_out_of_range [OF assms stops_c_str [OF r]])
  then show ?thesis
    unfolding deserialize_def m by (simp add: ser parse_field_def c_str_append dec_no_special)
qed

lemma deserialize_target:
  assumes "deserialize cfg v = Inr md"
  shows "NUL \<notin> set (md_target_path md)" "md_target_path md = [] \<or> S_ISLNK (md_mode md)"
  using assms by (auto simp: deserialize_def res_bind_eq_Inr Let_def split: prod.splits)

lemma serialize_stored_fields [simp]: "serialize cfg (stored_fields cfg md) = serialize cfg md"
  by (simp add: serialize_def stored_fields_def opt_text_def)

lemma serialize_stored_size:
  "serialize cfg (stored_fields cfg md\<lparr>md_size := n\<rparr>) = serialize cfg (md\<lparr>md_size := n\<rparr>)"
  by (simp add: serialize_def stored_fields_def opt_text_def)

lemma deserialize_first_chunk_serialize:
  assumes "unat (fc_size fc) < 2 ^ 63"
  shows "deserialize_first_chunk (serialize_first_chunk fc) =
    Inr (fc\<lparr>fc_content := c_str (fc_content fc)\<rparr>)"
proof -
  have "stol (c_str (serialize_first_chunk fc)) = Inr (fc_size fc, length (dec (unat (fc_size fc))))"
    using assms by (simp add: serialize_first_chunk_def c_str_append dec_no_special stol_dec
        stops_c_str)
  then show ?thesis
    by (simp add: deserialize_first_chunk_def Let_def) (simp add: serialize_first_chunk_def)
qed

section \<open>Properties\<close>

text \<open>C21: What the daemon serializes it reads back: for every configuration and every storable
  entry (a size within \<open>off_t\<close>, a target without NUL and only in links) the parser returns the
  entry with exactly the fields the configuration stores.\<close>

lemma metadata_round_trip:
  assumes "unat (md_size md) < 2 ^ 63" "NUL \<notin> set (md_target_path md)"
    "md_target_path md = [] \<or> S_ISLNK (md_mode md)"
  shows "deserialize cfg (serialize cfg md) = Inr (stored_fields cfg md)"
  by (rule deserialize_serialize) (use assms in \<open>simp add: storable_def\<close>)

lemma metadata_round_trip_witness:
  "deserialize \<lparr>use_atime = True, use_ctime = False, use_mtime = True, use_link_cnt = True, use_blocks = True\<rparr>
    (serialize \<lparr>use_atime = True, use_ctime = False, use_mtime = True, use_link_cnt = True, use_blocks = True\<rparr>
      \<lparr>md_atime = 5, md_mtime = - 1, md_ctime = 7, md_mode = S_IFLNK, md_link_count = 1, md_size = 9,
       md_blocks = 3, md_target_path = ''/a''\<rparr>) =
   Inr \<lparr>md_atime = 5, md_mtime = - 1, md_ctime = 0, md_mode = S_IFLNK, md_link_count = 1, md_size = 9,
       md_blocks = 3, md_target_path = ''/a''\<rparr>"
  by (subst metadata_round_trip) (simp_all add: S_ISLNK_def S_IFMT_def S_IFLNK_def stored_fields_def)

text \<open>A size of \<open>2 ^ 63\<close> or more is written unsigned and read back by the signed \<open>stol\<close>: the
  stored entry can never be parsed again.\<close>

lemma metadata_large_size_unreadable:
  assumes "2 ^ 63 \<le> unat (md_size md)"
  shows "deserialize cfg (serialize cfg md) = Inl OutOfRange"
  by (rule deserialize_size_out_of_range [OF assms])

lemma metadata_large_size_unreadable_witness:
  "deserialize config_metadata
    (serialize config_metadata (empty_metadata\<lparr>md_size := 9223372036854775808\<rparr>)) = Inl OutOfRange"
  by (rule metadata_large_size_unreadable) simp

text \<open>The first chunk is parsed as a C string: of its content, the bytes from the first NUL on
  are lost, and only a content without NUL comes back whole.\<close>

lemma first_chunk_round_trip_iff:
  assumes "unat (fc_size fc) < 2 ^ 63"
  shows "deserialize_first_chunk (serialize_first_chunk fc) =
      Inr (fc\<lparr>fc_content := c_str (fc_content fc)\<rparr>) \<and>
    (deserialize_first_chunk (serialize_first_chunk fc) = Inr fc \<longleftrightarrow> NUL \<notin> set (fc_content fc))"
proof -
  have d: "deserialize_first_chunk (serialize_first_chunk fc) = Inr (fc\<lparr>fc_content := c_str (fc_content fc)\<rparr>)"
    by (rule deserialize_first_chunk_serialize [OF assms])
  have "c_str s = s \<longleftrightarrow> NUL \<notin> set s" for s
    by (auto simp: c_str_def takeWhile_eq_all_conv)
  then have "fc\<lparr>fc_content := c_str (fc_content fc)\<rparr> = fc \<longleftrightarrow> NUL \<notin> set (fc_content fc)"
    by (cases fc) simp
  then show ?thesis by (simp add: d)
qed

lemma first_chunk_round_trip_iff_witness:
  "deserialize_first_chunk (serialize_first_chunk \<lparr>fc_size = 4, fc_content = [NUL, CHR ''a'', NUL, CHR ''b'']\<rparr>) =
    Inr \<lparr>fc_size = 4, fc_content = []\<rparr>"
  using first_chunk_round_trip_iff [of "\<lparr>fc_size = 4, fc_content = [NUL, CHR ''a'', NUL, CHR ''b'']\<rparr>"]
  by (simp add: c_str_def)

end
