(* ===== verification/Merge.thy ===== *)
theory Merge
  imports Metadata
begin

text \<open>
  \<open>daemon/backend/metadata/merge.cpp\<close>: the operands the daemon writes to the key-value store
  instead of read-modify-write, and the merge operator that folds them into a metadata entry
  when the store needs its value. RocksDB calls the operator at moments of its own choosing;
  the lemmas at the end show that the moment does not matter.
\<close>

section \<open>Operands\<close>

datatype operand =
    IncreaseSizeOperand u64 bool
  | DecreaseSizeOperand u64
  | CreateOperand bytes

definition increase_size_id :: char where "increase_size_id = CHR ''i''"
definition decrease_size_id :: char where "decrease_size_id = CHR ''d''"
definition create_id :: char where "create_id = CHR ''c''"

definition operand_id_suffix :: char where "operand_id_suffix = CHR '':''"
definition op_separator :: char where "op_separator = CHR '',''"
definition true_char :: char where "true_char = CHR ''t''"
definition false_char :: char where "false_char = CHR ''f''"

fun operand_id :: "operand \<Rightarrow> char" where
  "operand_id (IncreaseSizeOperand sz app) = increase_size_id"
| "operand_id (DecreaseSizeOperand sz) = decrease_size_id"
| "operand_id (CreateOperand md) = create_id"

fun serialize_params :: "operand \<Rightarrow> bytes" where
  "serialize_params (IncreaseSizeOperand sz app) =
     dec (unat sz) @ [op_separator] @ [if app then true_char else false_char]"
| "serialize_params (DecreaseSizeOperand sz) = dec (unat sz)"
| "serialize_params (CreateOperand md) = md"

definition serialize_id :: "operand \<Rightarrow> bytes" where
  "serialize_id op = [operand_id op] @ [operand_id_suffix]"

definition serialize_operand :: "operand \<Rightarrow> bytes" where
  "serialize_operand op = serialize_id op @ serialize_params op"

text \<open>\<open>Slice::operator[]\<close> asserts its index.\<close>

definition slice_at :: "bytes \<Rightarrow> nat \<Rightarrow> char res" where
  "slice_at s i = res_bind (assert_res (i < length s)) (\<lambda>_. Inr (s ! i))"

definition get_id :: "bytes \<Rightarrow> char res" where
  "get_id serialized_op = slice_at serialized_op 0"

definition get_params :: "bytes \<Rightarrow> bytes res" where
  "get_params serialized_op =
    res_bind (slice_at serialized_op 1) (\<lambda>c.
    res_bind (assert_res (c = operand_id_suffix)) (\<lambda>_. Inr (drop 2 serialized_op)))"

definition parse_IncreaseSizeOperand :: "bytes \<Rightarrow> (u64 \<times> bool) res" where
  "parse_IncreaseSizeOperand serialized_op =
    res_bind (stoul (c_str serialized_op)) (\<lambda>(sz, read).
    let chrs_parsed = read + 1
    in res_bind (slice_at serialized_op (chrs_parsed - 1)) (\<lambda>c.
       res_bind (assert_res (c = op_separator)) (\<lambda>_.
       res_bind (slice_at serialized_op chrs_parsed) (\<lambda>a.
       res_bind (assert_res (a = true_char \<or> a = false_char)) (\<lambda>_.
       res_bind (assert_res (chrs_parsed + 1 = length serialized_op)) (\<lambda>_.
         Inr (sz, a \<noteq> false_char)))))))"

definition parse_DecreaseSizeOperand :: "bytes \<Rightarrow> u64 res" where
  "parse_DecreaseSizeOperand serialized_op =
    res_bind (stoul serialized_op) (\<lambda>(sz, read).
    res_bind (assert_res (read = length serialized_op)) (\<lambda>_. Inr sz))"

section \<open>The merge operator\<close>

text \<open>One round of the loop of \<open>FullMergeV2\<close> on the size of the entry.\<close>

definition merge_step :: "u64 \<Rightarrow> bytes \<Rightarrow> u64 res" where
  "merge_step fsize serialized_op =
    res_bind (assert_res (length serialized_op \<ge> 2)) (\<lambda>_.
    res_bind (get_id serialized_op) (\<lambda>oid.
    res_bind (get_params serialized_op) (\<lambda>parameters.
      if oid = create_id then Inr fsize
      else if oid = increase_size_id then
        res_bind (parse_IncreaseSizeOperand parameters) (\<lambda>(sz, app).
          Inr (if app then fsize + sz else max fsize sz))
      else if oid = decrease_size_id then
        res_bind (parse_DecreaseSizeOperand parameters) (\<lambda>sz. Inr sz)
      else Inl RuntimeError)))"

fun merge_loop :: "u64 \<Rightarrow> bytes list \<Rightarrow> u64 res" where
  "merge_loop fsize [] = Inr fsize"
| "merge_loop fsize (serialized_op # ops) =
     res_bind (merge_step fsize serialized_op) (\<lambda>fsize. merge_loop fsize ops)"

text \<open>\<open>MetadataMergeOperator::FullMergeV2\<close>: the existing value, if any, and the operands in
  the order they were written. (RocksDB never passes no value and no operand; the code would
  read before the list.)\<close>

definition FullMergeV2 :: "md_config \<Rightarrow> bytes option \<Rightarrow> bytes list \<Rightarrow> bytes res" where
  "FullMergeV2 cfg existing_value operand_list =
    res_bind
      (case existing_value of
         Some v \<Rightarrow> Inr (v, operand_list)
       | None \<Rightarrow>
           (case operand_list of
              [] \<Rightarrow> Inl Abort
            | op # ops \<Rightarrow>
                res_bind (get_id op) (\<lambda>oid.
                if oid \<noteq> create_id then Inl RuntimeError
                else res_bind (get_params op) (\<lambda>v. Inr (v, ops)))))
      (\<lambda>(prev_md_value, ops).
        res_bind (deserialize cfg prev_md_value) (\<lambda>md.
        res_bind (merge_loop (md_size md) ops) (\<lambda>fsize.
          Inr (serialize cfg (md\<lparr>md_size := fsize\<rparr>)))))"

text \<open>\<open>PartialMergeMulti\<close> always declines, so operands are only ever folded by
  \<open>FullMergeV2\<close>.\<close>

definition PartialMergeMulti :: "bytes \<Rightarrow> bytes list \<Rightarrow> bytes option" where
  "PartialMergeMulti k operand_list = None"

section \<open>Specification: the effect of an operand on a size\<close>

fun operand_effect :: "operand \<Rightarrow> u64 \<Rightarrow> u64" where
  "operand_effect (IncreaseSizeOperand sz app) n = (if app then n + sz else max n sz)"
| "operand_effect (DecreaseSizeOperand sz) n = sz"
| "operand_effect (CreateOperand md) n = n"

lemmas id_defs = increase_size_id_def decrease_size_id_def create_id_def operand_id_suffix_def

lemma get_id_serialize [simp]: "get_id (serialize_operand op) = Inr (operand_id op)"
  by (simp add: get_id_def slice_at_def serialize_operand_def serialize_id_def)

lemma get_params_serialize [simp]: "get_params (serialize_operand op) = Inr (serialize_params op)"
  by (simp add: get_params_def slice_at_def serialize_operand_def serialize_id_def)

lemma length_serialize_operand: "2 \<le> length (serialize_operand op)"
  by (simp add: serialize_operand_def serialize_id_def)

lemma parse_Increase_params:
  "parse_IncreaseSizeOperand (serialize_params (IncreaseSizeOperand sz app)) = Inr (sz, app)"
proof -
  let ?t = "[op_separator, if app then true_char else false_char]"
  have st: "stops ?t" "NUL \<notin> set ?t"
    by (simp_all add: op_separator_def true_char_def false_char_def is_digit_def)
  have "stoul (c_str (dec (unat sz) @ ?t)) = Inr (sz, length (dec (unat sz)))"
    using st stoul_dec_word [OF st(1), of sz] by (simp add: dec_no_special)
  then show ?thesis
    by (simp add: parse_IncreaseSizeOperand_def slice_at_def nth_append true_char_def
        false_char_def)
qed

lemma parse_Decrease_params:
  "parse_DecreaseSizeOperand (serialize_params (DecreaseSizeOperand sz)) = Inr sz"
  using stoul_dec_word [of "[]" sz] by (simp add: parse_DecreaseSizeOperand_def)

lemma merge_step_operand: "merge_step n (serialize_operand op) = Inr (operand_effect op n)"
  by (cases op)
    (auto simp: merge_step_def length_serialize_operand id_defs parse_Decrease_params
      parse_Increase_params simp del: serialize_params.simps)

lemma merge_loop_operands:
  "merge_loop n (map serialize_operand ops) = Inr (fold operand_effect ops n)"
  by (induction ops arbitrary: n) (simp_all add: merge_step_operand)

lemma merge_loop_append:
  "merge_loop n (xs @ ys) = res_bind (merge_loop n xs) (\<lambda>m. merge_loop m ys)"
proof (induction xs arbitrary: n)
  case (Cons x xs)
  then show ?case by (cases "merge_step n x") simp_all
qed simp

lemma FullMergeV2_base:
  "FullMergeV2 cfg (Some v) ops =
    res_bind (deserialize cfg v) (\<lambda>md. res_bind (merge_loop (md_size md) ops)
      (\<lambda>fsize. Inr (serialize cfg (md\<lparr>md_size := fsize\<rparr>))))"
  by (simp add: FullMergeV2_def)

lemma FullMergeV2_None_append:
  assumes "FullMergeV2 cfg None xs = Inr r"
  obtains v xs' where "\<And>ys. FullMergeV2 cfg None (xs @ ys) = FullMergeV2 cfg (Some v) (xs' @ ys)"
    "FullMergeV2 cfg (Some v) xs' = Inr r"
proof -
  from assms obtain op xs' where xs: "xs = op # xs'"
    by (cases xs) (simp_all add: FullMergeV2_def)
  from assms obtain v where "get_id op = Inr create_id" "get_params op = Inr v"
    by (auto simp: xs FullMergeV2_def res_bind_eq_Inr split: if_splits)
  then have "FullMergeV2 cfg None (op # zs) = FullMergeV2 cfg (Some v) zs" for zs
    by (simp add: FullMergeV2_def)
  with that assms xs show thesis by (metis append_Cons)
qed

lemma FullMergeV2_Some_append:
  assumes "FullMergeV2 cfg (Some v) xs = Inr r" "deserialize cfg r = Inr md'"
  shows "FullMergeV2 cfg (Some v) (xs @ ys) = FullMergeV2 cfg (Some r) ys"
proof -
  from assms(1) obtain md n where d: "deserialize cfg v = Inr md"
      and n: "merge_loop (md_size md) xs = Inr n" and r: "r = serialize cfg (md\<lparr>md_size := n\<rparr>)"
    by (auto simp: FullMergeV2_base res_bind_eq_Inr)
  let ?md = "md\<lparr>md_size := n\<rparr>"
  have "unat n < 2 ^ 63"
    using deserialize_size_out_of_range [of ?md cfg] assms(2) r
    by (simp del: unat_chunksize) (metis Inl_Inr_False not_le)
  then have "storable ?md"
    using deserialize_target [OF d] by (simp add: storable_def)
  then have dr: "deserialize cfg r = Inr (stored_fields cfg ?md)"
    unfolding r by (rule deserialize_serialize)
  have sz: "md_size (stored_fields cfg ?md) = n" by (simp add: stored_fields_def)
  have "serialize cfg (stored_fields cfg ?md\<lparr>md_size := m\<rparr>) = serialize cfg (md\<lparr>md_size := m\<rparr>)" for m
    by (simp add: serialize_stored_size)
  then show ?thesis
    by (simp add: FullMergeV2_base d dr n merge_loop_append sz)
qed

lemma FullMergeV2_split:
  assumes "FullMergeV2 cfg base xs = Inr r" "deserialize cfg r = Inr md"
  shows "FullMergeV2 cfg base (xs @ ys) = FullMergeV2 cfg (Some r) ys"
proof (cases base)
  case None
  with assms(1) obtain v xs' where
    v: "\<And>ys. FullMergeV2 cfg base (xs @ ys) = FullMergeV2 cfg (Some v) (xs' @ ys)"
    "FullMergeV2 cfg (Some v) xs' = Inr r"
    using FullMergeV2_None_append by metis
  show ?thesis unfolding v(1) by (rule FullMergeV2_Some_append [OF v(2) assms(2)])
next
  case (Some v)
  then show ?thesis using FullMergeV2_Some_append assms by metis
qed

lemma FullMergeV2_serialized:
  assumes "storable md"
  shows "FullMergeV2 cfg (Some (serialize cfg md)) (map serialize_operand ops) =
    Inr (serialize cfg (md\<lparr>md_size := fold operand_effect ops (md_size md)\<rparr>))"
proof -
  have "md_size (stored_fields cfg md) = md_size md" by (simp add: stored_fields_def)
  with deserialize_serialize [OF assms, of cfg] show ?thesis
    by (simp add: FullMergeV2_base merge_loop_operands serialize_stored_size)
qed

lemma FullMergeV2_create:
  "FullMergeV2 cfg None (serialize_operand (CreateOperand v) # ops) = FullMergeV2 cfg (Some v) ops"
  by (simp add: FullMergeV2_def)

section \<open>Properties\<close>

text \<open>C22: the time at which the store folds operands does not matter: folding a prefix of the
  operands and storing the result, then folding the rest on top of it, gives the same value
  (or the same exception) as folding all of them at once, for a present or an absent base
  value, as long as the intermediate value can be read back.\<close>

lemma FullMergeV2_append:
  assumes "FullMergeV2 cfg base xs = Inr r" "deserialize cfg r = Inr md"
  shows "FullMergeV2 cfg base (xs @ ys) = FullMergeV2 cfg (Some r) ys"
  by (rule FullMergeV2_split [OF assms])

lemma FullMergeV2_append_witness:
  "FullMergeV2 config_metadata None
     ([serialize_operand (CreateOperand (serialize config_metadata empty_metadata)),
       serialize_operand (IncreaseSizeOperand 100 False)] @ [''d:7'']) =
   FullMergeV2 config_metadata
     (Some (serialize config_metadata (empty_metadata\<lparr>md_size := 100\<rparr>))) [''d:7'']"
proof (rule FullMergeV2_append)
  have st: "storable empty_metadata" "storable (empty_metadata\<lparr>md_size := 100\<rparr>)"
    by (simp_all add: storable_def empty_metadata_def)
  show "FullMergeV2 config_metadata None
     [serialize_operand (CreateOperand (serialize config_metadata empty_metadata)),
       serialize_operand (IncreaseSizeOperand 100 False)] =
     Inr (serialize config_metadata (empty_metadata\<lparr>md_size := 100\<rparr>))"
    using FullMergeV2_serialized [OF st(1), of config_metadata "[IncreaseSizeOperand 100 False]"]
    by (simp add: FullMergeV2_create empty_metadata_def)
  show "deserialize config_metadata (serialize config_metadata (empty_metadata\<lparr>md_size := 100\<rparr>)) =
     Inr (stored_fields config_metadata (empty_metadata\<lparr>md_size := 100\<rparr>))"
    by (rule deserialize_serialize [OF st(2)])
qed

text \<open>C23: what the merge operator computes on the operands the daemon writes: the size of the
  entry goes through \<open>operand_effect\<close> in write order (the maximum for a write at an offset,
  the sum for an append, the new value for a truncation, and nothing at all for a \<open>create\<close> on
  an existing entry), and nothing but the size changes.\<close>

lemma FullMergeV2_operands:
  assumes "storable md"
  shows "FullMergeV2 cfg (Some (serialize cfg md)) (map serialize_operand ops) =
    Inr (serialize cfg (md\<lparr>md_size := fold operand_effect ops (md_size md)\<rparr>))"
  by (rule FullMergeV2_serialized [OF assms])

lemma FullMergeV2_operands_witness:
  "FullMergeV2 config_metadata (Some (serialize config_metadata (empty_metadata\<lparr>md_mode := 33188\<rparr>)))
     (map serialize_operand [IncreaseSizeOperand 10 False, IncreaseSizeOperand 5 True]) =
   Inr (serialize config_metadata (empty_metadata\<lparr>md_mode := 33188,
     md_size := fold operand_effect [IncreaseSizeOperand 10 False, IncreaseSizeOperand 5 True] 0\<rparr>))"
  using FullMergeV2_operands [of "empty_metadata\<lparr>md_mode := 33188\<rparr>" config_metadata
    "[IncreaseSizeOperand 10 False, IncreaseSizeOperand 5 True]"]
  by (simp add: storable_def empty_metadata_def)

end
