(* ===== verification/Path_Util.thy ===== *)
theory Path_Util
  imports Gaofs_Prelude
begin

text \<open>
  \<open>src/common/path_util.cpp\<close>: operations on path strings. A failed \<open>assert\<close> is \<open>Inl Abort\<close>.
  \<open>join_path\<close> and \<open>component\<close> are the specification side: a path as the list of its
  components.
\<close>

definition separator :: char where "separator = CHR ''/''"

definition is_relative :: "path \<Rightarrow> bool" where
  "is_relative p = (p \<noteq> [] \<and> hd p \<noteq> separator)"

definition is_absolute :: "path \<Rightarrow> bool" where
  "is_absolute p = (p \<noteq> [] \<and> hd p = separator)"

definition has_trailing_slash :: "path \<Rightarrow> bool" where
  "has_trailing_slash p = (p \<noteq> [] \<and> last p = separator)"

text \<open>\<open>raw_path\<close> is a \<open>const char*\<close>.\<close>

definition prepend_path :: "path \<Rightarrow> bytes \<Rightarrow> path res" where
  "prepend_path prefix_path raw_path =
    res_bind (assert_res (\<not> has_trailing_slash prefix_path))
      (\<lambda>_. Inr (prefix_path @ [separator] @ c_str raw_path))"

text \<open>The loop of \<open>split_path\<close> from position \<open>e\<close>; \<open>path.find\<close> from \<open>e\<close> stops at the next
  separator or, with \<open>npos\<close>, at the end.\<close>

function split_loop :: "path \<Rightarrow> nat \<Rightarrow> string list" where
  "split_loop p e =
    (if e < length p then
       (let tok = takeWhile (\<lambda>c. c \<noteq> separator) (drop e p); e' = e + length tok
        in tok # (if e' < length p then split_loop p (Suc e') else []))
     else [])"
  by pat_completeness auto
termination
  by (relation "measure (\<lambda>(p, e). length p - e)") auto

declare split_loop.simps [simp del]

definition split_path :: "path \<Rightarrow> string list" where
  "split_path p = split_loop p (if p \<noteq> [] \<and> hd p = separator then 1 else 0)"

text \<open>\<open>std::mismatch\<close> over the first path; the second one is read up to and including the NUL
  that ends a \<open>std::string\<close>.\<close>

fun mismatch :: "bytes \<Rightarrow> bytes \<Rightarrow> nat" where
  "mismatch (a # as) (b # bs) = (if a = b then Suc (mismatch as bs) else 0)"
| "mismatch _ _ = 0"

definition absolute_to_relative :: "path \<Rightarrow> path \<Rightarrow> path res" where
  "absolute_to_relative root_path absolute_path =
    res_bind (assert_res (is_absolute root_path)) (\<lambda>_.
    res_bind (assert_res (is_absolute absolute_path)) (\<lambda>_.
    res_bind (assert_res (\<not> has_trailing_slash root_path)) (\<lambda>_.
      let n = mismatch absolute_path (root_path @ [NUL]);
          rel = drop n absolute_path
      in if n \<noteq> length root_path then Inr []
         else if rel = [] then Inr [separator]
         else if has_trailing_slash absolute_path \<and> length rel \<noteq> 1 then Inr (butlast rel)
         else Inr rel)))"

definition find_last_of :: "char \<Rightarrow> path \<Rightarrow> nat option" where
  "find_last_of c p = (if c \<in> set p then Some (length p - 1 - length (takeWhile (\<lambda>x. x \<noteq> c) (rev p)))
                       else None)"

definition dirname :: "path \<Rightarrow> path res" where
  "dirname p =
    res_bind (assert_res (length p > 1 \<or> (p \<noteq> [] \<and> hd p = separator))) (\<lambda>_.
    res_bind (assert_res (length p = 1 \<or> \<not> has_trailing_slash p)) (\<lambda>_.
      case find_last_of separator p of
        None \<Rightarrow> Inl Abort
      | Some n \<Rightarrow> Inr (take (if n = 0 then 1 else n) p)))"

section \<open>Paths as component lists\<close>

definition component :: "string \<Rightarrow> bool" where
  "component c = (c \<noteq> [] \<and> separator \<notin> set c \<and> NUL \<notin> set c)"

definition join_path :: "string list \<Rightarrow> path" where
  "join_path cs = concat (map (\<lambda>c. separator # c) cs)"

text \<open>The keys the metadata store is used with: the root, or separated components without a
  trailing separator.\<close>

definition normal_path :: "path \<Rightarrow> bool" where
  "normal_path p = (p = [separator] \<or> (\<exists>cs. cs \<noteq> [] \<and> list_all component cs \<and> p = join_path cs))"

lemma join_path_simps [simp]:
  "join_path [] = []" "join_path (c # cs) = separator # c @ join_path cs"
  "join_path (cs @ ds) = join_path cs @ join_path ds"
  by (simp_all add: join_path_def)

lemma takeWhile_component:
  "separator \<notin> set c \<Longrightarrow> takeWhile (\<lambda>x. x \<noteq> separator) (c @ join_path cs) = c"
  by (cases cs) (auto simp: takeWhile_append2 takeWhile_tail)

lemma split_loop_join:
  "list_all component (c # cs) \<Longrightarrow> drop e p = c @ join_path cs \<Longrightarrow> split_loop p e = c # cs"
proof (induction cs arbitrary: c e)
  case Nil
  then have c: "component c" and d: "drop e p = c" by simp_all
  have "length p - e = length c" using arg_cong [OF d, of length] by simp
  moreover have "0 < length c" using c by (simp add: component_def)
  ultimately have "e < length p" "e + length c = length p" by linarith+
  moreover have "takeWhile (\<lambda>x. x \<noteq> separator) (drop e p) = c"
    using takeWhile_component [of c "[]"] c d by (simp add: component_def)
  ultimately show ?case by (subst split_loop.simps) (simp add: Let_def)
next
  case (Cons c2 cs)
  then have c: "component c" and d: "drop e p = c @ join_path (c2 # cs)" by simp_all
  have tw: "takeWhile (\<lambda>x. x \<noteq> separator) (drop e p) = c"
    unfolding d by (rule takeWhile_component) (use c in \<open>simp add: component_def\<close>)
  have len: "length p - e = length c + length (join_path (c2 # cs))"
    using arg_cong [OF d, of length] by simp
  then have lt: "e < length p" "e + length c < length p" by auto
  have "drop (Suc (e + length c)) p = drop (Suc (length c)) (drop e p)"
    by (simp add: add.commute)
  also have "\<dots> = c2 @ join_path cs" unfolding d by simp
  finally have "split_loop p (Suc (e + length c)) = c2 # cs"
    using Cons by simp
  then show ?case
    using lt tw by (subst split_loop.simps) (simp add: Let_def)
qed

text \<open>\<open>find_last_of\<close> on a path that ends in a component without a separator.\<close>

lemma find_last_of_append:
  assumes "separator \<notin> set b"
  shows "find_last_of separator (d @ separator # b) = Some (length d)"
proof -
  have "takeWhile (\<lambda>x. x \<noteq> separator) (rev b @ separator # rev d) = rev b"
    using takeWhile_component [of "rev b" "[]"] assms by (subst takeWhile_append2) auto
  then show ?thesis by (simp add: find_last_of_def)
qed

lemma dirname_append:
  assumes "component b"
  shows "dirname (d @ separator # b) = Inr (if d = [] then [separator] else d)"
proof -
  from assms have b: "b \<noteq> []" "separator \<notin> set b" by (auto simp: component_def)
  have "last b \<noteq> separator" using b last_in_set by metis
  with b show ?thesis
    by (auto simp: dirname_def find_last_of_append has_trailing_slash_def)
qed

lemma normal_path_absolute: "normal_path p \<Longrightarrow> is_absolute p"
  by (auto simp: normal_path_def is_absolute_def join_path_def neq_Nil_conv)

lemma join_path_last: "list_all component cs \<Longrightarrow> cs \<noteq> [] \<Longrightarrow> last (join_path cs) \<noteq> separator"
proof (induction cs rule: rev_induct)
  case (snoc c cs)
  then have c: "c \<noteq> []" "separator \<notin> set c" by (auto simp: component_def)
  then show ?case by (metis join_path_simps append_Nil2 last_appendR last_ConsR last_in_set
        append_is_Nil_conv list.simps(3))
qed simp

lemma normal_path_no_trailing:
  "normal_path p \<Longrightarrow> p = [separator] \<or> \<not> has_trailing_slash p"
  by (auto simp: normal_path_def has_trailing_slash_def join_path_last)

lemma mismatch_append: "mismatch (xs @ ys) (xs @ zs) = length xs + mismatch ys zs"
  by (induction xs) auto

section \<open>Properties\<close>

lemma split_path_join:
  assumes "list_all component cs"
  shows "split_path (join_path cs) = cs"
proof (cases cs)
  case (Cons c cs')
  then have "drop 1 (join_path cs) = c @ join_path cs'" by simp
  then show ?thesis
    using split_loop_join [of c cs' 1] assms Cons by (simp add: split_path_def join_path_def)
qed (simp add: split_path_def split_loop.simps)

text \<open>Splitting a path and taking its directory are the two readings of its component list:
  the components of a joined list are the list, and the directory of a path with a last
  component is the path of the others, the root when there is none.\<close>

lemma split_dirname_components:
  assumes "list_all component (cs @ [c])"
  shows "split_path (join_path (cs @ [c])) = cs @ [c] \<and>
    dirname (join_path (cs @ [c])) = Inr (if cs = [] then [separator] else join_path cs)"
  using split_path_join [OF assms] dirname_append [of c "join_path cs"] assms by (cases cs) auto

lemma split_dirname_components_witness:
  "split_path ''/mnt/fs/a'' = [''mnt'', ''fs'', ''a''] \<and> dirname ''/mnt/fs/a'' = Inr ''/mnt/fs''"
  using split_dirname_components [of "[''mnt'', ''fs'']" "''a''"]
  by (simp add: component_def separator_def)

text \<open>A path in canonical form below a root becomes relative by losing exactly the root's
  characters; the root itself becomes the separator.\<close>

lemma absolute_to_relative_below:
  assumes "list_all component rs" "rs \<noteq> []" "list_all component cs"
  shows "absolute_to_relative (join_path rs) (join_path (rs @ cs)) =
    Inr (if cs = [] then [separator] else join_path cs)"
proof -
  have abs: "is_absolute (join_path rs)" "is_absolute (join_path (rs @ cs))"
    using assms(2) by (auto simp: is_absolute_def join_path_def neq_Nil_conv)
  have tr: "\<not> has_trailing_slash (join_path rs)" "\<not> has_trailing_slash (join_path (rs @ cs))"
    using join_path_last [of rs] join_path_last [of "rs @ cs"] assms
    by (simp_all add: has_trailing_slash_def)
  have "mismatch (join_path cs) [NUL] = 0"
    by (cases cs) (simp_all add: separator_def)
  then have "mismatch (join_path (rs @ cs)) (join_path rs @ [NUL]) = length (join_path rs)"
    using mismatch_append [of "join_path rs" "join_path cs" "[NUL]"] by simp
  then show ?thesis
    using abs tr by (cases cs) (simp_all add: absolute_to_relative_def)
qed

lemma absolute_to_relative_below_witness:
  "absolute_to_relative ''/mnt/fs'' ''/mnt/fs/a/b'' = Inr ''/a/b''"
  using absolute_to_relative_below [of "[''mnt'', ''fs'']" "[''a'', ''b'']"]
  by (simp add: component_def separator_def)

end
