(* ===== verification/Rocksdb_Backend.thy ===== *)
theory Rocksdb_Backend
  imports Merge Path_Util "HOL-Library.List_Lexorder" "HOL-Library.Char_ord" "HOL-Library.Sublist"
begin

text \<open>
  \<open>daemon/backend/metadata/rocksdb_backend.cpp\<close> and the class template of
  \<open>metadata_backend.hpp\<close>. RocksDB itself is third-party code: it is the parameter \<open>R\<close>, a
  record of the calls the backend makes on \<open>db_\<close>. The locale \<open>rocksdb_contract\<close> states the
  documented behaviour of those calls that the backend relies on; \<open>kv_backend\<close> is the
  interface the rest of the daemon programs against, and a \<open>sublocale\<close> derives it from the
  contract.
\<close>

section \<open>RocksDB as a parameter\<close>

text \<open>\<open>rdb::Status\<close> with the value of a successful call.\<close>

datatype 'a rdb_status = Ok 'a | IsNotFound | OtherStatus

datatype batch_op = BatchDelete bytes | BatchPut bytes bytes

text \<open>\<open>rdb_Seek\<close> is an iterator after \<open>Seek(key)\<close>: the entries from there on in the order
  \<open>Next\<close> visits them, and whether its status is ok at the end. An exception thrown by the
  merge operator passes through the call that ran it.\<close>

record 'db rocksdb =
  rdb_Get :: "bytes \<Rightarrow> 'db \<Rightarrow> bytes rdb_status res"
  rdb_Merge :: "bytes \<Rightarrow> bytes \<Rightarrow> ('db, unit rdb_status) cmd"
  rdb_Put :: "bytes \<Rightarrow> bytes \<Rightarrow> ('db, unit rdb_status) cmd"
  rdb_Delete :: "bytes \<Rightarrow> ('db, unit rdb_status) cmd"
  rdb_Write :: "batch_op list \<Rightarrow> ('db, unit rdb_status) cmd"
  rdb_Seek :: "bytes \<Rightarrow> 'db \<Rightarrow> ((bytes \<times> bytes) list \<times> bool) res"

section \<open>RocksDBBackend\<close>

definition throw_status_excpt :: "'a rdb_status \<Rightarrow> 'b res" where
  "throw_status_excpt s = (case s of
      Ok _ \<Rightarrow> Inl Abort
    | IsNotFound \<Rightarrow> Inl NotFoundException
    | OtherStatus \<Rightarrow> Inl DBException)"

text \<open>\<open>if(!s.ok()) throw_status_excpt(s)\<close>.\<close>

definition check_status :: "'a rdb_status \<Rightarrow> 'a res" where
  "check_status s = (case s of Ok x \<Rightarrow> Inr x | _ \<Rightarrow> throw_status_excpt s)"

definition get_impl :: "'db rocksdb \<Rightarrow> bytes \<Rightarrow> ('db, bytes) cmd" where
  "get_impl R k = (\<lambda>db. (res_bind (rdb_Get R k db) check_status, db))"

definition put_impl :: "'db rocksdb \<Rightarrow> bytes \<Rightarrow> bytes \<Rightarrow> ('db, unit) cmd" where
  "put_impl R k val =
    cbind (rdb_Merge R k (serialize_operand (CreateOperand val))) (\<lambda>s. clift (check_status s))"

definition exists_impl :: "'db rocksdb \<Rightarrow> bytes \<Rightarrow> ('db, bool) cmd" where
  "exists_impl R k = (\<lambda>db. (res_bind (rdb_Get R k db) (\<lambda>s. case s of
      Ok _ \<Rightarrow> Inr True
    | IsNotFound \<Rightarrow> Inr False
    | OtherStatus \<Rightarrow> throw_status_excpt s), db))"

definition put_no_exist_impl :: "'db rocksdb \<Rightarrow> bytes \<Rightarrow> bytes \<Rightarrow> ('db, unit) cmd" where
  "put_no_exist_impl R k val =
    cbind (exists_impl R k) (\<lambda>e. if e then craise ExistsException else put_impl R k val)"

definition remove_impl :: "'db rocksdb \<Rightarrow> bytes \<Rightarrow> ('db, unit) cmd" where
  "remove_impl R k = cbind (rdb_Delete R k) (\<lambda>s. clift (check_status s))"

definition update_impl :: "'db rocksdb \<Rightarrow> bytes \<Rightarrow> bytes \<Rightarrow> bytes \<Rightarrow> ('db, unit) cmd" where
  "update_impl R old_key new_key val =
    cbind (rdb_Write R [BatchDelete old_key, BatchPut new_key val]) (\<lambda>s. clift (check_status s))"

definition increase_size_impl :: "'db rocksdb \<Rightarrow> bytes \<Rightarrow> u64 \<Rightarrow> bool \<Rightarrow> ('db, unit) cmd" where
  "increase_size_impl R k sz app =
    cbind (rdb_Merge R k (serialize_operand (IncreaseSizeOperand sz app))) (\<lambda>s. clift (check_status s))"

definition decrease_size_impl :: "'db rocksdb \<Rightarrow> bytes \<Rightarrow> u64 \<Rightarrow> ('db, unit) cmd" where
  "decrease_size_impl R k sz =
    cbind (rdb_Merge R k (serialize_operand (DecreaseSizeOperand sz))) (\<lambda>s. clift (check_status s))"

text \<open>The loop of the two directory scans: the entries are read up to the first key without
  the prefix; the prefix itself and keys with a further separator are skipped.\<close>

fun scan_loop :: "md_config \<Rightarrow> path \<Rightarrow> (string \<Rightarrow> metadata \<Rightarrow> 'a) \<Rightarrow> (bytes \<times> bytes) list \<Rightarrow> 'a list res" where
  "scan_loop cfg root_path f [] = Inr []"
| "scan_loop cfg root_path f ((k, v) # it) =
    (if \<not> prefix root_path k then Inr []
     else if length k = length root_path then scan_loop cfg root_path f it
     else if separator \<in> set (drop (length root_path) k) then scan_loop cfg root_path f it
     else res_bind (assert_res (drop (length root_path) k \<noteq> [])) (\<lambda>_.
          res_bind (deserialize cfg v) (\<lambda>md.
          res_bind (scan_loop cfg root_path f it) (\<lambda>entries.
            Inr (f (drop (length root_path) k) md # entries)))))"

definition get_dirents_impl ::
    "md_config \<Rightarrow> 'db rocksdb \<Rightarrow> path \<Rightarrow> ('db, (string \<times> bool) list) cmd" where
  "get_dirents_impl cfg R dir = (\<lambda>db.
    (res_bind (rdb_Seek R dir db) (\<lambda>(it, ok).
     res_bind (scan_loop cfg dir (\<lambda>name md. (name, S_ISDIR (md_mode md))) it) (\<lambda>entries.
     res_bind (assert_res ok) (\<lambda>_. Inr entries))), db))"

definition get_dirents_extended_impl ::
    "md_config \<Rightarrow> 'db rocksdb \<Rightarrow> path \<Rightarrow> ('db, (string \<times> bool \<times> u64 \<times> u64) list) cmd" where
  "get_dirents_extended_impl cfg R dir = (\<lambda>db.
    (res_bind (rdb_Seek R dir db) (\<lambda>(it, ok).
     res_bind (scan_loop cfg dir
       (\<lambda>name md. (name, S_ISDIR (md_mode md), md_size md, md_ctime md)) it) (\<lambda>entries.
     res_bind (assert_res ok) (\<lambda>_. Inr entries))), db))"

definition get_first_chunk_impl :: "'db rocksdb \<Rightarrow> bytes \<Rightarrow> ('db, bytes) cmd" where
  "get_first_chunk_impl R k = (\<lambda>db. (res_bind (rdb_Get R k db) check_status, db))"

definition put_first_chunk_impl :: "'db rocksdb \<Rightarrow> bytes \<Rightarrow> bytes \<Rightarrow> ('db, unit) cmd" where
  "put_first_chunk_impl R k val = cbind (rdb_Put R k val) (\<lambda>s. clift (check_status s))"

definition exists_first_chunk_impl :: "'db rocksdb \<Rightarrow> bytes \<Rightarrow> ('db, bool) cmd" where
  "exists_first_chunk_impl R k = (\<lambda>db. (res_bind (rdb_Get R k db) (\<lambda>s. case s of
      Ok _ \<Rightarrow> Inr True
    | IsNotFound \<Rightarrow> Inr False
    | OtherStatus \<Rightarrow> throw_status_excpt s), db))"

definition put_no_exist_first_chunk_impl :: "'db rocksdb \<Rightarrow> bytes \<Rightarrow> bytes \<Rightarrow> ('db, unit) cmd" where
  "put_no_exist_first_chunk_impl R k val =
    cbind (exists_first_chunk_impl R k)
      (\<lambda>e. if e then craise ExistsException else put_first_chunk_impl R k val)"

definition remove_first_chunk_impl :: "'db rocksdb \<Rightarrow> bytes \<Rightarrow> ('db, unit) cmd" where
  "remove_first_chunk_impl R k = cbind (rdb_Delete R k) (\<lambda>s. clift (check_status s))"

definition update_first_chunk_impl ::
    "'db rocksdb \<Rightarrow> bytes \<Rightarrow> bytes \<Rightarrow> bytes \<Rightarrow> ('db, unit) cmd" where
  "update_first_chunk_impl R old_key new_key val =
    cbind (rdb_Write R [BatchDelete old_key, BatchPut new_key val]) (\<lambda>s. clift (check_status s))"

section \<open>The abstract backend\<close>

text \<open>\<open>AbstractMetadataBackend\<close>: the virtual functions.\<close>

record 'db metadata_backend =
  be_get :: "bytes \<Rightarrow> ('db, bytes) cmd"
  be_put :: "bytes \<Rightarrow> bytes \<Rightarrow> ('db, unit) cmd"
  be_put_no_exist :: "bytes \<Rightarrow> bytes \<Rightarrow> ('db, unit) cmd"
  be_remove :: "bytes \<Rightarrow> ('db, unit) cmd"
  be_exists :: "bytes \<Rightarrow> ('db, bool) cmd"
  be_update :: "bytes \<Rightarrow> bytes \<Rightarrow> bytes \<Rightarrow> ('db, unit) cmd"
  be_increase_size :: "bytes \<Rightarrow> u64 \<Rightarrow> bool \<Rightarrow> ('db, unit) cmd"
  be_decrease_size :: "bytes \<Rightarrow> u64 \<Rightarrow> ('db, unit) cmd"
  be_get_dirents :: "path \<Rightarrow> ('db, (string \<times> bool) list) cmd"
  be_get_dirents_extended :: "path \<Rightarrow> ('db, (string \<times> bool \<times> u64 \<times> u64) list) cmd"
  be_get_first_chunk :: "bytes \<Rightarrow> ('db, bytes) cmd"
  be_put_first_chunk :: "bytes \<Rightarrow> bytes \<Rightarrow> ('db, unit) cmd"
  be_put_no_exist_first_chunk :: "bytes \<Rightarrow> bytes \<Rightarrow> ('db, unit) cmd"
  be_remove_first_chunk :: "bytes \<Rightarrow> ('db, unit) cmd"
  be_exists_first_chunk :: "bytes \<Rightarrow> ('db, bool) cmd"
  be_update_first_chunk :: "bytes \<Rightarrow> bytes \<Rightarrow> bytes \<Rightarrow> ('db, unit) cmd"

text \<open>\<open>MetadataBackend<RocksDBBackend>\<close>: every virtual function calls its \<open>_impl\<close>.\<close>

definition MetadataBackend :: "md_config \<Rightarrow> 'db rocksdb \<Rightarrow> 'db metadata_backend" where
  "MetadataBackend cfg R = \<lparr>
     be_get = get_impl R, be_put = put_impl R, be_put_no_exist = put_no_exist_impl R,
     be_remove = remove_impl R, be_exists = exists_impl R, be_update = update_impl R,
     be_increase_size = increase_size_impl R, be_decrease_size = decrease_size_impl R,
     be_get_dirents = get_dirents_impl cfg R,
     be_get_dirents_extended = get_dirents_extended_impl cfg R,
     be_get_first_chunk = get_first_chunk_impl R, be_put_first_chunk = put_first_chunk_impl R,
     be_put_no_exist_first_chunk = put_no_exist_first_chunk_impl R,
     be_remove_first_chunk = remove_first_chunk_impl R,
     be_exists_first_chunk = exists_first_chunk_impl R,
     be_update_first_chunk = update_first_chunk_impl R\<rparr>"

end
