(* ===== verification/Kv_Contract.thy ===== *)
theory Kv_Contract
  imports Rocksdb_Backend
begin

text \<open>
  The contracts around the metadata store. \<open>rocksdb_contract\<close> is what RocksDB documents about
  the calls the backend makes (with \<open>MetadataMergeOperator\<close> installed), over an abstract
  content \<open>val db\<close>, the value a read of each key returns. \<open>kv_backend\<close> is what
  \<open>AbstractMetadataBackend\<close> promises its callers. The \<open>sublocale\<close> proves the second from the
  first for \<open>rocksdb_backend.cpp\<close>.
\<close>

section \<open>Directory scans over a sorted iterator\<close>

definition is_child :: "path \<Rightarrow> bytes \<Rightarrow> bool" where
  "is_child dir k = (prefix dir k \<and> k \<noteq> dir \<and> separator \<notin> set (drop (length dir) k))"

lemma prefix_contiguous:
  fixes p k k' :: bytes
  shows "p \<le> k \<Longrightarrow> \<not> prefix p k \<Longrightarrow> k \<le> k' \<Longrightarrow> \<not> prefix p k'"
proof (induction p arbitrary: k k')
  case (Cons a p)
  then obtain b k1 where k: "k = b # k1" by (cases k) auto
  show ?case
  proof (cases k')
    case (Cons c k2)
    show ?thesis
    proof (cases "a = b")
      case True
      then show ?thesis
        using Cons.prems Cons.IH [of k1 k2] by (auto simp: k Cons)
    next
      case False
      then show ?thesis using Cons.prems by (auto simp: k Cons)
    qed
  qed simp
qed simp

lemma is_child_iff: "is_child dir k \<longleftrightarrow> (\<exists>name. k = dir @ name \<and> name \<noteq> [] \<and> separator \<notin> set name)"
  by (auto simp: is_child_def prefix_def)

lemma scan_loop_ok:
  assumes "sorted (map fst it)" "\<And>k v. (k, v) \<in> set it \<Longrightarrow> dir \<le> k"
    "\<And>k v. (k, v) \<in> set it \<Longrightarrow> is_child dir k \<Longrightarrow> deserialize cfg v = Inr (m v)"
  shows "scan_loop cfg dir f it =
    Inr (map (\<lambda>(k, v). f (drop (length dir) k) (m v)) (filter (\<lambda>(k, v). is_child dir k) it))"
  using assms
proof (induction it)
  case (Cons kv it)
  obtain k v where kv: "kv = (k, v)" by force
  have IH: "scan_loop cfg dir f it =
    Inr (map (\<lambda>(k, v). f (drop (length dir) k) (m v)) (filter (\<lambda>(k, v). is_child dir k) it))"
    using Cons by auto
  show ?case
  proof (cases "prefix dir k")
    case False
    have "\<not> is_child dir k'" if "(k', v') \<in> set it" for k' v'
      using prefix_contiguous [OF _ False, of k'] Cons.prems(1,2) that
      by (force simp: kv is_child_def)
    then have "filter (\<lambda>(k, v). is_child dir k) it = []" by (auto simp: filter_empty_conv)
    with False show ?thesis by (simp add: kv is_child_def)
  next
    case True
    then obtain n where n: "k = dir @ n" by (auto simp: prefix_def)
    show ?thesis
      using IH Cons.prems(3) [of k v] by (auto simp: kv n is_child_def)
  qed
qed simp

section \<open>The contracts\<close>

fun apply_batch_op :: "batch_op \<Rightarrow> (bytes \<rightharpoonup> bytes) \<Rightarrow> (bytes \<rightharpoonup> bytes)" where
  "apply_batch_op (BatchDelete k) m = m(k := None)"
| "apply_batch_op (BatchPut k v) m = m(k \<mapsto> v)"

text \<open>\<open>ok db\<close>: the store works and every value in it can be folded. The \<open>Merge\<close> law covers
  both eager and lazy folding (\<open>FullMergeV2_append\<close>).\<close>

locale rocksdb_contract =
  fixes cfg :: md_config and R :: "'db rocksdb" and val :: "'db \<Rightarrow> bytes \<rightharpoonup> bytes"
    and ok :: "'db \<Rightarrow> bool"
  assumes rdb_get: "ok db \<Longrightarrow>
      rdb_Get R k db = Inr (case val db k of None \<Rightarrow> IsNotFound | Some v \<Rightarrow> Ok v)"
    and rdb_merge: "ok db \<Longrightarrow> FullMergeV2 cfg (val db k) [op] = Inr v \<Longrightarrow>
      \<exists>db'. rdb_Merge R k op db = (Inr (Ok ()), db') \<and> ok db' \<and> val db' = (val db)(k \<mapsto> v)"
    and rdb_put: "ok db \<Longrightarrow>
      \<exists>db'. rdb_Put R k v db = (Inr (Ok ()), db') \<and> ok db' \<and> val db' = (val db)(k \<mapsto> v)"
    and rdb_delete: "ok db \<Longrightarrow>
      \<exists>db'. rdb_Delete R k db = (Inr (Ok ()), db') \<and> ok db' \<and> val db' = (val db)(k := None)"
    and rdb_write: "ok db \<Longrightarrow>
      \<exists>db'. rdb_Write R ops db = (Inr (Ok ()), db') \<and> ok db' \<and>
        val db' = fold apply_batch_op ops (val db)"
    and rdb_seek: "ok db \<Longrightarrow>
      \<exists>it. rdb_Seek R p db = Inr (it, True) \<and> sorted (map fst it) \<and> distinct (map fst it) \<and>
        (\<forall>k v. (k, v) \<in> set it \<longleftrightarrow> val db k = Some v \<and> p \<le> k)"

text \<open>The values the daemon writes under metadata keys.\<close>

definition canonical :: "md_config \<Rightarrow> bytes \<Rightarrow> bool" where
  "canonical cfg v = (\<exists>md. storable md \<and> v = serialize cfg md)"

definition dirents_spec ::
    "md_config \<Rightarrow> (bytes \<rightharpoonup> bytes) \<Rightarrow> path \<Rightarrow> (string \<Rightarrow> metadata \<Rightarrow> 'a) \<Rightarrow> 'a set" where
  "dirents_spec cfg m dir f =
    {f name md | name md v. name \<noteq> [] \<and> separator \<notin> set name \<and> m (dir @ name) = Some v \<and>
       deserialize cfg v = Inr md}"

definition scannable :: "md_config \<Rightarrow> (bytes \<rightharpoonup> bytes) \<Rightarrow> path \<Rightarrow> bool" where
  "scannable cfg m dir = (\<forall>k v. is_child dir k \<longrightarrow> m k = Some v \<longrightarrow> canonical cfg v)"

locale kv_backend =
  fixes cfg :: md_config and B :: "'db metadata_backend" and val :: "'db \<Rightarrow> bytes \<rightharpoonup> bytes"
    and ok :: "'db \<Rightarrow> bool"
  assumes be_get: "ok db \<Longrightarrow>
      be_get B k db = ((case val db k of None \<Rightarrow> Inl NotFoundException | Some v \<Rightarrow> Inr v), db)"
    and be_exists: "ok db \<Longrightarrow> be_exists B k db = (Inr (val db k \<noteq> None), db)"
    and be_put_new: "ok db \<Longrightarrow> val db k = None \<Longrightarrow> canonical cfg v \<Longrightarrow>
      \<exists>db'. be_put B k v db = (Inr (), db') \<and> ok db' \<and> val db' = (val db)(k \<mapsto> v)"
    and be_put_old: "ok db \<Longrightarrow> val db k = Some w \<Longrightarrow> canonical cfg w \<Longrightarrow>
      \<exists>db'. be_put B k v db = (Inr (), db') \<and> ok db' \<and> val db' = val db"
    and be_put_no_exist_new: "ok db \<Longrightarrow> val db k = None \<Longrightarrow> canonical cfg v \<Longrightarrow>
      \<exists>db'. be_put_no_exist B k v db = (Inr (), db') \<and> ok db' \<and> val db' = (val db)(k \<mapsto> v)"
    and be_put_no_exist_old: "ok db \<Longrightarrow> val db k = Some w \<Longrightarrow>
      be_put_no_exist B k v db = (Inl ExistsException, db)"
    and be_remove: "ok db \<Longrightarrow>
      \<exists>db'. be_remove B k db = (Inr (), db') \<and> ok db' \<and> val db' = (val db)(k := None)"
    and be_update: "ok db \<Longrightarrow>
      \<exists>db'. be_update B old_key new_key v db = (Inr (), db') \<and> ok db' \<and>
        val db' = (val db)(old_key := None, new_key \<mapsto> v)"
    and be_increase_size: "ok db \<Longrightarrow> val db k = Some (serialize cfg md) \<Longrightarrow> storable md \<Longrightarrow>
      \<exists>db'. be_increase_size B k sz app db = (Inr (), db') \<and> ok db' \<and>
        val db' = (val db)(k \<mapsto> serialize cfg
          (md\<lparr>md_size := if app then md_size md + sz else max (md_size md) sz\<rparr>))"
    and be_decrease_size: "ok db \<Longrightarrow> val db k = Some (serialize cfg md) \<Longrightarrow> storable md \<Longrightarrow>
      \<exists>db'. be_decrease_size B k sz db = (Inr (), db') \<and> ok db' \<and>
        val db' = (val db)(k \<mapsto> serialize cfg (md\<lparr>md_size := sz\<rparr>))"
    and be_get_dirents: "ok db \<Longrightarrow> scannable cfg (val db) dir \<Longrightarrow>
      \<exists>es. be_get_dirents B dir db = (Inr es, db) \<and> distinct (map fst es) \<and>
        set es = dirents_spec cfg (val db) dir (\<lambda>name md. (name, S_ISDIR (md_mode md)))"
    and be_get_dirents_extended: "ok db \<Longrightarrow> scannable cfg (val db) dir \<Longrightarrow>
      \<exists>es. be_get_dirents_extended B dir db = (Inr es, db) \<and> distinct (map fst es) \<and>
        set es = dirents_spec cfg (val db) dir
          (\<lambda>name md. (name, S_ISDIR (md_mode md), md_size md, md_ctime md))"
    and be_get_first_chunk: "ok db \<Longrightarrow> be_get_first_chunk B k db =
      ((case val db k of None \<Rightarrow> Inl NotFoundException | Some v \<Rightarrow> Inr v), db)"
    and be_exists_first_chunk: "ok db \<Longrightarrow> be_exists_first_chunk B k db = (Inr (val db k \<noteq> None), db)"
    and be_put_first_chunk: "ok db \<Longrightarrow>
      \<exists>db'. be_put_first_chunk B k v db = (Inr (), db') \<and> ok db' \<and> val db' = (val db)(k \<mapsto> v)"
    and be_put_no_exist_first_chunk_new: "ok db \<Longrightarrow> val db k = None \<Longrightarrow>
      \<exists>db'. be_put_no_exist_first_chunk B k v db = (Inr (), db') \<and> ok db' \<and>
        val db' = (val db)(k \<mapsto> v)"
    and be_put_no_exist_first_chunk_old: "ok db \<Longrightarrow> val db k = Some w \<Longrightarrow>
      be_put_no_exist_first_chunk B k v db = (Inl ExistsException, db)"
    and be_remove_first_chunk: "ok db \<Longrightarrow>
      \<exists>db'. be_remove_first_chunk B k db = (Inr (), db') \<and> ok db' \<and> val db' = (val db)(k := None)"
    and be_update_first_chunk: "ok db \<Longrightarrow>
      \<exists>db'. be_update_first_chunk B old_key new_key v db = (Inr (), db') \<and> ok db' \<and>
        val db' = (val db)(old_key := None, new_key \<mapsto> v)"

section \<open>RocksDBBackend meets the contract\<close>

context rocksdb_contract
begin

lemma status_ok [simp]: "check_status (Ok x) = Inr x"
  by (simp add: check_status_def)

lemma get_ok: "ok db \<Longrightarrow>
  get_impl R k db = ((case val db k of None \<Rightarrow> Inl NotFoundException | Some v \<Rightarrow> Inr v), db)"
  by (simp add: get_impl_def rdb_get check_status_def throw_status_excpt_def split: option.split)

lemma exists_ok: "ok db \<Longrightarrow> exists_impl R k db = (Inr (val db k \<noteq> None), db)"
  by (simp add: exists_impl_def rdb_get split: option.split)

lemma merge_ok:
  assumes "ok db" "FullMergeV2 cfg (val db k) [op] = Inr v"
  shows "\<exists>db'. cbind (rdb_Merge R k op) (\<lambda>s. clift (check_status s)) db = (Inr (), db') \<and> ok db' \<and>
    val db' = (val db)(k \<mapsto> v)"
  using rdb_merge [OF assms] by (auto simp: cmd_simps)

lemma create_new: "canonical cfg v \<Longrightarrow> FullMergeV2 cfg None [serialize_operand (CreateOperand v)] = Inr v"
  using FullMergeV2_serialized [where cfg = cfg and ops = "[]"]
  by (auto simp: canonical_def FullMergeV2_create)

lemma create_old:
  "canonical cfg w \<Longrightarrow> FullMergeV2 cfg (Some w) [serialize_operand (CreateOperand v)] = Inr w"
  using FullMergeV2_serialized [where cfg = cfg and ops = "[CreateOperand v]"]
  by (auto simp: canonical_def)

lemma put_new: "ok db \<Longrightarrow> val db k = None \<Longrightarrow> canonical cfg v \<Longrightarrow>
  \<exists>db'. put_impl R k v db = (Inr (), db') \<and> ok db' \<and> val db' = (val db)(k \<mapsto> v)"
  unfolding put_impl_def by (rule merge_ok) (simp_all add: create_new)

lemma put_old: "ok db \<Longrightarrow> val db k = Some w \<Longrightarrow> canonical cfg w \<Longrightarrow>
  \<exists>db'. put_impl R k v db = (Inr (), db') \<and> ok db' \<and> val db' = val db"
  using merge_ok [of db k "serialize_operand (CreateOperand v)" w]
  by (auto simp: put_impl_def create_old fun_upd_idem)

lemma write_ok:
  assumes "ok db"
  shows "\<exists>db'. cbind (rdb_Write R [BatchDelete k, BatchPut k' v]) (\<lambda>s. clift (check_status s)) db =
     (Inr (), db') \<and> ok db' \<and> val db' = (val db)(k := None, k' \<mapsto> v)"
  using rdb_write [OF assms, of "[BatchDelete k, BatchPut k' v]"] by (auto simp: cmd_simps)

lemma delete_ok:
  assumes "ok db"
  shows "\<exists>db'. cbind (rdb_Delete R k) (\<lambda>s. clift (check_status s)) db = (Inr (), db') \<and> ok db' \<and>
     val db' = (val db)(k := None)"
  using rdb_delete [OF assms, of k] by (auto simp: cmd_simps)

lemma fc_put_ok:
  assumes "ok db"
  shows "\<exists>db'. put_first_chunk_impl R k v db = (Inr (), db') \<and> ok db' \<and> val db' = (val db)(k \<mapsto> v)"
  using rdb_put [OF assms, of k v] by (auto simp: cmd_simps put_first_chunk_impl_def)

lemma scan_ok:
  assumes "ok db" "scannable cfg (val db) dir" "\<And>n md. fst (f n md) = n"
  shows "\<exists>es. res_bind (rdb_Seek R dir db) (\<lambda>(it, ok).
     res_bind (scan_loop cfg dir f it) (\<lambda>entries. res_bind (assert_res ok) (\<lambda>_. Inr entries))) = Inr es
     \<and> distinct (map fst es) \<and> set es = dirents_spec cfg (val db) dir f"
proof -
  obtain it where it: "rdb_Seek R dir db = Inr (it, True)" and s: "sorted (map fst it)"
      and d: "distinct (map fst it)"
      and m: "\<And>k v. (k, v) \<in> set it \<longleftrightarrow> val db k = Some v \<and> dir \<le> k"
    using rdb_seek [OF assms(1)] by metis
  let ?m = "\<lambda>v. projr (deserialize cfg v)"
  let ?es = "map (\<lambda>(k, v). f (drop (length dir) k) (?m v)) (filter (\<lambda>(k, v). is_child dir k) it)"
  have des: "deserialize cfg v = Inr (?m v)" if "is_child dir k" "val db k = Some v" for k v
    using that assms(2) deserialize_serialize by (fastforce simp: scannable_def canonical_def)
  have loop: "scan_loop cfg dir f it = Inr ?es"
    by (rule scan_loop_ok [OF s]) (use m des in auto)
  let ?ks = "map fst (filter (\<lambda>(k, v). is_child dir k) it)"
  have names: "map fst ?es = map (drop (length dir)) ?ks"
    using assms(3) by auto
  have "inj_on (drop (length dir)) (set ?ks)" by (auto simp: inj_on_def is_child_iff)
  with distinct_map_filter [OF d] have "distinct (map (drop (length dir)) ?ks)"
    by (blast intro: distinct_map [THEN iffD2])
  then have "distinct (map fst ?es)"
    unfolding names .
  moreover have "set ?es = dirents_spec cfg (val db) dir f"
  proof (intro set_eqI iffI)
    fix x assume "x \<in> set ?es"
    then obtain k v where kv: "(k, v) \<in> set it" "is_child dir k" "x = f (drop (length dir) k) (?m v)"
      by auto
    then obtain name where name: "k = dir @ name" "name \<noteq> []" "separator \<notin> set name"
      by (auto simp: is_child_iff)
    have v: "val db k = Some v" using m kv(1) by simp
    have x: "x = f name (?m v)" using kv(3) name(1) by simp
    have "deserialize cfg v = Inr (?m v)" by (rule des [OF kv(2) v])
    then show "x \<in> dirents_spec cfg (val db) dir f"
      using x name v unfolding dirents_spec_def by blast
  next
    fix x assume "x \<in> dirents_spec cfg (val db) dir f"
    then obtain name md v where x: "x = f name md" "name \<noteq> []" "separator \<notin> set name"
        "val db (dir @ name) = Some v" "deserialize cfg v = Inr md"
      by (auto simp: dirents_spec_def)
    have "dir \<le> dir @ name" by (induction dir) auto
    then have "(dir @ name, v) \<in> set it" using m x(4) by simp
    moreover have "is_child dir (dir @ name)" using x by (auto simp: is_child_iff)
    ultimately have "(dir @ name, v) \<in> set (filter (\<lambda>(k, v). is_child dir k) it)" by simp
    then have "(\<lambda>(k, v). f (drop (length dir) k) (?m v)) (dir @ name, v) \<in> set ?es"
      unfolding set_map by (rule imageI)
    then show "x \<in> set ?es" using x by simp
  qed
  ultimately show ?thesis using it loop by auto
qed

lemma put_no_exist_new:
  assumes "ok db" "val db k = None" "canonical cfg v"
  shows "\<exists>db'. put_no_exist_impl R k v db = (Inr (), db') \<and> ok db' \<and> val db' = (val db)(k \<mapsto> v)"
  using put_new [OF assms] by (simp add: put_no_exist_impl_def cbind_def exists_ok assms)

lemma put_no_exist_old:
  "ok db \<Longrightarrow> val db k = Some w \<Longrightarrow> put_no_exist_impl R k v db = (Inl ExistsException, db)"
  by (simp add: put_no_exist_impl_def cbind_def exists_ok craise_def)

lemma increase_ok:
  assumes "ok db" "val db k = Some (serialize cfg md)" "storable md"
  shows "\<exists>db'. increase_size_impl R k sz app db = (Inr (), db') \<and> ok db' \<and>
    val db' = (val db)(k \<mapsto> serialize cfg
      (md\<lparr>md_size := if app then md_size md + sz else max (md_size md) sz\<rparr>))"
  unfolding increase_size_impl_def
  by (rule merge_ok [OF assms(1)])
    (use FullMergeV2_serialized [OF assms(3), of cfg "[IncreaseSizeOperand sz app]"] in
      \<open>simp add: assms(2) split del: if_split\<close>)

lemma decrease_ok:
  assumes "ok db" "val db k = Some (serialize cfg md)" "storable md"
  shows "\<exists>db'. decrease_size_impl R k sz db = (Inr (), db') \<and> ok db' \<and>
    val db' = (val db)(k \<mapsto> serialize cfg (md\<lparr>md_size := sz\<rparr>))"
  unfolding decrease_size_impl_def
  by (rule merge_ok [OF assms(1)])
    (use FullMergeV2_serialized [OF assms(3), of cfg "[DecreaseSizeOperand sz]"] in
      \<open>simp add: assms(2)\<close>)

lemma dirents_ok:
  assumes "ok db" "scannable cfg (val db) dir"
  shows "\<exists>es. get_dirents_impl cfg R dir db = (Inr es, db) \<and> distinct (map fst es) \<and>
    set es = dirents_spec cfg (val db) dir (\<lambda>name md. (name, S_ISDIR (md_mode md)))"
  using scan_ok [OF assms, of "\<lambda>name md. (name, S_ISDIR (md_mode md))"]
  by (simp add: get_dirents_impl_def)

lemma dirents_extended_ok:
  assumes "ok db" "scannable cfg (val db) dir"
  shows "\<exists>es. get_dirents_extended_impl cfg R dir db = (Inr es, db) \<and> distinct (map fst es) \<and>
    set es = dirents_spec cfg (val db) dir
      (\<lambda>name md. (name, S_ISDIR (md_mode md), md_size md, md_ctime md))"
  using scan_ok [OF assms, of "\<lambda>name md. (name, S_ISDIR (md_mode md), md_size md, md_ctime md)"]
  by (simp add: get_dirents_extended_impl_def)

lemma fc_get_ok: "ok db \<Longrightarrow> get_first_chunk_impl R k db =
  ((case val db k of None \<Rightarrow> Inl NotFoundException | Some v \<Rightarrow> Inr v), db)"
  using get_ok by (simp add: get_first_chunk_impl_def get_impl_def)

lemma fc_exists_ok: "ok db \<Longrightarrow> exists_first_chunk_impl R k db = (Inr (val db k \<noteq> None), db)"
  using exists_ok by (simp add: exists_first_chunk_impl_def exists_impl_def)

lemma fc_put_no_exist_new:
  assumes "ok db" "val db k = None"
  shows "\<exists>db'. put_no_exist_first_chunk_impl R k v db = (Inr (), db') \<and> ok db' \<and>
    val db' = (val db)(k \<mapsto> v)"
  using fc_put_ok [OF assms(1)]
  by (simp add: put_no_exist_first_chunk_impl_def cbind_def fc_exists_ok assms)

lemma fc_put_no_exist_old: "ok db \<Longrightarrow> val db k = Some w \<Longrightarrow>
  put_no_exist_first_chunk_impl R k v db = (Inl ExistsException, db)"
  by (simp add: put_no_exist_first_chunk_impl_def cbind_def fc_exists_ok craise_def)

lemmas backend_ops = remove_impl_def remove_first_chunk_impl_def update_impl_def
  update_first_chunk_impl_def

end

sublocale rocksdb_contract \<subseteq> kv_backend cfg "MetadataBackend cfg R" val ok
  by unfold_locales
    (simp_all add: MetadataBackend_def get_ok exists_ok put_new put_old put_no_exist_new
      put_no_exist_old increase_ok decrease_ok dirents_ok dirents_extended_ok fc_get_ok
      fc_exists_ok fc_put_ok fc_put_no_exist_new fc_put_no_exist_old backend_ops write_ok delete_ok
      split del: if_split)

context rocksdb_contract
begin

lemma backend_contract: "kv_backend cfg (MetadataBackend cfg R) val ok"
  by unfold_locales

end

end
