(* ===== verification/Kv_Reference.thy ===== *)
theory Kv_Reference
  imports Kv_Contract "HOL-Library.AList"
begin

text \<open>
  A store with lazy merging that meets \<open>rocksdb_contract\<close>: an association list from keys to a
  base value and the operands written since. It shows that the contract can be met by a store
  that folds only when it is read (as RocksDB does between compactions), and it is the concrete
  store of the witnesses.
\<close>

type_synonym lazy_store = "(bytes \<times> bytes option \<times> bytes list) list"

definition fold_entry :: "md_config \<Rightarrow> bytes option \<times> bytes list \<Rightarrow> bytes res" where
  "fold_entry cfg e = (case e of
      (Some v, []) \<Rightarrow> Inr v
    | (b, ops) \<Rightarrow> FullMergeV2 cfg b ops)"

fun lazy_write :: "batch_op \<Rightarrow> lazy_store \<Rightarrow> lazy_store" where
  "lazy_write (BatchDelete k) s = AList.delete k s"
| "lazy_write (BatchPut k v) s = AList.update k (Some v, []) s"

definition lazy_merge :: "bytes \<Rightarrow> bytes \<Rightarrow> lazy_store \<Rightarrow> lazy_store" where
  "lazy_merge k op s = AList.update k (case map_of s k of
      None \<Rightarrow> (None, [op])
    | Some (b, ops) \<Rightarrow> (b, ops @ [op])) s"

definition lazy_seek :: "md_config \<Rightarrow> bytes \<Rightarrow> lazy_store \<Rightarrow> (bytes \<times> bytes) list res" where
  "lazy_seek cfg p s = res_map (\<lambda>(k, e). res_bind (fold_entry cfg e) (\<lambda>v. Inr (k, v)))
     (sort_key fst (filter (\<lambda>(k, e). p \<le> k) s))"

definition lazy_rocksdb :: "md_config \<Rightarrow> lazy_store rocksdb" where
  "lazy_rocksdb cfg = \<lparr>
     rdb_Get = (\<lambda>k s. case map_of s k of
        None \<Rightarrow> Inr IsNotFound
      | Some e \<Rightarrow> res_bind (fold_entry cfg e) (\<lambda>v. Inr (Ok v))),
     rdb_Merge = (\<lambda>k op s. (Inr (Ok ()), lazy_merge k op s)),
     rdb_Put = (\<lambda>k v s. (Inr (Ok ()), lazy_write (BatchPut k v) s)),
     rdb_Delete = (\<lambda>k s. (Inr (Ok ()), lazy_write (BatchDelete k) s)),
     rdb_Write = (\<lambda>ops s. (Inr (Ok ()), fold lazy_write ops s)),
     rdb_Seek = (\<lambda>p s. res_bind (lazy_seek cfg p s) (\<lambda>it. Inr (it, True)))\<rparr>"

definition lazy_val :: "md_config \<Rightarrow> lazy_store \<Rightarrow> bytes \<rightharpoonup> bytes" where
  "lazy_val cfg s = (\<lambda>k. case map_of s k of
      None \<Rightarrow> None
    | Some e \<Rightarrow> Some (projr (fold_entry cfg e)))"

definition lazy_ok :: "md_config \<Rightarrow> lazy_store \<Rightarrow> bool" where
  "lazy_ok cfg s = (distinct (map fst s) \<and> list_all (\<lambda>(k, e). \<not> isl (fold_entry cfg e)) s)"

lemma fold_entry_simps [simp]:
  "fold_entry cfg (Some v, []) = Inr v" "fold_entry cfg (None, ops) = FullMergeV2 cfg None ops"
  "ops \<noteq> [] \<Longrightarrow> fold_entry cfg (b, ops) = FullMergeV2 cfg b ops"
  by (auto simp: fold_entry_def split: option.split list.split)

lemma lazy_ok_fold:
  "lazy_ok cfg s \<Longrightarrow> map_of s k = Some e \<Longrightarrow> fold_entry cfg e = Inr (projr (fold_entry cfg e))"
  by (auto simp: lazy_ok_def list_all_iff dest: map_of_SomeD)

lemma lazy_ok_update:
  assumes "lazy_ok cfg s" "fold_entry cfg e = Inr v"
  shows "lazy_ok cfg (AList.update k e s) \<and> lazy_val cfg (AList.update k e s) = (lazy_val cfg s)(k \<mapsto> v)"
proof
  have "set (AList.update k e s) \<subseteq> insert (k, e) (set s)"
    by (induction s) auto
  with assms show "lazy_ok cfg (AList.update k e s)"
    by (auto simp: lazy_ok_def list_all_iff distinct_update)
  show "lazy_val cfg (AList.update k e s) = (lazy_val cfg s)(k \<mapsto> v)"
    using assms(2) by (auto simp: lazy_val_def update_conv')
qed

lemma lazy_ok_delete:
  assumes "lazy_ok cfg s"
  shows "lazy_ok cfg (AList.delete k s) \<and> lazy_val cfg (AList.delete k s) = (lazy_val cfg s)(k := None)"
proof
  have "set (AList.delete k s) \<subseteq> set s" by (auto simp: AList.delete_eq)
  with assms show "lazy_ok cfg (AList.delete k s)"
    by (auto simp: lazy_ok_def list_all_iff distinct_delete)
  show "lazy_val cfg (AList.delete k s) = (lazy_val cfg s)(k := None)"
    by (auto simp: lazy_val_def delete_conv')
qed

lemma lazy_write_ok:
  assumes "lazy_ok cfg s"
  shows "lazy_ok cfg (lazy_write op s) \<and> lazy_val cfg (lazy_write op s) = apply_batch_op op (lazy_val cfg s)"
  using lazy_ok_update [OF assms] lazy_ok_delete [OF assms] by (cases op) simp_all

lemma lazy_writes_ok:
  "lazy_ok cfg s \<Longrightarrow> lazy_ok cfg (fold lazy_write ops s) \<and>
     lazy_val cfg (fold lazy_write ops s) = fold apply_batch_op ops (lazy_val cfg s)"
  by (induction ops arbitrary: s) (simp_all add: lazy_write_ok)

lemma fold_entry_snoc:
  assumes "fold_entry cfg (b, ops) = Inr r" "FullMergeV2 cfg (Some r) [op] = Inr v"
  shows "fold_entry cfg (b, ops @ [op]) = Inr v"
proof (cases "ops = []")
  case True
  then show ?thesis using assms by (cases b) (simp_all add: FullMergeV2_def)
next
  case False
  from assms(2) obtain md where "deserialize cfg r = Inr md"
    by (auto simp: FullMergeV2_base res_bind_eq_Inr)
  with False assms FullMergeV2_split show ?thesis by simp
qed

lemma lazy_merge_ok:
  assumes "lazy_ok cfg s" "FullMergeV2 cfg (lazy_val cfg s k) [op] = Inr v"
  shows "lazy_ok cfg (lazy_merge k op s) \<and> lazy_val cfg (lazy_merge k op s) = (lazy_val cfg s)(k \<mapsto> v)"
  unfolding lazy_merge_def
proof (rule lazy_ok_update [OF assms(1)])
  show "fold_entry cfg (case map_of s k of None \<Rightarrow> (None, [op]) | Some (b, ops) \<Rightarrow> (b, ops @ [op])) = Inr v"
    using assms(2) lazy_ok_fold [OF assms(1), of k]
    by (cases "map_of s k") (auto simp: lazy_val_def simp del: fold_entry_simps(3)
        intro: fold_entry_snoc)
qed

lemma lazy_seek_ok:
  assumes "lazy_ok cfg s"
  shows "\<exists>it. lazy_seek cfg p s = Inr it \<and> sorted (map fst it) \<and> distinct (map fst it) \<and>
    (\<forall>k v. (k, v) \<in> set it \<longleftrightarrow> lazy_val cfg s k = Some v \<and> p \<le> k)"
proof -
  let ?xs = "sort_key fst (filter (\<lambda>(k, e). p \<le> k) s)"
  let ?it = "map (\<lambda>(k, e). (k, projr (fold_entry cfg e))) ?xs"
  have d: "distinct (map fst s)" and f: "\<And>k e. (k, e) \<in> set s \<Longrightarrow> fold_entry cfg e = Inr (projr (fold_entry cfg e))"
    using assms by (auto simp: lazy_ok_def list_all_iff)
  have "lazy_seek cfg p s = Inr ?it"
    unfolding lazy_seek_def
  proof (rule res_map_Inr)
    fix x assume "x \<in> set ?xs"
    then obtain k e where x: "x = (k, e)" "(k, e) \<in> set s" by auto
    show "(case x of (k, e) \<Rightarrow> res_bind (fold_entry cfg e) (\<lambda>v. Inr (k, v))) =
      Inr (case x of (k, e) \<Rightarrow> (k, projr (fold_entry cfg e)))"
      unfolding x(1) prod.case by (subst f [OF x(2)]) simp
  qed
  moreover have keys: "map fst ?it = map fst ?xs" by auto
  moreover have "sorted (map fst ?xs)" by (rule sorted_sort_key)
  moreover have "distinct (map fst ?xs)"
  proof -
    have "distinct (map fst (filter (\<lambda>(k, e). p \<le> k) s))" by (rule distinct_map_filter [OF d])
    then show ?thesis by (simp add: distinct_map)
  qed
  moreover have "(k, v) \<in> set ?it \<longleftrightarrow> lazy_val cfg s k = Some v \<and> p \<le> k" for k v
  proof -
    have "(k, v) \<in> set ?it \<longleftrightarrow> (\<exists>e. (k, e) \<in> set s \<and> p \<le> k \<and> v = projr (fold_entry cfg e))"
      by auto
    also have "\<dots> \<longleftrightarrow> lazy_val cfg s k = Some v \<and> p \<le> k"
      unfolding map_of_eq_Some_iff [OF d, symmetric]
      by (cases "map_of s k") (auto simp: lazy_val_def)
    finally show ?thesis .
  qed
  ultimately show ?thesis by (metis (no_types, lifting))
qed

interpretation lazy: rocksdb_contract cfg "lazy_rocksdb cfg" "lazy_val cfg" "lazy_ok cfg" for cfg
proof unfold_locales
  fix db k assume ok: "lazy_ok cfg db"
  show "rdb_Get (lazy_rocksdb cfg) k db =
      Inr (case lazy_val cfg db k of None \<Rightarrow> IsNotFound | Some v \<Rightarrow> Ok v)"
    using lazy_ok_fold [OF ok, of k]
    by (auto simp: lazy_rocksdb_def lazy_val_def res_bind_eq_Inr split: option.split)
next
  fix db p assume "lazy_ok cfg db"
  from lazy_seek_ok [OF this, of p]
  show "\<exists>it. rdb_Seek (lazy_rocksdb cfg) p db = Inr (it, True) \<and> sorted (map fst it) \<and>
      distinct (map fst it) \<and> (\<forall>k v. (k, v) \<in> set it \<longleftrightarrow> lazy_val cfg db k = Some v \<and> p \<le> k)"
    by (auto simp: lazy_rocksdb_def)
qed (simp_all add: lazy_rocksdb_def lazy_merge_ok lazy_writes_ok lazy_write_ok
    del: lazy_write.simps)

end
