(* ===== verification/Metadata_Db.thy ===== *)
theory Metadata_Db
  imports Kv_Reference
begin

text \<open>
  \<open>daemon/backend/metadata/db.cpp\<close>: \<open>MetadataDB\<close>, the daemon's metadata store over an abstract
  backend \<open>B\<close>. Metadata is kept under the path itself and the first chunk under the path with
  an \<open>f\<close> in front of it; a metadata key starts with a separator, so the two never meet.
\<close>

section \<open>MetadataDB\<close>

definition key_assert :: "path \<Rightarrow> ('db, unit) cmd" where
  "key_assert k = cbind (cassert (is_absolute k))
     (\<lambda>_. cassert (k = [separator] \<or> \<not> has_trailing_slash k))"

definition mdb_get :: "'db metadata_backend \<Rightarrow> path \<Rightarrow> ('db, bytes) cmd" where
  "mdb_get B k = be_get B k"

definition mdb_put :: "'db metadata_backend \<Rightarrow> path \<Rightarrow> bytes \<Rightarrow> ('db, unit) cmd" where
  "mdb_put B k v = cbind (key_assert k) (\<lambda>_. be_put B k v)"

definition mdb_put_no_exist :: "'db metadata_backend \<Rightarrow> path \<Rightarrow> bytes \<Rightarrow> ('db, unit) cmd" where
  "mdb_put_no_exist B k v = cbind (key_assert k) (\<lambda>_. be_put_no_exist B k v)"

definition mdb_remove :: "'db metadata_backend \<Rightarrow> path \<Rightarrow> ('db, unit) cmd" where
  "mdb_remove B k = be_remove B k"

definition mdb_exists :: "'db metadata_backend \<Rightarrow> path \<Rightarrow> ('db, bool) cmd" where
  "mdb_exists B k = be_exists B k"

definition mdb_increase_size :: "'db metadata_backend \<Rightarrow> path \<Rightarrow> u64 \<Rightarrow> bool \<Rightarrow> ('db, unit) cmd" where
  "mdb_increase_size B k sz app = be_increase_size B k sz app"

definition mdb_decrease_size :: "'db metadata_backend \<Rightarrow> path \<Rightarrow> u64 \<Rightarrow> ('db, unit) cmd" where
  "mdb_decrease_size B k sz = be_decrease_size B k sz"

definition mdb_update :: "'db metadata_backend \<Rightarrow> path \<Rightarrow> path \<Rightarrow> bytes \<Rightarrow> ('db, unit) cmd" where
  "mdb_update B old_key new_key v = be_update B old_key new_key v"

text \<open>The directory prefix of \<open>get_dirents\<close> and \<open>get_dirents_extended\<close>.\<close>

definition dirents_root :: "path \<Rightarrow> path" where
  "dirents_root dir =
    (if \<not> has_trailing_slash dir \<and> length dir \<noteq> 1 then dir @ [separator] else dir)"

definition mdb_get_dirents :: "'db metadata_backend \<Rightarrow> path \<Rightarrow> ('db, (string \<times> bool) list) cmd" where
  "mdb_get_dirents B dir =
    cbind (cassert (is_absolute dir)) (\<lambda>_. be_get_dirents B (dirents_root dir))"

definition mdb_get_dirents_extended ::
    "'db metadata_backend \<Rightarrow> path \<Rightarrow> ('db, (string \<times> bool \<times> u64 \<times> u64) list) cmd" where
  "mdb_get_dirents_extended B dir =
    cbind (cassert (is_absolute dir)) (\<lambda>_. be_get_dirents_extended B (dirents_root dir))"

definition first_chunk_key :: "path \<Rightarrow> bytes" where
  "first_chunk_key k = CHR ''f'' # k"

definition mdb_get_first_chunk :: "'db metadata_backend \<Rightarrow> path \<Rightarrow> ('db, bytes) cmd" where
  "mdb_get_first_chunk B k = be_get_first_chunk B (first_chunk_key k)"

definition mdb_put_first_chunk :: "'db metadata_backend \<Rightarrow> path \<Rightarrow> bytes \<Rightarrow> ('db, unit) cmd" where
  "mdb_put_first_chunk B k v =
    cbind (key_assert k) (\<lambda>_. be_put_first_chunk B (first_chunk_key k) v)"

definition mdb_put_no_exist_first_chunk ::
    "'db metadata_backend \<Rightarrow> path \<Rightarrow> bytes \<Rightarrow> ('db, unit) cmd" where
  "mdb_put_no_exist_first_chunk B k v =
    cbind (key_assert k) (\<lambda>_. be_put_no_exist_first_chunk B (first_chunk_key k) v)"

definition mdb_remove_first_chunk :: "'db metadata_backend \<Rightarrow> path \<Rightarrow> ('db, unit) cmd" where
  "mdb_remove_first_chunk B k = be_remove_first_chunk B (first_chunk_key k)"

definition mdb_exists_first_chunk :: "'db metadata_backend \<Rightarrow> path \<Rightarrow> ('db, bool) cmd" where
  "mdb_exists_first_chunk B k = be_exists_first_chunk B (first_chunk_key k)"

definition mdb_update_first_chunk ::
    "'db metadata_backend \<Rightarrow> path \<Rightarrow> path \<Rightarrow> bytes \<Rightarrow> ('db, unit) cmd" where
  "mdb_update_first_chunk B old_key new_key v =
    be_update_first_chunk B (first_chunk_key old_key) (first_chunk_key new_key) v"

section \<open>Keys\<close>

text \<open>The keys the assertions let through.\<close>

definition valid_key :: "path \<Rightarrow> bool" where
  "valid_key k = (is_absolute k \<and> (k = [separator] \<or> \<not> has_trailing_slash k))"

lemma key_assert_ok [simp]: "valid_key k \<Longrightarrow> key_assert k db = (Inr (), db)"
  by (simp add: key_assert_def valid_key_def cmd_simps)

lemma key_assert_fail: "\<not> valid_key k \<Longrightarrow> key_assert k db = (Inl Abort, db)"
  by (simp add: key_assert_def valid_key_def cmd_simps assert_res_def)

lemma normal_path_valid_key: "normal_path p \<Longrightarrow> valid_key p"
  using normal_path_absolute normal_path_no_trailing by (auto simp: valid_key_def)

lemma first_chunk_key_neq [simp]:
  "is_absolute p \<Longrightarrow> first_chunk_key q \<noteq> p" "is_absolute p \<Longrightarrow> p \<noteq> first_chunk_key q"
  by (auto simp: is_absolute_def first_chunk_key_def separator_def)

lemma first_chunk_key_inject [simp]: "first_chunk_key p = first_chunk_key q \<longleftrightarrow> p = q"
  by (simp add: first_chunk_key_def)

lemma valid_key_absolute [simp]: "valid_key p \<Longrightarrow> is_absolute p"
  by (simp add: valid_key_def)

text \<open>The prefix scanned for a directory, and the paths of its entries.\<close>

definition child_path :: "path \<Rightarrow> string \<Rightarrow> path" where
  "child_path dir name = (if dir = [separator] then dir else dir @ [separator]) @ name"

lemma dirents_root_child: "valid_key dir \<Longrightarrow> dirents_root dir @ name = child_path dir name"
  by (cases dir) (auto simp: dirents_root_def child_path_def valid_key_def is_absolute_def
      has_trailing_slash_def split: if_splits)

section \<open>The well-formed store\<close>

text \<open>Under every absolute key there is a serialized entry. It is an invariant of the store:
  every operation of \<open>MetadataDB\<close> keeps it.\<close>

definition wf_map :: "md_config \<Rightarrow> (bytes \<rightharpoonup> bytes) \<Rightarrow> bool" where
  "wf_map cfg m = (\<forall>k v. is_absolute k \<longrightarrow> m k = Some v \<longrightarrow> canonical cfg v)"

lemma wf_map_canonical: "wf_map cfg m \<Longrightarrow> is_absolute k \<Longrightarrow> m k = Some v \<Longrightarrow> canonical cfg v"
  by (auto simp: wf_map_def)

lemma wf_map_upd: "wf_map cfg m \<Longrightarrow> canonical cfg v \<Longrightarrow> wf_map cfg (m(k \<mapsto> v))"
  by (auto simp: wf_map_def)

lemma wf_map_del: "wf_map cfg m \<Longrightarrow> wf_map cfg (m(k := None))"
  by (auto simp: wf_map_def)

lemma wf_map_first_chunk: "wf_map cfg m \<Longrightarrow> wf_map cfg (m(first_chunk_key k := v))"
  by (auto simp: wf_map_def)

lemma canonical_serialize: "storable md \<Longrightarrow> canonical cfg (serialize cfg md)"
  by (auto simp: canonical_def)

lemma wf_map_scannable: "wf_map cfg m \<Longrightarrow> is_absolute dir \<Longrightarrow> scannable cfg m dir"
  by (auto simp: wf_map_def scannable_def is_child_iff is_absolute_def hd_append)

context kv_backend
begin

definition usable :: "'db \<Rightarrow> bool" where
  "usable db \<longleftrightarrow> ok db \<and> wf_map cfg (val db)"

lemma mdb_get_ok: "usable db \<Longrightarrow>
  mdb_get B k db = ((case val db k of None \<Rightarrow> Inl NotFoundException | Some v \<Rightarrow> Inr v), db)"
  by (simp add: mdb_get_def be_get usable_def)

lemma mdb_exists_ok: "usable db \<Longrightarrow> mdb_exists B k db = (Inr (val db k \<noteq> None), db)"
  by (simp add: mdb_exists_def be_exists usable_def)

lemma mdb_put_no_exist_new:
  assumes "usable db" "valid_key k" "val db k = None" "storable md"
  shows "\<exists>db'. mdb_put_no_exist B k (serialize cfg md) db = (Inr (), db') \<and> usable db' \<and>
    val db' = (val db)(k \<mapsto> serialize cfg md)"
  using be_put_no_exist_new [of db k "serialize cfg md"] assms
  by (auto simp: mdb_put_no_exist_def cmd_simps usable_def canonical_serialize wf_map_upd)

lemma mdb_put_no_exist_old:
  "usable db \<Longrightarrow> valid_key k \<Longrightarrow> val db k = Some w \<Longrightarrow>
   mdb_put_no_exist B k v db = (Inl ExistsException, db)"
  by (simp add: mdb_put_no_exist_def cmd_simps usable_def be_put_no_exist_old)

lemma mdb_put_old:
  assumes "usable db" "valid_key k" "val db k = Some w"
  shows "\<exists>db'. mdb_put B k v db = (Inr (), db') \<and> usable db' \<and> val db' = val db"
  using be_put_old [of db k w v] wf_map_canonical [of cfg "val db" k w] assms
  by (auto simp: mdb_put_def cmd_simps usable_def)

lemma mdb_remove_ok:
  assumes "usable db"
  shows "\<exists>db'. mdb_remove B k db = (Inr (), db') \<and> usable db' \<and> val db' = (val db)(k := None)"
  using be_remove [of db k] assms by (auto simp: mdb_remove_def usable_def wf_map_del)

lemma mdb_update_ok:
  assumes "usable db" "storable md"
  shows "\<exists>db'. mdb_update B k k' (serialize cfg md) db = (Inr (), db') \<and> usable db' \<and>
    val db' = (val db)(k := None, k' \<mapsto> serialize cfg md)"
  using be_update [of db k k' "serialize cfg md"] assms
  by (auto simp: mdb_update_def usable_def wf_map_del wf_map_upd canonical_serialize)

lemma storable_resize: "storable md \<Longrightarrow> unat n < 2 ^ 63 \<Longrightarrow> storable (md\<lparr>md_size := n\<rparr>)"
  by (simp add: storable_def)

lemma mdb_increase_size_ok:
  assumes "usable db" "val db k = Some (serialize cfg md)" "storable md"
    "n = (if app then md_size md + sz else max (md_size md) sz)" "unat n < 2 ^ 63"
  shows "\<exists>db'. mdb_increase_size B k sz app db = (Inr (), db') \<and> usable db' \<and>
    val db' = (val db)(k \<mapsto> serialize cfg (md\<lparr>md_size := n\<rparr>))"
  using be_increase_size [of db k md sz app] assms(1-3)
    wf_map_upd [OF _ canonical_serialize [OF storable_resize [OF assms(3,5)]], of cfg "val db" k]
  unfolding mdb_increase_size_def usable_def assms(4) [symmetric] by metis

lemma mdb_decrease_size_ok:
  assumes "usable db" "val db k = Some (serialize cfg md)" "storable md" "unat n < 2 ^ 63"
  shows "\<exists>db'. mdb_decrease_size B k n db = (Inr (), db') \<and> usable db' \<and>
    val db' = (val db)(k \<mapsto> serialize cfg (md\<lparr>md_size := n\<rparr>))"
  using be_decrease_size [of db k md n] assms(1-3)
    wf_map_upd [OF _ canonical_serialize [OF storable_resize [OF assms(3,4)]], of cfg "val db" k]
  unfolding mdb_decrease_size_def usable_def by metis

lemma mdb_get_first_chunk_ok: "usable db \<Longrightarrow> mdb_get_first_chunk B k db =
  ((case val db (first_chunk_key k) of None \<Rightarrow> Inl NotFoundException | Some v \<Rightarrow> Inr v), db)"
  by (simp add: mdb_get_first_chunk_def be_get_first_chunk usable_def)

lemma mdb_exists_first_chunk_ok:
  "usable db \<Longrightarrow> mdb_exists_first_chunk B k db = (Inr (val db (first_chunk_key k) \<noteq> None), db)"
  by (simp add: mdb_exists_first_chunk_def be_exists_first_chunk usable_def)

lemma mdb_put_no_exist_first_chunk_new:
  assumes "usable db" "valid_key k" "val db (first_chunk_key k) = None"
  shows "\<exists>db'. mdb_put_no_exist_first_chunk B k v db = (Inr (), db') \<and> usable db' \<and>
    val db' = (val db)(first_chunk_key k \<mapsto> v)"
  using be_put_no_exist_first_chunk_new [of db "first_chunk_key k" v] assms
  by (auto simp: mdb_put_no_exist_first_chunk_def cmd_simps usable_def wf_map_first_chunk)

lemma mdb_update_first_chunk_ok:
  assumes "usable db"
  shows "\<exists>db'. mdb_update_first_chunk B k k' v db = (Inr (), db') \<and> usable db' \<and>
    val db' = (val db)(first_chunk_key k := None, first_chunk_key k' \<mapsto> v)"
  using be_update_first_chunk [of db "first_chunk_key k" "first_chunk_key k'" v] assms
    wf_map_first_chunk [of cfg "(val db)(first_chunk_key k := None)" k' "Some v"]
    wf_map_first_chunk [of cfg "val db" k None]
  by (auto simp: mdb_update_first_chunk_def usable_def)

lemma mdb_remove_first_chunk_ok:
  assumes "usable db"
  shows "\<exists>db'. mdb_remove_first_chunk B k db = (Inr (), db') \<and> usable db' \<and>
    val db' = (val db)(first_chunk_key k := None)"
  using be_remove_first_chunk [of db "first_chunk_key k"] assms wf_map_first_chunk [of cfg "val db" k None]
  by (auto simp: mdb_remove_first_chunk_def usable_def)

lemma mdb_get_dirents_ok:
  assumes "usable db" "valid_key dir"
  shows "\<exists>es. mdb_get_dirents B dir db = (Inr es, db) \<and> distinct (map fst es) \<and>
    set es = {(name, S_ISDIR (md_mode md)) | name md v. name \<noteq> [] \<and> separator \<notin> set name \<and>
      val db (child_path dir name) = Some v \<and> deserialize cfg v = Inr md}"
proof -
  have "is_absolute (dirents_root dir)"
    using assms(2) by (auto simp: dirents_root_def is_absolute_def hd_append dest: valid_key_absolute)
  then have "scannable cfg (val db) (dirents_root dir)"
    using assms(1) by (simp add: usable_def wf_map_scannable)
  from be_get_dirents [OF _ this] show ?thesis
    using assms by (auto simp: mdb_get_dirents_def usable_def cmd_simps dirents_spec_def
        dirents_root_child valid_key_def)
qed

end

end
