(* ===== verification/Chunk_Storage.thy ===== *)
theory Chunk_Storage
  imports Config Path_Util "HOL-Library.AList"
begin

text \<open>
  \<open>daemon/backend/data/chunk_storage.cpp\<close>: chunks as files of the daemon's local file system,
  one directory per GaoFS file and one file per chunk. The local file system is the part of the
  state below: directories with their entries, and a script of outcomes for the coming system
  calls (short transfers and errors), empty when the remaining calls succeed completely. A
  descriptor is the pair of directory and file name it was opened on.
\<close>

section \<open>The local file system\<close>

text \<open>The outcome of one system call: complete, a short transfer of at most that many bytes, or
  an error.\<close>

datatype sys_outcome = Full | Short nat | Fail errno

record chunk_storage =
  root_path :: path
  st_chunksize :: u64
  st_dirs :: "path \<rightharpoonup> (string \<times> bytes) list"
  st_script :: "sys_outcome list"
  st_bsize :: u64
  st_blocks :: u64
  st_bavail :: u64

definition pop_outcome :: "(chunk_storage, sys_outcome) cmd" where
  "pop_outcome = (\<lambda>st. case st_script st of
      [] \<Rightarrow> (Inr Full, st)
    | o1 # os \<Rightarrow> (Inr o1, st\<lparr>st_script := os\<rparr>))"

text \<open>\<open>mkdir\<close>: None on success, the \<open>errno\<close> otherwise.\<close>

definition sys_mkdir :: "path \<Rightarrow> (chunk_storage, errno option) cmd" where
  "sys_mkdir d = cbind pop_outcome (\<lambda>r. \<lambda>st. case r of
      Fail e \<Rightarrow> (Inr (Some e), st)
    | _ \<Rightarrow> (case st_dirs st d of
        Some _ \<Rightarrow> (Inr (Some EEXIST), st)
      | None \<Rightarrow> (Inr None, st\<lparr>st_dirs := (st_dirs st)(d \<mapsto> [])\<rparr>)))"

text \<open>A path names the file behind its last separator in the directory before it.\<close>

definition dir_file :: "path \<Rightarrow> path \<times> string" where
  "dir_file p = (case find_last_of separator p of
      None \<Rightarrow> ([], p)
    | Some n \<Rightarrow> (take n p, drop (Suc n) p))"

definition file_content :: "chunk_storage \<Rightarrow> path \<times> string \<Rightarrow> bytes option" where
  "file_content st f = (case st_dirs st (fst f) of None \<Rightarrow> None | Some es \<Rightarrow> map_of es (snd f))"

definition put_file :: "path \<times> string \<Rightarrow> bytes \<Rightarrow> chunk_storage \<Rightarrow> chunk_storage" where
  "put_file f c st = (case st_dirs st (fst f) of
      None \<Rightarrow> st
    | Some es \<Rightarrow> st\<lparr>st_dirs := (st_dirs st)(fst f \<mapsto> AList.update (snd f) c es)\<rparr>)"

definition sys_open ::
    "path \<Rightarrow> bool \<Rightarrow> (chunk_storage, errno + (path \<times> string)) cmd" where
  "sys_open p create = cbind pop_outcome (\<lambda>r. \<lambda>st.
    let f = dir_file p in
    case r of
      Fail e \<Rightarrow> (Inr (Inl e), st)
    | _ \<Rightarrow> (case file_content st f of
        Some _ \<Rightarrow> (Inr (Inr f), st)
      | None \<Rightarrow> if create \<and> st_dirs st (fst f) \<noteq> None then (Inr (Inr f), put_file f [] st)
                else (Inr (Inl ENOENT), st)))"

text \<open>\<open>pwrite\<close> of the bytes \<open>b\<close> into the content \<open>c\<close>: a gap is filled with zeros, and no bytes
  change nothing.\<close>

definition pwrite_at :: "nat \<Rightarrow> bytes \<Rightarrow> bytes \<Rightarrow> bytes" where
  "pwrite_at off b c = (if b = [] then c else
     overwrite off b (if length c < off + length b then resize (off + length b) c else c))"

definition sys_unlink :: "path \<times> string \<Rightarrow> (chunk_storage, errno option) cmd" where
  "sys_unlink f = cbind pop_outcome (\<lambda>r. \<lambda>st. case r of
      Fail e \<Rightarrow> (Inr (Some e), st)
    | _ \<Rightarrow> (case st_dirs st (fst f) of
        None \<Rightarrow> (Inr (Some ENOENT), st)
      | Some es \<Rightarrow> if map_of es (snd f) = None then (Inr (Some ENOENT), st)
          else (Inr None, st\<lparr>st_dirs := (st_dirs st)(fst f \<mapsto> AList.delete (snd f) es)\<rparr>)))"

definition sys_truncate :: "path \<Rightarrow> nat \<Rightarrow> (chunk_storage, errno option) cmd" where
  "sys_truncate p len = cbind pop_outcome (\<lambda>r. \<lambda>st. case r of
      Fail e \<Rightarrow> (Inr (Some e), st)
    | _ \<Rightarrow> (case file_content st (dir_file p) of
        None \<Rightarrow> (Inr (Some ENOENT), st)
      | Some c \<Rightarrow> (Inr None, put_file (dir_file p) (resize len c) st)))"

section \<open>ChunkStorage\<close>

definition absolute :: "path \<Rightarrow> path \<Rightarrow> path res" where
  "absolute root internal_path =
    res_bind (assert_res (is_relative internal_path)) (\<lambda>_.
      Inr (root @ [separator] @ internal_path))"

definition get_chunks_dir :: "path \<Rightarrow> path res" where
  "get_chunks_dir file_path =
    res_bind (assert_res (is_absolute file_path)) (\<lambda>_.
      Inr (map (\<lambda>c. if c = separator then CHR '':'' else c) (drop 1 file_path)))"

definition get_chunk_path :: "path \<Rightarrow> u64 \<Rightarrow> path res" where
  "get_chunk_path file_path chunk_id =
    res_bind (get_chunks_dir file_path) (\<lambda>d. Inr (d @ [separator] @ dec (unat chunk_id)))"

text \<open>\<open>absolute(get_chunks_dir(file_path))\<close> and \<open>absolute(get_chunk_path(file_path, chunk_id))\<close>.\<close>

definition chunk_dir_of :: "path \<Rightarrow> (chunk_storage, path) cmd" where
  "chunk_dir_of file_path = (\<lambda>st.
    (res_bind (get_chunks_dir file_path) (absolute (root_path st)), st))"

definition chunk_path_of :: "path \<Rightarrow> u64 \<Rightarrow> (chunk_storage, path) cmd" where
  "chunk_path_of file_path chunk_id = (\<lambda>st.
    (res_bind (get_chunk_path file_path chunk_id) (absolute (root_path st)), st))"

definition init_chunk_space :: "path \<Rightarrow> (chunk_storage, unit) cmd" where
  "init_chunk_space file_path =
    cbind (chunk_dir_of file_path) (\<lambda>chunk_dir.
    cbind (sys_mkdir chunk_dir) (\<lambda>err. case err of
      None \<Rightarrow> cret ()
    | Some e \<Rightarrow> if e = EEXIST then cret () else craise (ChunkStorageException e)))"

text \<open>\<open>fs::remove_all\<close> of a missing directory removes nothing and succeeds; its
  \<open>filesystem_error\<close> becomes a \<open>ChunkStorageException\<close>.\<close>

definition destroy_chunk_space :: "path \<Rightarrow> (chunk_storage, unit) cmd" where
  "destroy_chunk_space file_path =
    cbind (chunk_dir_of file_path) (\<lambda>chunk_dir.
    cbind pop_outcome (\<lambda>r. \<lambda>st. case r of
      Fail e \<Rightarrow> (Inl (ChunkStorageException e), st)
    | _ \<Rightarrow> (Inr (), st\<lparr>st_dirs := (st_dirs st)(chunk_dir := None)\<rparr>)))"

text \<open>The \<open>do ... while\<close> of \<open>write_chunk\<close> on the script, the file's content and \<open>wrote_total\<close>.
  After a retryable error \<open>continue\<close> goes to the loop's condition.\<close>

definition retryable :: "errno \<Rightarrow> bool" where
  "retryable e = (e = EINTR \<or> e = EAGAIN)"

fun write_loop ::
    "bytes \<Rightarrow> nat \<Rightarrow> nat \<Rightarrow> sys_outcome list \<Rightarrow> bytes \<Rightarrow> nat \<Rightarrow> nat res \<times> bytes \<times> sys_outcome list" where
  "write_loop buf sz off [] c wrote_total =
     (Inr sz, pwrite_at (off + wrote_total) (take (sz - wrote_total) (drop wrote_total buf)) c, [])"
| "write_loop buf sz off (r # os) c wrote_total =
     (case r of
        Fail e \<Rightarrow>
          if retryable e then
            (if wrote_total \<noteq> sz then write_loop buf sz off os c wrote_total
             else (Inr wrote_total, c, os))
          else (Inl (ChunkStorageException e), c, os)
      | _ \<Rightarrow>
          let wrote = (case r of Short n \<Rightarrow> min n (sz - wrote_total) | _ \<Rightarrow> sz - wrote_total);
              c' = pwrite_at (off + wrote_total) (take wrote (drop wrote_total buf)) c;
              wrote_total' = wrote_total + wrote
          in if wrote_total' \<noteq> sz then write_loop buf sz off os c' wrote_total'
             else (Inr wrote_total', c', os))"

definition write_chunk ::
    "path \<Rightarrow> u64 \<Rightarrow> bytes \<Rightarrow> u64 \<Rightarrow> u64 \<Rightarrow> (chunk_storage, int) cmd" where
  "write_chunk file_path chunk_id buf sz offset =
    cbind (cget st_chunksize) (\<lambda>chunk_sz.
    cbind (cassert (offset + sz \<le> chunk_sz)) (\<lambda>_.
    cbind (init_chunk_space file_path) (\<lambda>_.
    cbind (chunk_path_of file_path chunk_id) (\<lambda>chunk_path.
    cbind (sys_open chunk_path True) (\<lambda>fh. case fh of
      Inl e \<Rightarrow> craise (ChunkStorageException e)
    | Inr f \<Rightarrow> (\<lambda>st. case file_content st f of
          None \<Rightarrow> (Inl Abort, st)
        | Some c \<Rightarrow>
            (case write_loop buf (unat sz) (unat offset) (st_script st) c 0 of (r, c', os) \<Rightarrow>
               (res_bind r (\<lambda>n. Inr (int n)), put_file f c' (st\<lparr>st_script := os\<rparr>)))))))))"

text \<open>The \<open>do ... while\<close> of \<open>read_chunk\<close>. \<open>read\<close> is unsigned, so the test \<open>read < 0\<close> is never
  true: an error counts as \<open>-1\<close> byte and the loop goes on one position further left. At a
  negative position every \<open>pread64\<close> fails with \<open>EINVAL\<close>, and bytes that arrive while
  \<open>read_total\<close> is negative are written in front of the buffer. The result is the bytes read
  into \<open>buf\<close> with \<open>read_total\<close>; None when the loop never ends.\<close>

definition pread_bytes :: "sys_outcome \<Rightarrow> bytes \<Rightarrow> nat \<Rightarrow> nat \<Rightarrow> bytes" where
  "pread_bytes r c pos n = (case r of
      Short k \<Rightarrow> take (min k n) (drop pos c)
    | _ \<Rightarrow> take n (drop pos c))"

partial_function (option) read_loop ::
    "bytes \<Rightarrow> nat \<Rightarrow> nat \<Rightarrow> sys_outcome list \<Rightarrow> bytes \<Rightarrow> int \<Rightarrow>
     ((bytes \<times> int) res \<times> sys_outcome list) option" where
  "read_loop c sz off script buf read_total =
     (let r = (case script of [] \<Rightarrow> Full | o1 # _ \<Rightarrow> o1);
          os = (case script of [] \<Rightarrow> [] | _ # os \<Rightarrow> os);
          pos = int off + read_total
      in case (if pos < 0 then Fail EINVAL else r) of
           Fail _ \<Rightarrow>
             (if read_total - 1 \<noteq> int sz then read_loop c sz off os buf (read_total - 1)
              else Some (Inr (buf, read_total - 1), os))
         | _ \<Rightarrow>
             (let got = pread_bytes r c (nat pos) (nat (int sz - read_total))
              in if got = [] then Some (Inr (buf, read_total), os)
                 else if read_total < 0 then Some (Inl Abort, os)
                 else let buf' = overwrite (nat read_total) got buf;
                          read_total' = read_total + int (length got)
                      in if read_total' \<noteq> int sz then read_loop c sz off os buf' read_total'
                         else Some (Inr (buf', read_total'), os)))"

text \<open>The bytes at \<open>buf\<close> come back with the count; \<open>buf\<close> has room for \<open>size\<close> of them.\<close>

definition read_chunk ::
    "path \<Rightarrow> u64 \<Rightarrow> bytes \<Rightarrow> u64 \<Rightarrow> u64 \<Rightarrow> (chunk_storage, bytes \<times> int) cmd" where
  "read_chunk file_path chunk_id buf sz offset =
    cbind (cget st_chunksize) (\<lambda>chunk_sz.
    cbind (cassert (offset + sz \<le> chunk_sz)) (\<lambda>_.
    cbind (chunk_path_of file_path chunk_id) (\<lambda>chunk_path.
    cbind (sys_open chunk_path False) (\<lambda>fh. case fh of
      Inl e \<Rightarrow> craise (ChunkStorageException e)
    | Inr f \<Rightarrow> (\<lambda>st. case file_content st f of
          None \<Rightarrow> (Inl Abort, st)
        | Some c \<Rightarrow>
            (case read_loop c (unat sz) (unat offset) (st_script st) buf 0 of
               None \<Rightarrow> (Inl Hang, st)
             | Some (r, os) \<Rightarrow> (r, st\<lparr>st_script := os\<rparr>)))))))"

text \<open>The loop over the directory entries; \<open>directory_iterator\<close> throws a \<open>filesystem_error\<close>
  (a \<open>system_error\<close>) on a directory that does not exist.\<close>

fun trim_loop :: "path \<Rightarrow> u64 \<Rightarrow> bool \<Rightarrow> string list \<Rightarrow> (chunk_storage, bool) cmd" where
  "trim_loop chunk_dir chunk_start err_flag [] = cret err_flag"
| "trim_loop chunk_dir chunk_start err_flag (name # names) =
     cbind (clift (stoul name)) (\<lambda>(chunk_id, _).
       if chunk_id \<ge> chunk_start then
         cbind (sys_unlink (chunk_dir, name)) (\<lambda>err.
           trim_loop chunk_dir chunk_start
             (err_flag \<or> (case err of None \<Rightarrow> False | Some e \<Rightarrow> e \<noteq> ENOENT)) names)
       else trim_loop chunk_dir chunk_start err_flag names)"

definition trim_chunk_space :: "path \<Rightarrow> u64 \<Rightarrow> (chunk_storage, unit) cmd" where
  "trim_chunk_space file_path chunk_start =
    cbind (chunk_dir_of file_path) (\<lambda>chunk_dir.
    cbind (cget (\<lambda>st. st_dirs st chunk_dir)) (\<lambda>d. case d of
      None \<Rightarrow> craise (SystemError ENOENT)
    | Some es \<Rightarrow>
        cbind (trim_loop chunk_dir chunk_start False (map fst es)) (\<lambda>err_flag.
          if err_flag then craise (ChunkStorageException EIO) else cret ())))"

definition truncate_chunk_file :: "path \<Rightarrow> u64 \<Rightarrow> u64 \<Rightarrow> (chunk_storage, unit) cmd" where
  "truncate_chunk_file file_path chunk_id len =
    cbind (chunk_path_of file_path chunk_id) (\<lambda>chunk_path.
    cbind (cget st_chunksize) (\<lambda>chunk_sz.
    cbind (cassert (sint len > 0 \<and> len \<le> chunk_sz)) (\<lambda>_.
    cbind (sys_truncate chunk_path (unat len)) (\<lambda>err. case err of
      None \<Rightarrow> cret ()
    | Some e \<Rightarrow> craise (ChunkStorageException e)))))"

text \<open>The three fields of \<open>ChunkStat\<close>.\<close>

definition chunk_stat :: "(chunk_storage, u64 \<times> u64 \<times> u64) cmd" where
  "chunk_stat = cbind pop_outcome (\<lambda>r. \<lambda>st. case r of
      Fail e \<Rightarrow> (Inl (ChunkStorageException e), st)
    | _ \<Rightarrow>
      let bytes_total = st_bsize st * st_blocks st; bytes_free = st_bsize st * st_bavail st
      in (Inr (st_chunksize st, bytes_total div st_chunksize st, bytes_free div st_chunksize st), st))"

section \<open>Contents\<close>

text \<open>The file of a chunk; the content of all files is \<open>file_content st\<close>.\<close>

definition chunk_dir :: "chunk_storage \<Rightarrow> path \<Rightarrow> path" where
  "chunk_dir st p = root_path st @ separator # map (\<lambda>c. if c = separator then CHR '':'' else c) (drop 1 p)"

definition chunk_file :: "chunk_storage \<Rightarrow> path \<Rightarrow> u64 \<Rightarrow> path \<times> string" where
  "chunk_file st p c = (chunk_dir st p, dec (unat c))"

text \<open>The paths the assertions of the storage let through.\<close>

definition file_path_ok :: "path \<Rightarrow> bool" where
  "file_path_ok p = (is_absolute p \<and> length p > 1)"

lemma chunk_dir_of_ok: "file_path_ok p \<Longrightarrow> chunk_dir_of p st = (Inr (chunk_dir st p), st)"
  by (cases p) (auto simp: chunk_dir_of_def get_chunks_dir_def absolute_def is_relative_def
      file_path_ok_def chunk_dir_def is_absolute_def separator_def hd_map)

lemma chunk_dir_of_fail: "\<not> file_path_ok p \<Longrightarrow> chunk_dir_of p st = (Inl Abort, st)"
  by (cases p) (auto simp: chunk_dir_of_def get_chunks_dir_def absolute_def is_relative_def
      file_path_ok_def is_absolute_def assert_res_def)

lemma chunk_path_of_ok: "file_path_ok p \<Longrightarrow>
  chunk_path_of p c st = (Inr (chunk_dir st p @ separator # dec (unat c)), st)"
  by (cases p) (auto simp: chunk_path_of_def get_chunk_path_def get_chunks_dir_def absolute_def
      is_relative_def file_path_ok_def chunk_dir_def is_absolute_def separator_def hd_map hd_append)

lemma dir_file_chunk [simp]:
  "dir_file (chunk_dir st p @ separator # dec (unat c)) = chunk_file st p c"
  by (simp add: dir_file_def chunk_file_def
      find_last_of_append [OF dec_no_special(2) [folded separator_def]])

lemma chunk_file_inject [simp]:
  "chunk_file st p c = chunk_file st p d \<longleftrightarrow> c = d"
  by (simp add: chunk_file_def word_unat_eq_iff)

lemma chunk_dir_root: "root_path st' = root_path st \<Longrightarrow> chunk_dir st' p = chunk_dir st p"
  by (simp add: chunk_dir_def)

lemma chunk_file_root: "root_path st' = root_path st \<Longrightarrow> chunk_file st' p c = chunk_file st p c"
  by (simp add: chunk_file_def chunk_dir_def)

lemma file_content_put_file:
  "st_dirs st (fst f) \<noteq> None \<Longrightarrow> file_content (put_file f c st) = (file_content st)(f \<mapsto> c)"
  by (rule ext) (auto simp: file_content_def put_file_def prod_eq_iff update_conv' split: option.splits)

lemma put_file_sel [simp]:
  "root_path (put_file f c st) = root_path st" "st_chunksize (put_file f c st) = st_chunksize st"
  "st_script (put_file f c st) = st_script st"
  by (auto simp: put_file_def split: option.split)

lemma file_content_script [simp]: "file_content (st\<lparr>st_script := os\<rparr>) = file_content st"
  by (rule ext) (simp add: file_content_def)

lemma file_content_dir: "file_content st f = Some c \<Longrightarrow> st_dirs st (fst f) \<noteq> None"
  by (auto simp: file_content_def split: option.splits)

section \<open>The write loop\<close>

lemma pwrite_at_eq:
  "pwrite_at off b c = (if b = [] then c else
     take off c @ replicate (off - length c) NUL @ b @ drop (off + length b) c)"
  by (auto simp: pwrite_at_def overwrite_def resize_def)

lemma pwrite_at_Nil [simp]: "pwrite_at off [] c = c"
  by (simp add: pwrite_at_def)

lemma pwrite_at_append: "pwrite_at (off + length a) b (pwrite_at off a c) = pwrite_at off (a @ b) c"
proof (cases "a = []")
  case False
  have "min (length c) off + (off - length c) = off" by simp
  with False show ?thesis by (auto simp: pwrite_at_eq ac_simps)
qed (simp add: pwrite_at_def)

lemma pwrite_at_twice:
  assumes "k \<le> m"
  shows "pwrite_at (off + k) (take (m - k) (drop k buf)) (pwrite_at off (take k buf) c) =
    pwrite_at off (take m buf) c"
proof (cases "length buf \<le> k")
  case False
  have "take m buf = take k buf @ take (m - k) (drop k buf)"
    using assms by (metis le_add_diff_inverse take_add)
  then show ?thesis using pwrite_at_append [of off "take k buf"] False by (simp add: min_def)
next
  case True
  then show ?thesis using assms by (simp add: pwrite_at_def)
qed

lemma write_loop_content:
  assumes "wt \<le> sz" "write_loop buf sz off os c wt = (Inr n, c', os')"
  shows "n = sz \<and> c' = pwrite_at (off + wt) (take (sz - wt) (drop wt buf)) c"
  using assms
proof (induction os arbitrary: c wt)
  case (Cons r os)
  define k where "k = (case r of Short n \<Rightarrow> min n (sz - wt) | _ \<Rightarrow> sz - wt)"
  define c1 where "c1 = pwrite_at (off + wt) (take k (drop wt buf)) c"
  show ?case
  proof (cases "\<exists>e. r = Fail e")
    case True
    then show ?thesis
      using Cons.prems Cons.IH [of wt c] by (auto split: if_splits)
  next
    case False
    then have eq: "write_loop buf sz off (r # os) c wt =
        (if wt + k \<noteq> sz then write_loop buf sz off os c1 (wt + k) else (Inr (wt + k), c1, os))"
      by (cases r) (simp_all add: Let_def k_def c1_def)
    have kle: "k \<le> sz - wt" by (cases r) (simp_all add: k_def)
    have tw: "pwrite_at (off + (wt + k)) (take (sz - (wt + k)) (drop (wt + k) buf)) c1 =
        pwrite_at (off + wt) (take (sz - wt) (drop wt buf)) c"
      using pwrite_at_twice [OF kle, of "off + wt" "drop wt buf" c]
      by (simp add: c1_def ac_simps)
    show ?thesis
    proof (cases "wt + k = sz")
      case True
      then have "k = sz - wt" by simp
      with True Cons.prems(2) [unfolded eq] show ?thesis by (auto simp: c1_def)
    next
      case neq: False
      with Cons.prems(1) Cons.prems(2) [unfolded eq] Cons.IH [of "wt + k" c1] kle
      show ?thesis by (simp add: tw)
    qed
  qed
qed auto

lemma write_loop_succeeds:
  assumes "wt \<le> sz" "\<And>e. Fail e \<in> set os \<Longrightarrow> retryable e"
  shows "\<exists>c' os'. write_loop buf sz off os c wt = (Inr sz, c', os') \<and> set os' \<subseteq> set os"
  using assms
proof (induction os arbitrary: c wt)
  case (Cons r os)
  have IH: "\<exists>c' os'. write_loop buf sz off os c1 w = (Inr sz, c', os') \<and> set os' \<subseteq> set (r # os)"
    if "w \<le> sz" for c1 w using Cons.IH [OF that] Cons.prems(2) by fastforce
  show ?case
  proof (cases r)
    case (Fail e)
    then show ?thesis using Cons.prems IH [of wt c] by auto
  qed (use IH Cons.prems in \<open>auto simp: Let_def\<close>)
qed simp

section \<open>The operations on file contents\<close>

lemma pop_outcome_frame:
  "pop_outcome st = (Inr r, st') \<Longrightarrow> file_content st' = file_content st \<and> st_dirs st' = st_dirs st \<and>
     root_path st' = root_path st \<and> st_chunksize st' = st_chunksize st \<and>
     set (st_script st') \<subseteq> set (st_script st) \<and> (r = Full \<or> r \<in> set (st_script st))"
  by (auto simp: pop_outcome_def split: list.splits)

lemma pop_outcome_total: "\<exists>r st'. pop_outcome st = (Inr r, st')"
  by (auto simp: pop_outcome_def split: list.split)

lemma pop_outcome_nil [simp]: "st_script st = [] \<Longrightarrow> pop_outcome st = (Inr Full, st)"
  by (simp add: pop_outcome_def)

lemma sys_mkdir_total: "\<exists>e st'. sys_mkdir d st = (Inr e, st')"
  using pop_outcome_total [of st]
  by (auto simp: sys_mkdir_def cmd_simps split: sys_outcome.split option.split)

lemma sys_open_total: "\<exists>f st'. sys_open q b st = (Inr f, st')"
  using pop_outcome_total [of st]
  by (auto simp: sys_open_def cmd_simps Let_def split: sys_outcome.split option.split)

lemma sys_mkdir_frame:
  assumes "sys_mkdir d st = (Inr e, st')"
  shows "file_content st' = file_content st \<and> root_path st' = root_path st \<and>
    st_chunksize st' = st_chunksize st \<and> set (st_script st') \<subseteq> set (st_script st) \<and>
    (e = None \<or> e = Some EEXIST \<and> st_dirs st' d \<noteq> None \<or> (\<exists>n. Fail n \<in> set (st_script st) \<and> e = Some n)) \<and>
    (e = None \<longrightarrow> st_dirs st' d \<noteq> None)"
proof -
  obtain r s1 where p: "pop_outcome st = (Inr r, s1)" using pop_outcome_total by blast
  note f = pop_outcome_frame [OF p]
  show ?thesis
  proof (cases "(\<exists>n. r = Fail n) \<or> st_dirs s1 d \<noteq> None")
    case True
    then show ?thesis
      using assms f by (cases r) (auto simp: sys_mkdir_def cmd_simps p)
  next
    case False
    then have e: "e = None" "st' = s1\<lparr>st_dirs := (st_dirs s1)(d \<mapsto> [])\<rparr>"
      using assms by (cases r; auto simp: sys_mkdir_def cmd_simps p)+
    have "file_content st' = file_content s1"
      using False by (intro ext) (auto simp: file_content_def e split: option.splits)
    then show ?thesis using e f by simp
  qed
qed

lemma sys_open_frame:
  assumes "sys_open q create st = (Inr (Inr f), st')"
  shows "f = dir_file q \<and> root_path st' = root_path st \<and> st_chunksize st' = st_chunksize st \<and>
    set (st_script st') \<subseteq> set (st_script st) \<and>
    file_content st' = (file_content st)(f \<mapsto> (case file_content st f of None \<Rightarrow> [] | Some c \<Rightarrow> c)) \<and>
    st_dirs st' (fst f) \<noteq> None"
proof -
  obtain r s1 where p: "pop_outcome st = (Inr r, s1)" using pop_outcome_total by blast
  have fc: "file_content s1 = file_content st" and sd: "st_dirs s1 = st_dirs st"
      and rest: "root_path s1 = root_path st" "st_chunksize s1 = st_chunksize st"
        "set (st_script s1) \<subseteq> set (st_script st)"
    using pop_outcome_frame [OF p] by simp_all
  have "sys_open q create st =
      (case r of Fail e \<Rightarrow> (Inr (Inl e), s1) | _ \<Rightarrow>
        (case file_content st (dir_file q) of
           Some _ \<Rightarrow> (Inr (Inr (dir_file q)), s1)
         | None \<Rightarrow> if create \<and> st_dirs st (fst (dir_file q)) \<noteq> None
             then (Inr (Inr (dir_file q)), put_file (dir_file q) [] s1) else (Inr (Inl ENOENT), s1)))"
    by (cases r) (simp_all add: sys_open_def cbind_def p Let_def fc sd cong: option.case_cong split del: if_split)
  with assms have eq: "(case file_content st (dir_file q) of
           Some _ \<Rightarrow> (Inr (Inr (dir_file q)), s1)
         | None \<Rightarrow> if create \<and> st_dirs st (fst (dir_file q)) \<noteq> None
             then (Inr (Inr (dir_file q)), put_file (dir_file q) [] s1) else (Inr (Inl ENOENT), s1)) =
       ((Inr (Inr f), st') :: (errno + path \<times> string) res \<times> chunk_storage)"
    by (cases r) simp_all
  show ?thesis
  proof (cases "file_content st (dir_file q)")
    case None
    with eq have st': "st' = put_file (dir_file q) [] s1" "f = dir_file q" "st_dirs s1 (fst f) \<noteq> None"
      by (auto simp: sd split: if_splits)
    then have "st_dirs st' (fst f) \<noteq> None"
      by (auto simp: put_file_def split: option.split)
    moreover have "file_content st' = (file_content st)(f \<mapsto> [])"
      using st' by (simp add: file_content_put_file fc)
    ultimately show ?thesis using st' rest None by simp
  next
    case (Some c)
    with eq have st': "st' = s1" "f = dir_file q" by simp_all
    have "st_dirs st (fst (dir_file q)) \<noteq> None" by (rule file_content_dir [OF Some])
    then show ?thesis using st' rest Some fc sd by (simp add: fun_upd_idem)
  qed
qed

lemma init_chunk_space_frame:
  assumes "init_chunk_space p st = (Inr u, st')" "file_path_ok p"
  shows "file_content st' = file_content st \<and> root_path st' = root_path st \<and>
    st_chunksize st' = st_chunksize st \<and> set (st_script st') \<subseteq> set (st_script st)"
proof -
  obtain e s1 where m: "sys_mkdir (chunk_dir st p) st = (Inr e, s1)" using sys_mkdir_total by blast
  have "init_chunk_space p st = (case e of None \<Rightarrow> cret ()
      | Some e \<Rightarrow> if e = EEXIST then cret () else craise (ChunkStorageException e)) s1"
    by (simp add: init_chunk_space_def cbind_def chunk_dir_of_ok [OF assms(2)] m)
  then have "st' = s1"
    using assms(1) by (simp add: cret_def craise_def split: option.splits if_splits)
  then show ?thesis using sys_mkdir_frame [OF m] by simp
qed

lemma write_chunk_content:
  assumes "write_chunk p c buf sz off st = (Inr n, st')" "file_path_ok p"
  shows "n = int (unat sz) \<and> off + sz \<le> st_chunksize st \<and> root_path st' = root_path st \<and>
    st_chunksize st' = st_chunksize st \<and>
    file_content st' = (file_content st)(chunk_file st p c \<mapsto>
      pwrite_at (unat off) (take (unat sz) buf)
        (case file_content st (chunk_file st p c) of None \<Rightarrow> [] | Some x \<Rightarrow> x))"
proof -
  from assms(1) have bound: "off + sz \<le> st_chunksize st"
    by (auto simp: write_chunk_def cmd_simps assert_res_def split: if_splits)
  obtain u s1 where init: "init_chunk_space p st = (Inr u, s1)"
    using assms(1) bound by (cases "init_chunk_space p st"; cases "fst (init_chunk_space p st)")
      (auto simp: write_chunk_def cmd_simps)
  note f1 = init_chunk_space_frame [OF init assms(2)]
  let ?cp = "chunk_dir s1 p @ separator # dec (unat c)"
  obtain f s2 where opn: "sys_open ?cp True s1 = (Inr (Inr f), s2)"
    using assms(1) bound init
    by (cases "sys_open ?cp True s1"; cases "fst (sys_open ?cp True s1)")
      (auto simp: write_chunk_def cmd_simps chunk_path_of_ok [OF assms(2)] split: sum.splits)
  note f2 = sys_open_frame [OF opn]
  have f: "f = chunk_file st p c" using f1 f2 chunk_file_root [of s1 st p c] by simp
  let ?c0 = "case file_content st f of None \<Rightarrow> [] | Some x \<Rightarrow> x"
  have c0: "file_content s2 f = Some ?c0" using f1 f2 by simp
  obtain r c' os where loop: "write_loop buf (unat sz) (unat off) (st_script s2) ?c0 0 = (r, c', os)"
    by (metis prod_cases3)
  from assms(1) have res: "res_bind r (\<lambda>n. Inr (int n)) = Inr n"
      and st': "st' = put_file f c' (s2\<lparr>st_script := os\<rparr>)"
    using bound init opn c0 loop
    by (auto simp: write_chunk_def cmd_simps chunk_path_of_ok [OF assms(2)])
  from res obtain m where m: "r = Inr m" "n = int m" by (auto simp: res_bind_eq_Inr)
  have "m = unat sz \<and> c' = pwrite_at (unat off) (take (unat sz) buf) ?c0"
    using write_loop_content [of 0 "unat sz" buf "unat off" "st_script s2" ?c0 m c' os] loop m by simp
  moreover have "file_content st' = (file_content s2)(f \<mapsto> c')"
    unfolding st' using f2 by (subst file_content_put_file) auto
  ultimately show ?thesis
    using bound f1 f2 m f by (simp add: st')
qed

text \<open>When the directory and the file can be opened and only retryable errors follow, the write
  completes, however many short writes and retries it takes.\<close>

lemma pop_outcome_drop:
  "\<exists>r. pop_outcome st = (Inr r, st\<lparr>st_script := drop 1 (st_script st)\<rparr>) \<and>
     (r = Full \<or> r \<in> set (take 1 (st_script st)))"
  by (cases "st_script st") (auto simp: pop_outcome_def)

lemma sys_mkdir_ok:
  assumes "\<And>e. Fail e \<notin> set (take 1 (st_script st))"
  shows "\<exists>e st'. sys_mkdir d st = (Inr e, st') \<and> (e = None \<or> e = Some EEXIST) \<and>
    st_script st' = drop 1 (st_script st) \<and> st_dirs st' d \<noteq> None"
proof -
  obtain r where "pop_outcome st = (Inr r, st\<lparr>st_script := drop 1 (st_script st)\<rparr>)" "\<And>e. r \<noteq> Fail e"
    using pop_outcome_drop [of st] assms by blast
  then show ?thesis
    by (cases r; cases "st_dirs st d") (auto simp: sys_mkdir_def cbind_def)
qed

lemma init_chunk_space_ok:
  assumes "file_path_ok p" "\<And>e. Fail e \<notin> set (take 1 (st_script st))"
  shows "\<exists>st'. init_chunk_space p st = (Inr (), st') \<and> st_script st' = drop 1 (st_script st) \<and>
    st_dirs st' (chunk_dir st p) \<noteq> None \<and> root_path st' = root_path st \<and>
    st_chunksize st' = st_chunksize st"
proof -
  obtain st' e where m: "sys_mkdir (chunk_dir st p) st = (Inr e, st')" "e = None \<or> e = Some EEXIST"
      "st_script st' = drop 1 (st_script st)" "st_dirs st' (chunk_dir st p) \<noteq> None"
    using sys_mkdir_ok [OF assms(2)] by blast
  have "init_chunk_space p st = (Inr (), st')"
    using m(2) by (auto simp: init_chunk_space_def cbind_def chunk_dir_of_ok [OF assms(1)] m(1)
        cret_def)
  then show ?thesis using sys_mkdir_frame [OF m(1)] m(3,4) by auto
qed

lemma write_chunk_ok:
  assumes "file_path_ok p" "off + sz \<le> st_chunksize st"
    "\<And>e. Fail e \<notin> set (take 2 (st_script st))"
    "\<And>e. Fail e \<in> set (drop 2 (st_script st)) \<Longrightarrow> retryable e"
  shows "\<exists>st'. write_chunk p c buf sz off st = (Inr (int (unat sz)), st') \<and>
    set (st_script st') \<subseteq> set (drop 2 (st_script st))"
proof -
  have h1: "\<And>e. Fail e \<notin> set (take 1 (st_script st))"
    using assms(3) by (metis le_eq_less_or_eq one_le_numeral set_take_subset_set_take subsetD)
  obtain s1 where init: "init_chunk_space p st = (Inr (), s1)"
      and s1: "st_script s1 = drop 1 (st_script st)" "st_dirs s1 (chunk_dir st p) \<noteq> None"
        "root_path s1 = root_path st"
    using init_chunk_space_ok [OF assms(1) h1] by blast
  let ?cp = "chunk_dir s1 p @ separator # dec (unat c)"
  have h2: "\<And>e. Fail e \<notin> set (take 1 (st_script s1))"
    using assms(3) unfolding s1 by (cases "st_script st"; cases "tl (st_script st)") auto
  obtain r where pop: "pop_outcome s1 = (Inr r, s1\<lparr>st_script := drop 1 (st_script s1)\<rparr>)" "\<And>e. r \<noteq> Fail e"
    using pop_outcome_drop [of s1] h2 by blast
  obtain f s2 where opn: "sys_open ?cp True s1 = (Inr (Inr f), s2)"
      and s2: "st_script s2 = drop 2 (st_script st)"
    using pop s1 chunk_file_root [OF s1(3)]
    by (cases r; cases "file_content s1 (chunk_file s1 p c)")
      (auto simp: sys_open_def cbind_def Let_def chunk_file_def numeral_2_eq_2)
  then obtain c0 where c0: "file_content s2 f = Some c0"
    using sys_open_frame [OF opn] by (auto split: option.splits)
  obtain c' os where "write_loop buf (unat sz) (unat off) (st_script s2) c0 0 = (Inr (unat sz), c', os)"
      "set os \<subseteq> set (st_script s2)"
    using write_loop_succeeds [of 0 "unat sz" "st_script s2" buf "unat off" c0] assms(4) s2 by auto
  then show ?thesis
    using assms(2) init opn c0 s2 chunk_path_of_ok [OF assms(1)]
    by (simp add: write_chunk_def cbind_def cget_def cassert_def clift_def)
qed

section \<open>The read loop\<close>

text \<open>At a negative file position the loop never ends.\<close>

lemma read_loop_stuck_aux:
  assumes "read_loop c sz off os buf t = Some res"
  shows "0 \<le> int off + t"
proof (rule read_loop.raw_induct [where P = "\<lambda>c sz off os buf t res. 0 \<le> int off + t", OF _ assms])
  fix rl c and sz off :: nat and os buf t res
  assume 1: "\<And>c sz off os buf t res. rl c sz off os buf t = Some res \<Longrightarrow> 0 \<le> int off + t"
    "(let r = case os of [] \<Rightarrow> Full | o1 # x \<Rightarrow> o1; os = case os of [] \<Rightarrow> [] | x # os \<Rightarrow> os;
          pos = int off + t
      in case if pos < 0 then Fail EINVAL else r of
         Fail x \<Rightarrow>
           if t - 1 \<noteq> int sz then rl c sz off os buf (t - 1) else Some (Inr (buf, t - 1), os)
         | _ \<Rightarrow> let got = pread_bytes r c (nat pos) (nat (int sz - t))
               in if got = [] then Some (Inr (buf, t), os)
                  else if t < 0 then Some (Inl Abort, os)
                       else let buf' = overwrite (nat t) got buf; t' = t + int (length got)
                            in if t' \<noteq> int sz then rl c sz off os buf' t'
                               else Some (Inr (buf', t'), os)) = Some res"
  show "0 \<le> int off + t"
  proof (cases "int off + t < 0")
    case True
    then have "t - 1 \<noteq> int sz" by simp
    with True 1(2) have "rl c sz off (case os of [] \<Rightarrow> [] | _ # os \<Rightarrow> os) buf (t - 1) = Some res"
      by (simp add: Let_def)
    from 1(1) [OF this] True show ?thesis by simp
  qed simp
qed

lemma read_loop_stuck: "int off + t < 0 \<Longrightarrow> read_loop c sz off os buf t = None"
  using read_loop_stuck_aux [of c sz off os buf t] by (cases "read_loop c sz off os buf t") auto

text \<open>Without errors the loop returns the bytes of the file, up to its end. A zero-length
  transfer in the script would read as the end of the file.\<close>

fun proper_transfer :: "sys_outcome \<Rightarrow> bool" where
  "proper_transfer Full = True"
| "proper_transfer (Short n) = (n > 0)"
| "proper_transfer (Fail e) = False"

definition script_hd :: "sys_outcome list \<Rightarrow> sys_outcome" where
  "script_hd os = (case os of [] \<Rightarrow> Full | r # _ \<Rightarrow> r)"

lemma overwrite_append:
  "t + length (a @ b) \<le> length buf \<Longrightarrow>
   overwrite (t + length a) b (overwrite t a buf) = overwrite t (a @ b) buf"
  by (simp add: overwrite_def ac_simps)

lemma overwrite_Nil [simp]: "overwrite t [] buf = buf"
  by (simp add: overwrite_def)

lemma take_length_take: "m \<le> n \<Longrightarrow> take (length (take m xs)) (take n xs) = take m xs"
  by (cases "length xs \<le> m") auto

lemma read_loop_step:
  assumes "list_all proper_transfer os" "t \<le> sz" "rest = take (sz - t) (drop (off + t) c)"
  shows "\<exists>k. (k = 0 \<longleftrightarrow> rest = []) \<and> k \<le> length rest \<and>
    (os = [] \<longrightarrow> k = length rest) \<and>
    read_loop c sz off os buf (int t) =
      (if k = 0 then Some (Inr (buf, int t), drop 1 os)
       else if t + k \<noteq> sz
         then read_loop c sz off (drop 1 os) (overwrite t (take k rest) buf) (int (t + k))
       else Some (Inr (overwrite t (take k rest) buf, int (t + k)), drop 1 os))"
proof -
  define r where "r = script_hd os"
  define got where "got = pread_bytes r c (off + t) (sz - t)"
  have os: "(case os of [] \<Rightarrow> Full | o1 # _ \<Rightarrow> o1) = r" "(case os of [] \<Rightarrow> [] | _ # os \<Rightarrow> os) = drop 1 os"
    by (simp_all add: r_def script_hd_def split: list.split)
  have r: "proper_transfer r" using assms(1) by (cases os) (simp_all add: r_def script_hd_def)
  have nats: "nat (int off + int t) = off + t" "nat (int sz - int t) = sz - t" by auto
  have eq: "read_loop c sz off os buf (int t) =
      (if got = [] then Some (Inr (buf, int t), drop 1 os)
       else if t + length got \<noteq> sz
         then read_loop c sz off (drop 1 os) (overwrite t got buf) (int (t + length got))
       else Some (Inr (overwrite t got buf, int (t + length got)), drop 1 os))"
    using r by (subst read_loop.simps; cases r)
      (auto simp: Let_def os nats got_def nat_add_distrib [symmetric] simp flip: of_nat_add)
  have "got = take (length got) rest \<and> length got \<le> length rest \<and> (got = [] \<longleftrightarrow> rest = []) \<and>
      (os = [] \<longrightarrow> length got = length rest)"
  proof (cases r)
    case Full
    then show ?thesis
      using take_length_take [of "sz - t" "sz - t" "drop (off + t) c"]
      by (simp add: got_def pread_bytes_def assms(3))
  next
    case (Short n)
    with r have n: "0 < n" by simp
    have "os \<noteq> []" using Short by (auto simp: r_def script_hd_def)
    then show ?thesis
      using n Short take_length_take [of "min n (sz - t)" "sz - t" "drop (off + t) c"]
      by (auto simp: got_def pread_bytes_def assms(3) min_def)
  qed (use r in simp)
  then show ?thesis
    using eq by (intro exI [of _ "length got"]) auto
qed

lemma read_loop_ok:
  assumes "list_all proper_transfer os" "t \<le> sz" "sz \<le> length buf"
  shows "\<exists>os'. read_loop c sz off os buf (int t) =
    Some (Inr (overwrite t (take (sz - t) (drop (off + t) c)) buf,
      int (t + length (take (sz - t) (drop (off + t) c)))), os')"
  using assms
proof (induction "length os + (if sz = t \<or> length c \<le> off + t then 0 else 1)"
    arbitrary: os t buf rule: less_induct)
  case less
  let ?rest = "take (sz - t) (drop (off + t) c)"
  obtain k where k: "k = 0 \<longleftrightarrow> ?rest = []" "k \<le> length ?rest" "os = [] \<longrightarrow> k = length ?rest"
    and eq: "read_loop c sz off os buf (int t) =
      (if k = 0 then Some (Inr (buf, int t), drop 1 os)
       else if t + k \<noteq> sz
         then read_loop c sz off (drop 1 os) (overwrite t (take k ?rest) buf) (int (t + k))
       else Some (Inr (overwrite t (take k ?rest) buf, int (t + k)), drop 1 os))"
    using read_loop_step [OF less.prems(1,2) refl, of off c buf] by (elim exE conjE)
  let ?rest' = "take (sz - (t + k)) (drop (off + (t + k)) c)"
  have kle: "k \<le> sz - t" using k(2) by simp
  then have "sz - t = k + (sz - (t + k))" by simp
  then have a: "?rest = take k (drop (off + t) c) @ take (sz - (t + k)) (drop k (drop (off + t) c))"
    by (metis take_add)
  have b: "take k ?rest = take k (drop (off + t) c)" using kle by (simp add: min_def)
  have c: "drop (off + (t + k)) c = drop k (drop (off + t) c)" by (simp add: ac_simps)
  have rest: "take k ?rest @ ?rest' = ?rest"
    unfolding b c by (rule a [symmetric])
  have len: "length (take k ?rest) = k" using k(2) by simp
  consider "k = 0" | "k > 0" "t + k = sz" | "k > 0" "t + k \<noteq> sz" by blast
  then show ?case
  proof cases
    case 1
    have r: "?rest = []" using k(1) 1 by (rule iffD1)
    show ?thesis using eq 1 unfolding r by simp
  next
    case 2
    then have "k = length ?rest" using k(2) by auto
    then show ?thesis using eq 2 by simp
  next
    case 3
    have le: "t + k \<le> sz" using kle less.prems(2) by simp
    have "os = [] \<Longrightarrow> length c \<le> off + (t + k)" using k 3 by auto
    then have lt: "length (drop 1 os) + (if sz = t + k \<or> length c \<le> off + (t + k) then 0 else 1)
        < length os + (if sz = t \<or> length c \<le> off + t then 0 else 1)"
      using k 3 by (cases os) auto
    have "list_all proper_transfer (drop 1 os)" using less.prems(1) by (cases os) simp_all
    moreover have lb: "t + length ?rest \<le> length buf" using less.prems by simp
    then have "sz \<le> length (overwrite t (take k ?rest) buf)"
      using less.prems(3) len k(2) by (subst length_overwrite) auto
    ultimately obtain os' where "read_loop c sz off (drop 1 os) (overwrite t (take k ?rest) buf) (int (t + k)) =
        Some (Inr (overwrite (t + k) ?rest' (overwrite t (take k ?rest) buf), int (t + k + length ?rest')), os')"
      using less.hyps [OF lt _ le] by blast
    moreover have "overwrite (t + k) ?rest' (overwrite t (take k ?rest) buf) = overwrite t ?rest buf"
      using overwrite_append [of t "take k ?rest" ?rest' buf] lb unfolding rest len by simp
    moreover have "t + k + length ?rest' = t + length ?rest"
      using arg_cong [OF rest, of length] len by simp
    ultimately show ?thesis using eq 3 by auto
  qed
qed

lemma sys_open_existing:
  assumes "file_content st (dir_file q) = Some c" "\<And>e. Fail e \<notin> set (take 1 (st_script st))"
  shows "sys_open q b st = (Inr (Inr (dir_file q)), st\<lparr>st_script := drop 1 (st_script st)\<rparr>)"
proof -
  obtain r where "pop_outcome st = (Inr r, st\<lparr>st_script := drop 1 (st_script st)\<rparr>)" "\<forall>e. r \<noteq> Fail e"
    using pop_outcome_drop [of st] assms(2) by blast
  then show ?thesis using assms(1) by (cases r) (simp_all add: sys_open_def cbind_def Let_def)
qed

lemma read_chunk_ok:
  assumes "file_path_ok p" "off + sz \<le> st_chunksize st" "list_all proper_transfer (st_script st)"
    "file_content st (chunk_file st p c) = Some x" "unat sz \<le> length buf"
    "got = take (unat sz) (drop (unat off) x)"
  shows "\<exists>os. read_chunk p c buf sz off st =
    (Inr (overwrite 0 got buf, int (length got)), st\<lparr>st_script := os\<rparr>)"
proof -
  let ?cp = "chunk_dir st p @ separator # dec (unat c)"
  have "Fail e \<notin> set (take 1 (st_script st))" for e
    using assms(3) by (cases "st_script st") auto
  then have opn: "sys_open ?cp False st =
      (Inr (Inr (chunk_file st p c)), st\<lparr>st_script := drop 1 (st_script st)\<rparr>)"
    using sys_open_existing [of st ?cp x False] assms(4) by simp
  have "list_all proper_transfer (drop 1 (st_script st))"
    using assms(3) by (cases "st_script st") simp_all
  then obtain os where "read_loop x (unat sz) (unat off) (drop 1 (st_script st)) buf 0 =
      Some (Inr (overwrite 0 got buf, int (length got)), os)"
    using read_loop_ok [of "drop 1 (st_script st)" 0 "unat sz" buf x "unat off"] assms(5,6) by auto
  then show ?thesis
    using assms(2,4) opn by (auto simp: read_chunk_def cbind_def cget_def cassert_def clift_def
        chunk_path_of_ok [OF assms(1)])
qed

lemma read_chunk_missing:
  assumes "file_path_ok p" "off + sz \<le> st_chunksize st" "st_script st = []"
    "file_content st (chunk_file st p c) = None"
  shows "read_chunk p c buf sz off st = (Inl (ChunkStorageException ENOENT), st)"
  using assms by (simp add: read_chunk_def cbind_def cget_def cassert_def clift_def craise_def
      chunk_path_of_ok sys_open_def Let_def)

section \<open>Removing chunks\<close>

lemma sys_unlink_ok:
  assumes "st_script st = []" "st_dirs st d = Some es"
  shows "\<exists>e st'. sys_unlink (d, name) st = (Inr e, st') \<and> (e = None \<or> e = Some ENOENT) \<and>
    st_script st' = [] \<and> st_dirs st' d \<noteq> None \<and> root_path st' = root_path st \<and>
    st_chunksize st' = st_chunksize st \<and> file_content st' = (file_content st)((d, name) := None)"
proof (cases "map_of es name")
  case None
  then have "(file_content st)((d, name) := None) = file_content st"
    using assms by (intro fun_upd_idem) (simp add: file_content_def)
  then show ?thesis using None assms by (simp add: sys_unlink_def cbind_def)
next
  case (Some c)
  let ?st = "st\<lparr>st_dirs := (st_dirs st)(d \<mapsto> AList.delete name es)\<rparr>"
  have "sys_unlink (d, name) st = (Inr None, ?st)"
    using Some assms by (simp add: sys_unlink_def cbind_def)
  moreover have "file_content ?st = (file_content st)((d, name) := None)"
    using assms by (intro ext) (auto simp: file_content_def delete_conv')
  ultimately show ?thesis using assms by auto
qed

lemma stoul_dec_only: "stoul (dec (unat (i :: u64))) = Inr (i, length (dec (unat i)))"
  using stoul_dec [OF unat_lt64 [of i], of "[]"] by simp

lemma trim_loop_ok:
  assumes "st_script st = []" "st_dirs st d \<noteq> None" "\<forall>n \<in> set names. \<exists>i :: u64. n = dec (unat i)"
  shows "\<exists>st'. trim_loop d start flag names st = (Inr flag, st') \<and> st_script st' = [] \<and>
    root_path st' = root_path st \<and> st_chunksize st' = st_chunksize st \<and>
    file_content st' = (\<lambda>f. if fst f = d \<and> snd f \<in> set names \<and> (\<exists>i\<ge>start. snd f = dec (unat i))
      then None else file_content st f)"
  using assms
proof (induction names arbitrary: st)
  case (Cons n names)
  then obtain i :: u64 where n: "n = dec (unat i)" by auto
  show ?case
  proof (cases "start \<le> i")
    case True
    from Cons.prems obtain e s1 where u: "sys_unlink (d, n) st = (Inr e, s1)" "e = None \<or> e = Some ENOENT"
        "st_script s1 = []" "st_dirs s1 d \<noteq> None" "root_path s1 = root_path st"
        "st_chunksize s1 = st_chunksize st" "file_content s1 = (file_content st)((d, n) := None)"
      using sys_unlink_ok [of st d _ n] by blast
    have "trim_loop d start flag (n # names) st = trim_loop d start flag names s1"
      using u(2) by (auto simp: cbind_def clift_def n stoul_dec_only True u(1) [unfolded n])
    then show ?thesis
      using Cons.IH [OF u(3,4)] Cons.prems(3) u(5-7) True n
      by (fastforce simp: fun_eq_iff prod_eq_iff)
  next
    case False
    then have "trim_loop d start flag (n # names) st = trim_loop d start flag names st"
      by (simp add: cbind_def clift_def n stoul_dec_only)
    then show ?thesis
      using Cons.IH [OF Cons.prems(1,2)] Cons.prems(3) False n
      by (fastforce simp: fun_eq_iff word_unat_eq_iff [symmetric])
  qed
qed (simp add: cret_def)

lemma trim_chunk_space_ok:
  assumes "file_path_ok p" "st_script st = []" "st_dirs st (chunk_dir st p) = Some es"
    "\<forall>n \<in> fst ` set es. \<exists>i :: u64. n = dec (unat i)"
  shows "\<exists>st'. trim_chunk_space p start st = (Inr (), st') \<and> st_script st' = [] \<and>
    root_path st' = root_path st \<and> st_chunksize st' = st_chunksize st \<and>
    file_content st' = (\<lambda>f. if fst f = chunk_dir st p \<and> (\<exists>i\<ge>start. snd f = dec (unat i))
      then None else file_content st f)"
proof -
  let ?d = "chunk_dir st p"
  obtain st' where st': "trim_loop ?d start False (map fst es) st = (Inr False, st')" "st_script st' = []"
      "root_path st' = root_path st" "st_chunksize st' = st_chunksize st"
      "file_content st' = (\<lambda>f. if fst f = ?d \<and> snd f \<in> set (map fst es) \<and> (\<exists>i\<ge>start. snd f = dec (unat i))
        then None else file_content st f)"
    using trim_loop_ok [of st ?d "map fst es" start False] assms by auto
  have "file_content st f = None" if "fst f = ?d" "snd f \<notin> set (map fst es)" for f
    using that assms(3) by (simp add: file_content_def map_of_eq_None_iff)
  then have "file_content st' = (\<lambda>f. if fst f = ?d \<and> (\<exists>i\<ge>start. snd f = dec (unat i))
      then None else file_content st f)"
    unfolding st'(5) by (intro ext) auto
  with st' show ?thesis
    by (simp add: trim_chunk_space_def cbind_def chunk_dir_of_ok [OF assms(1)] cget_def assms(3) cret_def)
qed

lemma trim_chunk_space_missing:
  "file_path_ok p \<Longrightarrow> st_dirs st (chunk_dir st p) = None \<Longrightarrow>
   trim_chunk_space p start st = (Inl (SystemError ENOENT), st)"
  by (simp add: trim_chunk_space_def cbind_def chunk_dir_of_ok cget_def craise_def)

lemma destroy_chunk_space_ok:
  assumes "file_path_ok p" "st_script st = []"
  shows "\<exists>st'. destroy_chunk_space p st = (Inr (), st') \<and> st_script st' = [] \<and>
    root_path st' = root_path st \<and> st_chunksize st' = st_chunksize st \<and>
    file_content st' = (\<lambda>f. if fst f = chunk_dir st p then None else file_content st f)"
  using assms
  by (auto simp: destroy_chunk_space_def cbind_def chunk_dir_of_ok file_content_def fun_eq_iff)

section \<open>Properties\<close>

lemma dec_1: "dec (Suc 0) = ''1''"
  by (simp add: dec.simps digit_char.simps)

lemma take_drop_pwrite: "take (length b) (drop pos (pwrite_at pos b c)) = b"
  by (cases "b = []") (simp_all add: pwrite_at_def take_drop_overwrite)

text \<open>However the local file system splits or interrupts the transfers, a chunk write that
  returns has returned the size asked for, stayed within the chunk size, and changed the
  storage in one way: the chunk's file, created when it was missing, holds the bytes of the
  buffer at the offset. Every other chunk of every file is as before.\<close>

lemma write_chunk_effect:
  assumes "write_chunk p c buf sz off st = (Inr n, st')" "file_path_ok p"
  shows "n = int (unat sz) \<and> off + sz \<le> st_chunksize st \<and>
    file_content st' = (file_content st)(chunk_file st p c \<mapsto>
      pwrite_at (unat off) (take (unat sz) buf)
        (case file_content st (chunk_file st p c) of None \<Rightarrow> [] | Some x \<Rightarrow> x))"
  using write_chunk_content [OF assms] by simp

definition sample_storage :: chunk_storage where
  "sample_storage = \<lparr>root_path = ''/t'', st_chunksize = 16, st_dirs = [''/t/a'' \<mapsto> [(''1'', ''xyz'')]],
     st_script = [Full, Full, Short 1, Fail EINTR], st_bsize = 1, st_blocks = 64, st_bavail = 32\<rparr>"

lemma sample_file:
  "chunk_dir (sample_storage\<lparr>st_script := os\<rparr>) ''/a'' = ''/t/a''"
  "chunk_file sample_storage ''/a'' 1 = (''/t/a'', ''1'')"
  "chunk_file (sample_storage\<lparr>st_script := os\<rparr>) ''/a'' 1 = (''/t/a'', ''1'')"
  "file_content sample_storage (''/t/a'', ''1'') = Some ''xyz''"
  "st_dirs sample_storage ''/t/a'' = Some [(''1'', ''xyz'')]" "st_chunksize sample_storage = 16"
  by (simp_all add: chunk_file_def chunk_dir_def sample_storage_def separator_def dec_1 file_content_def)

lemma sample_path: "file_path_ok ''/a''"
  by (simp add: file_path_ok_def is_absolute_def separator_def)

lemma write_chunk_effect_witness:
  "\<exists>st'. write_chunk ''/a'' 1 ''bcde'' 4 1 sample_storage = (Inr 4, st') \<and>
    file_content st' (''/t/a'', ''1'') = Some ''xbcde''"
proof -
  obtain st' where w: "write_chunk ''/a'' 1 ''bcde'' 4 1 sample_storage = (Inr 4, st')"
    using write_chunk_ok [of "''/a''" 1 4 sample_storage 1 "''bcde''"]
    by (auto simp: sample_path sample_storage_def retryable_def)
  have "file_content st' (''/t/a'', ''1'') = Some (pwrite_at 1 ''bcde'' ''xyz'')"
    using write_chunk_effect [OF w sample_path] by (simp add: sample_file)
  also have "pwrite_at 1 ''bcde'' ''xyz'' = ''xbcde''"
    by (simp add: pwrite_at_def overwrite_def resize_def)
  finally show ?thesis using w by blast
qed

text \<open>C18: A chunk write ends: when the directory and the file can be opened and every later error
  is one the loop retries, it returns the size asked for, whatever the number of short
  transfers and interruptions.\<close>

lemma write_chunk_returns:
  assumes "file_path_ok p" "off + sz \<le> st_chunksize st"
    "\<And>e. Fail e \<notin> set (take 2 (st_script st))"
    "\<And>e. Fail e \<in> set (drop 2 (st_script st)) \<Longrightarrow> retryable e"
  shows "fst (write_chunk p c buf sz off st) = Inr (int (unat sz))"
proof -
  obtain st' where "write_chunk p c buf sz off st = (Inr (int (unat sz)), st')"
    using write_chunk_ok [where st = st and p = p and off = off and sz = sz and c = c and buf = buf]
      assms by blast
  then show ?thesis by simp
qed

lemma write_chunk_returns_witness:
  "fst (write_chunk ''/a'' 1 ''bcde'' 4 1 sample_storage) = Inr 4"
proof -
  have "fst (write_chunk ''/a'' 1 ''bcde'' 4 1 sample_storage) = Inr (int (unat (4 :: u64)))"
    by (rule write_chunk_returns)
      (auto simp: file_path_ok_def is_absolute_def separator_def sample_storage_def retryable_def)
  then show ?thesis by simp
qed

text \<open>C17: A write followed by a read of the same range of the same chunk, with no error on the
  way, puts the written bytes into the reader's buffer and returns their number.\<close>

lemma write_read_chunk:
  assumes "write_chunk p c buf sz off st = (Inr n, st')" "file_path_ok p"
    "list_all proper_transfer (st_script st')" "unat sz \<le> length buf" "length rbuf = unat sz"
  shows "fst (read_chunk p c rbuf sz off st') = Inr (take (unat sz) buf, int (unat sz))"
proof -
  let ?b = "take (unat sz) buf"
  let ?x = "pwrite_at (unat off) ?b (case file_content st (chunk_file st p c) of None \<Rightarrow> [] | Some x \<Rightarrow> x)"
  note w = write_chunk_content [OF assms(1,2)]
  have f: "chunk_file st' p c = chunk_file st p c" using w by (intro chunk_file_root) simp
  have b: "length ?b = unat sz" using assms(4) by simp
  have x: "take (unat sz) (drop (unat off) ?x) = ?b"
    using take_drop_pwrite [of ?b "unat off"] unfolding b by blast
  have content: "file_content st' (chunk_file st' p c) = Some ?x" using w f by simp
  have room: "off + sz \<le> st_chunksize st'" using w by simp
  have len: "unat sz \<le> length rbuf" using assms(5) by simp
  obtain os where "read_chunk p c rbuf sz off st' =
      (Inr (overwrite 0 ?b rbuf, int (length ?b)), st'\<lparr>st_script := os\<rparr>)"
    using read_chunk_ok [OF assms(2) room assms(3) content len x [symmetric]] by blast
  then show ?thesis using b assms(5) by (simp add: overwrite_def)
qed

lemma write_read_chunk_witness:
  "\<exists>st'. write_chunk ''/a'' 1 ''bcde'' 4 1 (sample_storage\<lparr>st_script := []\<rparr>) = (Inr 4, st') \<and>
    fst (read_chunk ''/a'' 1 ''....'' 4 1 st') = Inr (''bcde'', 4)"
proof -
  obtain st' where w: "write_chunk ''/a'' 1 ''bcde'' 4 1 (sample_storage\<lparr>st_script := []\<rparr>) = (Inr 4, st')"
      and "st_script st' = []"
    using write_chunk_ok [of "''/a''" 1 4 "sample_storage\<lparr>st_script := []\<rparr>" 1 "''bcde''"]
    by (auto simp: file_path_ok_def is_absolute_def separator_def sample_storage_def)
  then show ?thesis
    using write_read_chunk [OF w, of "''....''"]
    by (simp add: file_path_ok_def is_absolute_def separator_def)
qed



text \<open>C20: Trimming removes exactly the chunks from the given one on: in the directory of the file
  (whose entries are chunk numbers) the files with a number at or above \<open>start\<close> are gone,
  every other file of the storage is untouched.\<close>

lemma trim_chunk_space_exact:
  assumes "file_path_ok p" "st_script st = []" "st_dirs st (chunk_dir st p) = Some es"
    "\<forall>n \<in> fst ` set es. \<exists>i :: u64. n = dec (unat i)"
  shows "\<exists>st'. trim_chunk_space p start st = (Inr (), st') \<and>
    (\<forall>c. file_content st' (chunk_file st p c) =
      (if start \<le> c then None else file_content st (chunk_file st p c))) \<and>
    (\<forall>f. fst f \<noteq> chunk_dir st p \<longrightarrow> file_content st' f = file_content st f)"
proof -
  obtain st' where st': "trim_chunk_space p start st = (Inr (), st')"
      "file_content st' = (\<lambda>f. if fst f = chunk_dir st p \<and> (\<exists>i\<ge>start. snd f = dec (unat i))
        then None else file_content st f)"
    using trim_chunk_space_ok [OF assms, of start] by blast
  have "(\<exists>i\<ge>start. dec (unat c) = dec (unat i)) \<longleftrightarrow> start \<le> c" for c :: u64
    by (auto simp: word_unat_eq_iff [symmetric])
  with st' show ?thesis by (simp add: chunk_file_def)
qed

lemma trim_chunk_space_exact_witness:
  "\<exists>st'. trim_chunk_space ''/a'' 1 (sample_storage\<lparr>st_script := []\<rparr>) = (Inr (), st') \<and>
    file_content st' (''/t/a'', ''1'') = None"
proof -
  let ?st = "sample_storage\<lparr>st_script := []\<rparr>"
  have "\<exists>i :: u64. ''1'' = dec (unat i)"
    by (rule exI [of _ 1]) (simp only: dec_1 unat_1 One_nat_def)
  then have "\<forall>n \<in> fst ` set [(''1'', ''xyz'')]. \<exists>i :: u64. n = dec (unat i)"
    by (simp only: list.set image_insert image_empty ball_simps fst_conv)
  moreover have "st_dirs ?st (chunk_dir ?st ''/a'') = Some [(''1'', ''xyz'')]"
    by (simp add: sample_file)
  ultimately obtain st' where t: "trim_chunk_space ''/a'' 1 ?st = (Inr (), st')"
      and "\<forall>c. file_content st' (chunk_file ?st ''/a'' c) =
        (if 1 \<le> c then None else file_content ?st (chunk_file ?st ''/a'' c))"
    using trim_chunk_space_exact [OF sample_path, of ?st "[(''1'', ''xyz'')]" 1] by auto
  then have "file_content st' (chunk_file ?st ''/a'' 1) = None" by simp
  then show ?thesis using t by (simp add: sample_file)
qed

text \<open>C24: The chunks of different files are kept apart as long as no path contains a colon; a path
  with a colon shares its directory with the path that has a separator there.\<close>

lemma get_chunks_dir_separate:
  assumes "is_absolute p" "is_absolute q" "CHR '':'' \<notin> set p" "CHR '':'' \<notin> set q"
  shows "(get_chunks_dir p = get_chunks_dir q \<longleftrightarrow> p = q) \<and>
    get_chunks_dir ''/a:b'' = get_chunks_dir ''/a/b''"
proof -
  obtain a where a: "p = separator # a" using assms(1) by (cases p) (auto simp: is_absolute_def)
  obtain b where b: "q = separator # b" using assms(2) by (cases q) (auto simp: is_absolute_def)
  let ?f = "\<lambda>c. if c = separator then CHR '':'' else c"
  have "inj_on ?f (set a \<union> set b)"
    using assms(3,4) a b by (auto simp: inj_on_def)
  then have "map ?f a = map ?f b \<longleftrightarrow> a = b" by (simp add: inj_on_map_eq_map)
  then show ?thesis
    using assms(1,2) by (simp add: get_chunks_dir_def a b) (simp add: is_absolute_def separator_def)
qed

lemma get_chunks_dir_separate_witness:
  "get_chunks_dir ''/x/y'' \<noteq> get_chunks_dir ''/x/z''"
  using get_chunks_dir_separate [of "''/x/y''" "''/x/z''"] by (simp add: is_absolute_def separator_def)

end
