(* ===== verification/Distributor.thy ===== *)
theory Distributor
  imports Gaofs_Prelude "HOL-Library.Multiset"
begin

text \<open>
  \<open>common/rpc/distributor.cpp\<close>: which host holds the metadata of a path and each of its
  chunks. \<open>std::hash<std::string>\<close> is unspecified by the C++ standard and stays the parameter
  \<open>str_hash\<close>; nothing below assumes more of it than that it is a function. The locale
  \<open>placement\<close> is what the client and the server rely on.
\<close>

section \<open>SimpleHashDistributor\<close>

record distributor =
  d_localhost :: u32
  d_hosts_size :: u32
  d_all_hosts :: "u32 list"

text \<open>\<open>vector<host_t>(n)\<close> filled by \<open>iota\<close>.\<close>

definition iota_hosts :: "u32 \<Rightarrow> u32 list" where
  "iota_hosts n = map of_nat [0..<unat n]"

definition SimpleHashDistributor :: "u32 \<Rightarrow> u32 \<Rightarrow> distributor" where
  "SimpleHashDistributor localhost hosts_size =
    \<lparr>d_localhost = localhost, d_hosts_size = hosts_size, d_all_hosts = iota_hosts hosts_size\<rparr>"

definition localhost :: "distributor \<Rightarrow> u32" where
  "localhost d = d_localhost d"

text \<open>\<open>h % d_hosts_size\<close> in 64 bits, narrowed to \<open>host_t\<close>; a zero divisor traps.\<close>

definition hash_mod :: "u64 \<Rightarrow> u32 \<Rightarrow> u32 res" where
  "hash_mod h n = (if n = 0 then Inl Abort else Inr (ucast (h mod ucast n)))"

definition locate_data :: "(string \<Rightarrow> u64) \<Rightarrow> distributor \<Rightarrow> path \<Rightarrow> u32 \<Rightarrow> u32 res" where
  "locate_data str_hash d p chunk_id = hash_mod (str_hash (p @ dec (unat chunk_id))) (d_hosts_size d)"

text \<open>The overload that is told the number of hosts (by the client, through the request) and
  resizes the distributor first.\<close>

definition locate_data_sized ::
    "(string \<Rightarrow> u64) \<Rightarrow> path \<Rightarrow> u32 \<Rightarrow> u32 \<Rightarrow> (distributor, u32) cmd" where
  "locate_data_sized str_hash p chunk_id host_size = (\<lambda>d.
    let d = (if d_hosts_size d \<noteq> host_size
             then d\<lparr>d_hosts_size := host_size, d_all_hosts := iota_hosts host_size\<rparr> else d)
    in (hash_mod (str_hash (p @ dec (unat chunk_id))) (d_hosts_size d), d))"

definition locate_file_metadata :: "(string \<Rightarrow> u64) \<Rightarrow> distributor \<Rightarrow> path \<Rightarrow> u32 res" where
  "locate_file_metadata str_hash d p = hash_mod (str_hash p) (d_hosts_size d)"

definition locate_directory_metadata :: "distributor \<Rightarrow> path \<Rightarrow> u32 list" where
  "locate_directory_metadata d p = d_all_hosts d"

text \<open>What the constructor and the resizing overload keep.\<close>

definition distributor_wf :: "distributor \<Rightarrow> bool" where
  "distributor_wf d = (d_all_hosts d = iota_hosts (d_hosts_size d) \<and> d_hosts_size d \<noteq> 0)"

section \<open>Lemmas\<close>

lemma unat_of_nat32: "i < unat (n :: u32) \<Longrightarrow> unat (of_nat i :: u32) = i"
  using unat_lt32 [of n] by (simp add: unsigned_of_nat take_bit_nat_eq_self)

lemma set_iota_hosts: "h \<in> set (iota_hosts n) \<longleftrightarrow> h < n"
proof
  assume "h \<in> set (iota_hosts n)"
  then show "h < n" by (auto simp: iota_hosts_def word_less_nat_alt unat_of_nat32)
next
  assume "h < n"
  then have "h = of_nat (unat h)" "unat h \<in> set [0..<unat n]" by (auto simp: word_less_nat_alt)
  then show "h \<in> set (iota_hosts n)" unfolding iota_hosts_def set_map by (rule image_eqI)
qed

lemma distinct_iota_hosts: "distinct (iota_hosts n)"
  unfolding iota_hosts_def distinct_map
  by (auto intro!: inj_onI) (metis unat_of_nat32)

lemma length_iota_hosts [simp]: "length (iota_hosts n) = unat n"
  by (simp add: iota_hosts_def)

lemma hash_mod_bound: "hash_mod h n = Inr r \<Longrightarrow> r < n"
proof -
  assume "hash_mod h n = Inr r"
  then have n: "n \<noteq> 0" and r: "r = ucast (h mod ucast n)"
    by (auto simp: hash_mod_def split: if_splits)
  have "unat (h mod ucast n) < unat n"
    using n by (simp add: unat_mod_distrib unat_gt_0)
  moreover have "unat r = unat (h mod ucast n) mod 2 ^ 32"
    unfolding r by (rule unat_ucast_64_32)
  ultimately have "unat r < unat n" by (metis mod_less_eq_dividend le_less_trans)
  then show "r < n" by (simp add: word_less_nat_alt)
qed

lemma hash_mod_total: "n \<noteq> 0 \<Longrightarrow> \<exists>r. hash_mod h n = Inr r"
  by (simp add: hash_mod_def)

section \<open>The placement contract\<close>

text \<open>Every chunk and every metadata entry is on exactly one host, and that host is among the
  ones a directory listing asks.\<close>

lemma partition_mset:
  "distinct hs \<Longrightarrow> (\<And>x. x \<in> set xs \<Longrightarrow> f x \<in> set hs) \<Longrightarrow>
   mset (concat (map (\<lambda>h. filter (\<lambda>x. f x = h) xs) hs)) = mset xs"
proof (induction xs)
  case Nil
  then show ?case by (simp add: map_replicate_const)
next
  case (Cons x xs)
  have "mset (concat (map (\<lambda>h. filter (\<lambda>y. f y = h) (x # xs)) hs)) =
      mset (concat (map (\<lambda>h. if f x = h then [x] else []) hs)) +
      mset (concat (map (\<lambda>h. filter (\<lambda>y. f y = h) xs) hs))"
    by (induction hs) auto
  moreover have "distinct hs \<Longrightarrow> mset (concat (map (\<lambda>h. if f x = h then [x] else []) hs)) =
      (if f x \<in> set hs then {#x#} else {#})" for hs
    by (induction hs) auto
  ultimately show ?case using Cons by simp
qed

locale placement =
  fixes locate :: "path \<Rightarrow> u32 \<Rightarrow> u32 res" and locate_meta :: "path \<Rightarrow> u32 res" and hosts :: "u32 list"
  assumes distinct_hosts: "distinct hosts"
    and located: "locate p c = Inr h \<Longrightarrow> h \<in> set hosts"
    and located_meta: "locate_meta p = Inr h \<Longrightarrow> h \<in> set hosts"
    and locate_total: "hosts \<noteq> [] \<Longrightarrow> \<exists>h. locate p c = Inr h"
    and locate_meta_total: "hosts \<noteq> [] \<Longrightarrow> \<exists>h. locate_meta p = Inr h"
begin

text \<open>The chunks of a file, grouped by host, are the chunks of the file.\<close>

lemma chunks_partition:
  "hosts \<noteq> [] \<Longrightarrow>
   mset (concat (map (\<lambda>h. filter (\<lambda>c. locate p c = Inr h) cs) hosts)) = mset cs"
proof -
  assume h: "hosts \<noteq> []"
  have eq: "(locate p c = Inr h) = (projr (locate p c) = h)" if "h \<in> set hosts" for c h
    using locate_total [OF h, of p c] by auto
  have "projr (locate p c) \<in> set hosts" for c
    using locate_total [OF h, of p c] located by fastforce
  from partition_mset [OF distinct_hosts this]
  show "mset (concat (map (\<lambda>h. filter (\<lambda>c. locate p c = Inr h) cs) hosts)) = mset cs"
    using locate_total [OF h] by (simp add: eq cong: map_cong)
qed

end

lemma locate_data_total: "d_hosts_size d \<noteq> 0 \<Longrightarrow> \<exists>h. locate_data str_hash d p c = Inr h"
  by (simp add: locate_data_def hash_mod_total)

lemma locate_data_bound: "locate_data str_hash d p c = Inr h \<Longrightarrow> h < d_hosts_size d"
  by (simp add: locate_data_def hash_mod_bound)

lemma locate_file_metadata_bound:
  "locate_file_metadata str_hash d p = Inr h \<Longrightarrow> h < d_hosts_size d"
  by (simp add: locate_file_metadata_def hash_mod_bound)

lemma distributor_sel [simp]:
  "d_hosts_size (SimpleHashDistributor lh n) = n"
  "d_all_hosts (SimpleHashDistributor lh n) = iota_hosts n"
  "d_localhost (SimpleHashDistributor lh n) = lh"
  by (simp_all add: SimpleHashDistributor_def)

lemma iota_hosts_Nil [simp]: "iota_hosts n = [] \<longleftrightarrow> n = 0"
  by (simp add: iota_hosts_def unat_eq_0)

text \<open>The contract holds of every distributor a client or a server builds.\<close>

interpretation dist: placement
  "locate_data str_hash (SimpleHashDistributor lh n)"
  "locate_file_metadata str_hash (SimpleHashDistributor lh n)"
  "locate_directory_metadata (SimpleHashDistributor lh n) q" for str_hash lh n q
proof unfold_locales
  show "distinct (locate_directory_metadata (SimpleHashDistributor lh n) q)"
    by (simp add: locate_directory_metadata_def distinct_iota_hosts)
next
  fix p c h assume "locate_data str_hash (SimpleHashDistributor lh n) p c = Inr h"
  then show "h \<in> set (locate_directory_metadata (SimpleHashDistributor lh n) q)"
    using locate_data_bound by (fastforce simp: locate_directory_metadata_def set_iota_hosts)
next
  fix p h assume "locate_file_metadata str_hash (SimpleHashDistributor lh n) p = Inr h"
  then show "h \<in> set (locate_directory_metadata (SimpleHashDistributor lh n) q)"
    using locate_file_metadata_bound
    by (fastforce simp: locate_directory_metadata_def set_iota_hosts)
qed (simp_all add: locate_directory_metadata_def locate_data_def locate_file_metadata_def
    hash_mod_total)

section \<open>Properties\<close>

text \<open>the placement is a partition: for a client over at least one host, grouping the chunks
  of any list by the host \<open>locate_data\<close> names, over the hosts \<open>locate_directory_metadata\<close> lists,
  gives back every chunk exactly once, whatever the hash function is.\<close>

lemma chunk_placement_partition:
  assumes "n \<noteq> 0"
  shows "mset (concat (map (\<lambda>h. filter (\<lambda>c. locate_data str_hash (SimpleHashDistributor lh n) p c = Inr h) cs)
           (locate_directory_metadata (SimpleHashDistributor lh n) q))) = mset cs"
  by (rule dist.chunks_partition) (simp add: locate_directory_metadata_def assms)

lemma chunk_placement_partition_witness:
  "mset (concat (map (\<lambda>h. filter (\<lambda>c. locate_data (\<lambda>s. of_nat (length s))
      (SimpleHashDistributor 0 2) ''/a'' c = Inr h) [0, 1, 10])
      (locate_directory_metadata (SimpleHashDistributor 0 2) ''/''))) = mset [0, 1, 10 :: u32]"
  by (rule chunk_placement_partition) simp

text \<open>The server-side overload, told the number of hosts by the request, leaves the
  distributor well formed and answers exactly what the client's distributor over that many
  hosts answers, whatever the server's distributor was before.\<close>

lemma locate_data_sized_agrees:
  assumes "distributor_wf d \<or> d_hosts_size d \<noteq> n"
  shows "fst (locate_data_sized str_hash p c n d) = locate_data str_hash (SimpleHashDistributor lh n) p c \<and>
    (n \<noteq> 0 \<longrightarrow> distributor_wf (snd (locate_data_sized str_hash p c n d)))"
  using assms
  by (auto simp: locate_data_sized_def locate_data_def distributor_wf_def Let_def)

lemma locate_data_sized_agrees_witness:
  "fst (locate_data_sized (\<lambda>s. of_nat (length s)) ''/a'' 7 3 (SimpleHashDistributor 0 2)) =
     locate_data (\<lambda>s. of_nat (length s)) (SimpleHashDistributor 5 3) ''/a'' 7 \<and>
   distributor_wf (snd
     (locate_data_sized (\<lambda>s. of_nat (length s)) ''/a'' 7 3 (SimpleHashDistributor 0 2)))"
  using locate_data_sized_agrees [of "SimpleHashDistributor 0 2" 3 "\<lambda>s. of_nat (length s)" "''/a''" 7 5]
  by simp

end
