(* ===== verification/Daemon_State.thy ===== *)
theory Daemon_State
  imports Metadata_Db Chunk_Storage Distributor
begin

text \<open>
  The state of one daemon, the singletons \<open>GAOFS_DATA\<close> (\<open>daemon/classes/fs_data.cpp\<close>) and
  \<open>RPC_DATA\<close> (\<open>daemon/classes/rpc_data.cpp\<close>), and \<open>daemon/ops/metadentry.cpp\<close>, the metadata
  operations of the handlers. The margo and Argobots calls a handler makes succeed or fail as
  the script \<open>rpc_script\<close> says; an empty script means success.
\<close>

section \<open>GAOFS_DATA and RPC_DATA\<close>

record 'db daemon =
  d_mdb :: 'db
  storage :: chunk_storage
  distributor_ref :: distributor
  atime_state :: bool
  mtime_state :: bool
  ctime_state :: bool
  link_cnt_state :: bool
  blocks_state :: bool
  mountdir :: path
  rootdir :: path
  clock :: u64
  rpc_script :: "bool list"

text \<open>What the daemon is built with: the metadata configuration, the backend, the hash function
  of the distributor, what memory holds after it was freed (see \<open>wait_for_tasks\<close>) and the ids
  of its process.\<close>

record 'db daemon_env =
  env_cfg :: md_config
  env_backend :: "'db metadata_backend"
  env_hash :: "string \<Rightarrow> u64"
  env_stale :: "nat \<Rightarrow> int"
  env_uid :: u32
  env_gid :: u32

definition on_mdb :: "('db, 'a) cmd \<Rightarrow> ('db daemon, 'a) cmd" where
  "on_mdb m = (\<lambda>d. case m (d_mdb d) of (r, db) \<Rightarrow> (r, d\<lparr>d_mdb := db\<rparr>))"

definition on_storage :: "(chunk_storage, 'a) cmd \<Rightarrow> ('db daemon, 'a) cmd" where
  "on_storage m = (\<lambda>d. case m (storage d) of (r, st) \<Rightarrow> (r, d\<lparr>storage := st\<rparr>))"

definition on_distributor :: "(distributor, 'a) cmd \<Rightarrow> ('db daemon, 'a) cmd" where
  "on_distributor m = (\<lambda>d. case m (distributor_ref d) of (r, di) \<Rightarrow> (r, d\<lparr>distributor_ref := di\<rparr>))"

text \<open>The status of the next margo or Argobots call.\<close>

definition pop_rpc :: "('db daemon, bool) cmd" where
  "pop_rpc = (\<lambda>d. case rpc_script d of
      [] \<Rightarrow> (Inr True, d)
    | b # bs \<Rightarrow> (Inr b, d\<lparr>rpc_script := bs\<rparr>))"

section \<open>Metadata entries\<close>

definition get_str :: "'db daemon_env \<Rightarrow> path \<Rightarrow> ('db daemon, bytes) cmd" where
  "get_str E p = on_mdb (mdb_get (env_backend E) p)"

definition get :: "'db daemon_env \<Rightarrow> path \<Rightarrow> ('db daemon, metadata) cmd" where
  "get E p = cbind (get_str E p) (\<lambda>s. clift (deserialize (env_cfg E) s))"

definition get_size :: "'db daemon_env \<Rightarrow> path \<Rightarrow> ('db daemon, u64) cmd" where
  "get_size E p = cbind (get E p) (\<lambda>md. cret (md_size md))"

definition get_dirents :: "'db daemon_env \<Rightarrow> path \<Rightarrow> ('db daemon, (string \<times> bool) list) cmd" where
  "get_dirents E dir = on_mdb (mdb_get_dirents (env_backend E) dir)"

definition get_dirents_extended ::
    "'db daemon_env \<Rightarrow> path \<Rightarrow> ('db daemon, (string \<times> bool \<times> u64 \<times> u64) list) cmd" where
  "get_dirents_extended E dir = on_mdb (mdb_get_dirents_extended (env_backend E) dir)"

text \<open>The time stamps \<open>create\<close> sets on its argument.\<close>

definition stamp :: "'db daemon \<Rightarrow> metadata \<Rightarrow> metadata" where
  "stamp d md =
    (let md = (if mtime_state d then md\<lparr>md_mtime := clock d\<rparr> else md);
         md = (if ctime_state d then md\<lparr>md_ctime := clock d\<rparr> else md)
     in if atime_state d then md\<lparr>md_atime := clock d\<rparr> else md)"

definition create :: "'db daemon_env \<Rightarrow> path \<Rightarrow> metadata \<Rightarrow> ('db daemon, unit) cmd" where
  "create E p md =
    cbind (cget (\<lambda>d. stamp d md)) (\<lambda>md.
      if create_exist_check
      then on_mdb (mdb_put_no_exist (env_backend E) p (serialize (env_cfg E) md))
      else on_mdb (mdb_put (env_backend E) p (serialize (env_cfg E) md)))"

definition update :: "'db daemon_env \<Rightarrow> path \<Rightarrow> metadata \<Rightarrow> ('db daemon, unit) cmd" where
  "update E p md = on_mdb (mdb_update (env_backend E) p p (serialize (env_cfg E) md))"

definition update_size ::
    "'db daemon_env \<Rightarrow> path \<Rightarrow> u64 \<Rightarrow> u64 \<Rightarrow> bool \<Rightarrow> ('db daemon, unit) cmd" where
  "update_size E p io_size offset app =
    on_mdb (mdb_increase_size (env_backend E) p (io_size + offset) app)"

text \<open>A handler for one exception; the others pass.\<close>

definition catch_if :: "(exn \<Rightarrow> bool) \<Rightarrow> 'a \<Rightarrow> ('s, 'a) cmd \<Rightarrow> ('s, 'a) cmd" where
  "catch_if P x m = ccatch m (\<lambda>e. if P e then cret x else craise e)"

definition remove :: "'db daemon_env \<Rightarrow> path \<Rightarrow> ('db daemon, unit) cmd" where
  "remove E p = catch_if (\<lambda>e. e = NotFoundException) () (on_mdb (mdb_remove (env_backend E) p))"

definition exists_entry :: "'db daemon_env \<Rightarrow> path \<Rightarrow> ('db daemon, bool) cmd" where
  "exists_entry E p = on_mdb (mdb_exists (env_backend E) p)"

section \<open>First chunks\<close>

definition get_str_first_chunk :: "'db daemon_env \<Rightarrow> path \<Rightarrow> ('db daemon, bytes) cmd" where
  "get_str_first_chunk E p = on_mdb (mdb_get_first_chunk (env_backend E) p)"

definition get_first_chunk :: "'db daemon_env \<Rightarrow> path \<Rightarrow> ('db daemon, first_chunk) cmd" where
  "get_first_chunk E p = cbind (get_str_first_chunk E p) (\<lambda>s. clift (deserialize_first_chunk s))"

definition get_size_first_chunk :: "'db daemon_env \<Rightarrow> path \<Rightarrow> ('db daemon, u64) cmd" where
  "get_size_first_chunk E p = cbind (get_first_chunk E p) (\<lambda>fc. cret (fc_size fc))"

definition get_content_first_chunk :: "'db daemon_env \<Rightarrow> path \<Rightarrow> ('db daemon, bytes) cmd" where
  "get_content_first_chunk E p = cbind (get_first_chunk E p) (\<lambda>fc. cret (fc_content fc))"

definition create_first_chunk :: "'db daemon_env \<Rightarrow> path \<Rightarrow> first_chunk \<Rightarrow> ('db daemon, unit) cmd" where
  "create_first_chunk E p fc =
    (if create_exist_check
     then on_mdb (mdb_put_no_exist_first_chunk (env_backend E) p (serialize_first_chunk fc))
     else on_mdb (mdb_put_first_chunk (env_backend E) p (serialize_first_chunk fc)))"

definition update_first_chunk :: "'db daemon_env \<Rightarrow> path \<Rightarrow> first_chunk \<Rightarrow> ('db daemon, unit) cmd" where
  "update_first_chunk E p fc =
    on_mdb (mdb_update_first_chunk (env_backend E) p p (serialize_first_chunk fc))"

definition remove_first_chunk :: "'db daemon_env \<Rightarrow> path \<Rightarrow> ('db daemon, unit) cmd" where
  "remove_first_chunk E p =
    catch_if (\<lambda>e. e = NotFoundException) () (on_mdb (mdb_remove_first_chunk (env_backend E) p))"

definition exists_first_chunk :: "'db daemon_env \<Rightarrow> path \<Rightarrow> ('db daemon, bool) cmd" where
  "exists_first_chunk E p = on_mdb (mdb_exists_first_chunk (env_backend E) p)"

lemma on_mdb_apply [cmd_simps]:
  "on_mdb m d = (case m (d_mdb d) of (r, db) \<Rightarrow> (r, d\<lparr>d_mdb := db\<rparr>))"
  by (simp add: on_mdb_def)

lemma on_storage_apply [cmd_simps]:
  "on_storage m d = (case m (storage d) of (r, st) \<Rightarrow> (r, d\<lparr>storage := st\<rparr>))"
  by (simp add: on_storage_def)

lemma on_distributor_apply [cmd_simps]:
  "on_distributor m d = (case m (distributor_ref d) of (r, di) \<Rightarrow> (r, d\<lparr>distributor_ref := di\<rparr>))"
  by (simp add: on_distributor_def)

lemma catch_if_ok [simp]: "m s = (Inr x, s') \<Longrightarrow> catch_if P y m s = (Inr x, s')"
  by (simp add: catch_if_def ccatch_def)

lemma pop_rpc_nil [simp]: "rpc_script d = [] \<Longrightarrow> pop_rpc d = (Inr True, d)"
  by (simp add: pop_rpc_def)

section \<open>Behaviour over a backend that meets its contract\<close>

text \<open>The daemon runs on a backend that meets the contract, with a usable store.\<close>

definition meta_val :: "('db \<Rightarrow> bytes \<rightharpoonup> bytes) \<Rightarrow> 'db daemon \<Rightarrow> bytes \<rightharpoonup> bytes" where
  "meta_val val d = val (d_mdb d)"

locale daemon_store = kv_backend "env_cfg E" "env_backend E" val ok
  for E :: "'db daemon_env" and val :: "'db \<Rightarrow> bytes \<rightharpoonup> bytes" and ok :: "'db \<Rightarrow> bool"
begin

definition ready :: "'db daemon \<Rightarrow> bool" where
  "ready d \<longleftrightarrow> usable (d_mdb d)"

abbreviation "dval d \<equiv> val (d_mdb d)"

lemma get_str_ok: "ready d \<Longrightarrow>
  get_str E p d = ((case dval d p of None \<Rightarrow> Inl NotFoundException | Some v \<Rightarrow> Inr v), d)"
  by (simp add: get_str_def cmd_simps mdb_get_ok ready_def)

lemma get_ok:
  assumes "ready d" "dval d p = Some (serialize (env_cfg E) md)" "storable md"
  shows "get E p d = (Inr (stored_fields (env_cfg E) md), d)"
  using assms by (simp add: get_def cbind_def get_str_ok clift_def deserialize_serialize)

lemma get_missing: "ready d \<Longrightarrow> dval d p = None \<Longrightarrow> get E p d = (Inl NotFoundException, d)"
  by (simp add: get_def cbind_def get_str_ok)

lemma storable_stamp [simp]: "storable (stamp d md) = storable md"
  by (simp add: storable_def stamp_def Let_def)

lemma create_new:
  assumes "ready d" "valid_key p" "dval d p = None" "storable md"
  shows "\<exists>db. create E p md d = (Inr (), d\<lparr>d_mdb := db\<rparr>) \<and> ready (d\<lparr>d_mdb := db\<rparr>) \<and>
    val db = (dval d)(p \<mapsto> serialize (env_cfg E) (stamp d md))"
  using mdb_put_no_exist_new [of "d_mdb d" p "stamp d md"] assms
  by (auto simp: create_def cmd_simps create_exist_check_def ready_def)

lemma create_old:
  assumes "ready d" "valid_key p" "dval d p = Some v"
  shows "create E p md d = (Inl ExistsException, d)"
  using assms by (simp add: create_def cmd_simps create_exist_check_def ready_def mdb_put_no_exist_old)

lemma remove_ok:
  assumes "ready d"
  shows "\<exists>db. remove E p d = (Inr (), d\<lparr>d_mdb := db\<rparr>) \<and> ready (d\<lparr>d_mdb := db\<rparr>) \<and>
    val db = (dval d)(p := None)"
proof -
  obtain db where db: "mdb_remove (env_backend E) p (d_mdb d) = (Inr (), db)" "usable db"
      "val db = (dval d)(p := None)"
    using mdb_remove_ok [of "d_mdb d" p] assms by (auto simp: ready_def)
  then have "on_mdb (mdb_remove (env_backend E) p) d = (Inr (), d\<lparr>d_mdb := db\<rparr>)"
    by (simp add: cmd_simps)
  then show ?thesis using db by (auto simp: remove_def ready_def)
qed

lemma remove_first_chunk_ok:
  assumes "ready d"
  shows "\<exists>db. remove_first_chunk E p d = (Inr (), d\<lparr>d_mdb := db\<rparr>) \<and> ready (d\<lparr>d_mdb := db\<rparr>) \<and>
    val db = (dval d)(first_chunk_key p := None)"
proof -
  obtain db where db: "mdb_remove_first_chunk (env_backend E) p (d_mdb d) = (Inr (), db)" "usable db"
      "val db = (dval d)(first_chunk_key p := None)"
    using mdb_remove_first_chunk_ok [of "d_mdb d" p] assms by (auto simp: ready_def)
  then have "on_mdb (mdb_remove_first_chunk (env_backend E) p) d = (Inr (), d\<lparr>d_mdb := db\<rparr>)"
    by (simp add: cmd_simps)
  then show ?thesis using db by (auto simp: remove_first_chunk_def ready_def)
qed

lemma update_size_ok:
  assumes "ready d" "dval d p = Some (serialize (env_cfg E) md)" "storable md"
    "n = (if app then md_size md + (sz + off) else max (md_size md) (sz + off))" "unat n < 2 ^ 63"
  shows "\<exists>db. update_size E p sz off app d = (Inr (), d\<lparr>d_mdb := db\<rparr>) \<and> ready (d\<lparr>d_mdb := db\<rparr>) \<and>
    val db = (dval d)(p \<mapsto> serialize (env_cfg E) (md\<lparr>md_size := n\<rparr>))"
  using mdb_increase_size_ok [of "d_mdb d" p md n app "sz + off"] assms
  by (auto simp: update_size_def cmd_simps ready_def)

lemma get_first_chunk_ok:
  assumes "ready d" "dval d (first_chunk_key p) = Some (serialize_first_chunk fc)"
    "unat (fc_size fc) < 2 ^ 63"
  shows "get_first_chunk E p d = (Inr (fc\<lparr>fc_content := c_str (fc_content fc)\<rparr>), d)"
  using assms by (simp add: get_first_chunk_def get_str_first_chunk_def cmd_simps ready_def
      mdb_get_first_chunk_ok deserialize_first_chunk_serialize)

lemma get_first_chunk_missing:
  "ready d \<Longrightarrow> dval d (first_chunk_key p) = None \<Longrightarrow> get_first_chunk E p d = (Inl NotFoundException, d)"
  by (simp add: get_first_chunk_def get_str_first_chunk_def cmd_simps ready_def mdb_get_first_chunk_ok)

lemma exists_first_chunk_ok:
  "ready d \<Longrightarrow> exists_first_chunk E p d = (Inr (dval d (first_chunk_key p) \<noteq> None), d)"
  by (simp add: exists_first_chunk_def cmd_simps ready_def mdb_exists_first_chunk_ok)

lemma create_first_chunk_new:
  assumes "ready d" "valid_key p" "dval d (first_chunk_key p) = None"
  shows "\<exists>db. create_first_chunk E p fc d = (Inr (), d\<lparr>d_mdb := db\<rparr>) \<and> ready (d\<lparr>d_mdb := db\<rparr>) \<and>
    val db = (dval d)(first_chunk_key p \<mapsto> serialize_first_chunk fc)"
  using mdb_put_no_exist_first_chunk_new [of "d_mdb d" p "serialize_first_chunk fc"] assms
  by (auto simp: create_first_chunk_def cmd_simps create_exist_check_def ready_def)

lemma update_first_chunk_ok:
  assumes "ready d"
  shows "\<exists>db. update_first_chunk E p fc d = (Inr (), d\<lparr>d_mdb := db\<rparr>) \<and> ready (d\<lparr>d_mdb := db\<rparr>) \<and>
    val db = (dval d)(first_chunk_key p \<mapsto> serialize_first_chunk fc)"
  using mdb_update_first_chunk_ok [of "d_mdb d" p p "serialize_first_chunk fc"] assms
  by (auto simp: update_first_chunk_def cmd_simps ready_def)

lemma get_dirents_ok:
  assumes "ready d" "valid_key dir"
  shows "\<exists>es. get_dirents E dir d = (Inr es, d) \<and> distinct (map fst es) \<and>
    set es = {(name, S_ISDIR (md_mode md)) | name md v. name \<noteq> [] \<and> separator \<notin> set name \<and>
      dval d (child_path dir name) = Some v \<and> deserialize (env_cfg E) v = Inr md}"
  using mdb_get_dirents_ok [of "d_mdb d" dir] assms
  by (auto simp: get_dirents_def cmd_simps ready_def)

end

text \<open>The daemon on RocksDB: the environment \<open>main\<close> builds.\<close>

definition rocksdb_env ::
    "md_config \<Rightarrow> 'db rocksdb \<Rightarrow> (string \<Rightarrow> u64) \<Rightarrow> (nat \<Rightarrow> int) \<Rightarrow> 'db daemon_env" where
  "rocksdb_env cfg R h stale = \<lparr>env_cfg = cfg, env_backend = MetadataBackend cfg R, env_hash = h,
     env_stale = stale, env_uid = 0, env_gid = 0\<rparr>"

lemma rocksdb_env_sel [simp]:
  "env_cfg (rocksdb_env cfg R h stale) = cfg" "env_backend (rocksdb_env cfg R h stale) = MetadataBackend cfg R"
  "env_hash (rocksdb_env cfg R h stale) = h"
  by (simp_all add: rocksdb_env_def)

lemma rocksdb_daemon_store:
  "rocksdb_contract cfg R val ok \<Longrightarrow> daemon_store (rocksdb_env cfg R h stale) val ok"
  unfolding daemon_store_def rocksdb_env_sel
  by (rule rocksdb_contract.backend_contract)

interpretation lazy_daemon: daemon_store "rocksdb_env cfg (lazy_rocksdb cfg) h stale" "lazy_val cfg" "lazy_ok cfg"
  for cfg h stale
  by (rule rocksdb_daemon_store) (rule lazy.rocksdb_contract_axioms)

end
