(* ===== verification/Data_Ops.thy ===== *)
theory Data_Ops
  imports Daemon_State
begin

text \<open>
  \<open>daemon/ops/data.cpp\<close>: the chunk operations of the daemon. Chunk 0 lives in the key-value
  store as the file's first chunk, all others in the chunk storage. A task body (\<open>..._abt\<close>) is a
  function that returns what it puts into its eventual; creating a task runs it (the tasks of
  one request work on different chunks). A wait returns the values of the eventuals.
\<close>

section \<open>Exception handlers\<close>

text \<open>The four \<open>catch\<close> clauses shared by the task bodies, as the error code they produce.\<close>

definition io_errno :: "exn \<Rightarrow> errno option" where
  "io_errno e = (case e of
      ChunkStorageException n \<Rightarrow> Some n
    | NotFoundException \<Rightarrow> Some ENOENT
    | ExistsException \<Rightarrow> Some EIO
    | DBException \<Rightarrow> Some EIO
    | Abort \<Rightarrow> None
    | Hang \<Rightarrow> None
    | _ \<Rightarrow> Some EIO)"

definition catch_map :: "(exn \<Rightarrow> 'a option) \<Rightarrow> ('s, 'a) cmd \<Rightarrow> ('s, 'a) cmd" where
  "catch_map h m = ccatch m (\<lambda>e. case h e of Some x \<Rightarrow> cret x | None \<Rightarrow> craise e)"

section \<open>Truncate\<close>

text \<open>\<open>locate_data(path, chunk_id, host_size) == host_id\<close>: the 64-bit arguments are narrowed to
  the distributor's 32-bit types, the comparison is done in 64 bits.\<close>

definition located_here ::
    "'db daemon_env \<Rightarrow> path \<Rightarrow> u64 \<Rightarrow> u64 \<Rightarrow> u64 \<Rightarrow> ('db daemon, bool) cmd" where
  "located_here E p chunk_id host_id host_size =
    cbind (on_distributor (locate_data_sized (env_hash E) p (ucast chunk_id) (ucast host_size)))
      (\<lambda>h. cret (ucast h = host_id))"

definition truncate_abt ::
    "'db daemon_env \<Rightarrow> path \<Rightarrow> u64 \<Rightarrow> u64 \<Rightarrow> u64 \<Rightarrow> ('db daemon, errno) cmd" where
  "truncate_abt E p sz host_id host_size =
    catch_map io_errno
      (let chunk_id_start = block_index sz chunksize; left_pad = block_overrun sz chunksize
       in cbind (located_here E p chunk_id_start host_id host_size) (\<lambda>here.
          cbind
            (if here then
               (if chunk_id_start = 0 then
                  cbind
                    (if left_pad \<noteq> 0 then
                       cbind (get_first_chunk E p) (\<lambda>fc.
                       let content = take (unat left_pad) (fc_content fc)
                       in update_first_chunk E p
                            (fc\<lparr>fc_content := content, fc_size := of_nat (length content)\<rparr>))
                     else remove_first_chunk E p)
                    (\<lambda>_. cret (chunk_id_start + 1))
                else if left_pad \<noteq> 0 then
                  cbind (on_storage (truncate_chunk_file p chunk_id_start left_pad))
                    (\<lambda>_. cret (chunk_id_start + 1))
                else cret chunk_id_start)
             else cret chunk_id_start)
            (\<lambda>chunk_id_start.
          cbind (on_storage (trim_chunk_space p chunk_id_start)) (\<lambda>_. cret 0))))"

text \<open>An eventual and a task are created for the operation; either may fail.\<close>

definition start_task :: "('db daemon, 'a) cmd \<Rightarrow> ('db daemon, 'a) cmd" where
  "start_task body =
    cbind pop_rpc (\<lambda>ok. if \<not> ok then craise ChunkOpException else
    cbind pop_rpc (\<lambda>ok. if \<not> ok then craise ChunkOpException else body))"

definition chunk_truncate ::
    "'db daemon_env \<Rightarrow> path \<Rightarrow> u64 \<Rightarrow> u64 \<Rightarrow> u64 \<Rightarrow> ('db daemon, errno) cmd" where
  "chunk_truncate E p sz host_id host_size = start_task (truncate_abt E p sz host_id host_size)"

definition wait_for_task :: "errno \<Rightarrow> ('db daemon, errno) cmd" where
  "wait_for_task task_err =
    cbind pop_rpc (\<lambda>ok. if \<not> ok then cret EIO
      else cret (if task_err \<noteq> 0 then task_err else 0))"

section \<open>Write\<close>

text \<open>\<open>buf\<close> is the memory behind the task's buffer pointer.\<close>

definition write_file_abt ::
    "'db daemon_env \<Rightarrow> path \<Rightarrow> u64 \<Rightarrow> bytes \<Rightarrow> u64 \<Rightarrow> u64 \<Rightarrow> ('db daemon, int) cmd" where
  "write_file_abt E p chunk_id buf sz off =
    catch_map (\<lambda>e. map_option uminus (io_errno e))
      (if chunk_id = 0 then
         cbind (cassert (off + sz \<le> chunksize)) (\<lambda>_.
         cbind (exists_first_chunk E p) (\<lambda>ex.
         cbind
           (if \<not> ex then
              let newContent = overwrite (unat off) (take (unat sz) buf) (resize (unat (off + sz)) [])
              in create_first_chunk E p
                   \<lparr>fc_size = of_nat (length newContent), fc_content = newContent\<rparr>
            else
              cbind (get_first_chunk E p) (\<lambda>fc.
              let content = fc_content fc;
                  content = (if off + sz > of_nat (length content)
                             then resize (unat (sz + off)) content else content);
                  content = overwrite (unat off) (take (unat sz) buf) content
              in update_first_chunk E p
                   (fc\<lparr>fc_content := content, fc_size := of_nat (length content)\<rparr>)))
           (\<lambda>_. cret (sint sz))))
       else on_storage (write_chunk p chunk_id buf sz off))"

definition write_nonblock ::
    "'db daemon_env \<Rightarrow> path \<Rightarrow> u64 \<Rightarrow> u64 \<Rightarrow> u64 \<Rightarrow> bytes \<Rightarrow> u64 \<Rightarrow> u64 \<Rightarrow> ('db daemon, int) cmd" where
  "write_nonblock E p n idx chunk_id buf sz off =
    cbind (cassert (idx < n)) (\<lambda>_. start_task (write_file_abt E p chunk_id buf sz off))"

text \<open>\<open>int\<close> from a 64-bit value.\<close>

definition to_int32 :: "int \<Rightarrow> int" where
  "to_int32 v = sint (word_of_int v :: u32)"

text \<open>\<open>ABT_eventual_wait\<close>: it fails on an eventual that was never created (None) and when the
  call fails.\<close>

definition eventual_wait :: "'a option \<Rightarrow> ('db daemon, 'a option) cmd" where
  "eventual_wait e = (case e of
      None \<Rightarrow> cret None
    | Some v \<Rightarrow> cbind pop_rpc (\<lambda>ok. cret (if ok then Some v else None)))"

text \<open>The loop of \<open>wait_for_tasks\<close>. After an earlier error the eventual is freed and then read
  all the same (there is no \<open>continue\<close>): what the freed memory holds is the parameter
  \<open>stale\<close>.\<close>

fun wait_loop ::
    "(nat \<Rightarrow> int) \<Rightarrow> nat \<Rightarrow> int option list \<Rightarrow> int \<Rightarrow> u64 \<Rightarrow> ('db daemon, int \<times> u64) cmd" where
  "wait_loop stale i [] io_err total_written = cret (io_err, total_written)"
| "wait_loop stale i (e # es) io_err total_written =
     cbind (eventual_wait e) (\<lambda>w. case w of
       None \<Rightarrow> wait_loop stale (Suc i) es EIO total_written
     | Some v \<Rightarrow>
         let task_size = (if io_err \<noteq> 0 then stale i else v)
         in if task_size < 0 then wait_loop stale (Suc i) es (to_int32 (- task_size)) total_written
            else wait_loop stale (Suc i) es io_err (total_written + word_of_int task_size))"

definition wait_for_tasks :: "(nat \<Rightarrow> int) \<Rightarrow> int option list \<Rightarrow> ('db daemon, int \<times> u64) cmd" where
  "wait_for_tasks stale results =
    cbind (wait_loop stale 0 results 0 0) (\<lambda>(io_err, total_written).
      cret (io_err, if io_err \<noteq> 0 then 0 else total_written))"

section \<open>Read\<close>

text \<open>The result is the count in the eventual and the memory behind the buffer pointer.\<close>

definition read_errno :: "exn \<Rightarrow> int option" where
  "read_errno e = (case e of
      ChunkStorageException n \<Rightarrow> Some (- n)
    | NotFoundException \<Rightarrow> Some (- ENOENT)
    | ExistsException \<Rightarrow> Some (- EIO)
    | DBException \<Rightarrow> Some (- EIO)
    | Abort \<Rightarrow> None
    | Hang \<Rightarrow> None
    | _ \<Rightarrow> Some EIO)"

definition read_file_abt ::
    "'db daemon_env \<Rightarrow> path \<Rightarrow> u64 \<Rightarrow> bytes \<Rightarrow> u64 \<Rightarrow> u64 \<Rightarrow> ('db daemon, bytes \<times> int) cmd" where
  "read_file_abt E p chunk_id buf sz off =
    catch_map (\<lambda>e. map_option (\<lambda>n. (buf, n)) (read_errno e))
      (if chunk_id = 0 then
         cbind (get_content_first_chunk E p) (\<lambda>content.
         let n = of_nat (length content)
         in if sz + off \<ge> n then
              (if off \<ge> n then cret (buf, 0)
               else cret (overwrite 0 (drop (unat off) content) buf, sint (n - off)))
            else cret (overwrite 0 (take (unat sz) (drop (unat off) content)) buf, sint sz))
       else on_storage (read_chunk p chunk_id buf sz off))"

definition read_nonblock ::
    "'db daemon_env \<Rightarrow> path \<Rightarrow> u64 \<Rightarrow> u64 \<Rightarrow> u64 \<Rightarrow> bytes \<Rightarrow> u64 \<Rightarrow> u64 \<Rightarrow>
     ('db daemon, bytes \<times> int) cmd" where
  "read_nonblock E p n idx chunk_id buf sz off =
    cbind (cassert (idx < n)) (\<lambda>_. start_task (read_file_abt E p chunk_id buf sz off))"

text \<open>\<open>margo_bulk_transfer\<close> of \<open>sz\<close> bytes between two exposed buffers: it fails when the call
  fails or a range leaves its buffer.\<close>

definition bulk_transfer ::
    "bytes \<Rightarrow> u64 \<Rightarrow> bytes \<Rightarrow> u64 \<Rightarrow> u64 \<Rightarrow> ('db daemon, bytes option) cmd" where
  "bulk_transfer src src_off dst dst_off sz =
    cbind pop_rpc (\<lambda>ok.
      if ok \<and> unat src_off + unat sz \<le> length src \<and> unat dst_off + unat sz \<le> length dst
      then cret (Some (overwrite (unat dst_off) (take (unat sz) (drop (unat src_off) src)) dst))
      else cret None)"

text \<open>The loop of \<open>wait_for_tasks_and_push_back\<close> over the chunks with their origin and local
  offsets; \<open>loc\<close> is the daemon's bulk buffer, \<open>client\<close> the memory the client exposed.\<close>

fun push_loop ::
    "bytes \<Rightarrow> (u64 \<times> u64 \<times> int option) list \<Rightarrow> int \<Rightarrow> u64 \<Rightarrow> bytes \<Rightarrow>
     ('db daemon, int \<times> u64 \<times> bytes) cmd" where
  "push_loop loc [] io_err total_read client = cret (io_err, total_read, client)"
| "push_loop loc ((origin_offset, local_offset, e) # ts) io_err total_read client =
     cbind (eventual_wait e) (\<lambda>w. case w of
       None \<Rightarrow> push_loop loc ts EIO total_read client
     | Some task_size \<Rightarrow>
       if io_err \<noteq> 0 then push_loop loc ts io_err total_read client
       else if task_size < 0 then
         (if task_size = - ENOENT then push_loop loc ts io_err total_read client
          else push_loop loc ts (to_int32 (- task_size)) total_read client)
       else if task_size = 0 then push_loop loc ts io_err total_read client
       else
         cbind (bulk_transfer loc local_offset client origin_offset (word_of_int task_size)) (\<lambda>r.
           case r of
             None \<Rightarrow> push_loop loc ts EBUSY total_read client
           | Some client' \<Rightarrow> push_loop loc ts io_err (total_read + word_of_int task_size) client'))"

definition wait_for_tasks_and_push_back ::
    "bytes \<Rightarrow> (u64 \<times> u64 \<times> int option) list \<Rightarrow> bytes \<Rightarrow> ('db daemon, int \<times> u64 \<times> bytes) cmd" where
  "wait_for_tasks_and_push_back loc ts client =
    cbind (push_loop loc ts 0 0 client) (\<lambda>(io_err, total_read, client).
      cret (io_err, if io_err \<noteq> 0 then 0 else total_read, client))"

end
