(* ===== verification/Srv_Metadata.thy ===== *)
theory Srv_Metadata
  imports Data_Ops
begin

text \<open>
  \<open>daemon/handler/srv_metadata.cpp\<close> and \<open>srv_management.cpp\<close>: the metadata requests. A
  handler is a function from its decoded input to its output structure over the daemon's
  state; \<open>pop_rpc\<close> stands for the status of each margo call whose failure the handler looks
  at. A failing \<open>margo_respond\<close> is only logged. Statistics counters are not part of the state.
\<close>

section \<open>Requests with an assertion on their input\<close>

text \<open>\<open>margo_get_input\<close> followed by \<open>assert(ret == HG_SUCCESS)\<close>.\<close>

definition get_input_assert :: "('db daemon, unit) cmd" where
  "get_input_assert = cbind pop_rpc cassert"

definition create_errno :: "exn \<Rightarrow> errno option" where
  "create_errno e = (if e = ExistsException then Some EEXIST
     else if is_std_exception e then Some (-1) else None)"

definition rpc_srv_create :: "'db daemon_env \<Rightarrow> path \<Rightarrow> u32 \<Rightarrow> ('db daemon, errno) cmd" where
  "rpc_srv_create E p m =
    cbind get_input_assert (\<lambda>_.
    cbind (clift (new_metadata m)) (\<lambda>md.
    catch_map create_errno (cbind (create E p md) (\<lambda>_. cret 0))))"

text \<open>\<open>out.err\<close> and \<open>out.db_val\<close>, None the null pointer of the zero-initialized structure. The
  last handler sets neither.\<close>

definition rpc_srv_stat :: "'db daemon_env \<Rightarrow> path \<Rightarrow> ('db daemon, errno \<times> bytes option) cmd" where
  "rpc_srv_stat E p =
    cbind get_input_assert (\<lambda>_.
    catch_map (\<lambda>e. if e = NotFoundException then Some (ENOENT, None)
        else if is_std_exception e then Some (0, None) else None)
      (cbind (get_str E p) (\<lambda>val. cret (0, Some (c_str val)))))"

definition rpc_srv_decr_size :: "'db daemon_env \<Rightarrow> path \<Rightarrow> u64 \<Rightarrow> ('db daemon, errno) cmd" where
  "rpc_srv_decr_size E p len =
    cbind pop_rpc (\<lambda>ok. if \<not> ok then craise RuntimeError else
    cbind (catch_map (\<lambda>e. if is_std_exception e then Some EIO else None)
        (cbind (on_mdb (mdb_decrease_size (env_backend E) p len)) (\<lambda>_. cret 0))) (\<lambda>err.
    cbind pop_rpc (\<lambda>ok. if \<not> ok then craise RuntimeError else cret err)))"

text \<open>The handlers of the two removal requests.\<close>

definition remove_errno :: "exn \<Rightarrow> errno option" where
  "remove_errno e = (if is_DBException e then Some EIO
     else case e of
       ChunkStorageException n \<Rightarrow> Some n
     | _ \<Rightarrow> if is_std_exception e then Some EBUSY else None)"

text \<open>\<open>out.err\<close>, \<open>out.mode\<close> and \<open>out.size\<close>. The output is a structure in memory: what was set
  before an exception stays set.\<close>

definition remove_data_local :: "'db daemon_env \<Rightarrow> path \<Rightarrow> ('db daemon, unit) cmd" where
  "remove_data_local E p =
    cbind (remove_first_chunk E p) (\<lambda>_. on_storage (destroy_chunk_space p))"

definition rpc_srv_remove_metadata ::
    "'db daemon_env \<Rightarrow> path \<Rightarrow> ('db daemon, errno \<times> u32 \<times> u64) cmd" where
  "rpc_srv_remove_metadata E p =
    cbind get_input_assert (\<lambda>_.
    catch_map (\<lambda>e. map_option (\<lambda>n. (n, 0, 0)) (remove_errno e))
      (cbind (get E p) (\<lambda>md.
       cbind (remove E p) (\<lambda>_.
       if implicit_data_removal \<and> S_ISREG (md_mode md) \<and> md_size md \<noteq> 0
       then catch_map (\<lambda>e. map_option (\<lambda>n. (n, md_mode md, md_size md)) (remove_errno e))
              (cbind (remove_data_local E p) (\<lambda>_. cret (0, md_mode md, md_size md)))
       else cret (0, md_mode md, md_size md)))))"

definition rpc_srv_remove_data :: "'db daemon_env \<Rightarrow> path \<Rightarrow> ('db daemon, errno) cmd" where
  "rpc_srv_remove_data E p =
    cbind get_input_assert (\<lambda>_.
    catch_map remove_errno (cbind (remove_data_local E p) (\<lambda>_. cret 0)))"

text \<open>\<open>rpc_update_metadentry_in_t\<close>: each value with its flag.\<close>

record update_in =
  in_blocks :: "bool \<times> u64"
  in_nlink :: "bool \<times> u64"
  in_size :: "bool \<times> u64"
  in_atime :: "bool \<times> u64"
  in_mtime :: "bool \<times> u64"
  in_ctime :: "bool \<times> u64"

definition apply_update :: "update_in \<Rightarrow> metadata \<Rightarrow> metadata" where
  "apply_update u md =
    (let md = (if fst (in_blocks u) then md\<lparr>md_blocks := snd (in_blocks u)\<rparr> else md);
         md = (if fst (in_nlink u) then md\<lparr>md_link_count := snd (in_nlink u)\<rparr> else md);
         md = (if fst (in_size u) then md\<lparr>md_size := snd (in_size u)\<rparr> else md);
         md = (if fst (in_atime u) then md\<lparr>md_atime := snd (in_atime u)\<rparr> else md);
         md = (if fst (in_mtime u) then md\<lparr>md_mtime := snd (in_mtime u)\<rparr> else md)
     in if fst (in_ctime u) then md\<lparr>md_ctime := snd (in_ctime u)\<rparr> else md)"

definition rpc_srv_update_metadentry ::
    "'db daemon_env \<Rightarrow> path \<Rightarrow> update_in \<Rightarrow> ('db daemon, errno) cmd" where
  "rpc_srv_update_metadentry E p u =
    cbind get_input_assert (\<lambda>_.
    catch_map (\<lambda>e. if is_std_exception e then Some 1 else None)
      (cbind (get E p) (\<lambda>md. cbind (update E p (apply_update u md)) (\<lambda>_. cret 0))))"

definition rpc_srv_update_metadentry_size ::
    "'db daemon_env \<Rightarrow> path \<Rightarrow> u64 \<Rightarrow> u64 \<Rightarrow> bool \<Rightarrow> ('db daemon, errno \<times> u64) cmd" where
  "rpc_srv_update_metadentry_size E p sz offset app =
    cbind get_input_assert (\<lambda>_.
    catch_map (\<lambda>e. if e = NotFoundException then Some (ENOENT, 0)
        else if is_std_exception e then Some (EBUSY, 0) else None)
      (cbind (update_size E p sz offset app) (\<lambda>_. cret (0, offset + sz))))"

definition rpc_srv_get_metadentry_size :: "'db daemon_env \<Rightarrow> path \<Rightarrow> ('db daemon, errno \<times> u64) cmd" where
  "rpc_srv_get_metadentry_size E p =
    cbind get_input_assert (\<lambda>_.
    catch_map (\<lambda>e. if e = NotFoundException then Some (ENOENT, 0)
        else if is_std_exception e then Some (EBUSY, 0) else None)
      (cbind (get_size E p) (\<lambda>sz. cret (0, sz))))"

section \<open>Directory entries\<close>

text \<open>The layout of the buffer pushed to the client: one byte per entry for the kind, then the
  NUL terminated names (\<open>strcpy\<close> of a \<open>c_str\<close>, the pointer moved by the size of the string).\<close>

definition bool_byte :: "bool \<Rightarrow> char" where
  "bool_byte b = (if b then CHR 0x01 else CHR 0x00)"

definition strcpy_at :: "nat \<Rightarrow> string \<Rightarrow> bytes \<Rightarrow> bytes" where
  "strcpy_at pos s buf = overwrite pos (c_str s @ [NUL]) buf"

fun pack_names :: "string list \<Rightarrow> nat \<Rightarrow> bytes \<Rightarrow> bytes" where
  "pack_names [] pos buf = buf"
| "pack_names (n # ns) pos buf = pack_names ns (pos + length n + 1) (strcpy_at pos n buf)"

definition pack_dirents :: "(string \<times> bool) list \<Rightarrow> bytes" where
  "pack_dirents entries =
    (let out_size = sum_list (map (\<lambda>e. length (fst e)) entries) + length entries * (1 + 1);
         buf = replicate out_size NUL;
         buf = overwrite 0 (map (\<lambda>e. bool_byte (snd e)) entries) buf
     in pack_names (map fst entries) (length entries) buf)"

text \<open>\<open>rpc_get_dirents_out_t\<close> and the client's buffer after the push.\<close>

definition reply_dirents ::
    "bytes \<Rightarrow> bytes \<Rightarrow> nat \<Rightarrow> ('db daemon, errno \<times> u64 \<times> bytes) cmd" where
  "reply_dirents client out_buf n =
    (if length client < length out_buf then cret (ENOBUFS, 0, client) else
     cbind pop_rpc (\<lambda>created. if \<not> created then cret (EIO, 0, client) else
     cbind pop_rpc (\<lambda>accessed. if \<not> accessed then cret (EIO, 0, client) else
     cbind (bulk_transfer out_buf 0 client 0 (of_nat (length out_buf))) (\<lambda>r. case r of
       None \<Rightarrow> cret (EBUSY, 0, client)
     | Some client' \<Rightarrow> cret (0, of_nat n, client')))))"

definition rpc_srv_get_dirents ::
    "'db daemon_env \<Rightarrow> path \<Rightarrow> bytes \<Rightarrow> ('db daemon, errno \<times> u64 \<times> bytes) cmd" where
  "rpc_srv_get_dirents E p client =
    cbind pop_rpc (\<lambda>ok. if \<not> ok then cret (EBUSY, 0, client) else
    cbind (catch_map (\<lambda>e. if is_std_exception e then Some None else None)
        (cbind (get_dirents E p) (\<lambda>es. cret (Some es)))) (\<lambda>r. case r of
      None \<Rightarrow> cret (EIO, 0, client)
    | Some entries \<Rightarrow>
        if entries = [] then cret (0, 0, client)
        else reply_dirents client (pack_dirents entries) (length entries)))"

text \<open>The extended layout puts the sizes and times, eight bytes each (little endian), between
  the kinds and the names.\<close>

definition word_bytes :: "u64 \<Rightarrow> bytes" where
  "word_bytes w = map (\<lambda>i. char_of (unat (drop_bit (8 * i) w AND 255))) [0..<8]"

definition pack_dirents_extended :: "(string \<times> bool \<times> u64 \<times> u64) list \<Rightarrow> bytes" where
  "pack_dirents_extended entries =
    (let n = length entries;
         out_size = sum_list (map (\<lambda>e. length (fst e)) entries) + n * (1 + 1 + 8 + 8);
         buf = replicate out_size NUL;
         buf = overwrite 0 (map (\<lambda>e. bool_byte (fst (snd e))) entries) buf;
         buf = overwrite n (concat (map (\<lambda>e. word_bytes (fst (snd (snd e)))) entries)) buf;
         buf = overwrite (n * (1 + 8)) (concat (map (\<lambda>e. word_bytes (snd (snd (snd e)))) entries)) buf
     in pack_names (map fst entries) (n * (1 + 8 + 8)) buf)"

definition rpc_srv_get_dirents_extended ::
    "'db daemon_env \<Rightarrow> path \<Rightarrow> bytes \<Rightarrow> ('db daemon, errno \<times> u64 \<times> bytes) cmd" where
  "rpc_srv_get_dirents_extended E p client =
    cbind pop_rpc (\<lambda>ok. if \<not> ok then cret (EBUSY, 0, client) else
    cbind (catch_map (\<lambda>e. if is_std_exception e then Some None else None)
        (cbind (get_dirents_extended E p) (\<lambda>es. cret (Some es)))) (\<lambda>r. case r of
      None \<Rightarrow> cret (EIO, 0, client)
    | Some entries \<Rightarrow>
        if entries = [] then cret (0, 0, client)
        else reply_dirents client (pack_dirents_extended entries) (length entries)))"

section \<open>Symbolic links and the configuration\<close>

text \<open>A failing \<open>margo_get_input\<close> is only logged here. The input is then the zeroed structure:
  the null target makes the construction of its \<open>std::string\<close> throw inside the \<open>try\<close>.\<close>

definition rpc_srv_mk_symlink :: "'db daemon_env \<Rightarrow> path \<Rightarrow> string \<Rightarrow> ('db daemon, errno) cmd" where
  "rpc_srv_mk_symlink E p target_path =
    cbind pop_rpc (\<lambda>ok. if \<not> ok then cret (-1) else
    catch_map (\<lambda>e. if is_std_exception e then Some (-1) else None)
      (cbind (clift (new_link_metadata LINK_MODE target_path)) (\<lambda>md.
       cbind (create E p md) (\<lambda>_. cret 0))))"

text \<open>\<open>rpc_config_out_t\<close>; \<open>out.gid\<close> is assigned twice and \<open>out.uid\<close> keeps its initial value.\<close>

record config_out =
  out_mountdir :: path
  out_rootdir :: path
  out_atime_state :: bool
  out_mtime_state :: bool
  out_ctime_state :: bool
  out_link_cnt_state :: bool
  out_blocks_state :: bool
  out_uid :: u32
  out_gid :: u32

definition rpc_srv_get_fs_config :: "'db daemon_env \<Rightarrow> ('db daemon, config_out) cmd" where
  "rpc_srv_get_fs_config E = cget (\<lambda>d. \<lparr>
     out_mountdir = c_str (mountdir d), out_rootdir = c_str (rootdir d),
     out_atime_state = atime_state d, out_mtime_state = mtime_state d,
     out_ctime_state = ctime_state d, out_link_cnt_state = link_cnt_state d,
     out_blocks_state = blocks_state d, out_uid = 0, out_gid = env_gid E\<rparr>)"

end
