(* ===== verification/Srv_Data.thy ===== *)
theory Srv_Data
  imports Srv_Metadata
begin

text \<open>
  \<open>daemon/handler/srv_data.cpp\<close>: the data requests. The daemon walks the chunk ids of the
  request, picks the ones the distributor puts on it, computes for each where its bytes are in
  the client's buffer and in its own, and moves them. \<open>chunk_plan\<close> is the list of these
  computations without the transfers; the tiling lemmas are about it.
\<close>

section \<open>Inputs and the plan\<close>

text \<open>\<open>rpc_write_data_in_t\<close> and \<open>rpc_read_data_in_t\<close> (the bulk handle is the client's buffer,
  a separate argument of the handlers).\<close>

record data_in =
  in_path :: path
  in_offset :: u64
  in_host_id :: u64
  in_host_size :: u64
  in_chunk_n :: u64
  in_chunk_start :: u64
  in_chunk_end :: u64
  in_total_chunk_size :: u64

text \<open>The ids of the loop \<open>for(id = chunk_start; id <= chunk_end; id++)\<close> (an end below
  \<open>2 ^ 64 - 1\<close>).\<close>

definition chunk_ids :: "data_in \<Rightarrow> u64 list" where
  "chunk_ids i = map of_nat [unat (in_chunk_start i)..<Suc (unat (in_chunk_end i))]"

definition partial_first :: "data_in \<Rightarrow> u64 \<Rightarrow> bool" where
  "partial_first i c = (c = in_chunk_start i \<and> 0 < sint (in_offset i))"

text \<open>One round: the offset in the client's buffer, the offset in the daemon's buffer and the
  size of the transfer, from the index of the chunk on this host and the bytes left.\<close>

definition plan_step :: "data_in \<Rightarrow> u64 \<Rightarrow> u64 \<Rightarrow> u64 \<Rightarrow> u64 \<Rightarrow> u64 \<times> u64 \<times> u64" where
  "plan_step i bulk_size c chnk_id_curr chnk_size_left_host =
    (if partial_first i c then
       (0, 0, if in_offset i + bulk_size \<le> chunksize then bulk_size else chunksize - in_offset i)
     else
       let local_offset = in_total_chunk_size i - chnk_size_left_host;
           origin_offset =
             (if 0 < sint (in_offset i)
              then (chunksize - in_offset i) + ((c - in_chunk_start i) - 1) * chunksize
              else (c - in_chunk_start i) * chunksize);
           transfer_size = (if bulk_size \<le> chunksize then bulk_size else chunksize)
       in (origin_offset, local_offset,
           if chnk_id_curr = in_chunk_n i - 1 then chnk_size_left_host else transfer_size))"

text \<open>The rounds of one request: chunk id, offset in the client's buffer, offset in the daemon's
  buffer, size.\<close>

fun chunk_plan ::
    "(u64 \<Rightarrow> bool) \<Rightarrow> data_in \<Rightarrow> u64 \<Rightarrow> u64 list \<Rightarrow> u64 \<Rightarrow> u64 \<Rightarrow> (u64 \<times> u64 \<times> u64 \<times> u64) list" where
  "chunk_plan here i bulk_size [] chnk_id_curr left = []"
| "chunk_plan here i bulk_size (c # cs) chnk_id_curr left =
    (if \<not> chnk_id_curr < in_chunk_n i then []
     else if \<not> here c then chunk_plan here i bulk_size cs chnk_id_curr left
     else case plan_step i bulk_size c chnk_id_curr left of
       (origin_offset, local_offset, transfer_size) \<Rightarrow>
         (c, origin_offset, local_offset, transfer_size) #
         chunk_plan here i bulk_size cs (chnk_id_curr + 1) (left - transfer_size))"

definition file_offset :: "data_in \<Rightarrow> u64 \<Rightarrow> u64" where
  "file_offset i c = (if c = in_chunk_start i then in_offset i else 0)"

section \<open>rpc_srv_write\<close>

text \<open>\<open>loc\<close> is the memory of the daemon's bulk handle, \<open>ptr\<close> the offset of \<open>chnk_ptr\<close> in it. Inl
  is an early response. A failing transfer of a chunk other than a partial first one is logged
  and the loop goes on with the bytes that happen to be in \<open>loc\<close>.\<close>

fun write_chunks ::
    "'db daemon_env \<Rightarrow> data_in \<Rightarrow> bytes \<Rightarrow> u64 list \<Rightarrow> u64 \<Rightarrow> u64 \<Rightarrow> u64 \<Rightarrow> bytes \<Rightarrow> int list \<Rightarrow>
     ('db daemon, (errno \<times> u64) + int list) cmd" where
  "write_chunks E i bulk [] chnk_id_curr left ptr loc results = cret (Inr results)"
| "write_chunks E i bulk (c # cs) chnk_id_curr left ptr loc results =
    (if \<not> chnk_id_curr < in_chunk_n i then cret (Inr results) else
     cbind (located_here E (in_path i) c (in_host_id i) (in_host_size i)) (\<lambda>here.
     if \<not> here then write_chunks E i bulk cs chnk_id_curr left ptr loc results else
     case plan_step i (of_nat (length bulk)) c chnk_id_curr left of
       (origin_offset, local_offset, transfer_size) \<Rightarrow>
         cbind (bulk_transfer bulk origin_offset loc local_offset transfer_size) (\<lambda>r.
         if partial_first i c \<and> r = None then cret (Inl (EBUSY, 0)) else
         let loc' = (case r of None \<Rightarrow> loc | Some l \<Rightarrow> l)
         in cbind (catch_map (\<lambda>e. if e = ChunkOpException then Some None else None)
                (cbind (write_nonblock E (in_path i) (in_chunk_n i) chnk_id_curr c
                   (drop (unat ptr) loc') transfer_size (file_offset i c)) (\<lambda>v. cret (Some v))))
              (\<lambda>w. case w of
                 None \<Rightarrow> cret (Inl (EIO, 0))
               | Some v \<Rightarrow> write_chunks E i bulk cs (chnk_id_curr + 1) (left - transfer_size)
                   (ptr + transfer_size) loc' (results @ [v])))))"

text \<open>The eventuals of the operation: the ones of the started tasks, then the ones never
  created.\<close>

definition eventuals :: "u64 \<Rightarrow> 'a list \<Rightarrow> 'a option list" where
  "eventuals n results = map Some results @ replicate (unat n - length results) None"

text \<open>\<open>out.err\<close> and \<open>out.io_size\<close>. After a failed \<open>margo_bulk_access\<close> the handler responds but
  does not return, and goes on with an uninitialized pointer.\<close>

definition rpc_srv_write ::
    "'db daemon_env \<Rightarrow> data_in \<Rightarrow> bytes \<Rightarrow> ('db daemon, errno \<times> u64) cmd" where
  "rpc_srv_write E i bulk =
    cbind pop_rpc (\<lambda>input. if \<not> input then cret (EIO, 0) else
    cbind pop_rpc (\<lambda>created. if \<not> created then cret (EIO, 0) else
    cbind pop_rpc (\<lambda>accessed. if \<not> accessed then craise Abort else
    cbind (write_chunks E i bulk (chunk_ids i) 0 (in_total_chunk_size i) 0
        (replicate (unat (in_total_chunk_size i)) NUL) []) (\<lambda>r. case r of
      Inl out \<Rightarrow> cret out
    | Inr results \<Rightarrow> wait_for_tasks (env_stale E) (eventuals (in_chunk_n i) results)))))"

section \<open>rpc_srv_read\<close>

text \<open>The tasks read into the daemon's buffer at \<open>ptr\<close>; their eventuals come back with the origin
  and local offsets.\<close>

fun read_chunks ::
    "'db daemon_env \<Rightarrow> data_in \<Rightarrow> u64 \<Rightarrow> u64 list \<Rightarrow> u64 \<Rightarrow> u64 \<Rightarrow> u64 \<Rightarrow> bytes \<Rightarrow>
     (u64 \<times> u64 \<times> int) list \<Rightarrow>
     ('db daemon, (errno \<times> u64) + bytes \<times> (u64 \<times> u64 \<times> int) list) cmd" where
  "read_chunks E i bulk_size [] chnk_id_curr left ptr loc results = cret (Inr (loc, results))"
| "read_chunks E i bulk_size (c # cs) chnk_id_curr left ptr loc results =
    (if \<not> chnk_id_curr < in_chunk_n i then cret (Inr (loc, results)) else
     cbind (located_here E (in_path i) c (in_host_id i) (in_host_size i)) (\<lambda>here.
     if \<not> here then read_chunks E i bulk_size cs chnk_id_curr left ptr loc results else
     case plan_step i bulk_size c chnk_id_curr left of
       (origin_offset, local_offset, transfer_size) \<Rightarrow>
         cbind (catch_map (\<lambda>e. if e = ChunkOpException then Some None else None)
             (cbind (read_nonblock E (in_path i) (in_chunk_n i) chnk_id_curr c
                (take (unat transfer_size) (drop (unat ptr) loc)) transfer_size (file_offset i c))
                (\<lambda>v. cret (Some v))))
           (\<lambda>w. case w of
              None \<Rightarrow> cret (Inl (EIO, 0))
            | Some (got, n) \<Rightarrow> read_chunks E i bulk_size cs (chnk_id_curr + 1) (left - transfer_size)
                (ptr + transfer_size) (overwrite (unat ptr) got loc)
                (results @ [(origin_offset, local_offset, n)]))))"

definition read_eventuals :: "u64 \<Rightarrow> (u64 \<times> u64 \<times> int) list \<Rightarrow> (u64 \<times> u64 \<times> int option) list" where
  "read_eventuals n results =
     map (\<lambda>(origin_offset, local_offset, v). (origin_offset, local_offset, Some v)) results @
     replicate (unat n - length results) (0, 0, None)"

text \<open>\<open>out.err\<close>, \<open>out.io_size\<close> and the client's buffer.\<close>

definition rpc_srv_read ::
    "'db daemon_env \<Rightarrow> data_in \<Rightarrow> bytes \<Rightarrow> ('db daemon, errno \<times> u64 \<times> bytes) cmd" where
  "rpc_srv_read E i client =
    cbind pop_rpc (\<lambda>input. if \<not> input then cret (EIO, 0, client) else
    cbind pop_rpc (\<lambda>created. if \<not> created then cret (EIO, 0, client) else
    cbind pop_rpc (\<lambda>accessed. if \<not> accessed then cret (EIO, 0, client) else
    cbind (read_chunks E i (of_nat (length client)) (chunk_ids i) 0 (in_total_chunk_size i) 0
        (replicate (unat (in_total_chunk_size i)) NUL) []) (\<lambda>r. case r of
      Inl (err, n) \<Rightarrow> cret (err, n, client)
    | Inr (loc, results) \<Rightarrow>
        wait_for_tasks_and_push_back loc (read_eventuals (in_chunk_n i) results) client))))"

section \<open>rpc_srv_truncate and rpc_srv_get_chunk_stat\<close>

text \<open>A failing \<open>margo_get_input\<close> is only logged; the null path then makes the construction of
  the operation throw, which nothing catches.\<close>

definition rpc_srv_truncate ::
    "'db daemon_env \<Rightarrow> path \<Rightarrow> u64 \<Rightarrow> u64 \<Rightarrow> u64 \<Rightarrow> ('db daemon, errno) cmd" where
  "rpc_srv_truncate E p len host_id host_size =
    cbind pop_rpc (\<lambda>input. if \<not> input then craise Abort else
    cbind (catch_map (\<lambda>e. if e = ChunkOpException then Some None else None)
        (cbind (chunk_truncate E p len host_id host_size) (\<lambda>v. cret (Some v)))) (\<lambda>r. case r of
      None \<Rightarrow> cret EIO
    | Some task_err \<Rightarrow> wait_for_task task_err))"

text \<open>\<open>out.err\<close>, \<open>out.chunk_size\<close>, \<open>out.chunk_total\<close>, \<open>out.chunk_free\<close>.\<close>

definition rpc_srv_get_chunk_stat :: "('db daemon, errno \<times> u64 \<times> u64 \<times> u64) cmd" where
  "rpc_srv_get_chunk_stat =
    catch_map (\<lambda>e. case e of
        ChunkStorageException n \<Rightarrow> Some (n, 0, 0, 0)
      | _ \<Rightarrow> if is_std_exception e then Some (EAGAIN, 0, 0, 0) else None)
      (cbind (on_storage chunk_stat) (\<lambda>(chunk_size, chunk_total, chunk_free).
         cret (0, chunk_size, chunk_total, chunk_free)))"

end
