(* ===== verification/Rpc_Types.thy ===== *)
theory Rpc_Types
  imports Srv_Data
begin

text \<open>
  The requests and responses of \<open>common/rpc/rpc_types.hpp\<close> and \<open>client/rpc/rpc_types.hpp\<close>, the
  daemon's handler for each (\<open>daemon/daemon.cpp\<close>, \<open>register_server_rpcs\<close>), and the network.
  The network library (Hermes over Mercury) is third-party code: it is the parameter \<open>N\<close> of the
  client, a function that delivers one request to one host. A bulk handle in a request is the
  client's exposed buffer; a response carries the buffer back.
\<close>

datatype rpc_req =
    Req_fs_config
  | Req_create path u32
  | Req_stat path
  | Req_remove_metadata path
  | Req_remove_data path
  | Req_decr_size path u64
  | Req_update_metadentry path update_in
  | Req_update_metadentry_size path u64 u64 bool
  | Req_get_metadentry_size path
  | Req_get_dirents path bytes
  | Req_get_dirents_extended path bytes
  | Req_mk_symlink path string
  | Req_write data_in bytes
  | Req_read data_in bytes
  | Req_truncate path u64 u64 u64
  | Req_chunk_stat

datatype rpc_resp =
    Resp_config config_out
  | Resp_err errno
  | Resp_stat errno "bytes option"
  | Resp_rm errno u32 u64
  | Resp_size errno u64
  | Resp_dirents errno u64 bytes
  | Resp_data errno u64 bytes
  | Resp_chunk_stat errno u64 u64 u64

definition resp_of :: "('a \<Rightarrow> rpc_resp) \<Rightarrow> ('s, 'a) cmd \<Rightarrow> ('s, rpc_resp) cmd" where
  "resp_of f m = cbind m (\<lambda>x. cret (f x))"

text \<open>The handler registered for each request. The truncate request is registered with the input
  structure \<open>rpc_trunc_in_t\<close> (path and length), while the client sends \<open>rpc_trunc_data_in_t\<close> and
  the handler reads that structure: its two last members keep the zeros of \<open>in{}\<close>
  (\<open>Rpc_Wire\<close> derives this from the registered structures).\<close>

fun dispatch :: "'db daemon_env \<Rightarrow> rpc_req \<Rightarrow> ('db daemon, rpc_resp) cmd" where
  "dispatch E Req_fs_config = resp_of Resp_config (rpc_srv_get_fs_config E)"
| "dispatch E (Req_create p m) = resp_of Resp_err (rpc_srv_create E p m)"
| "dispatch E (Req_stat p) = resp_of (\<lambda>(e, v). Resp_stat e v) (rpc_srv_stat E p)"
| "dispatch E (Req_remove_metadata p) =
     resp_of (\<lambda>(e, m, sz). Resp_rm e m sz) (rpc_srv_remove_metadata E p)"
| "dispatch E (Req_remove_data p) = resp_of Resp_err (rpc_srv_remove_data E p)"
| "dispatch E (Req_decr_size p len) = resp_of Resp_err (rpc_srv_decr_size E p len)"
| "dispatch E (Req_update_metadentry p u) = resp_of Resp_err (rpc_srv_update_metadentry E p u)"
| "dispatch E (Req_update_metadentry_size p sz off app) =
     resp_of (\<lambda>(e, n). Resp_size e n) (rpc_srv_update_metadentry_size E p sz off app)"
| "dispatch E (Req_get_metadentry_size p) =
     resp_of (\<lambda>(e, n). Resp_size e n) (rpc_srv_get_metadentry_size E p)"
| "dispatch E (Req_get_dirents p buf) =
     resp_of (\<lambda>(e, n, b). Resp_dirents e n b) (rpc_srv_get_dirents E p buf)"
| "dispatch E (Req_get_dirents_extended p buf) =
     resp_of (\<lambda>(e, n, b). Resp_dirents e n b) (rpc_srv_get_dirents_extended E p buf)"
| "dispatch E (Req_mk_symlink p t) = resp_of Resp_err (rpc_srv_mk_symlink E p t)"
| "dispatch E (Req_write i buf) = resp_of (\<lambda>(e, n). Resp_data e n buf) (rpc_srv_write E i buf)"
| "dispatch E (Req_read i buf) = resp_of (\<lambda>(e, n, b). Resp_data e n b) (rpc_srv_read E i buf)"
| "dispatch E (Req_truncate p len h n) = resp_of Resp_err (rpc_srv_truncate E p len 0 0)"
| "dispatch E Req_chunk_stat =
     resp_of (\<lambda>(e, s, t, f). Resp_chunk_stat e s t f) rpc_srv_get_chunk_stat"

section \<open>The network\<close>

text \<open>What becomes of a request: \<open>post\<close> throws, or the handle's \<open>get\<close> throws, or there is a
  response.\<close>

datatype delivery = PostFails | GetFails | Reply rpc_resp

record 'n network =
  net_expose :: "('n, bool) cmd"
  net_send :: "u32 \<Rightarrow> rpc_req \<Rightarrow> ('n, delivery) cmd"

text \<open>A cluster of daemons reached over a faultless network, the concrete instance: a handler
  that throws or dies leaves its client without a response.\<close>

type_synonym 'db cluster = "u32 \<Rightarrow> 'db daemon"

definition cluster_send ::
    "'db daemon_env \<Rightarrow> u32 \<Rightarrow> rpc_req \<Rightarrow> ('db cluster, delivery) cmd" where
  "cluster_send E h req = (\<lambda>cl. case dispatch E req (cl h) of
      (Inr resp, d) \<Rightarrow> (Inr (Reply resp), cl(h := d))
    | (Inl _, d) \<Rightarrow> (Inr GetFails, cl(h := d)))"

definition cluster_network :: "'db daemon_env \<Rightarrow> 'db cluster network" where
  "cluster_network E = \<lparr>net_expose = cret True, net_send = cluster_send E\<rparr>"

end
