(* ===== verification/Rpc_Wire.thy ===== *)
theory Rpc_Wire
  imports Rpc_Types
begin

text \<open>
  The messages of the remote procedure calls: the structures of \<open>common/rpc/rpc_types.hpp\<close> with
  the encoders and decoders \<open>MERCURY_GEN_PROC\<close> generates for them, the classes \<open>input\<close> and
  \<open>output\<close> of every request in \<open>client/rpc/rpc_types.hpp\<close>, and the table of
  \<open>register_server_rpcs\<close> (\<open>daemon/daemon.cpp\<close>). A message is the sequence of the fields of its
  structure; the bytes of a field are Mercury's. A decoder reads as many fields as its structure
  has and leaves the rest.
\<close>

section \<open>Fields\<close>

text \<open>A field as it is on the wire: integers by their width (an \<open>hg_bool_t\<close> has eight bits), a
  string or a null pointer, a bulk handle as the client's memory it stands for.\<close>

datatype wire_item =
    W8 "8 word"
  | W32 u32
  | W64 u64
  | W_string "string option"
  | W_bulk bytes

type_synonym wire = "wire_item list"

definition pbind ::
    "(wire \<Rightarrow> ('a \<times> wire) option) \<Rightarrow> ('a \<Rightarrow> wire \<Rightarrow> ('b \<times> wire) option) \<Rightarrow> wire \<Rightarrow> ('b \<times> wire) option" where
  "pbind p f w = (case p w of None \<Rightarrow> None | Some (x, w') \<Rightarrow> f x w')"

definition pret :: "'a \<Rightarrow> wire \<Rightarrow> ('a \<times> wire) option" where
  "pret x w = Some (x, w)"

fun get_w8 :: "wire \<Rightarrow> (8 word \<times> wire) option" where
  "get_w8 (W8 x # w) = Some (x, w)" | "get_w8 _ = None"

fun get_w32 :: "wire \<Rightarrow> (u32 \<times> wire) option" where
  "get_w32 (W32 x # w) = Some (x, w)" | "get_w32 _ = None"

fun get_w64 :: "wire \<Rightarrow> (u64 \<times> wire) option" where
  "get_w64 (W64 x # w) = Some (x, w)" | "get_w64 _ = None"

fun get_string :: "wire \<Rightarrow> (string option \<times> wire) option" where
  "get_string (W_string x # w) = Some (x, w)" | "get_string _ = None"

text \<open>A string of a request: the client never sends a null pointer.\<close>

fun get_path :: "wire \<Rightarrow> (string \<times> wire) option" where
  "get_path (W_string (Some x) # w) = Some (x, w)" | "get_path _ = None"

fun get_bulk :: "wire \<Rightarrow> (bytes \<times> wire) option" where
  "get_bulk (W_bulk x # w) = Some (x, w)" | "get_bulk _ = None"

lemmas parse_defs = pbind_def pret_def

text \<open>What every generated pair of encoder and decoder promises.\<close>

locale hg_proc =
  fixes encode :: "'a \<Rightarrow> wire" and decode :: "wire \<Rightarrow> ('a \<times> wire) option"
  assumes decode_append: "decode (encode x @ w) = Some (x, w)"
begin

lemma decode_encode [simp]: "decode (encode x) = Some (x, [])"
  using decode_append [of x "[]"] by simp

lemma encode_inject: "encode x = encode y \<longleftrightarrow> x = y"
  using decode_encode by (metis option.inject prod.inject)

lemma encode_prefix: "encode x @ v = encode y @ w \<Longrightarrow> x = y \<and> v = w"
  by (metis decode_append option.inject prod.inject)

end

section \<open>Structures\<close>

record rpc_config_out_t =
  cfg_mountdir :: "string option"
  cfg_rootdir :: "string option"
  cfg_atime_state :: "8 word"
  cfg_mtime_state :: "8 word"
  cfg_ctime_state :: "8 word"
  cfg_link_cnt_state :: "8 word"
  cfg_blocks_state :: "8 word"
  cfg_uid :: u32
  cfg_gid :: u32

definition enc_config_out :: "rpc_config_out_t \<Rightarrow> wire" where
  "enc_config_out s = [W_string (cfg_mountdir s), W_string (cfg_rootdir s), W8 (cfg_atime_state s),
     W8 (cfg_mtime_state s), W8 (cfg_ctime_state s), W8 (cfg_link_cnt_state s),
     W8 (cfg_blocks_state s), W32 (cfg_uid s), W32 (cfg_gid s)]"

definition dec_config_out :: "wire \<Rightarrow> (rpc_config_out_t \<times> wire) option" where
  "dec_config_out = pbind get_string (\<lambda>md. pbind get_string (\<lambda>rd. pbind get_w8 (\<lambda>a.
     pbind get_w8 (\<lambda>m. pbind get_w8 (\<lambda>c. pbind get_w8 (\<lambda>l. pbind get_w8 (\<lambda>b.
     pbind get_w32 (\<lambda>u. pbind get_w32 (\<lambda>g. pret (rpc_config_out_t.make md rd a m c l b u g))))))))))"

record rpc_err_out_t =
  eo_err :: u32

definition enc_err_out :: "rpc_err_out_t \<Rightarrow> wire" where
  "enc_err_out s = [W32 (eo_err s)]"

definition dec_err_out :: "wire \<Rightarrow> (rpc_err_out_t \<times> wire) option" where
  "dec_err_out = pbind get_w32 (\<lambda>e. pret (rpc_err_out_t.make e))"

record rpc_mk_node_in_t =
  mkn_path :: string
  mkn_mode :: u32

definition enc_mk_node_in :: "rpc_mk_node_in_t \<Rightarrow> wire" where
  "enc_mk_node_in s = [W_string (Some (mkn_path s)), W32 (mkn_mode s)]"

definition dec_mk_node_in :: "wire \<Rightarrow> (rpc_mk_node_in_t \<times> wire) option" where
  "dec_mk_node_in = pbind get_path (\<lambda>p. pbind get_w32 (\<lambda>m. pret (rpc_mk_node_in_t.make p m)))"

record rpc_path_only_in_t =
  po_path :: string

definition enc_path_only_in :: "rpc_path_only_in_t \<Rightarrow> wire" where
  "enc_path_only_in s = [W_string (Some (po_path s))]"

definition dec_path_only_in :: "wire \<Rightarrow> (rpc_path_only_in_t \<times> wire) option" where
  "dec_path_only_in = pbind get_path (\<lambda>p. pret (rpc_path_only_in_t.make p))"

record rpc_stat_out_t =
  so_err :: u32
  so_db_val :: "string option"

definition enc_stat_out :: "rpc_stat_out_t \<Rightarrow> wire" where
  "enc_stat_out s = [W32 (so_err s), W_string (so_db_val s)]"

definition dec_stat_out :: "wire \<Rightarrow> (rpc_stat_out_t \<times> wire) option" where
  "dec_stat_out = pbind get_w32 (\<lambda>e. pbind get_string (\<lambda>v. pret (rpc_stat_out_t.make e v)))"

record rpc_trunc_in_t =
  ti_path :: string
  ti_length :: u64

definition enc_trunc_in :: "rpc_trunc_in_t \<Rightarrow> wire" where
  "enc_trunc_in s = [W_string (Some (ti_path s)), W64 (ti_length s)]"

definition dec_trunc_in :: "wire \<Rightarrow> (rpc_trunc_in_t \<times> wire) option" where
  "dec_trunc_in = pbind get_path (\<lambda>p. pbind get_w64 (\<lambda>n. pret (rpc_trunc_in_t.make p n)))"

record rpc_rm_node_in_t =
  rm_path :: string

definition enc_rm_node_in :: "rpc_rm_node_in_t \<Rightarrow> wire" where
  "enc_rm_node_in s = [W_string (Some (rm_path s))]"

definition dec_rm_node_in :: "wire \<Rightarrow> (rpc_rm_node_in_t \<times> wire) option" where
  "dec_rm_node_in = pbind get_path (\<lambda>p. pret (rpc_rm_node_in_t.make p))"

record rpc_rm_metadata_out_t =
  ro_err :: u32
  ro_size :: u64
  ro_mode :: u32

definition enc_rm_metadata_out :: "rpc_rm_metadata_out_t \<Rightarrow> wire" where
  "enc_rm_metadata_out s = [W32 (ro_err s), W64 (ro_size s), W32 (ro_mode s)]"

definition dec_rm_metadata_out :: "wire \<Rightarrow> (rpc_rm_metadata_out_t \<times> wire) option" where
  "dec_rm_metadata_out = pbind get_w32 (\<lambda>e. pbind get_w64 (\<lambda>n. pbind get_w32 (\<lambda>m.
     pret (rpc_rm_metadata_out_t.make e n m))))"

record rpc_update_metadentry_in_t =
  ui_path :: string
  ui_nlink :: u64
  ui_mode :: u32
  ui_uid :: u32
  ui_gid :: u32
  ui_size :: u64
  ui_blocks :: u64
  ui_atime :: u64
  ui_mtime :: u64
  ui_ctime :: u64
  ui_nlink_flag :: "8 word"
  ui_mode_flag :: "8 word"
  ui_size_flag :: "8 word"
  ui_block_flag :: "8 word"
  ui_atime_flag :: "8 word"
  ui_mtime_flag :: "8 word"
  ui_ctime_flag :: "8 word"

definition enc_update_metadentry_in :: "rpc_update_metadentry_in_t \<Rightarrow> wire" where
  "enc_update_metadentry_in s = [W_string (Some (ui_path s)), W64 (ui_nlink s), W32 (ui_mode s),
     W32 (ui_uid s), W32 (ui_gid s), W64 (ui_size s), W64 (ui_blocks s), W64 (ui_atime s),
     W64 (ui_mtime s), W64 (ui_ctime s), W8 (ui_nlink_flag s), W8 (ui_mode_flag s),
     W8 (ui_size_flag s), W8 (ui_block_flag s), W8 (ui_atime_flag s), W8 (ui_mtime_flag s),
     W8 (ui_ctime_flag s)]"

definition dec_update_metadentry_in :: "wire \<Rightarrow> (rpc_update_metadentry_in_t \<times> wire) option" where
  "dec_update_metadentry_in = pbind get_path (\<lambda>p. pbind get_w64 (\<lambda>n. pbind get_w32 (\<lambda>m.
     pbind get_w32 (\<lambda>u. pbind get_w32 (\<lambda>g. pbind get_w64 (\<lambda>sz. pbind get_w64 (\<lambda>b.
     pbind get_w64 (\<lambda>at. pbind get_w64 (\<lambda>mt. pbind get_w64 (\<lambda>ct. pbind get_w8 (\<lambda>nf.
     pbind get_w8 (\<lambda>mf. pbind get_w8 (\<lambda>sf. pbind get_w8 (\<lambda>bf. pbind get_w8 (\<lambda>af.
     pbind get_w8 (\<lambda>mtf. pbind get_w8 (\<lambda>cf.
       pret (rpc_update_metadentry_in_t.make p n m u g sz b at mt ct nf mf sf bf af mtf cf))))))))))))))))))"

record rpc_update_metadentry_size_in_t =
  us_path :: string
  us_size :: u64
  us_offset :: u64
  us_append :: "8 word"

definition enc_update_metadentry_size_in :: "rpc_update_metadentry_size_in_t \<Rightarrow> wire" where
  "enc_update_metadentry_size_in s =
     [W_string (Some (us_path s)), W64 (us_size s), W64 (us_offset s), W8 (us_append s)]"

definition dec_update_metadentry_size_in :: "wire \<Rightarrow> (rpc_update_metadentry_size_in_t \<times> wire) option" where
  "dec_update_metadentry_size_in = pbind get_path (\<lambda>p. pbind get_w64 (\<lambda>n. pbind get_w64 (\<lambda>off.
     pbind get_w8 (\<lambda>a. pret (rpc_update_metadentry_size_in_t.make p n off a)))))"

text \<open>\<open>rpc_update_metadentry_size_out_t\<close> and \<open>rpc_get_metadentry_size_out_t\<close>, two structures with
  the same members.\<close>

record rpc_size_out_t =
  zo_err :: u32
  zo_ret_size :: u64

definition enc_size_out :: "rpc_size_out_t \<Rightarrow> wire" where
  "enc_size_out s = [W32 (zo_err s), W64 (zo_ret_size s)]"

definition dec_size_out :: "wire \<Rightarrow> (rpc_size_out_t \<times> wire) option" where
  "dec_size_out = pbind get_w32 (\<lambda>e. pbind get_w64 (\<lambda>n. pret (rpc_size_out_t.make e n)))"

record rpc_get_dirents_in_t =
  gd_path :: string
  gd_bulk_handle :: bytes

definition enc_get_dirents_in :: "rpc_get_dirents_in_t \<Rightarrow> wire" where
  "enc_get_dirents_in s = [W_string (Some (gd_path s)), W_bulk (gd_bulk_handle s)]"

definition dec_get_dirents_in :: "wire \<Rightarrow> (rpc_get_dirents_in_t \<times> wire) option" where
  "dec_get_dirents_in = pbind get_path (\<lambda>p. pbind get_bulk (\<lambda>b. pret (rpc_get_dirents_in_t.make p b)))"

record rpc_get_dirents_out_t =
  go_err :: u32
  go_dirents_size :: u64

definition enc_get_dirents_out :: "rpc_get_dirents_out_t \<Rightarrow> wire" where
  "enc_get_dirents_out s = [W32 (go_err s), W64 (go_dirents_size s)]"

definition dec_get_dirents_out :: "wire \<Rightarrow> (rpc_get_dirents_out_t \<times> wire) option" where
  "dec_get_dirents_out = pbind get_w32 (\<lambda>e. pbind get_w64 (\<lambda>n. pret (rpc_get_dirents_out_t.make e n)))"

record rpc_data_out_t =
  do_err :: u32
  do_io_size :: u64

definition enc_data_out :: "rpc_data_out_t \<Rightarrow> wire" where
  "enc_data_out s = [W32 (do_err s), W64 (do_io_size s)]"

definition dec_data_out :: "wire \<Rightarrow> (rpc_data_out_t \<times> wire) option" where
  "dec_data_out = pbind get_w32 (\<lambda>e. pbind get_w64 (\<lambda>n. pret (rpc_data_out_t.make e n)))"

text \<open>\<open>rpc_write_data_in_t\<close> and \<open>rpc_read_data_in_t\<close>, two structures with the same members.\<close>

record rpc_data_in_t =
  di_path :: string
  di_offset :: u64
  di_host_id :: u64
  di_host_size :: u64
  di_chunk_n :: u64
  di_chunk_start :: u64
  di_chunk_end :: u64
  di_total_chunk_size :: u64
  di_bulk_handle :: bytes

definition enc_data_in :: "rpc_data_in_t \<Rightarrow> wire" where
  "enc_data_in s = [W_string (Some (di_path s)), W64 (di_offset s), W64 (di_host_id s),
     W64 (di_host_size s), W64 (di_chunk_n s), W64 (di_chunk_start s), W64 (di_chunk_end s),
     W64 (di_total_chunk_size s), W_bulk (di_bulk_handle s)]"

definition dec_data_in :: "wire \<Rightarrow> (rpc_data_in_t \<times> wire) option" where
  "dec_data_in = pbind get_path (\<lambda>p. pbind get_w64 (\<lambda>off. pbind get_w64 (\<lambda>h. pbind get_w64 (\<lambda>hs.
     pbind get_w64 (\<lambda>n. pbind get_w64 (\<lambda>s. pbind get_w64 (\<lambda>e. pbind get_w64 (\<lambda>t. pbind get_bulk (\<lambda>b.
       pret (rpc_data_in_t.make p off h hs n s e t b))))))))))"

record rpc_trunc_data_in_t =
  td_path :: string
  td_length :: u64
  td_host_id :: u64
  td_host_size :: u64

definition enc_trunc_data_in :: "rpc_trunc_data_in_t \<Rightarrow> wire" where
  "enc_trunc_data_in s =
     [W_string (Some (td_path s)), W64 (td_length s), W64 (td_host_id s), W64 (td_host_size s)]"

definition dec_trunc_data_in :: "wire \<Rightarrow> (rpc_trunc_data_in_t \<times> wire) option" where
  "dec_trunc_data_in = pbind get_path (\<lambda>p. pbind get_w64 (\<lambda>n. pbind get_w64 (\<lambda>h. pbind get_w64 (\<lambda>hs.
     pret (rpc_trunc_data_in_t.make p n h hs)))))"

record rpc_chunk_stat_in_t =
  ci_dummy :: u32

definition enc_chunk_stat_in :: "rpc_chunk_stat_in_t \<Rightarrow> wire" where
  "enc_chunk_stat_in s = [W32 (ci_dummy s)]"

definition dec_chunk_stat_in :: "wire \<Rightarrow> (rpc_chunk_stat_in_t \<times> wire) option" where
  "dec_chunk_stat_in = pbind get_w32 (\<lambda>d. pret (rpc_chunk_stat_in_t.make d))"

record rpc_chunk_stat_out_t =
  co_err :: u32
  co_chunk_size :: u64
  co_chunk_total :: u64
  co_chunk_free :: u64

definition enc_chunk_stat_out :: "rpc_chunk_stat_out_t \<Rightarrow> wire" where
  "enc_chunk_stat_out s =
     [W32 (co_err s), W64 (co_chunk_size s), W64 (co_chunk_total s), W64 (co_chunk_free s)]"

definition dec_chunk_stat_out :: "wire \<Rightarrow> (rpc_chunk_stat_out_t \<times> wire) option" where
  "dec_chunk_stat_out = pbind get_w32 (\<lambda>e. pbind get_w64 (\<lambda>s. pbind get_w64 (\<lambda>t. pbind get_w64 (\<lambda>f.
     pret (rpc_chunk_stat_out_t.make e s t f)))))"

record rpc_mk_symlink_in_t =
  sl_path :: string
  sl_target_path :: string

definition enc_mk_symlink_in :: "rpc_mk_symlink_in_t \<Rightarrow> wire" where
  "enc_mk_symlink_in s = [W_string (Some (sl_path s)), W_string (Some (sl_target_path s))]"

definition dec_mk_symlink_in :: "wire \<Rightarrow> (rpc_mk_symlink_in_t \<times> wire) option" where
  "dec_mk_symlink_in = pbind get_path (\<lambda>p. pbind get_path (\<lambda>t. pret (rpc_mk_symlink_in_t.make p t)))"

subsection \<open>Every decoder reads what its encoder wrote\<close>

interpretation config_out: hg_proc enc_config_out dec_config_out
  by unfold_locales
    (simp add: enc_config_out_def dec_config_out_def rpc_config_out_t.defs parse_defs)

interpretation err_out: hg_proc enc_err_out dec_err_out
  by unfold_locales (simp add: enc_err_out_def dec_err_out_def rpc_err_out_t.defs parse_defs)

interpretation mk_node_in: hg_proc enc_mk_node_in dec_mk_node_in
  by unfold_locales
    (simp add: enc_mk_node_in_def dec_mk_node_in_def rpc_mk_node_in_t.defs parse_defs)

interpretation path_only_in: hg_proc enc_path_only_in dec_path_only_in
  by unfold_locales
    (simp add: enc_path_only_in_def dec_path_only_in_def rpc_path_only_in_t.defs parse_defs)

interpretation stat_out: hg_proc enc_stat_out dec_stat_out
  by unfold_locales (simp add: enc_stat_out_def dec_stat_out_def rpc_stat_out_t.defs parse_defs)

interpretation trunc_in: hg_proc enc_trunc_in dec_trunc_in
  by unfold_locales (simp add: enc_trunc_in_def dec_trunc_in_def rpc_trunc_in_t.defs parse_defs)

interpretation rm_node_in: hg_proc enc_rm_node_in dec_rm_node_in
  by unfold_locales
    (simp add: enc_rm_node_in_def dec_rm_node_in_def rpc_rm_node_in_t.defs parse_defs)

interpretation rm_metadata_out: hg_proc enc_rm_metadata_out dec_rm_metadata_out
  by unfold_locales
    (simp add: enc_rm_metadata_out_def dec_rm_metadata_out_def rpc_rm_metadata_out_t.defs parse_defs)

interpretation update_metadentry_in: hg_proc enc_update_metadentry_in dec_update_metadentry_in
  by unfold_locales (simp add: enc_update_metadentry_in_def dec_update_metadentry_in_def
      rpc_update_metadentry_in_t.defs parse_defs)

interpretation update_metadentry_size_in:
    hg_proc enc_update_metadentry_size_in dec_update_metadentry_size_in
  by unfold_locales (simp add: enc_update_metadentry_size_in_def dec_update_metadentry_size_in_def
      rpc_update_metadentry_size_in_t.defs parse_defs)

interpretation size_out: hg_proc enc_size_out dec_size_out
  by unfold_locales (simp add: enc_size_out_def dec_size_out_def rpc_size_out_t.defs parse_defs)

interpretation get_dirents_in: hg_proc enc_get_dirents_in dec_get_dirents_in
  by unfold_locales
    (simp add: enc_get_dirents_in_def dec_get_dirents_in_def rpc_get_dirents_in_t.defs parse_defs)

interpretation get_dirents_out: hg_proc enc_get_dirents_out dec_get_dirents_out
  by unfold_locales
    (simp add: enc_get_dirents_out_def dec_get_dirents_out_def rpc_get_dirents_out_t.defs parse_defs)

interpretation data_out: hg_proc enc_data_out dec_data_out
  by unfold_locales (simp add: enc_data_out_def dec_data_out_def rpc_data_out_t.defs parse_defs)

interpretation data_in: hg_proc enc_data_in dec_data_in
  by unfold_locales (simp add: enc_data_in_def dec_data_in_def rpc_data_in_t.defs parse_defs)

interpretation trunc_data_in: hg_proc enc_trunc_data_in dec_trunc_data_in
  by unfold_locales
    (simp add: enc_trunc_data_in_def dec_trunc_data_in_def rpc_trunc_data_in_t.defs parse_defs)

interpretation chunk_stat_in: hg_proc enc_chunk_stat_in dec_chunk_stat_in
  by unfold_locales
    (simp add: enc_chunk_stat_in_def dec_chunk_stat_in_def rpc_chunk_stat_in_t.defs parse_defs)

interpretation chunk_stat_out: hg_proc enc_chunk_stat_out dec_chunk_stat_out
  by unfold_locales
    (simp add: enc_chunk_stat_out_def dec_chunk_stat_out_def rpc_chunk_stat_out_t.defs parse_defs)

interpretation mk_symlink_in: hg_proc enc_mk_symlink_in dec_mk_symlink_in
  by unfold_locales
    (simp add: enc_mk_symlink_in_def dec_mk_symlink_in_def rpc_mk_symlink_in_t.defs parse_defs)

end
