(* ===== verification/Rpc_Classes.thy ===== *)
theory Rpc_Classes
  imports Rpc_Wire
begin

text \<open>
  The two ends of a remote procedure call over the messages of \<open>Rpc_Wire\<close>. The client's end are
  the request types of \<open>client/rpc/rpc_types.hpp\<close>: each has a name, a public id, a class \<open>input\<close>
  that is converted to the structure of the request (brace initialisation: the members in the
  order of the fields) and a class \<open>output\<close> that is read from the structure of the response. The
  daemon's end is the table of \<open>register_server_rpcs\<close>. Margo identifies a procedure by a number
  it computes from the name, the parameter \<open>margo_id\<close>; the public ids of the client are these
  numbers. (The constructors of \<open>input\<close> from a structure, which the client never calls, are left
  out.) The main result is that a call through the messages is \<open>dispatch\<close> of \<open>Rpc_Types\<close>.
\<close>

section \<open>The request types of the client\<close>

text \<open>A string member read from a pointer that may be null.\<close>

definition member_string :: "string option \<Rightarrow> string" where
  "member_string s = (case s of None \<Rightarrow> [] | Some s \<Rightarrow> s)"

definition fs_config_traits :: "string \<times> u64" where
  "fs_config_traits = (''rpc_srv_fs_config'', 3033006080)"

definition fs_config_input :: wire where
  "fs_config_input = []"

definition fs_config_output :: "rpc_config_out_t \<Rightarrow> config_out" where
  "fs_config_output out = \<lparr>
     out_mountdir = member_string (cfg_mountdir out), out_rootdir = member_string (cfg_rootdir out),
     out_atime_state = (cfg_atime_state out \<noteq> 0), out_mtime_state = (cfg_mtime_state out \<noteq> 0),
     out_ctime_state = (cfg_ctime_state out \<noteq> 0), out_link_cnt_state = (cfg_link_cnt_state out \<noteq> 0),
     out_blocks_state = (cfg_blocks_state out \<noteq> 0), out_uid = cfg_uid out, out_gid = cfg_gid out\<rparr>"

definition create_traits :: "string \<times> u64" where
  "create_traits = (''rpc_srv_mk_node'', 796590080)"

definition create_input :: "string \<Rightarrow> u32 \<Rightarrow> rpc_mk_node_in_t" where
  "create_input path mode = rpc_mk_node_in_t.make (c_str path) mode"

definition create_output :: "rpc_err_out_t \<Rightarrow> errno" where
  "create_output out = sint (eo_err out)"

definition stat_traits :: "string \<times> u64" where
  "stat_traits = (''rpc_srv_stat'', 1396244480)"

definition stat_input :: "string \<Rightarrow> rpc_path_only_in_t" where
  "stat_input path = rpc_path_only_in_t.make (c_str path)"

definition stat_output :: "rpc_stat_out_t \<Rightarrow> errno \<times> string" where
  "stat_output out = (sint (so_err out), member_string (so_db_val out))"

definition remove_metadata_traits :: "string \<times> u64" where
  "remove_metadata_traits = (''rpc_srv_rm_metadata'', 2087845888)"

definition remove_metadata_input :: "string \<Rightarrow> rpc_rm_node_in_t" where
  "remove_metadata_input path = rpc_rm_node_in_t.make (c_str path)"

text \<open>The members \<open>m_err\<close>, \<open>m_size\<close> and \<open>m_mode\<close>.\<close>

definition remove_metadata_output :: "rpc_rm_metadata_out_t \<Rightarrow> errno \<times> u64 \<times> u32" where
  "remove_metadata_output out = (sint (ro_err out), ro_size out, ro_mode out)"

definition decr_size_traits :: "string \<times> u64" where
  "decr_size_traits = (''rpc_srv_decr_size'', 1291649024)"

definition decr_size_input :: "string \<Rightarrow> u64 \<Rightarrow> rpc_trunc_in_t" where
  "decr_size_input path len = rpc_trunc_in_t.make (c_str path) len"

definition decr_size_output :: "rpc_err_out_t \<Rightarrow> errno" where
  "decr_size_output out = sint (eo_err out)"

definition update_metadentry_traits :: "string \<times> u64" where
  "update_metadentry_traits = (''rpc_srv_update_metadentry'', 99483648)"

definition update_metadentry_input :: "string \<Rightarrow> u64 \<Rightarrow> u32 \<Rightarrow> u32 \<Rightarrow> u32 \<Rightarrow> u64 \<Rightarrow> u64 \<Rightarrow> u64 \<Rightarrow>
    u64 \<Rightarrow> u64 \<Rightarrow> bool \<Rightarrow> bool \<Rightarrow> bool \<Rightarrow> bool \<Rightarrow> bool \<Rightarrow> bool \<Rightarrow> bool \<Rightarrow> rpc_update_metadentry_in_t" where
  "update_metadentry_input path nlink mode uid gid sz blocks atime mtime ctime nlink_flag
     mode_flag size_flag block_flag atime_flag mtime_flag ctime_flag =
   rpc_update_metadentry_in_t.make (c_str path) nlink mode uid gid sz blocks atime mtime ctime
     (of_bool nlink_flag) (of_bool mode_flag) (of_bool size_flag) (of_bool block_flag)
     (of_bool atime_flag) (of_bool mtime_flag) (of_bool ctime_flag)"

definition update_metadentry_output :: "rpc_err_out_t \<Rightarrow> errno" where
  "update_metadentry_output out = sint (eo_err out)"

definition get_metadentry_size_traits :: "string \<times> u64" where
  "get_metadentry_size_traits = (''rpc_srv_get_metadentry_size'', 3426484224)"

definition get_metadentry_size_input :: "string \<Rightarrow> rpc_path_only_in_t" where
  "get_metadentry_size_input path = rpc_path_only_in_t.make (c_str path)"

definition get_metadentry_size_output :: "rpc_size_out_t \<Rightarrow> errno \<times> u64" where
  "get_metadentry_size_output out = (sint (zo_err out), zo_ret_size out)"

definition update_metadentry_size_traits :: "string \<times> u64" where
  "update_metadentry_size_traits = (''rpc_srv_update_metadentry_size'', 2760900608)"

definition update_metadentry_size_input ::
    "string \<Rightarrow> u64 \<Rightarrow> u64 \<Rightarrow> bool \<Rightarrow> rpc_update_metadentry_size_in_t" where
  "update_metadentry_size_input path sz offset app =
     rpc_update_metadentry_size_in_t.make (c_str path) sz offset (of_bool app)"

definition update_metadentry_size_output :: "rpc_size_out_t \<Rightarrow> errno \<times> u64" where
  "update_metadentry_size_output out = (sint (zo_err out), zo_ret_size out)"

definition mk_symlink_traits :: "string \<times> u64" where
  "mk_symlink_traits = (''rpc_srv_mk_symlink'', 3207004160)"

definition mk_symlink_input :: "string \<Rightarrow> string \<Rightarrow> rpc_mk_symlink_in_t" where
  "mk_symlink_input path target_path = rpc_mk_symlink_in_t.make (c_str path) (c_str target_path)"

definition mk_symlink_output :: "rpc_err_out_t \<Rightarrow> errno" where
  "mk_symlink_output out = sint (eo_err out)"

definition remove_data_traits :: "string \<times> u64" where
  "remove_data_traits = (''rpc_srv_rm_data'', 2649292800)"

definition remove_data_input :: "string \<Rightarrow> rpc_rm_node_in_t" where
  "remove_data_input path = rpc_rm_node_in_t.make (c_str path)"

definition remove_data_output :: "rpc_err_out_t \<Rightarrow> errno" where
  "remove_data_output out = sint (eo_err out)"

definition write_data_traits :: "string \<times> u64" where
  "write_data_traits = (''rpc_srv_write_data'', 3716481024)"

definition write_data_input :: "string \<Rightarrow> u64 \<Rightarrow> u64 \<Rightarrow> u64 \<Rightarrow> u64 \<Rightarrow> u64 \<Rightarrow> u64 \<Rightarrow> u64 \<Rightarrow> bytes \<Rightarrow>
    rpc_data_in_t" where
  "write_data_input path offset host_id host_size chunk_n chunk_start chunk_end total_chunk_size buffers =
     rpc_data_in_t.make (c_str path) offset host_id host_size chunk_n chunk_start chunk_end
       total_chunk_size buffers"

definition write_data_output :: "rpc_data_out_t \<Rightarrow> errno \<times> u64" where
  "write_data_output out = (sint (do_err out), do_io_size out)"

definition read_data_traits :: "string \<times> u64" where
  "read_data_traits = (''rpc_srv_read_data'', 892207104)"

definition read_data_input :: "string \<Rightarrow> u64 \<Rightarrow> u64 \<Rightarrow> u64 \<Rightarrow> u64 \<Rightarrow> u64 \<Rightarrow> u64 \<Rightarrow> u64 \<Rightarrow> bytes \<Rightarrow>
    rpc_data_in_t" where
  "read_data_input path offset host_id host_size chunk_n chunk_start chunk_end total_chunk_size buffers =
     rpc_data_in_t.make (c_str path) offset host_id host_size chunk_n chunk_start chunk_end
       total_chunk_size buffers"

definition read_data_output :: "rpc_data_out_t \<Rightarrow> errno \<times> u64" where
  "read_data_output out = (sint (do_err out), do_io_size out)"

definition trunc_data_traits :: "string \<times> u64" where
  "trunc_data_traits = (''rpc_srv_trunc_data'', 1850933248)"

definition trunc_data_input :: "string \<Rightarrow> u64 \<Rightarrow> u64 \<Rightarrow> u64 \<Rightarrow> rpc_trunc_data_in_t" where
  "trunc_data_input path len host_id host_size =
     rpc_trunc_data_in_t.make (c_str path) len host_id host_size"

definition trunc_data_output :: "rpc_err_out_t \<Rightarrow> errno" where
  "trunc_data_output out = sint (eo_err out)"

definition get_dirents_traits :: "string \<times> u64" where
  "get_dirents_traits = (''rpc_srv_get_dirents'', 4121034752)"

definition get_dirents_input :: "string \<Rightarrow> bytes \<Rightarrow> rpc_get_dirents_in_t" where
  "get_dirents_input path buffers = rpc_get_dirents_in_t.make (c_str path) buffers"

definition get_dirents_output :: "rpc_get_dirents_out_t \<Rightarrow> errno \<times> u64" where
  "get_dirents_output out = (sint (go_err out), go_dirents_size out)"

definition get_dirents_extended_traits :: "string \<times> u64" where
  "get_dirents_extended_traits = (''rpc_srv_get_dirents_extended'', 1463943168)"

definition get_dirents_extended_input :: "string \<Rightarrow> bytes \<Rightarrow> rpc_get_dirents_in_t" where
  "get_dirents_extended_input path buffers = rpc_get_dirents_in_t.make (c_str path) buffers"

definition get_dirents_extended_output :: "rpc_get_dirents_out_t \<Rightarrow> errno \<times> u64" where
  "get_dirents_extended_output out = (sint (go_err out), go_dirents_size out)"

definition chunk_stat_traits :: "string \<times> u64" where
  "chunk_stat_traits = (''rpc_srv_chunk_stat'', 532742144)"

definition chunk_stat_input :: "u32 \<Rightarrow> rpc_chunk_stat_in_t" where
  "chunk_stat_input dummy = rpc_chunk_stat_in_t.make dummy"

definition chunk_stat_output :: "rpc_chunk_stat_out_t \<Rightarrow> errno \<times> u64 \<times> u64 \<times> u64" where
  "chunk_stat_output out =
     (sint (co_err out), co_chunk_size out, co_chunk_total out, co_chunk_free out)"

definition register_user_request_types :: "(string \<times> u64) list" where
  "register_user_request_types =
     [fs_config_traits, create_traits, stat_traits, remove_metadata_traits, decr_size_traits,
      update_metadentry_traits, get_metadentry_size_traits, update_metadentry_size_traits,
      mk_symlink_traits, remove_data_traits, write_data_traits, read_data_traits,
      trunc_data_traits, get_dirents_traits, chunk_stat_traits, get_dirents_extended_traits]"

lemmas traits_defs = fs_config_traits_def create_traits_def stat_traits_def
  remove_metadata_traits_def decr_size_traits_def update_metadentry_traits_def
  get_metadentry_size_traits_def update_metadentry_size_traits_def mk_symlink_traits_def
  remove_data_traits_def write_data_traits_def read_data_traits_def trunc_data_traits_def
  get_dirents_traits_def get_dirents_extended_traits_def chunk_stat_traits_def

lemmas input_defs = fs_config_input_def create_input_def stat_input_def remove_metadata_input_def
  decr_size_input_def update_metadentry_input_def get_metadentry_size_input_def
  update_metadentry_size_input_def mk_symlink_input_def remove_data_input_def write_data_input_def
  read_data_input_def trunc_data_input_def get_dirents_input_def get_dirents_extended_input_def
  chunk_stat_input_def

lemmas output_defs = fs_config_output_def create_output_def stat_output_def
  remove_metadata_output_def decr_size_output_def update_metadentry_output_def
  get_metadentry_size_output_def update_metadentry_size_output_def mk_symlink_output_def
  remove_data_output_def write_data_output_def read_data_output_def trunc_data_output_def
  get_dirents_output_def get_dirents_extended_output_def chunk_stat_output_def member_string_def

lemmas struct_make_defs = rpc_config_out_t.defs rpc_err_out_t.defs rpc_mk_node_in_t.defs
  rpc_path_only_in_t.defs rpc_stat_out_t.defs rpc_trunc_in_t.defs rpc_rm_node_in_t.defs
  rpc_rm_metadata_out_t.defs rpc_update_metadentry_in_t.defs rpc_update_metadentry_size_in_t.defs
  rpc_size_out_t.defs rpc_get_dirents_in_t.defs rpc_get_dirents_out_t.defs rpc_data_out_t.defs
  rpc_data_in_t.defs rpc_trunc_data_in_t.defs rpc_chunk_stat_in_t.defs rpc_chunk_stat_out_t.defs
  rpc_mk_symlink_in_t.defs

section \<open>A request and its answer at the client\<close>

text \<open>The message the engine posts for a request: the public id and the encoded input. The
  arguments are those of the callers in \<open>client/rpc/forward_metadata.cpp\<close> and
  \<open>client/rpc/forward_data.cpp\<close>.\<close>

fun request_message :: "rpc_req \<Rightarrow> u64 \<times> wire" where
  "request_message Req_fs_config = (snd fs_config_traits, fs_config_input)"
| "request_message (Req_create p m) = (snd create_traits, enc_mk_node_in (create_input p m))"
| "request_message (Req_stat p) = (snd stat_traits, enc_path_only_in (stat_input p))"
| "request_message (Req_remove_metadata p) =
     (snd remove_metadata_traits, enc_rm_node_in (remove_metadata_input p))"
| "request_message (Req_remove_data p) =
     (snd remove_data_traits, enc_rm_node_in (remove_data_input p))"
| "request_message (Req_decr_size p len) =
     (snd decr_size_traits, enc_trunc_in (decr_size_input p len))"
| "request_message (Req_update_metadentry p u) =
     (snd update_metadentry_traits, enc_update_metadentry_in (update_metadentry_input p
        (snd (in_nlink u)) 0 0 0 (snd (in_size u)) (snd (in_blocks u)) (snd (in_atime u))
        (snd (in_mtime u)) (snd (in_ctime u)) (fst (in_nlink u)) False (fst (in_size u))
        (fst (in_blocks u)) (fst (in_atime u)) (fst (in_mtime u)) (fst (in_ctime u))))"
| "request_message (Req_update_metadentry_size p sz off app) =
     (snd update_metadentry_size_traits,
      enc_update_metadentry_size_in (update_metadentry_size_input p sz off app))"
| "request_message (Req_get_metadentry_size p) =
     (snd get_metadentry_size_traits, enc_path_only_in (get_metadentry_size_input p))"
| "request_message (Req_get_dirents p buf) =
     (snd get_dirents_traits, enc_get_dirents_in (get_dirents_input p buf))"
| "request_message (Req_get_dirents_extended p buf) =
     (snd get_dirents_extended_traits, enc_get_dirents_in (get_dirents_extended_input p buf))"
| "request_message (Req_mk_symlink p t) =
     (snd mk_symlink_traits, enc_mk_symlink_in (mk_symlink_input p t))"
| "request_message (Req_write i buf) =
     (snd write_data_traits, enc_data_in (write_data_input (in_path i) (in_offset i) (in_host_id i)
        (in_host_size i) (in_chunk_n i) (in_chunk_start i) (in_chunk_end i)
        (in_total_chunk_size i) buf))"
| "request_message (Req_read i buf) =
     (snd read_data_traits, enc_data_in (read_data_input (in_path i) (in_offset i) (in_host_id i)
        (in_host_size i) (in_chunk_n i) (in_chunk_start i) (in_chunk_end i)
        (in_total_chunk_size i) buf))"
| "request_message (Req_truncate p len h n) =
     (snd trunc_data_traits, enc_trunc_data_in (trunc_data_input p len h n))"
| "request_message Req_chunk_stat = (snd chunk_stat_traits, enc_chunk_stat_in (chunk_stat_input 0))"

text \<open>What the client reads from a response; \<open>b\<close> is its exposed memory after the call.\<close>

definition read_output ::
    "(wire \<Rightarrow> ('o \<times> wire) option) \<Rightarrow> ('o \<Rightarrow> 'a) \<Rightarrow> ('a \<Rightarrow> rpc_resp) \<Rightarrow> wire \<Rightarrow> rpc_resp option" where
  "read_output decode out f w = map_option (\<lambda>(s, _). f (out s)) (decode w)"

fun read_response :: "rpc_req \<Rightarrow> wire \<Rightarrow> bytes \<Rightarrow> rpc_resp option" where
  "read_response Req_fs_config w b = read_output dec_config_out fs_config_output Resp_config w"
| "read_response (Req_create p m) w b = read_output dec_err_out create_output Resp_err w"
| "read_response (Req_stat p) w b =
     read_output dec_stat_out stat_output (\<lambda>(e, v). Resp_stat e (Some v)) w"
| "read_response (Req_remove_metadata p) w b =
     read_output dec_rm_metadata_out remove_metadata_output (\<lambda>(e, sz, m). Resp_rm e m sz) w"
| "read_response (Req_remove_data p) w b = read_output dec_err_out remove_data_output Resp_err w"
| "read_response (Req_decr_size p len) w b = read_output dec_err_out decr_size_output Resp_err w"
| "read_response (Req_update_metadentry p u) w b =
     read_output dec_err_out update_metadentry_output Resp_err w"
| "read_response (Req_update_metadentry_size p sz off app) w b =
     read_output dec_size_out update_metadentry_size_output (\<lambda>(e, n). Resp_size e n) w"
| "read_response (Req_get_metadentry_size p) w b =
     read_output dec_size_out get_metadentry_size_output (\<lambda>(e, n). Resp_size e n) w"
| "read_response (Req_get_dirents p buf) w b =
     read_output dec_get_dirents_out get_dirents_output (\<lambda>(e, n). Resp_dirents e n b) w"
| "read_response (Req_get_dirents_extended p buf) w b =
     read_output dec_get_dirents_out get_dirents_extended_output (\<lambda>(e, n). Resp_dirents e n b) w"
| "read_response (Req_mk_symlink p t) w b = read_output dec_err_out mk_symlink_output Resp_err w"
| "read_response (Req_write i buf) w b =
     read_output dec_data_out write_data_output (\<lambda>(e, n). Resp_data e n b) w"
| "read_response (Req_read i buf) w b =
     read_output dec_data_out read_data_output (\<lambda>(e, n). Resp_data e n b) w"
| "read_response (Req_truncate p len h n) w b = read_output dec_err_out trunc_data_output Resp_err w"
| "read_response Req_chunk_stat w b =
     read_output dec_chunk_stat_out chunk_stat_output (\<lambda>(e, s, t, f). Resp_chunk_stat e s t f) w"

section \<open>The table of the daemon\<close>

text \<open>A registered procedure: \<open>margo_get_input\<close> decodes the message with the registered input
  structure (None when it cannot), \<open>margo_respond\<close> encodes the registered output structure.\<close>

type_synonym 'db server_rpc = "wire \<Rightarrow> ('db daemon, wire \<times> bytes) cmd option"

definition registered ::
    "(wire \<Rightarrow> ('i \<times> wire) option) \<Rightarrow> ('o \<Rightarrow> wire) \<Rightarrow> ('i \<Rightarrow> ('db daemon, 'o \<times> bytes) cmd) \<Rightarrow> 'db server_rpc" where
  "registered decode encode handler w =
     map_option (\<lambda>(i, _). cbind (handler i) (\<lambda>(out, b). cret (encode out, b))) (decode w)"

text \<open>A procedure without input.\<close>

definition dec_void :: "wire \<Rightarrow> (unit \<times> wire) option" where
  "dec_void w = Some ((), w)"

definition answer :: "('a \<Rightarrow> 'o) \<Rightarrow> ('s, 'a) cmd \<Rightarrow> ('s, 'o \<times> bytes) cmd" where
  "answer f m = cbind m (\<lambda>x. cret (f x, []))"

definition answer_buffer :: "('a \<Rightarrow> 'o \<times> bytes) \<Rightarrow> ('s, 'a) cmd \<Rightarrow> ('s, 'o \<times> bytes) cmd" where
  "answer_buffer f m = cbind m (\<lambda>x. cret (f x))"

definition config_struct :: "config_out \<Rightarrow> rpc_config_out_t" where
  "config_struct c = rpc_config_out_t.make (Some (out_mountdir c)) (Some (out_rootdir c))
     (of_bool (out_atime_state c)) (of_bool (out_mtime_state c)) (of_bool (out_ctime_state c))
     (of_bool (out_link_cnt_state c)) (of_bool (out_blocks_state c)) (out_uid c) (out_gid c)"

definition err_struct :: "errno \<Rightarrow> rpc_err_out_t" where
  "err_struct e = rpc_err_out_t.make (of_int e)"

definition size_struct :: "errno \<times> u64 \<Rightarrow> rpc_size_out_t" where
  "size_struct = (\<lambda>(e, n). rpc_size_out_t.make (of_int e) n)"

definition data_args :: "rpc_data_in_t \<Rightarrow> data_in" where
  "data_args i = \<lparr>in_path = di_path i, in_offset = di_offset i, in_host_id = di_host_id i,
     in_host_size = di_host_size i, in_chunk_n = di_chunk_n i, in_chunk_start = di_chunk_start i,
     in_chunk_end = di_chunk_end i, in_total_chunk_size = di_total_chunk_size i\<rparr>"

text \<open>The handlers compare a flag with \<open>HG_TRUE\<close>, which is 1.\<close>

definition update_args :: "rpc_update_metadentry_in_t \<Rightarrow> update_in" where
  "update_args i = \<lparr>in_blocks = (ui_block_flag i = 1, ui_blocks i),
     in_nlink = (ui_nlink_flag i = 1, ui_nlink i), in_size = (ui_size_flag i = 1, ui_size i),
     in_atime = (ui_atime_flag i = 1, ui_atime i), in_mtime = (ui_mtime_flag i = 1, ui_mtime i),
     in_ctime = (ui_ctime_flag i = 1, ui_ctime i)\<rparr>"

text \<open>The variable \<open>rpc_trunc_data_in_t in{}\<close> of \<open>rpc_srv_truncate\<close> after \<open>margo_get_input\<close> with
  the registered structure \<open>rpc_trunc_in_t\<close>: the members of that structure are the first two.\<close>

definition truncate_in :: "rpc_trunc_in_t \<Rightarrow> rpc_trunc_data_in_t" where
  "truncate_in i = rpc_trunc_data_in_t.make (ti_path i) (ti_length i) 0 0"

definition register_server_rpcs :: "'db daemon_env \<Rightarrow> (string \<times> 'db server_rpc) list" where
  "register_server_rpcs E =
    [(fst fs_config_traits, registered dec_void enc_config_out
        (\<lambda>_. answer config_struct (rpc_srv_get_fs_config E))),
     (fst create_traits, registered dec_mk_node_in enc_err_out
        (\<lambda>i. answer err_struct (rpc_srv_create E (mkn_path i) (mkn_mode i)))),
     (fst stat_traits, registered dec_path_only_in enc_stat_out
        (\<lambda>i. answer (\<lambda>(e, v). rpc_stat_out_t.make (of_int e) v) (rpc_srv_stat E (po_path i)))),
     (fst decr_size_traits, registered dec_trunc_in enc_err_out
        (\<lambda>i. answer err_struct (rpc_srv_decr_size E (ti_path i) (ti_length i)))),
     (fst remove_metadata_traits, registered dec_rm_node_in enc_rm_metadata_out
        (\<lambda>i. answer (\<lambda>(e, m, sz). rpc_rm_metadata_out_t.make (of_int e) sz m)
           (rpc_srv_remove_metadata E (rm_path i)))),
     (fst remove_data_traits, registered dec_rm_node_in enc_err_out
        (\<lambda>i. answer err_struct (rpc_srv_remove_data E (rm_path i)))),
     (fst update_metadentry_traits, registered dec_update_metadentry_in enc_err_out
        (\<lambda>i. answer err_struct (rpc_srv_update_metadentry E (ui_path i) (update_args i)))),
     (fst get_metadentry_size_traits, registered dec_path_only_in enc_size_out
        (\<lambda>i. answer size_struct (rpc_srv_get_metadentry_size E (po_path i)))),
     (fst update_metadentry_size_traits, registered dec_update_metadentry_size_in enc_size_out
        (\<lambda>i. answer size_struct (rpc_srv_update_metadentry_size E (us_path i) (us_size i)
           (us_offset i) (us_append i = 1)))),
     (fst get_dirents_traits, registered dec_get_dirents_in enc_get_dirents_out
        (\<lambda>i. answer_buffer (\<lambda>(e, n, b). (rpc_get_dirents_out_t.make (of_int e) n, b))
           (rpc_srv_get_dirents E (gd_path i) (gd_bulk_handle i)))),
     (fst get_dirents_extended_traits, registered dec_get_dirents_in enc_get_dirents_out
        (\<lambda>i. answer_buffer (\<lambda>(e, n, b). (rpc_get_dirents_out_t.make (of_int e) n, b))
           (rpc_srv_get_dirents_extended E (gd_path i) (gd_bulk_handle i)))),
     (fst mk_symlink_traits, registered dec_mk_symlink_in enc_err_out
        (\<lambda>i. answer err_struct (rpc_srv_mk_symlink E (sl_path i) (sl_target_path i)))),
     (fst write_data_traits, registered dec_data_in enc_data_out
        (\<lambda>i. answer_buffer (\<lambda>(e, n). (rpc_data_out_t.make (of_int e) n, di_bulk_handle i))
           (rpc_srv_write E (data_args i) (di_bulk_handle i)))),
     (fst read_data_traits, registered dec_data_in enc_data_out
        (\<lambda>i. answer_buffer (\<lambda>(e, n, b). (rpc_data_out_t.make (of_int e) n, b))
           (rpc_srv_read E (data_args i) (di_bulk_handle i)))),
     (fst trunc_data_traits, registered dec_trunc_in enc_err_out
        (\<lambda>i. let i = truncate_in i in answer err_struct
           (rpc_srv_truncate E (td_path i) (td_length i) (td_host_id i) (td_host_size i)))),
     (fst chunk_stat_traits, registered dec_chunk_stat_in enc_chunk_stat_out
        (\<lambda>_. answer (\<lambda>(e, s, t, f). rpc_chunk_stat_out_t.make (of_int e) s t f)
           rpc_srv_get_chunk_stat))]"

text \<open>Margo finds the procedure by the number of its name.\<close>

definition find_rpc :: "(string \<Rightarrow> u64) \<Rightarrow> 'db daemon_env \<Rightarrow> u64 \<Rightarrow> 'db server_rpc option" where
  "find_rpc margo_id E rid =
     map_option snd (find (\<lambda>(name, _). margo_id name = rid) (register_server_rpcs E))"

text \<open>A request from the client's input object to its output object; None when no procedure is
  registered for it or a message cannot be decoded.\<close>

definition wire_call ::
    "(string \<Rightarrow> u64) \<Rightarrow> 'db daemon_env \<Rightarrow> rpc_req \<Rightarrow> ('db daemon, rpc_resp option) cmd option" where
  "wire_call margo_id E req =
     (case request_message req of (rid, w) \<Rightarrow>
      case find_rpc margo_id E rid of None \<Rightarrow> None
      | Some rpc \<Rightarrow> map_option (\<lambda>m. cbind m (\<lambda>(w', b). cret (read_response req w' b))) (rpc w))"

section \<open>A call is the dispatch of the request\<close>

text \<open>The strings of a request come from C strings.\<close>

fun request_strings :: "rpc_req \<Rightarrow> string list" where
  "request_strings Req_fs_config = []"
| "request_strings (Req_create p m) = [p]"
| "request_strings (Req_stat p) = [p]"
| "request_strings (Req_remove_metadata p) = [p]"
| "request_strings (Req_remove_data p) = [p]"
| "request_strings (Req_decr_size p len) = [p]"
| "request_strings (Req_update_metadentry p u) = [p]"
| "request_strings (Req_update_metadentry_size p sz off app) = [p]"
| "request_strings (Req_get_metadentry_size p) = [p]"
| "request_strings (Req_get_dirents p buf) = [p]"
| "request_strings (Req_get_dirents_extended p buf) = [p]"
| "request_strings (Req_mk_symlink p t) = [p, t]"
| "request_strings (Req_write i buf) = [in_path i]"
| "request_strings (Req_read i buf) = [in_path i]"
| "request_strings (Req_truncate p len h n) = [p]"
| "request_strings Req_chunk_stat = []"

text \<open>An error code keeps its low 32 bits, a null \<open>db_val\<close> becomes the empty string.\<close>

definition wire_errno :: "errno \<Rightarrow> errno" where
  "wire_errno e = sint (of_int e :: u32)"

fun received :: "rpc_resp \<Rightarrow> rpc_resp" where
  "received (Resp_config c) = Resp_config c"
| "received (Resp_err e) = Resp_err (wire_errno e)"
| "received (Resp_stat e v) = Resp_stat (wire_errno e) (Some (case v of None \<Rightarrow> [] | Some s \<Rightarrow> s))"
| "received (Resp_rm e m sz) = Resp_rm (wire_errno e) m sz"
| "received (Resp_size e n) = Resp_size (wire_errno e) n"
| "received (Resp_dirents e n b) = Resp_dirents (wire_errno e) n b"
| "received (Resp_data e n b) = Resp_data (wire_errno e) n b"
| "received (Resp_chunk_stat e s t f) = Resp_chunk_stat (wire_errno e) s t f"

lemma wire_errno_id: "\<bar>e\<bar> < 2 ^ 31 \<Longrightarrow> wire_errno e = e"
  unfolding wire_errno_def sint_sbintrunc' by (simp add: signed_take_bit_int_eq_self)

lemma cbind_assoc: "cbind (cbind m f) g = cbind m (\<lambda>x. cbind (f x) g)"
  by (rule ext) (simp add: cbind_def split: prod.split sum.split)

lemma cbind_cret: "cbind (cret x) f = f x"
  by (simp add: cbind_def cret_def)

lemma of_bool_8 [simp]: "(of_bool b :: 8 word) \<noteq> 0 \<longleftrightarrow> b" "(of_bool b :: 8 word) = 1 \<longleftrightarrow> b"
  by (cases b; simp)+

text \<open>A registered procedure on the message of its structure, and the answer at the client.\<close>

lemma registered_encode:
  assumes "hg_proc enc1 dec1"
  shows "registered dec1 enc2 handler (enc1 i) =
    Some (cbind (handler i) (\<lambda>(out, b). cret (enc2 out, b)))"
  by (simp add: registered_def hg_proc.decode_encode [OF assms])

lemma read_output_encode:
  assumes "hg_proc enc1 dec1"
  shows "read_output dec1 out f (enc1 s) = Some (f (out s))"
  by (simp add: read_output_def hg_proc.decode_encode [OF assms])

lemma registered_void:
  "registered dec_void enc2 handler w =
    Some (cbind (handler ()) (\<lambda>(out, b). cret (enc2 out, b)))"
  by (simp add: registered_def dec_void_def)

lemmas hg_procs = config_out.hg_proc_axioms err_out.hg_proc_axioms mk_node_in.hg_proc_axioms
  path_only_in.hg_proc_axioms stat_out.hg_proc_axioms trunc_in.hg_proc_axioms
  rm_node_in.hg_proc_axioms rm_metadata_out.hg_proc_axioms update_metadentry_in.hg_proc_axioms
  update_metadentry_size_in.hg_proc_axioms size_out.hg_proc_axioms get_dirents_in.hg_proc_axioms
  get_dirents_out.hg_proc_axioms data_out.hg_proc_axioms data_in.hg_proc_axioms
  chunk_stat_in.hg_proc_axioms chunk_stat_out.hg_proc_axioms mk_symlink_in.hg_proc_axioms

lemmas registered_simps = hg_procs [THEN registered_encode]
lemmas read_output_simps = hg_procs [THEN read_output_encode]

text \<open>The registered structure of truncate reads the first two fields of the message.\<close>

lemma dec_trunc_in_data:
  "dec_trunc_in (enc_trunc_data_in s) =
    Some (rpc_trunc_in_t.make (td_path s) (td_length s), [W64 (td_host_id s), W64 (td_host_size s)])"
  by (simp add: dec_trunc_in_def enc_trunc_data_in_def parse_defs)

definition margo_ids :: "(string \<Rightarrow> u64) \<Rightarrow> bool" where
  "margo_ids margo_id = list_all (\<lambda>(name, rid). margo_id name = rid) register_user_request_types"

lemma margo_ids_simps:
  assumes "margo_ids margo_id"
  shows "margo_id (fst fs_config_traits) = 3033006080" "margo_id (fst create_traits) = 796590080"
    "margo_id (fst stat_traits) = 1396244480" "margo_id (fst remove_metadata_traits) = 2087845888"
    "margo_id (fst decr_size_traits) = 1291649024"
    "margo_id (fst update_metadentry_traits) = 99483648"
    "margo_id (fst get_metadentry_size_traits) = 3426484224"
    "margo_id (fst update_metadentry_size_traits) = 2760900608"
    "margo_id (fst mk_symlink_traits) = 3207004160" "margo_id (fst remove_data_traits) = 2649292800"
    "margo_id (fst write_data_traits) = 3716481024" "margo_id (fst read_data_traits) = 892207104"
    "margo_id (fst trunc_data_traits) = 1850933248" "margo_id (fst get_dirents_traits) = 4121034752"
    "margo_id (fst get_dirents_extended_traits) = 1463943168"
    "margo_id (fst chunk_stat_traits) = 532742144"
  using assms by (simp_all add: margo_ids_def register_user_request_types_def traits_defs)

lemma traits_ids:
  "snd fs_config_traits = 3033006080" "snd create_traits = 796590080"
  "snd stat_traits = 1396244480" "snd remove_metadata_traits = 2087845888"
  "snd decr_size_traits = 1291649024" "snd update_metadentry_traits = 99483648"
  "snd get_metadentry_size_traits = 3426484224" "snd update_metadentry_size_traits = 2760900608"
  "snd mk_symlink_traits = 3207004160" "snd remove_data_traits = 2649292800"
  "snd write_data_traits = 3716481024" "snd read_data_traits = 892207104"
  "snd trunc_data_traits = 1850933248" "snd get_dirents_traits = 4121034752"
  "snd get_dirents_extended_traits = 1463943168" "snd chunk_stat_traits = 532742144"
  by (simp_all add: traits_defs)

lemmas wire_call_simps = wire_call_def find_rpc_def register_server_rpcs_def traits_ids
  registered_simps registered_void read_output_simps cbind_assoc cbind_cret answer_def
  answer_buffer_def resp_of_def config_struct_def err_struct_def size_struct_def data_args_def
  update_args_def wire_errno_def input_defs output_defs struct_make_defs split_beta

lemma config_out_eta:
  "\<lparr>out_mountdir = out_mountdir c, out_rootdir = out_rootdir c, out_atime_state = out_atime_state c,
    out_mtime_state = out_mtime_state c, out_ctime_state = out_ctime_state c,
    out_link_cnt_state = out_link_cnt_state c, out_blocks_state = out_blocks_state c,
    out_uid = out_uid c, out_gid = out_gid c\<rparr> = c"
  by simp

lemma data_in_eta:
  "\<lparr>in_path = in_path i, in_offset = in_offset i, in_host_id = in_host_id i,
    in_host_size = in_host_size i, in_chunk_n = in_chunk_n i, in_chunk_start = in_chunk_start i,
    in_chunk_end = in_chunk_end i, in_total_chunk_size = in_total_chunk_size i\<rparr> = i"
  by simp

lemma update_in_eta:
  "\<lparr>in_blocks = in_blocks u, in_nlink = in_nlink u, in_size = in_size u, in_atime = in_atime u,
    in_mtime = in_mtime u, in_ctime = in_ctime u\<rparr> = u"
  by simp

text \<open>The call through the messages, for all sixteen requests.\<close>

lemma wire_call_eq:
  assumes "margo_ids margo_id" "list_all (\<lambda>s. NUL \<notin> set s) (request_strings req)"
  shows "wire_call margo_id E req =
    Some (cbind (dispatch E req) (\<lambda>r. cret (Some (received r))))"
proof (cases req)
  case Req_fs_config
  then show ?thesis using assms(2) by (simp add: wire_call_simps config_out_eta margo_ids_simps [OF assms(1)])
next
  case (Req_create p m)
  then show ?thesis using assms(2) by (simp add: wire_call_simps margo_ids_simps [OF assms(1)])
next
  case (Req_stat p)
  then show ?thesis using assms(2) by (simp add: wire_call_simps margo_ids_simps [OF assms(1)])
next
  case (Req_remove_metadata p)
  then show ?thesis using assms(2) by (simp add: wire_call_simps margo_ids_simps [OF assms(1)])
next
  case (Req_remove_data p)
  then show ?thesis using assms(2) by (simp add: wire_call_simps margo_ids_simps [OF assms(1)])
next
  case (Req_decr_size p len)
  then show ?thesis using assms(2) by (simp add: wire_call_simps margo_ids_simps [OF assms(1)])
next
  case (Req_update_metadentry p u)
  then show ?thesis using assms(2) by (simp add: wire_call_simps update_in_eta margo_ids_simps [OF assms(1)])
next
  case (Req_update_metadentry_size p sz off app)
  then show ?thesis using assms(2) by (simp add: wire_call_simps margo_ids_simps [OF assms(1)])
next
  case (Req_get_metadentry_size p)
  then show ?thesis using assms(2) by (simp add: wire_call_simps margo_ids_simps [OF assms(1)])
next
  case (Req_get_dirents p buf)
  then show ?thesis using assms(2) by (simp add: wire_call_simps margo_ids_simps [OF assms(1)])
next
  case (Req_get_dirents_extended p buf)
  then show ?thesis using assms(2) by (simp add: wire_call_simps margo_ids_simps [OF assms(1)])
next
  case (Req_mk_symlink p t)
  then show ?thesis using assms(2) by (simp add: wire_call_simps margo_ids_simps [OF assms(1)])
next
  case (Req_write i buf)
  then show ?thesis using assms(2) by (simp add: wire_call_simps data_in_eta margo_ids_simps [OF assms(1)])
next
  case (Req_read i buf)
  then show ?thesis using assms(2) by (simp add: wire_call_simps data_in_eta margo_ids_simps [OF assms(1)])
next
  case (Req_truncate p len h n)
  then show ?thesis using assms(2) by (simp add: wire_call_simps dec_trunc_in_data registered_def truncate_in_def margo_ids_simps [OF assms(1)])
next
  case Req_chunk_stat
  then show ?thesis using assms(2) by (simp add: wire_call_simps margo_ids_simps [OF assms(1)])
qed

end
