(* ===== verification/Forward_Data.thy ===== *)
theory Forward_Data
  imports Rpc_Types
begin

text \<open>
  \<open>client/rpc/forward_data.cpp\<close>: the client's side of the data requests. A read or write is
  split by host: every host on which some chunk of the range lies gets one request with the
  number of its chunks and the number of bytes they hold of the range.
\<close>

section \<open>The client's context\<close>

text \<open>What the forwarders read of \<open>CTX\<close>: the network, the distributor and the number of hosts
  (\<open>CTX->hosts()\<close>; the endpoint of host \<open>h\<close> is \<open>h\<close>).\<close>

record 'n client =
  cl_net :: "'n network"
  cl_hash :: "string \<Rightarrow> u64"
  cl_distributor :: distributor
  cl_hosts :: u32

text \<open>\<open>CTX->hosts().at(h)\<close>.\<close>

definition host_at :: "'n client \<Rightarrow> u64 \<Rightarrow> u32 res" where
  "host_at C h = (if h < ucast (cl_hosts C) then Inr (ucast h) else Inl OutOfRange)"

definition locate_chunk :: "'n client \<Rightarrow> path \<Rightarrow> u64 \<Rightarrow> u64 res" where
  "locate_chunk C p c =
    res_bind (locate_data (cl_hash C) (cl_distributor C) p (ucast c)) (\<lambda>h. Inr (ucast h))"

section \<open>forward_get_chunk_stat\<close>

text \<open>Requests are posted until one cannot be posted; the posted ones are all awaited.\<close>

fun post_all :: "'n client \<Rightarrow> (u64 \<times> rpc_req) list \<Rightarrow> ('n, bool \<times> delivery list) cmd" where
  "post_all C [] = cret (True, [])"
| "post_all C ((h, req) # rs) =
    cbind (clift (host_at C h)) (\<lambda>endp.
    cbind (net_send (cl_net C) endp req) (\<lambda>dl. case dl of
      PostFails \<Rightarrow> cret (False, [])
    | _ \<Rightarrow> cbind (post_all C rs) (\<lambda>(ok, dls). cret (ok, dl # dls))))"

fun gather_chunk_stat :: "delivery list \<Rightarrow> errno \<Rightarrow> u64 \<Rightarrow> u64 \<Rightarrow> (errno \<times> u64 \<times> u64) res" where
  "gather_chunk_stat [] err chunks_total chunks_free = Inr (err, chunks_total, chunks_free)"
| "gather_chunk_stat (dl # dls) err chunks_total chunks_free = (case dl of
      Reply (Resp_chunk_stat e csz t f) \<Rightarrow>
        if e \<noteq> 0 then gather_chunk_stat dls e chunks_total chunks_free
        else res_bind (assert_res (csz = chunksize)) (\<lambda>_.
          gather_chunk_stat dls err (chunks_total + t) (chunks_free + f))
    | _ \<Rightarrow> gather_chunk_stat dls EBUSY chunks_total chunks_free)"

definition forward_get_chunk_stat :: "'n client \<Rightarrow> ('n, errno \<times> u64 \<times> u64 \<times> u64) cmd" where
  "forward_get_chunk_stat C =
    cbind (post_all C (map (\<lambda>h. (of_nat h, Req_chunk_stat)) [0..<unat (cl_hosts C)])) (\<lambda>(ok, dls).
    cbind (clift (gather_chunk_stat dls (if ok then 0 else EBUSY) 0 0)) (\<lambda>(err, chunks_total, chunks_free).
      if err \<noteq> 0 then cret (err, 0, 0, 0) else cret (0, chunksize, chunks_total, chunks_free)))"

section \<open>forward_truncate\<close>

text \<open>The chunk ids are narrowed to \<open>unsigned int\<close>. The hosts are an unordered set, here in the
  order of their first chunk.\<close>

definition truncate_chunks :: "u64 \<Rightarrow> u64 \<Rightarrow> u32 list" where
  "truncate_chunks current_size new_size =
    (let chunk_start = ucast (block_index new_size chunksize) :: u32;
         chunk_end = ucast (block_index (current_size - new_size - 1) chunksize) :: u32
     in map of_nat [unat chunk_start..<Suc (unat chunk_end)])"

fun gather_err :: "delivery list \<Rightarrow> errno \<Rightarrow> errno" where
  "gather_err [] err = err"
| "gather_err (dl # dls) err = (case dl of
      Reply (Resp_err e) \<Rightarrow> gather_err dls (if e \<noteq> 0 then EIO else err)
    | _ \<Rightarrow> gather_err dls EIO)"

definition forward_truncate :: "'n client \<Rightarrow> path \<Rightarrow> u64 \<Rightarrow> u64 \<Rightarrow> ('n, errno) cmd" where
  "forward_truncate C p current_size new_size =
    cbind (cassert (current_size > new_size)) (\<lambda>_.
    cbind (clift (res_map (\<lambda>c. locate_data (cl_hash C) (cl_distributor C) p c)
        (truncate_chunks current_size new_size))) (\<lambda>hs.
    cbind (post_all C (map (\<lambda>h. (ucast h, Req_truncate p new_size (ucast h) (ucast (cl_hosts C))))
        (rev (remdups (rev hs))))) (\<lambda>(ok, dls).
      cret (gather_err dls (if ok then 0 else EIO)))))"

section \<open>Splitting a range by host\<close>

text \<open>\<open>target_chnks\<close> and \<open>targets\<close>: the chunk ids of each host, hosts in the order of their
  first chunk.\<close>

fun add_chunk :: "u64 \<Rightarrow> u64 \<Rightarrow> (u64 \<times> u64 list) list \<Rightarrow> (u64 \<times> u64 list) list" where
  "add_chunk target c [] = [(target, [c])]"
| "add_chunk target c ((t, cs) # ts) =
     (if t = target then (t, cs @ [c]) # ts else (t, cs) # add_chunk target c ts)"

fun collect_targets ::
    "(u64 \<Rightarrow> u64 res) \<Rightarrow> u64 list \<Rightarrow> (u64 \<times> u64 list) list \<Rightarrow> (u64 \<times> u64 list) list res" where
  "collect_targets loc [] ts = Inr ts"
| "collect_targets loc (c # cs) ts =
     res_bind (loc c) (\<lambda>target. collect_targets loc cs (add_chunk target c ts))"

definition range_start :: "u64 \<Rightarrow> u64" where
  "range_start offset = block_index offset chunksize"

definition range_end :: "u64 \<Rightarrow> u64 \<Rightarrow> u64" where
  "range_end offset sz = block_index (offset + sz - 1) chunksize"

definition range_chunks :: "u64 \<Rightarrow> u64 \<Rightarrow> u64 list" where
  "range_chunks offset sz = map of_nat [unat (range_start offset)..<Suc (unat (range_end offset sz))]"

text \<open>The bytes of the range a host holds: whole chunks, less what the first and the last one
  have outside of the range.\<close>

definition total_chunk_size :: "u64 \<Rightarrow> u64 \<Rightarrow> u64 list \<Rightarrow> bool \<Rightarrow> bool \<Rightarrow> u64" where
  "total_chunk_size offset sz cs is_start_target is_end_target =
    (let chunks_total = of_nat (length cs) * chunksize;
         chunks_total = (if is_start_target then chunks_total - block_overrun offset chunksize else chunks_total)
     in if is_end_target \<and> \<not> is_aligned (offset + sz) chunksize
        then chunks_total - block_underrun (offset + sz) chunksize else chunks_total)"

definition data_request ::
    "'n client \<Rightarrow> path \<Rightarrow> u64 \<Rightarrow> u64 \<Rightarrow> u64 \<Rightarrow> u64 \<Rightarrow> u64 \<times> u64 list \<Rightarrow> data_in" where
  "data_request C p offset sz start_target end_target = (\<lambda>(target, cs).
     \<lparr>in_path = p, in_offset = block_overrun offset chunksize, in_host_id = target,
      in_host_size = ucast (cl_hosts C), in_chunk_n = of_nat (length cs),
      in_chunk_start = range_start offset, in_chunk_end = range_end offset sz,
      in_total_chunk_size = total_chunk_size offset sz cs (target = start_target) (target = end_target)\<rparr>)"

text \<open>The requests of \<open>forward_write\<close> and \<open>forward_read\<close>. With an empty range the two special
  targets keep their initial value 0.\<close>

definition data_requests :: "'n client \<Rightarrow> path \<Rightarrow> u64 \<Rightarrow> u64 \<Rightarrow> (u64 \<times> data_in) list res" where
  "data_requests C p offset sz =
    (let cs = range_chunks offset sz
     in res_bind (collect_targets (locate_chunk C p) cs []) (\<lambda>targets.
        res_bind (if cs = [] then Inr 0 else locate_chunk C p (hd cs)) (\<lambda>start_target.
        res_bind (if cs = [] then Inr 0 else locate_chunk C p (last cs)) (\<lambda>end_target.
          Inr (map (\<lambda>t. (fst t, data_request C p offset sz start_target end_target t)) targets)))))"

section \<open>forward_write and forward_read\<close>

text \<open>The loop that posts: \<open>buf\<close> is the exposed buffer (a read's responses carry what the daemons
  pushed into it). Inl when a request cannot be posted.\<close>

fun post_data ::
    "'n client \<Rightarrow> (data_in \<Rightarrow> bytes \<Rightarrow> rpc_req) \<Rightarrow> (u64 \<times> data_in) list \<Rightarrow> bytes \<Rightarrow>
     ('n, bool \<times> delivery list \<times> bytes) cmd" where
  "post_data C mk [] buf = cret (True, [], buf)"
| "post_data C mk ((h, i) # rs) buf =
    cbind (clift (host_at C h)) (\<lambda>endp.
    cbind (net_send (cl_net C) endp (mk i buf)) (\<lambda>dl. case dl of
      PostFails \<Rightarrow> cret (False, [], buf)
    | _ \<Rightarrow>
      let buf' = (case dl of Reply (Resp_data e n b) \<Rightarrow> b | _ \<Rightarrow> buf)
      in cbind (post_data C mk rs buf') (\<lambda>(ok, dls, b). cret (ok, dl # dls, b))))"

fun gather_data :: "delivery list \<Rightarrow> errno \<Rightarrow> u64 \<Rightarrow> errno \<times> u64" where
  "gather_data [] err out_size = (err, out_size)"
| "gather_data (dl # dls) err out_size = (case dl of
      Reply (Resp_data e n b) \<Rightarrow> gather_data dls (if e \<noteq> 0 then e else err) (out_size + n)
    | _ \<Rightarrow> gather_data dls EIO out_size)"

definition forward_data ::
    "'n client \<Rightarrow> (data_in \<Rightarrow> bytes \<Rightarrow> rpc_req) \<Rightarrow> path \<Rightarrow> bytes \<Rightarrow> u64 \<Rightarrow> u64 \<Rightarrow>
     ('n, errno \<times> u64 \<times> bytes) cmd" where
  "forward_data C mk p buf offset sz =
    cbind (clift (data_requests C p offset sz)) (\<lambda>reqs.
    cbind (net_expose (cl_net C)) (\<lambda>exposed. if \<not> exposed then cret (EBUSY, 0, buf) else
    cbind (post_data C mk reqs buf) (\<lambda>(ok, dls, buf').
      if \<not> ok then cret (EBUSY, 0, buf')
      else let (err, out_size) = gather_data dls 0 0
           in cret (if err \<noteq> 0 then (err, 0, buf') else (0, out_size, buf')))))"

definition forward_write ::
    "'n client \<Rightarrow> path \<Rightarrow> bytes \<Rightarrow> bool \<Rightarrow> u64 \<Rightarrow> u64 \<Rightarrow> u64 \<Rightarrow> ('n, errno \<times> u64) cmd" where
  "forward_write C p buf append_flag at_offset write_size updated_metadentry_size =
    cbind (cassert (write_size > 0)) (\<lambda>_.
    cbind (forward_data C Req_write p (take (unat write_size) buf)
        (if append_flag then at_offset else updated_metadentry_size - write_size) write_size)
      (\<lambda>(err, n, _). cret (err, n)))"

text \<open>\<open>buf\<close> has \<open>read_size\<close> bytes.\<close>

definition forward_read ::
    "'n client \<Rightarrow> path \<Rightarrow> bytes \<Rightarrow> u64 \<Rightarrow> u64 \<Rightarrow> ('n, errno \<times> u64 \<times> bytes) cmd" where
  "forward_read C p buf offset read_size = forward_data C Req_read p buf offset read_size"

end
