(* ===== verification/Data_Plan.thy ===== *)
theory Data_Plan
  imports Forward_Data
begin

text \<open>
  How the client's split of a read or write (\<open>forward_data.cpp\<close>) and the daemons' walks over
  their chunks (\<open>srv_data.cpp\<close>) fit together. A range of \<open>n\<close> bytes at \<open>off\<close> meets chunk \<open>c\<close> in the
  slice from \<open>slice_lo\<close> to \<open>slice_hi\<close>; the lemmas show that every daemon moves exactly the slices
  of its chunks, each at its place in the client's buffer and in the chunk.
\<close>

section \<open>Slices of a range\<close>

definition slice_lo :: "nat \<Rightarrow> nat \<Rightarrow> nat" where
  "slice_lo off c = max off (c * 524288)"

definition slice_hi :: "nat \<Rightarrow> nat \<Rightarrow> nat \<Rightarrow> nat" where
  "slice_hi off n c = min (off + n) ((c + 1) * 524288)"

definition slice_len :: "nat \<Rightarrow> nat \<Rightarrow> nat \<Rightarrow> nat" where
  "slice_len off n c = slice_hi off n c - slice_lo off c"

definition valid_range :: "u64 \<Rightarrow> u64 \<Rightarrow> bool" where
  "valid_range offset sz = (sz \<noteq> 0 \<and> unat offset + unat sz < 2 ^ 63)"

text \<open>The chunks a range meets, as numbers.\<close>

definition first_chunk_of :: "nat \<Rightarrow> nat" where
  "first_chunk_of off = off div 524288"

definition last_chunk_of :: "nat \<Rightarrow> nat \<Rightarrow> nat" where
  "last_chunk_of off n = (off + n - 1) div 524288"

lemma valid_range_pos: "valid_range offset sz \<Longrightarrow> 0 < unat sz"
  by (auto simp: valid_range_def unat_gt_0)

lemma unat_range_start: "unat (range_start offset) = first_chunk_of (unat offset)"
  by (simp add: range_start_def first_chunk_of_def chunk.unat_block_index)

lemma unat_range_last:
  assumes "valid_range offset sz"
  shows "unat (offset + sz - 1) = unat offset + unat sz - 1"
proof -
  have s: "unat (offset + sz) = unat offset + unat sz"
    using assms by (intro unat_add64) (simp add: valid_range_def)
  have "unat (1 :: u64) \<le> unat (offset + sz)" using s valid_range_pos [OF assms] by simp
  from unat_sub64 [OF this] show ?thesis by (simp add: s)
qed

lemma unat_range_end:
  "valid_range offset sz \<Longrightarrow> unat (range_end offset sz) = last_chunk_of (unat offset) (unat sz)"
  by (simp add: range_end_def last_chunk_of_def chunk.unat_block_index unat_range_last)

lemma range_chunks_eq:
  "valid_range offset sz \<Longrightarrow> range_chunks offset sz =
     map of_nat [first_chunk_of (unat offset)..<Suc (last_chunk_of (unat offset) (unat sz))]"
  by (simp add: range_chunks_def unat_range_start unat_range_end)

lemma first_le_last: "0 < n \<Longrightarrow> first_chunk_of off \<le> last_chunk_of off n"
  unfolding first_chunk_of_def last_chunk_of_def by (rule div_le_mono) simp

text \<open>A slice is a whole chunk, less what the two ends of the range leave out.\<close>

definition head_gap :: "nat \<Rightarrow> nat" where
  "head_gap off = off mod 524288"

definition tail_gap :: "nat \<Rightarrow> nat \<Rightarrow> nat" where
  "tail_gap off n = (last_chunk_of off n + 1) * 524288 - (off + n)"

lemma chunk_bounds:
  assumes "0 < n"
  shows "first_chunk_of off * 524288 \<le> off" "off < (first_chunk_of off + 1) * 524288"
    "last_chunk_of off n * 524288 < off + n" "off + n \<le> (last_chunk_of off n + 1) * 524288"
    "off = first_chunk_of off * 524288 + head_gap off" "head_gap off < 524288"
proof -
  have q: "x div 524288 * 524288 \<le> x" "x < (x div 524288 + 1) * 524288" for x :: nat
    by (simp_all add: div_times_less_eq_dividend)
  show "first_chunk_of off * 524288 \<le> off" "off < (first_chunk_of off + 1) * 524288"
    unfolding first_chunk_of_def by (rule q)+
  show "last_chunk_of off n * 524288 < off + n"
    using q(1) [of "off + n - 1"] assms unfolding last_chunk_of_def by linarith
  show "off + n \<le> (last_chunk_of off n + 1) * 524288"
    using q(2) [of "off + n - 1"] assms unfolding last_chunk_of_def by linarith
  show "off = first_chunk_of off * 524288 + head_gap off" "head_gap off < 524288"
    by (simp_all add: first_chunk_of_def head_gap_def)
qed

lemma slice_len_gaps:
  assumes "0 < n" "first_chunk_of off \<le> c" "c \<le> last_chunk_of off n"
  shows "slice_len off n c + (if c = first_chunk_of off then head_gap off else 0) +
    (if c = last_chunk_of off n then tail_gap off n else 0) = 524288"
proof -
  note b = chunk_bounds [OF assms(1), of off]
  have lo: "slice_lo off c = c * 524288 + (if c = first_chunk_of off then head_gap off else 0)"
  proof (cases "c = first_chunk_of off")
    case False
    then have "(first_chunk_of off + 1) * 524288 \<le> c * 524288"
      using assms(2) by (intro mult_le_mono1) simp
    then show ?thesis using False b(2) by (simp add: slice_lo_def)
  qed (use b in \<open>simp add: slice_lo_def\<close>)
  have hi: "slice_hi off n c + (if c = last_chunk_of off n then tail_gap off n else 0) = (c + 1) * 524288"
  proof (cases "c = last_chunk_of off n")
    case False
    then have "(c + 1) * 524288 \<le> last_chunk_of off n * 524288"
      using assms(3) by (intro mult_le_mono1) simp
    then show ?thesis using False b(3) by (simp add: slice_hi_def)
  qed (use b(4) in \<open>simp add: slice_hi_def tail_gap_def\<close>)
  have le: "slice_lo off c \<le> slice_hi off n c"
  proof -
    have "c * 524288 \<le> last_chunk_of off n * 524288" using assms(3) by (intro mult_le_mono1)
    moreover have "(first_chunk_of off + 1) * 524288 \<le> (c + 1) * 524288"
      using assms(2) by (intro mult_le_mono1) simp
    ultimately show ?thesis using b assms(1) unfolding slice_lo_def slice_hi_def max_def min_def by auto
  qed
  show ?thesis using lo hi le unfolding slice_len_def by (auto split: if_splits)
qed

text \<open>The slices of a range add up to it.\<close>

lemma sum_slices_upt:
  assumes "0 < n" "first_chunk_of off \<le> k" "k \<le> last_chunk_of off n + 1"
  shows "sum_list (map (slice_len off n) [first_chunk_of off..<k]) =
    (if k = first_chunk_of off then 0 else slice_hi off n (k - 1) - off)"
  using assms(2,3)
proof (induction k rule: dec_induct)
  case (step k)
  note b = chunk_bounds [OF assms(1), of off]
  show ?case
  proof (cases "k = first_chunk_of off")
    case True
    then have "slice_lo off k = off" using b(1) by (simp add: slice_lo_def)
    with True show ?thesis by (simp add: slice_len_def)
  next
    case False
    then have "first_chunk_of off + 1 \<le> k" "k \<le> last_chunk_of off n" using step by auto
    then have k: "(first_chunk_of off + 1) * 524288 \<le> k * 524288"
        "k * 524288 \<le> last_chunk_of off n * 524288"
      by (intro mult_le_mono1; simp)+
    then have "slice_hi off n (k - 1) = k * 524288" "slice_lo off k = k * 524288"
        "k * 524288 \<le> slice_hi off n k"
      using b False step unfolding slice_hi_def slice_lo_def by auto
    then show ?thesis
      using False step k b(2) by (simp add: slice_len_def)
  qed
qed simp

lemma sum_slices:
  assumes "0 < n"
  shows "sum_list (map (slice_len off n) [first_chunk_of off..<Suc (last_chunk_of off n)]) = n"
proof -
  have "slice_hi off n (last_chunk_of off n) = off + n"
    using chunk_bounds(4) [OF assms, of off] by (simp add: slice_hi_def)
  then show ?thesis
    using sum_slices_upt [OF assms, of off "Suc (last_chunk_of off n)"] first_le_last [OF assms, of off]
    by auto
qed

section \<open>What the client asks of one host\<close>

text \<open>The chunks of the range a host holds, as numbers.\<close>

definition host_chunks :: "(nat \<Rightarrow> bool) \<Rightarrow> nat \<Rightarrow> nat \<Rightarrow> nat list" where
  "host_chunks here off n = filter here [first_chunk_of off..<Suc (last_chunk_of off n)]"

lemma sum_list_indicator:
  "distinct cs \<Longrightarrow> sum_list (map (\<lambda>c. if c = a then g else 0) cs) = (if a \<in> set cs then g else (0 :: nat))"
  by (induction cs) auto

lemma sum_slices_gaps:
  assumes "0 < n" "distinct cs" "\<forall>c \<in> set cs. first_chunk_of off \<le> c \<and> c \<le> last_chunk_of off n"
  shows "sum_list (map (slice_len off n) cs) + (if first_chunk_of off \<in> set cs then head_gap off else 0) +
    (if last_chunk_of off n \<in> set cs then tail_gap off n else 0) = length cs * 524288"
proof -
  let ?h = "\<lambda>c. if c = first_chunk_of off then head_gap off else 0"
  let ?t = "\<lambda>c. if c = last_chunk_of off n then tail_gap off n else 0"
  have "sum_list (map (\<lambda>c. slice_len off n c + ?h c + ?t c) cs) = sum_list (map (\<lambda>c. 524288) cs)"
    using assms(1,3) slice_len_gaps by (intro arg_cong [of _ _ sum_list] map_cong) auto
  then have "sum_list (map (slice_len off n) cs) + sum_list (map ?h cs) + sum_list (map ?t cs) =
      length cs * 524288"
    by (simp add: sum_list_addf sum_list_triv)
  then show ?thesis by (simp only: sum_list_indicator [OF assms(2)])
qed

lemma length_host_chunks_bound:
  assumes "0 < n" "off + n < 2 ^ 63"
  shows "length (host_chunks here off n) * 524288 < 2 ^ 63 + 524288"
    "last_chunk_of off n < 2 ^ 44"
proof -
  note b = chunk_bounds [OF assms(1), of off]
  show l: "last_chunk_of off n < 2 ^ 44" using b(3) assms(2) by simp
  have "length (host_chunks here off n) \<le> Suc (last_chunk_of off n)"
    unfolding host_chunks_def by (rule order_trans [OF length_filter_le]) simp
  then show "length (host_chunks here off n) * 524288 < 2 ^ 63 + 524288"
    using l by simp
qed

lemma tail_gap_cases:
  assumes "0 < n"
  shows "tail_gap off n = (if (off + n) mod 524288 = 0 then 0 else 524288 - (off + n) mod 524288)"
proof -
  note b = chunk_bounds(3,4) [OF assms, of off]
  define m where "m = off + n"
  define q where "q = m div 524288"
  define r where "r = m mod 524288"
  have m: "m = q * 524288 + r" "r < 524288" by (simp_all add: q_def r_def)
  have "last_chunk_of off n = (if r = 0 then q - 1 else q)"
  proof (rule ccontr)
    assume ne: "\<not> ?thesis"
    consider "last_chunk_of off n < (if r = 0 then q - 1 else q)"
      | "(if r = 0 then q - 1 else q) < last_chunk_of off n" using ne by linarith
    then show False
      using b m unfolding m_def [symmetric] by cases (auto split: if_splits)
  qed
  then show ?thesis
    using m b assms unfolding tail_gap_def m_def [symmetric] r_def [symmetric] by (auto split: if_splits)
qed

lemma unat_total_chunk_size:
  assumes "valid_range offset sz" "off = unat offset" "n = unat sz" "cs = host_chunks here off n"
  shows "unat (total_chunk_size offset sz (map of_nat cs) (first_chunk_of off \<in> set cs)
      (last_chunk_of off n \<in> set cs)) = sum_list (map (slice_len off n) cs)"
proof -
  have n: "0 < n" "off + n < 2 ^ 63"
    using assms(1) valid_range_pos by (auto simp: valid_range_def assms(2,3))
  have cs: "distinct cs" "\<forall>c \<in> set cs. first_chunk_of off \<le> c \<and> c \<le> last_chunk_of off n"
    by (auto simp: assms(4) host_chunks_def)
  note gaps = sum_slices_gaps [OF n(1) cs]
  have len: "length cs * 524288 < 2 ^ 64" "length cs < 2 ^ 64"
    using length_host_chunks_bound(1) [OF n, of here] by (simp_all add: assms(4))
  have t0: "unat (of_nat (length cs) * chunksize) = length cs * 524288"
    using len by (subst unat_mult64) simp_all
  define t1 where "t1 = (if first_chunk_of off \<in> set cs
      then of_nat (length cs) * chunksize - block_overrun offset chunksize
      else of_nat (length cs) * chunksize)"
  have ov: "unat (block_overrun offset chunksize) = head_gap off"
    by (simp add: chunk.unat_block_overrun head_gap_def assms(2))
  have t1: "unat t1 = sum_list (map (slice_len off n) cs) +
      (if last_chunk_of off n \<in> set cs then tail_gap off n else 0)"
    using gaps t0 ov unfolding t1_def by (auto simp: unat_sub64 split: if_splits)
  have s: "unat (offset + sz) = off + n"
    using n unfolding assms(2,3) by (intro unat_add64) simp
  have al: "is_aligned (offset + sz) chunksize \<longleftrightarrow> (off + n) mod 524288 = 0"
    by (simp add: chunk_aligned_iff s)
  have un: "unat (block_underrun (offset + sz) chunksize) = 524288 - (off + n) mod 524288"
    using n chunk.unat_block_underrun [OF chunk_fits, of "offset + sz"] by (simp add: s)
  have "total_chunk_size offset sz (map of_nat cs) (first_chunk_of off \<in> set cs)
      (last_chunk_of off n \<in> set cs) =
      (if last_chunk_of off n \<in> set cs \<and> \<not> is_aligned (offset + sz) chunksize
       then t1 - block_underrun (offset + sz) chunksize else t1)"
    by (simp add: total_chunk_size_def t1_def Let_def)
  moreover have "unat (t1 - block_underrun (offset + sz) chunksize) = sum_list (map (slice_len off n) cs)"
    if "last_chunk_of off n \<in> set cs" "(off + n) mod 524288 \<noteq> 0"
  proof -
    have "unat (block_underrun (offset + sz) chunksize) = tail_gap off n"
      using that un tail_gap_cases [OF n(1), of off] by simp
    moreover have "unat t1 = sum_list (map (slice_len off n) cs) + tail_gap off n"
      using that t1 by simp
    ultimately show ?thesis by (simp add: unat_sub64)
  qed
  ultimately show ?thesis
    using t1 tail_gap_cases [OF n(1), of off] unfolding al by (auto split: if_splits)
qed

section \<open>What a daemon does with it\<close>

text \<open>The rounds one expects for the chunks \<open>cs\<close>, the daemon's buffer filled from \<open>l\<close> on.\<close>

fun expected_plan :: "nat \<Rightarrow> nat \<Rightarrow> nat list \<Rightarrow> nat \<Rightarrow> (u64 \<times> u64 \<times> u64 \<times> u64) list" where
  "expected_plan off n [] l = []"
| "expected_plan off n (c # cs) l =
     (of_nat c, of_nat (slice_lo off c - off), of_nat l, of_nat (slice_len off n c)) #
     expected_plan off n cs (l + slice_len off n c)"

text \<open>A request for a range as the client fills it in.\<close>

definition range_request :: "data_in \<Rightarrow> u64 \<Rightarrow> u64 \<Rightarrow> bool" where
  "range_request i offset sz = (valid_range offset sz \<and> in_offset i = block_overrun offset chunksize \<and>
     in_chunk_start i = range_start offset \<and> in_chunk_end i = range_end offset sz)"

lemma slice_bounds:
  assumes "0 < n" "off + n < 2 ^ 63" "first_chunk_of off \<le> c" "c \<le> last_chunk_of off n"
  shows "slice_len off n c \<le> n" "slice_lo off c - off < 2 ^ 63" "c < 2 ^ 44"
    "slice_len off n c \<le> 524288"
proof -
  show "slice_len off n c \<le> n" by (simp add: slice_len_def slice_lo_def slice_hi_def)
  show c: "c < 2 ^ 44" using length_host_chunks_bound(2) [OF assms(1,2)] assms(4) by simp
  then show "slice_lo off c - off < 2 ^ 63" using assms(2) by (simp add: slice_lo_def)
  show "slice_len off n c \<le> 524288" using slice_len_gaps [OF assms(1,3,4)] by simp
qed

lemma word_of_nat_eqI: "unat (w :: u64) = m \<Longrightarrow> w = of_nat m"
  by auto

lemma partial_first_iff:
  assumes "range_request i offset sz" "off = unat offset" "c < 2 ^ 44"
  shows "partial_first i (of_nat c) \<longleftrightarrow> c = first_chunk_of off \<and> head_gap off \<noteq> 0"
proof -
  have ov: "unat (in_offset i) = head_gap off"
    using assms(1,2) by (simp add: range_request_def chunk.unat_block_overrun head_gap_def)
  have "head_gap off < 524288" by (simp add: head_gap_def)
  then have s: "sint (in_offset i) = int (head_gap off)" using ov by (subst sint_small64) auto
  have "(of_nat c = in_chunk_start i) = (c = first_chunk_of off)"
    using assms unat_range_start [of offset] by (auto simp: range_request_def word_eq_unat64)
  then show ?thesis by (auto simp: partial_first_def s)
qed

lemma plan_step_partial:
  assumes "range_request i offset sz" "off = unat offset" "n = unat sz" "head_gap off \<noteq> 0"
    "c = first_chunk_of off"
  shows "plan_step i sz (of_nat c) idx left = (0, 0, of_nat (slice_len off n c))"
proof -
  have n: "0 < n" "off + n < 2 ^ 63"
    using assms(1-3) valid_range_pos by (auto simp: valid_range_def range_request_def)
  note b = chunk_bounds [OF n(1), of off]
  have c: "c < 2 ^ 44"
    using length_host_chunks_bound(2) [OF n] first_le_last [OF n(1), of off] assms(5) by simp
  have ov: "unat (in_offset i) = head_gap off"
    using assms(1,2) by (simp add: range_request_def chunk.unat_block_overrun head_gap_def)
  have add: "unat (in_offset i + sz) = head_gap off + n"
    using n b ov assms(3) by (subst unat_add64) auto
  have len: "slice_len off n c = min n (524288 - head_gap off)"
  proof -
    have "(c + 1) * 524288 = off + (524288 - head_gap off)" "c * 524288 \<le> off"
      using b(1,5,6) assms(5) by simp_all
    then show ?thesis unfolding slice_len_def slice_lo_def slice_hi_def by (simp add: min_def)
  qed
  have "(if in_offset i + sz \<le> chunksize then sz else chunksize - in_offset i) =
      of_nat (slice_len off n c)"
    using add ov b assms(3) [symmetric]
    by (intro word_of_nat_eqI) (auto simp: word_le_nat_alt unat_sub64 len)
  then show ?thesis
    using partial_first_iff [OF assms(1,2) c] assms(4,5) by (simp add: plan_step_def)
qed

lemma plan_step_full:
  assumes "range_request i offset sz" "off = unat offset" "n = unat sz"
    "first_chunk_of off \<le> c" "c \<le> last_chunk_of off n" "head_gap off = 0 \<or> c \<noteq> first_chunk_of off"
    "unat left \<le> unat (in_total_chunk_size i)"
    "idx = in_chunk_n i - 1 \<Longrightarrow> unat left = slice_len off n c"
    "idx \<noteq> in_chunk_n i - 1 \<Longrightarrow> c < last_chunk_of off n"
  shows "plan_step i sz (of_nat c) idx left =
    (of_nat (slice_lo off c - off), of_nat (unat (in_total_chunk_size i) - unat left),
     of_nat (slice_len off n c))"
proof -
  have n: "0 < n" "off + n < 2 ^ 63"
    using assms(1-3) valid_range_pos by (auto simp: valid_range_def range_request_def)
  note b = chunk_bounds [OF n(1), of off]
  note sb = slice_bounds [OF n assms(4,5)]
  have np: "\<not> partial_first i (of_nat c)"
    using partial_first_iff [OF assms(1,2) sb(3)] assms(6) by blast
  have ov: "unat (in_offset i) = head_gap off"
    using assms(1,2) by (simp add: range_request_def chunk.unat_block_overrun head_gap_def)
  have s: "0 < sint (in_offset i) \<longleftrightarrow> head_gap off \<noteq> 0"
    using b(6) ov by (subst sint_small64) auto
  have st: "unat (in_chunk_start i) = first_chunk_of off"
    using assms(1,2) unat_range_start by (simp add: range_request_def)
  have d: "unat (of_nat c - in_chunk_start i) = c - first_chunk_of off"
    using sb(3) st assms(4) by (subst unat_sub64) auto
  have origin: "(if 0 < sint (in_offset i)
      then (chunksize - in_offset i) + ((of_nat c - in_chunk_start i) - 1) * chunksize
      else (of_nat c - in_chunk_start i) * chunksize) = of_nat (slice_lo off c - off)"
  proof (cases "head_gap off = 0")
    case True
    have "unat ((of_nat c - in_chunk_start i) * chunksize) = (c - first_chunk_of off) * 524288"
      using d sb(3) by (subst unat_mult64) auto
    moreover have "slice_lo off c - off = (c - first_chunk_of off) * 524288"
      using b(5) True mult_le_mono1 [OF assms(4), of 524288]
      unfolding slice_lo_def diff_mult_distrib by linarith
    ultimately have "(of_nat c - in_chunk_start i) * chunksize = of_nat (slice_lo off c - off)"
      by (intro word_of_nat_eqI) (simp only:)
    then show ?thesis using True s by simp
  next
    case False
    then have lt: "first_chunk_of off + 1 \<le> c" using assms(4,6) by simp
    have d1: "unat ((of_nat c - in_chunk_start i) - 1) = c - first_chunk_of off - 1"
      using d lt by (subst unat_sub64) auto
    have m: "unat (((of_nat c - in_chunk_start i) - 1) * chunksize) = (c - first_chunk_of off - 1) * 524288"
      using d1 sb(3) by (subst unat_mult64) auto
    have "unat (chunksize - in_offset i) = 524288 - head_gap off"
      using ov b(6) by (subst unat_sub64) auto
    then have "unat ((chunksize - in_offset i) + ((of_nat c - in_chunk_start i) - 1) * chunksize) =
        (524288 - head_gap off) + (c - first_chunk_of off - 1) * 524288"
      using m sb(3) by (subst unat_add64) auto
    moreover have "slice_lo off c - off = (524288 - head_gap off) + (c - first_chunk_of off - 1) * 524288"
    proof -
      have e: "(first_chunk_of off + 1) * 524288 = off + (524288 - head_gap off)"
        using b(5,6) by simp
      then have le: "off + (524288 - head_gap off) \<le> c * 524288"
        using mult_le_mono1 [OF lt, of 524288] by simp
      have "(c - first_chunk_of off - 1) * 524288 = c * 524288 - (off + (524288 - head_gap off))"
        unfolding e [symmetric] by (simp add: diff_mult_distrib)
      then show ?thesis using le by (simp add: slice_lo_def)
    qed
    ultimately have "(chunksize - in_offset i) + ((of_nat c - in_chunk_start i) - 1) * chunksize =
        of_nat (slice_lo off c - off)"
      by (intro word_of_nat_eqI) (simp only:)
    then show ?thesis using False s by simp
  qed
  have size: "(if idx = in_chunk_n i - 1 then left else if sz \<le> chunksize then sz else chunksize) =
      of_nat (slice_len off n c)"
  proof (cases "idx = in_chunk_n i - 1")
    case True
    then show ?thesis using assms(8) by (auto intro: word_of_nat_eqI)
  next
    case False
    then have lt: "c + 1 \<le> last_chunk_of off n" using assms(9) by simp
    note m = mult_le_mono1 [OF lt, of 524288]
    have "slice_len off n c = 524288"
      using slice_len_gaps [OF n(1) assms(4,5)] lt assms(6) by (auto split: if_splits)
    moreover have "524288 < n"
    proof (cases "c = first_chunk_of off")
      case True
      then show ?thesis using m b(3,5) assms(6) by simp
    next
      case False
      then have "first_chunk_of off + 1 \<le> c" using assms(4) by simp
      from mult_le_mono1 [OF this, of 524288] show ?thesis using m b(2,3) by simp
    qed
    ultimately show ?thesis
      using False assms(3) by (auto simp: word_le_nat_alt word_eq_unat64)
  qed
  have loc: "in_total_chunk_size i - left = of_nat (unat (in_total_chunk_size i) - unat left)"
    using assms(7) by (intro word_of_nat_eqI) (simp add: unat_sub64)
  show ?thesis
    unfolding plan_step_def Let_def origin size loc using np by simp
qed

text \<open>The walk from chunk \<open>c0\<close> on, with \<open>k\<close> chunks done and \<open>l\<close> bytes placed.\<close>

lemma chunk_plan_from:
  assumes "range_request i offset sz" "off = unat offset" "n = unat sz"
    "first_chunk_of off \<le> c0" "c0 \<le> Suc (last_chunk_of off n)"
    "cs = filter here [c0..<Suc (last_chunk_of off n)]"
    "in_chunk_n i = of_nat (k + length cs)" "k \<le> c0"
    "unat (in_total_chunk_size i) = l + sum_list (map (slice_len off n) cs)"
    "unat left = sum_list (map (slice_len off n) cs)"
    "c0 = first_chunk_of off \<Longrightarrow> l = 0"
  shows "chunk_plan (\<lambda>c. here (unat c)) i sz (map of_nat [c0..<Suc (last_chunk_of off n)]) (of_nat k) left =
    expected_plan off n cs l"
  using assms(4-)
proof (induction "Suc (last_chunk_of off n) - c0" arbitrary: c0 cs k l left)
  case 0
  then show ?case by simp
next
  case (Suc m)
  have n: "0 < n" "off + n < 2 ^ 63"
    using assms(1-3) valid_range_pos by (auto simp: valid_range_def range_request_def)
  have c0: "c0 \<le> last_chunk_of off n" using Suc(2) by simp
  then have c0b: "c0 < 2 ^ 44" using length_host_chunks_bound(2) [OF n] by simp
  have upt: "[c0..<Suc (last_chunk_of off n)] = c0 # [Suc c0..<Suc (last_chunk_of off n)]"
    using c0 by (simp add: upt_conv_Cons)
  have lcs: "length cs \<le> Suc (last_chunk_of off n) - c0"
    unfolding Suc.prems(3) by (rule order_trans [OF length_filter_le]) (simp add: Suc_diff_le)
  then have kb: "k + length cs < 2 ^ 45"
    using Suc.prems(5) c0 length_host_chunks_bound(2) [OF n] by simp
  have nk: "unat (in_chunk_n i) = k + length cs"
    unfolding Suc.prems(4) by (rule unat_of_nat64) (use kb in simp)
  have kk: "unat (of_nat k :: u64) = k"
    by (rule unat_of_nat64) (use kb in simp)
  have curr: "(of_nat k :: u64) < in_chunk_n i \<longleftrightarrow> cs \<noteq> []"
    by (auto simp: word_less_nat_alt nk kk)
  show ?case
  proof (cases "cs = []")
    case True
    then show ?thesis using curr by (simp add: upt del: upt_Suc)
  next
    case ne: False
    show ?thesis
    proof (cases "here c0")
      case False
      then have cs: "cs = filter here [Suc c0..<Suc (last_chunk_of off n)]"
        using Suc.prems(3) upt by simp
      have "chunk_plan (\<lambda>c. here (unat c)) i sz (map of_nat [Suc c0..<Suc (last_chunk_of off n)])
          (of_nat k) left = expected_plan off n cs l"
        using Suc.hyps(2) Suc.prems by (intro Suc.hyps(1) cs) (auto simp del: upt_Suc)
      then show ?thesis using False curr ne c0b by (simp add: upt del: upt_Suc)
    next
      case True
      then obtain cs' where cs: "cs = c0 # cs'" "cs' = filter here [Suc c0..<Suc (last_chunk_of off n)]"
        using Suc.prems(3) upt by simp
      have lastk: "(of_nat k :: u64) = in_chunk_n i - 1 \<longleftrightarrow> cs' = []"
      proof -
        have "unat (in_chunk_n i - 1) = k + length cs'"
          using nk cs(1) by (subst unat_sub64) auto
        then show ?thesis by (simp add: word_eq_unat64 kk)
      qed
      have later: "cs' \<noteq> [] \<Longrightarrow> c0 < last_chunk_of off n"
        using c0 cs(2) by (cases "c0 = last_chunk_of off n") auto
      have step: "plan_step i sz (of_nat c0) (of_nat k) left =
          (of_nat (slice_lo off c0 - off), of_nat l, of_nat (slice_len off n c0))"
      proof (cases "head_gap off \<noteq> 0 \<and> c0 = first_chunk_of off")
        case True
        then have "slice_lo off c0 - off = 0" "l = 0"
          using chunk_bounds(1) [OF n(1), of off] Suc.prems(8) by (auto simp: slice_lo_def)
        then show ?thesis using plan_step_partial [OF assms(1-3)] True by simp
      next
        case False
        have "plan_step i sz (of_nat c0) (of_nat k) left =
            (of_nat (slice_lo off c0 - off), of_nat (unat (in_total_chunk_size i) - unat left),
             of_nat (slice_len off n c0))"
          using False Suc.prems(1,6,7) c0 cs(1) lastk later
          by (intro plan_step_full [OF assms(1-3)]) auto
        then show ?thesis using Suc.prems(6,7) by simp
      qed
      have len: "unat (of_nat (slice_len off n c0) :: u64) = slice_len off n c0"
        using slice_bounds(4) [OF n Suc.prems(1) c0] by (intro unat_of_nat64) simp
      have "chunk_plan (\<lambda>c. here (unat c)) i sz (map of_nat [Suc c0..<Suc (last_chunk_of off n)])
          (of_nat (Suc k)) (left - of_nat (slice_len off n c0)) =
          expected_plan off n cs' (l + slice_len off n c0)"
      proof (intro Suc.hyps(1) cs(2))
        show "in_chunk_n i = of_nat (Suc k + length cs')"
          unfolding Suc.prems(4) cs(1) by simp
        show "unat (in_total_chunk_size i) =
            l + slice_len off n c0 + sum_list (map (slice_len off n) cs')"
          unfolding Suc.prems(6) cs(1) by simp
        show "unat (left - of_nat (slice_len off n c0)) = sum_list (map (slice_len off n) cs')"
          using Suc.prems(7) len unfolding cs(1) by (subst unat_sub64) auto
      qed (use Suc.hyps(2) Suc.prems(1,5) c0 in auto)
      then show ?thesis
        using True curr ne c0b by (simp add: upt step cs(1) add.commute del: upt_Suc)
    qed
  qed
qed

section \<open>The requests of one read or write\<close>

text \<open>What the grouping loop keeps: every group is the non-empty list of the chunks of its host.\<close>

definition grouped :: "(u64 \<Rightarrow> u64 res) \<Rightarrow> u64 list \<Rightarrow> (u64 \<times> u64 list) list \<Rightarrow> bool" where
  "grouped loc cs ts = (distinct (map fst ts) \<and>
     (\<forall>(t, l) \<in> set ts. l = filter (\<lambda>c. loc c = Inr t) cs \<and> l \<noteq> []) \<and>
     (\<forall>c \<in> set cs. \<exists>t \<in> fst ` set ts. loc c = Inr t))"

lemma add_chunk_spec:
  "set (map fst (add_chunk t c ts)) = insert t (set (map fst ts))"
  "distinct (map fst ts) \<Longrightarrow> distinct (map fst (add_chunk t c ts))"
  "distinct (map fst ts) \<Longrightarrow> (u, l) \<in> set (add_chunk t c ts) \<Longrightarrow>
     (if u = t then (\<exists>l'. l = l' @ [c] \<and> ((t, l') \<in> set ts \<or> l' = [] \<and> t \<notin> fst ` set ts))
      else (u, l) \<in> set ts)"
proof (induction ts)
  case Nil
  { case 1 show ?case by simp }
  { case 2 show ?case by simp }
  { case 3 then show ?case by (auto split: if_splits) }
next
  case (Cons a ts)
  obtain v m where a: "a = (v, m)" by force
  { case 1 show ?case using Cons.IH(1) by (auto simp: a) }
  { case 2 then show ?case using Cons.IH(1,2) by (auto simp: a) }
  { case 3 then show ?case using Cons.IH(3) by (auto simp: a split: if_splits) force+ }
qed

lemma grouped_add:
  assumes "grouped loc cs ts" "loc c = Inr t"
  shows "grouped loc (cs @ [c]) (add_chunk t c ts)"
proof -
  have d: "distinct (map fst ts)" using assms(1) by (simp add: grouped_def)
  have fresh: "filter (\<lambda>c. loc c = Inr t) cs = []" if "t \<notin> fst ` set ts"
  proof -
    have "loc x \<noteq> Inr t" if "x \<in> set cs" for x
      using assms(1) that \<open>t \<notin> fst ` set ts\<close> unfolding grouped_def by force
    then show ?thesis by (simp add: filter_empty_conv)
  qed
  have groups: "l = filter (\<lambda>c. loc c = Inr u) (cs @ [c]) \<and> l \<noteq> []"
    if mem: "(u, l) \<in> set (add_chunk t c ts)" for u l
  proof (cases "u = t")
    case True
    then obtain l' where "l = l' @ [c]" "(t, l') \<in> set ts \<or> l' = [] \<and> t \<notin> fst ` set ts"
      using add_chunk_spec(3) [OF d mem] by auto
    then show ?thesis using assms True fresh by (auto simp: grouped_def)
  next
    case False
    then have "(u, l) \<in> set ts" using add_chunk_spec(3) [OF d mem] by simp
    then show ?thesis using assms False by (auto simp: grouped_def)
  qed
  have "\<exists>u \<in> fst ` set (add_chunk t c ts). loc x = Inr u" if "x \<in> set (cs @ [c])" for x
    using assms that add_chunk_spec(1) [of t c ts] by (auto simp: grouped_def)
  then show ?thesis
    unfolding grouped_def using add_chunk_spec(2) [OF d] groups by blast
qed

lemma collect_targets_grouped:
  "grouped loc done ts \<Longrightarrow> collect_targets loc cs ts = Inr ts' \<Longrightarrow> grouped loc (done @ cs) ts'"
proof (induction cs arbitrary: "done" ts)
  case (Cons c cs)
  then obtain t where t: "loc c = Inr t" by (auto simp: res_bind_eq_Inr)
  from Cons.IH [OF grouped_add [OF Cons.prems(1) t]] Cons.prems(2) t show ?case by simp
qed simp

lemma map_filter_of_nat:
  "filter P (map of_nat ms) = map of_nat (filter (\<lambda>m. P (of_nat m)) ms)"
  by (induction ms) auto

text \<open>The chunks the client's distributor puts on a host.\<close>

definition on_host :: "'n client \<Rightarrow> path \<Rightarrow> u64 \<Rightarrow> u64 \<Rightarrow> bool" where
  "on_host C p h c = (locate_chunk C p c = Inr h)"

definition request_chunks :: "'n client \<Rightarrow> path \<Rightarrow> u64 \<Rightarrow> u64 \<Rightarrow> u64 \<Rightarrow> nat list" where
  "request_chunks C p offset sz h =
    host_chunks (\<lambda>m. on_host C p h (of_nat m)) (unat offset) (unat sz)"

lemma data_requests_spec:
  assumes "valid_range offset sz" "data_requests C p offset sz = Inr reqs"
  shows "distinct (map fst reqs)"
    "\<And>m. m \<in> set [first_chunk_of (unat offset)..<Suc (last_chunk_of (unat offset) (unat sz))] \<Longrightarrow>
      \<exists>h \<in> fst ` set reqs. on_host C p h (of_nat m)"
    "\<And>h i. (h, i) \<in> set reqs \<Longrightarrow> in_path i = p \<and> in_host_id i = h \<and> in_host_size i = ucast (cl_hosts C) \<and>
      range_request i offset sz \<and> in_chunk_n i = of_nat (length (request_chunks C p offset sz h)) \<and>
      unat (in_total_chunk_size i) =
        sum_list (map (slice_len (unat offset) (unat sz)) (request_chunks C p offset sz h)) \<and>
      request_chunks C p offset sz h \<noteq> []"
proof -
  let ?off = "unat offset" and ?n = "unat sz"
  let ?a = "first_chunk_of ?off" and ?b = "last_chunk_of ?off ?n"
  let ?ms = "[?a..<Suc ?b]"
  have le: "?a \<le> ?b" by (rule first_le_last [OF valid_range_pos [OF assms(1)]])
  have cs: "range_chunks offset sz = map of_nat ?ms" by (rule range_chunks_eq [OF assms(1)])
  have ends: "range_chunks offset sz \<noteq> []" "hd (range_chunks offset sz) = of_nat ?a"
      "last (range_chunks offset sz) = of_nat ?b"
    using le by (simp_all add: cs last_map hd_map del: upt_Suc)
  obtain ts st en where ts: "collect_targets (locate_chunk C p) (range_chunks offset sz) [] = Inr ts"
      and st: "locate_chunk C p (of_nat ?a) = Inr st" and en: "locate_chunk C p (of_nat ?b) = Inr en"
      and reqs: "reqs = map (\<lambda>t. (fst t, data_request C p offset sz st en t)) ts"
    using assms(2) ends by (auto simp: data_requests_def Let_def res_bind_eq_Inr)
  have g: "grouped (locate_chunk C p) (map of_nat ?ms) ts"
    using collect_targets_grouped [of "locate_chunk C p" "[]" "[]", OF _ ts] cs by (simp add: grouped_def)
  show "distinct (map fst reqs)"
    using g by (simp add: reqs grouped_def comp_def)
  show "\<exists>h \<in> fst ` set reqs. on_host C p h (of_nat m)" if "m \<in> set ?ms" for m
    using g that by (force simp: reqs grouped_def on_host_def)
  show "in_path i = p \<and> in_host_id i = h \<and> in_host_size i = ucast (cl_hosts C) \<and>
      range_request i offset sz \<and> in_chunk_n i = of_nat (length (request_chunks C p offset sz h)) \<and>
      unat (in_total_chunk_size i) = sum_list (map (slice_len ?off ?n) (request_chunks C p offset sz h)) \<and>
      request_chunks C p offset sz h \<noteq> []"
    if "(h, i) \<in> set reqs" for h i
  proof -
    from that obtain l where l: "(h, l) \<in> set ts" and i: "i = data_request C p offset sz st en (h, l)"
      by (auto simp: reqs)
    let ?rc = "request_chunks C p offset sz h"
    have rc: "l = map of_nat ?rc"
      using g l by (auto simp: grouped_def map_filter_of_nat request_chunks_def host_chunks_def on_host_def)
    have ne: "?rc \<noteq> []" using g l rc by (auto simp: grouped_def)
    have "(h = st) = (?a \<in> set ?rc)" "(h = en) = (?b \<in> set ?rc)"
      using st en le by (auto simp: request_chunks_def host_chunks_def on_host_def simp del: upt_Suc)
    then show ?thesis
      using assms(1) unat_total_chunk_size [OF assms(1) refl refl, of ?rc "\<lambda>m. on_host C p h (of_nat m)"]
      using ne by (simp add: i data_request_def range_request_def rc request_chunks_def)
  qed
qed

lemma request_plan:
  assumes "valid_range offset sz" "data_requests C p offset sz = Inr reqs" "(h, i) \<in> set reqs"
  shows "chunk_plan (on_host C p h) i sz (chunk_ids i) 0 (in_total_chunk_size i) =
    expected_plan (unat offset) (unat sz) (request_chunks C p offset sz h) 0"
proof -
  note i = data_requests_spec(3) [OF assms]
  let ?here = "\<lambda>m. on_host C p h (of_nat m)"
  have ids: "chunk_ids i =
      map of_nat [first_chunk_of (unat offset)..<Suc (last_chunk_of (unat offset) (unat sz))]"
    using i unat_range_start [of offset] unat_range_end [OF assms(1)]
    by (simp add: chunk_ids_def range_request_def)
  have "(\<lambda>c. ?here (unat c)) = on_host C p h" by (rule ext) simp
  then show ?thesis
    using chunk_plan_from [of i offset sz "unat offset" "unat sz" "first_chunk_of (unat offset)"
        "request_chunks C p offset sz h" ?here 0 0 "in_total_chunk_size i"]
      i first_le_last [OF valid_range_pos [OF assms(1)], of "unat offset"]
    by (simp add: ids request_chunks_def host_chunks_def del: upt_Suc)
qed

section \<open>Tiling\<close>

lemma expected_plan_map:
  "map (\<lambda>(c, o1, l, s). (c, o1, s)) (expected_plan off n cs l) =
   map (\<lambda>c. (of_nat c, of_nat (slice_lo off c - off), of_nat (slice_len off n c))) cs"
  by (induction cs arbitrary: l) auto

lemma expected_plan_local:
  "(c, o1, l', s) \<in> set (expected_plan off n cs l) \<Longrightarrow>
   \<exists>m d. l' = of_nat (l + d) \<and> s = of_nat (slice_len off n m) \<and> m \<in> set cs \<and> c = of_nat m \<and>
     o1 = of_nat (slice_lo off m - off) \<and> d + slice_len off n m \<le> sum_list (map (slice_len off n) cs)"
proof (induction cs arbitrary: l)
  case (Cons m cs)
  from Cons.prems consider "c = of_nat m" "o1 = of_nat (slice_lo off m - off)" "l' = of_nat l"
      "s = of_nat (slice_len off n m)"
    | "(c, o1, l', s) \<in> set (expected_plan off n cs (l + slice_len off n m))" by auto
  then show ?case
  proof cases
    case 1
    then show ?thesis by (intro exI [of _ m] exI [of _ 0]) simp
  next
    case 2
    from Cons.IH [OF this] obtain m' d where "l' = of_nat (l + slice_len off n m + d)"
        "s = of_nat (slice_len off n m')" "m' \<in> set cs" "c = of_nat m'"
        "o1 = of_nat (slice_lo off m' - off)"
        "d + slice_len off n m' \<le> sum_list (map (slice_len off n) cs)" by blast
    then show ?thesis by (intro exI [of _ m'] exI [of _ "slice_len off n m + d"]) auto
  qed
qed simp

lemma slice_lo_le_hi:
  assumes "0 < n" "first_chunk_of off \<le> c" "c \<le> last_chunk_of off n"
  shows "slice_lo off c \<le> slice_hi off n c"
proof -
  note b = chunk_bounds [OF assms(1), of off]
  have "c * 524288 \<le> last_chunk_of off n * 524288" using assms(3) by (intro mult_le_mono1)
  moreover have "(first_chunk_of off + 1) * 524288 \<le> (c + 1) * 524288"
    using assms(2) by (intro mult_le_mono1) simp
  ultimately show ?thesis
    using b assms(1) unfolding slice_lo_def slice_hi_def max_def min_def by auto
qed

lemma covering_slice:
  assumes "0 < n" "x < n" "first_chunk_of off \<le> c" "c \<le> last_chunk_of off n"
  shows "slice_lo off c - off \<le> x \<and> x < slice_lo off c - off + slice_len off n c \<longleftrightarrow>
    c = (off + x) div 524288"
proof -
  note b = chunk_bounds [OF assms(1), of off]
  have lo: "off \<le> slice_lo off c" by (simp add: slice_lo_def)
  note le = slice_lo_le_hi [OF assms(1,3,4)]
  have "slice_lo off c - off \<le> x \<and> x < slice_lo off c - off + slice_len off n c \<longleftrightarrow>
      slice_lo off c \<le> off + x \<and> off + x < slice_hi off n c"
    using lo le unfolding slice_len_def by linarith
  also have "\<dots> \<longleftrightarrow> c * 524288 \<le> off + x \<and> off + x < (c + 1) * 524288"
    using assms(2) by (auto simp: slice_lo_def slice_hi_def)
  also have "\<dots> \<longleftrightarrow> c = (off + x) div 524288"
    by (auto intro!: div_nat_eqI [symmetric] simp: div_times_less_eq_dividend)
  finally show ?thesis .
qed

lemma covering_slices:
  assumes "0 < n" "x < n"
  shows "filter (\<lambda>c. slice_lo off c - off \<le> x \<and> x < slice_lo off c - off + slice_len off n c)
    [first_chunk_of off..<Suc (last_chunk_of off n)] = [(off + x) div 524288]"
proof -
  let ?c = "(off + x) div 524288"
  have in_range: "first_chunk_of off \<le> ?c" "?c \<le> last_chunk_of off n"
    unfolding first_chunk_of_def last_chunk_of_def using assms by (auto intro!: div_le_mono)
  have "filter (\<lambda>c. slice_lo off c - off \<le> x \<and> x < slice_lo off c - off + slice_len off n c)
      [first_chunk_of off..<Suc (last_chunk_of off n)] =
    filter (\<lambda>c. c = ?c) [first_chunk_of off..<Suc (last_chunk_of off n)]"
    using covering_slice [OF assms] by (intro filter_cong) (auto simp del: upt_Suc)
  also have "\<dots> = [?c]"
  proof -
    have "[first_chunk_of off..<Suc (last_chunk_of off n)] =
        [first_chunk_of off..<?c] @ ?c # [Suc ?c..<Suc (last_chunk_of off n)]"
      using in_range upt_add_eq_append [of "first_chunk_of off" ?c "Suc (last_chunk_of off n) - ?c"]
      by (simp add: upt_conv_Cons del: upt_Suc)
    then show ?thesis by (simp del: upt_Suc)
  qed
  finally show ?thesis .
qed

text \<open>All rounds of all daemons, for the requests of one range.\<close>

definition plan_entries ::
    "'n client \<Rightarrow> path \<Rightarrow> u64 \<Rightarrow> (u64 \<times> data_in) list \<Rightarrow> (u64 \<times> u64 \<times> u64 \<times> u64) list" where
  "plan_entries C p sz reqs = concat (map (\<lambda>(h, i).
     chunk_plan (on_host C p h) i sz (chunk_ids i) 0 (in_total_chunk_size i)) reqs)"

lemma request_chunks_partition:
  assumes "valid_range offset sz" "data_requests C p offset sz = Inr reqs"
  shows "mset (concat (map (\<lambda>(h, i). request_chunks C p offset sz h) reqs)) =
    mset [first_chunk_of (unat offset)..<Suc (last_chunk_of (unat offset) (unat sz))]"
proof -
  let ?ms = "[first_chunk_of (unat offset)..<Suc (last_chunk_of (unat offset) (unat sz))]"
  let ?f = "\<lambda>m. projr (locate_chunk C p (of_nat m))"
  note spec = data_requests_spec [OF assms]
  have loc: "locate_chunk C p (of_nat m) = Inr (?f m) \<and> ?f m \<in> set (map fst reqs)" if "m \<in> set ?ms" for m
    using spec(2) [OF that] by (force simp: on_host_def)
  have "request_chunks C p offset sz h = filter (\<lambda>m. ?f m = h) ?ms" for h
    unfolding request_chunks_def host_chunks_def
    using loc by (intro filter_cong) (auto simp: on_host_def simp del: upt_Suc)
  then have groups: "map (\<lambda>(h, i). request_chunks C p offset sz h) reqs =
      map (\<lambda>h. filter (\<lambda>m. ?f m = h) ?ms) (map fst reqs)"
    by (simp add: case_prod_unfold comp_def)
  show ?thesis
    unfolding groups by (rule partition_mset [OF spec(1)]) (use loc in blast)
qed

lemma filter_length_mset:
  "mset xs = mset ys \<Longrightarrow> length (filter P xs) = length (filter P ys)"
  by (metis mset_filter size_mset)

lemma plan_entries_cover:
  assumes "valid_range offset sz" "data_requests C p offset sz = Inr reqs" "x < unat sz"
  shows "length (filter (\<lambda>(c, o1, l, s). unat o1 \<le> x \<and> x < unat o1 + unat s) (plan_entries C p sz reqs)) = 1"
proof -
  let ?off = "unat offset" and ?n = "unat sz"
  let ?cov = "\<lambda>(c :: u64, o1 :: u64, s :: u64). unat o1 \<le> x \<and> x < unat o1 + unat s"
  let ?g = "\<lambda>c. (of_nat c :: u64, of_nat (slice_lo ?off c - ?off) :: u64, of_nat (slice_len ?off ?n c) :: u64)"
  let ?ms = "[first_chunk_of ?off..<Suc (last_chunk_of ?off ?n)]"
  have n: "0 < ?n" "?off + ?n < 2 ^ 63"
    using assms(1) valid_range_pos by (auto simp: valid_range_def)
  have plans: "map (\<lambda>(c, o1, l, s). (c, o1, s)) (plan_entries C p sz reqs) =
      map ?g (concat (map (\<lambda>(h, i). request_chunks C p offset sz h) reqs))"
    unfolding plan_entries_def map_concat map_map
    using request_plan [OF assms(1,2)]
    by (intro arg_cong [of _ _ concat] map_cong) (auto simp: expected_plan_map)
  have "length (filter (\<lambda>(c, o1, l, s). unat o1 \<le> x \<and> x < unat o1 + unat s) (plan_entries C p sz reqs)) =
      length (filter ?cov (map (\<lambda>(c, o1, l, s). (c, o1, s)) (plan_entries C p sz reqs)))"
    by (simp add: filter_map comp_def case_prod_unfold)
  also have "\<dots> = length (filter (?cov \<circ> ?g) (concat (map (\<lambda>(h, i). request_chunks C p offset sz h) reqs)))"
    unfolding plans by (simp add: filter_map)
  also have "\<dots> = length (filter (?cov \<circ> ?g) ?ms)"
    by (rule filter_length_mset [OF request_chunks_partition [OF assms(1,2)]])
  also have "filter (?cov \<circ> ?g) ?ms =
      filter (\<lambda>c. slice_lo ?off c - ?off \<le> x \<and> x < slice_lo ?off c - ?off + slice_len ?off ?n c) ?ms"
  proof (intro filter_cong refl)
    fix c assume "c \<in> set ?ms"
    then have c: "first_chunk_of ?off \<le> c" "c \<le> last_chunk_of ?off ?n" by auto
    have "unat (of_nat (slice_lo ?off c - ?off) :: u64) = slice_lo ?off c - ?off"
        "unat (of_nat (slice_len ?off ?n c) :: u64) = slice_len ?off ?n c"
      using slice_bounds [OF n c] by (simp_all add: unat_of_nat64)
    then show "(?cov \<circ> ?g) c =
        (slice_lo ?off c - ?off \<le> x \<and> x < slice_lo ?off c - ?off + slice_len ?off ?n c)"
      by simp
  qed
  also have "\<dots> = [(?off + x) div 524288]"
    by (rule covering_slices [OF n(1) assms(3)])
  finally show ?thesis by simp
qed

lemma plan_entry_place:
  assumes "valid_range offset sz" "data_requests C p offset sz = Inr reqs" "(h, i) \<in> set reqs"
    "(c, o1, l, s) \<in> set (chunk_plan (on_host C p h) i sz (chunk_ids i) 0 (in_total_chunk_size i))"
  shows "unat c * 524288 + unat (file_offset i c) = unat offset + unat o1 \<and>
    unat (file_offset i c) + unat s \<le> 524288 \<and> unat o1 + unat s \<le> unat sz \<and>
    unat l + unat s \<le> unat (in_total_chunk_size i) \<and> on_host C p h c"
proof -
  let ?off = "unat offset" and ?n = "unat sz"
  have n: "0 < ?n" "?off + ?n < 2 ^ 63"
    using assms(1) valid_range_pos by (auto simp: valid_range_def)
  note spec = data_requests_spec(3) [OF assms(1-3)]
  have "(c, o1, l, s) \<in> set (expected_plan ?off ?n (request_chunks C p offset sz h) 0)"
    using assms(4) request_plan [OF assms(1-3)] by simp
  then obtain m d where l: "l = of_nat d" and s: "s = of_nat (slice_len ?off ?n m)"
      and m: "m \<in> set (request_chunks C p offset sz h)" and c: "c = of_nat m"
      and o1: "o1 = of_nat (slice_lo ?off m - ?off)"
      and d: "d + slice_len ?off ?n m \<le> unat (in_total_chunk_size i)"
    using expected_plan_local spec by (metis add_0)
  have rng: "first_chunk_of ?off \<le> m" "m \<le> last_chunk_of ?off ?n" "on_host C p h c"
    using m c by (auto simp: request_chunks_def host_chunks_def simp del: upt_Suc)
  note sb = slice_bounds [OF n rng(1,2)]
  note b = chunk_bounds [OF n(1), of ?off]
  have lt: "d < 2 ^ 64" using d unat_lt64 [of "in_total_chunk_size i"] by linarith
  have us: "unat s = slice_len ?off ?n m" "unat c = m" "unat o1 = slice_lo ?off m - ?off" "unat l = d"
    using sb lt by (simp_all add: s c o1 l)
  have fo: "unat (file_offset i c) = (if m = first_chunk_of ?off then head_gap ?off else 0)"
    using spec us(2) unat_range_start [of offset]
    by (auto simp: file_offset_def range_request_def chunk.unat_block_overrun head_gap_def word_eq_unat64)
  have lo: "slice_lo ?off m = m * 524288 + (if m = first_chunk_of ?off then head_gap ?off else 0)"
  proof (cases "m = first_chunk_of ?off")
    case False
    then have "(first_chunk_of ?off + 1) * 524288 \<le> m * 524288"
      using rng(1) by (intro mult_le_mono1) simp
    then show ?thesis using False b(2) by (simp add: slice_lo_def)
  qed (use b in \<open>simp add: slice_lo_def\<close>)
  have ge: "?off \<le> slice_lo ?off m" by (simp add: slice_lo_def)
  have hi: "slice_lo ?off m - ?off + slice_len ?off ?n m \<le> ?n"
  proof -
    have "slice_hi ?off ?n m \<le> ?off + ?n" by (simp add: slice_hi_def)
    then show ?thesis
      using ge slice_lo_le_hi [OF n(1) rng(1,2)] unfolding slice_len_def by linarith
  qed
  show ?thesis
    using fo lo ge us hi d slice_len_gaps [OF n(1) rng(1,2)] rng(3) by (auto split: if_splits)
qed

lemma collect_targets_total:
  "(\<And>c. \<exists>t. loc c = Inr t) \<Longrightarrow> \<exists>ts'. collect_targets loc cs ts = Inr ts'"
proof (induction cs arbitrary: ts)
  case (Cons c cs)
  from Cons.prems [of c] obtain t where "loc c = Inr t" by blast
  with Cons show ?case by simp
qed simp

lemma data_requests_total:
  assumes "d_hosts_size (cl_distributor C) \<noteq> 0"
  shows "\<exists>reqs. data_requests C p offset sz = Inr reqs"
proof -
  have loc: "\<exists>h. locate_chunk C p c = Inr h" for c
    using locate_data_total [OF assms, of "cl_hash C" p "ucast c"] by (auto simp: locate_chunk_def)
  obtain ts where "collect_targets (locate_chunk C p) (range_chunks offset sz) [] = Inr ts"
    using collect_targets_total [of "locate_chunk C p", OF loc] by blast
  then show ?thesis
    using loc [of "hd (range_chunks offset sz)"] loc [of "last (range_chunks offset sz)"]
    by (auto simp: data_requests_def Let_def)
qed

section \<open>Properties\<close>

text \<open>C10: a read or write of any range is split without gap or overlap: over the requests the
  client sends (one per host) and the rounds the daemons make for them, every byte of the
  client's buffer is in the transfer of exactly one round, whatever the hash function and the
  number of hosts.\<close>

lemma range_tiled:
  assumes "valid_range offset sz" "d_hosts_size (cl_distributor C) \<noteq> 0"
  shows "\<exists>reqs. data_requests C p offset sz = Inr reqs \<and>
    (\<forall>x < unat sz. length (filter (\<lambda>(c, o1, l, s). unat o1 \<le> x \<and> x < unat o1 + unat s)
      (plan_entries C p sz reqs)) = 1)"
  using data_requests_total [OF assms(2)] plan_entries_cover [OF assms(1)] by blast

text \<open>C11: every round moves its bytes between the right places: byte \<open>o1\<close> of the buffer belongs at
  byte \<open>offset + o1\<close> of the file, which is where chunk \<open>c\<close> has the position the daemon uses; the
  transfer stays within the chunk, within the client's buffer and within the daemon's buffer
  (of the total size the client announced), and the chunk is one the distributor puts on that
  host.\<close>

lemma range_placed:
  assumes "valid_range offset sz" "d_hosts_size (cl_distributor C) \<noteq> 0"
  shows "\<exists>reqs. data_requests C p offset sz = Inr reqs \<and>
    (\<forall>(h, i) \<in> set reqs. \<forall>(c, o1, l, s) \<in>
        set (chunk_plan (on_host C p h) i sz (chunk_ids i) 0 (in_total_chunk_size i)).
      unat c * 524288 + unat (file_offset i c) = unat offset + unat o1 \<and>
      unat (file_offset i c) + unat s \<le> 524288 \<and> unat o1 + unat s \<le> unat sz \<and>
      unat l + unat s \<le> unat (in_total_chunk_size i) \<and> on_host C p h c)"
  using data_requests_total [OF assms(2)] plan_entry_place [OF assms(1)] by fast

definition sample_client :: "unit client" where
  "sample_client = \<lparr>cl_net = \<lparr>net_expose = cret True, net_send = (\<lambda>h req. cret PostFails)\<rparr>,
     cl_hash = (\<lambda>s. of_nat (length s)), cl_distributor = SimpleHashDistributor 0 2, cl_hosts = 2\<rparr>"

lemma sample_range:
  "valid_range 100 2000000" "d_hosts_size (cl_distributor sample_client) \<noteq> 0"
  by (simp_all add: valid_range_def sample_client_def)

lemma range_tiled_witness:
  "\<exists>reqs. data_requests sample_client ''/a'' 100 2000000 = Inr reqs \<and>
    length (filter (\<lambda>(c, o1, l, s). unat o1 \<le> 1000000 \<and> 1000000 < unat o1 + unat s)
      (plan_entries sample_client ''/a'' 2000000 reqs)) = 1"
proof -
  have "1000000 < unat (2000000 :: u64)" by simp
  then show ?thesis using range_tiled [OF sample_range, of "''/a''"] by blast
qed

lemma range_placed_witness:
  "\<exists>reqs. data_requests sample_client ''/a'' 100 2000000 = Inr reqs \<and>
    list_all (\<lambda>(h, i). list_all (\<lambda>(c, o1, l, s).
      unat c * 524288 + unat (file_offset i c) = unat (100 :: u64) + unat o1 \<and>
      unat (file_offset i c) + unat s \<le> 524288 \<and> unat o1 + unat s \<le> unat (2000000 :: u64) \<and>
      unat l + unat s \<le> unat (in_total_chunk_size i) \<and> on_host sample_client ''/a'' h c)
      (chunk_plan (on_host sample_client ''/a'' h) i 2000000 (chunk_ids i) 0 (in_total_chunk_size i))) reqs"
  using range_placed [OF sample_range, of "''/a''"] by (simp only: list_all_iff)

end
