(* ===== verification/Namespace.thy ===== *)
theory Namespace
  imports Rpc_Types
begin

text \<open>
  What the metadata requests promise: a specification over the daemon's namespace, the map from
  paths to entries, and the proof that the handlers implement it over any store that meets the
  contract. An entry of the namespace is what the daemon reads back from its store, so it has
  the fields the configuration stores.
\<close>

section \<open>The abstract namespace\<close>

type_synonym namespace = "path \<rightharpoonup> metadata"

definition namespace_of :: "md_config \<Rightarrow> (bytes \<rightharpoonup> bytes) \<Rightarrow> namespace" where
  "namespace_of cfg m = (\<lambda>p. if is_absolute p then
     (case m p of None \<Rightarrow> None | Some v \<Rightarrow>
       (case deserialize cfg v of Inl _ \<Rightarrow> None | Inr md \<Rightarrow> Some md)) else None)"

lemma serialize_no_NUL: "storable md \<Longrightarrow> NUL \<notin> set (serialize cfg md)"
  by (auto simp: serialize_def opt_text_def storable_def MSP_def dec_no_special)

lemma storable_stored_fields [simp]: "storable (stored_fields cfg md) = storable md"
  by (simp add: storable_def stored_fields_def)

lemma stored_fields_idem [simp]: "stored_fields cfg (stored_fields cfg md) = stored_fields cfg md"
  by (simp add: stored_fields_def)

lemma stored_fields_size [simp]:
  "stored_fields cfg (md\<lparr>md_size := n\<rparr>) = (stored_fields cfg md)\<lparr>md_size := n\<rparr>"
  by (simp add: stored_fields_def)

lemma stored_fields_sel [simp]:
  "md_size (stored_fields cfg md) = md_size md" "md_mode (stored_fields cfg md) = md_mode md"
  "md_target_path (stored_fields cfg md) = md_target_path md"
  by (simp_all add: stored_fields_def)

lemma namespace_None:
  assumes "wf_map cfg m" "is_absolute p"
  shows "namespace_of cfg m p = None \<longleftrightarrow> m p = None"
  using wf_map_canonical [OF assms]
  by (cases "m p") (auto simp: namespace_of_def assms(2) canonical_def deserialize_serialize)

lemma namespace_Some:
  assumes "wf_map cfg m" "namespace_of cfg m p = Some md"
  shows "is_absolute p" "m p = Some (serialize cfg md)" "storable md" "stored_fields cfg md = md"
proof -
  show a: "is_absolute p" using assms(2) by (simp add: namespace_of_def split: if_splits)
  obtain v where v: "m p = Some v" "deserialize cfg v = Inr md"
    using assms(2) a by (auto simp: namespace_of_def split: option.splits sum.splits)
  obtain md0 where md0: "storable md0" "v = serialize cfg md0"
    using wf_map_canonical [OF assms(1) a v(1)] by (auto simp: canonical_def)
  then have md: "md = stored_fields cfg md0" using v(2) deserialize_serialize by auto
  show "m p = Some (serialize cfg md)" "storable md" "stored_fields cfg md = md"
    using md0 v(1) by (simp_all add: md)
qed

lemma namespace_upd:
  "is_absolute p \<Longrightarrow> storable md \<Longrightarrow>
   namespace_of cfg (m(p \<mapsto> serialize cfg md)) = (namespace_of cfg m)(p \<mapsto> stored_fields cfg md)"
  by (auto simp: namespace_of_def deserialize_serialize)

lemma namespace_del: "namespace_of cfg (m(p := None)) = (namespace_of cfg m)(p := None)"
  by (auto simp: namespace_of_def)

lemma namespace_first_chunk [simp]:
  "namespace_of cfg (m(first_chunk_key p := v)) = namespace_of cfg m"
  by (auto simp: namespace_of_def)

section \<open>The specification of the requests\<close>

text \<open>The clients' precondition: well-formed paths, modes and targets, names that are C strings,
  sizes within \<open>off_t\<close>, and an existing entry where a handler merges without looking.\<close>

fun meta_req :: "namespace \<Rightarrow> rpc_req \<Rightarrow> bool" where
  "meta_req N (Req_create p m) = (valid_key p \<and> NUL \<notin> set p \<and> (S_ISDIR m \<or> S_ISREG m))"
| "meta_req N (Req_stat p) = is_absolute p"
| "meta_req N (Req_remove_metadata p) = (is_absolute p \<and> p \<noteq> [separator])"
| "meta_req N (Req_remove_data p) = (is_absolute p \<and> p \<noteq> [separator])"
| "meta_req N (Req_decr_size p len) = (N p \<noteq> None \<and> unat len < 2 ^ 63)"
| "meta_req N (Req_update_metadentry p u) =
     (is_absolute p \<and> (fst (in_size u) \<longrightarrow> unat (snd (in_size u)) < 2 ^ 63))"
| "meta_req N (Req_update_metadentry_size p sz off app) = (case N p of
     None \<Rightarrow> False
   | Some md \<Rightarrow> unat (if app then md_size md + (sz + off) else max (md_size md) (sz + off)) < 2 ^ 63)"
| "meta_req N (Req_get_metadentry_size p) = is_absolute p"
| "meta_req N (Req_mk_symlink p t) =
     (valid_key p \<and> NUL \<notin> set p \<and> (t = [] \<or> hd t = separator) \<and> NUL \<notin> set t)"
| "meta_req N _ = False"

text \<open>Response and namespace after a request; \<open>st\<close> puts the time stamps of a new entry.\<close>

fun meta_spec ::
    "md_config \<Rightarrow> (metadata \<Rightarrow> metadata) \<Rightarrow> rpc_req \<Rightarrow> namespace \<Rightarrow> rpc_resp \<times> namespace" where
  "meta_spec cfg st (Req_create p m) N =
     (if N p \<noteq> None then (Resp_err EEXIST, N)
      else (Resp_err 0, N(p \<mapsto> stored_fields cfg (st (empty_metadata\<lparr>md_mode := m\<rparr>)))))"
| "meta_spec cfg st (Req_stat p) N = ((case N p of
       None \<Rightarrow> Resp_stat ENOENT None | Some md \<Rightarrow> Resp_stat 0 (Some (serialize cfg md))), N)"
| "meta_spec cfg st (Req_remove_metadata p) N = (case N p of
       None \<Rightarrow> (Resp_rm EIO 0 0, N) | Some md \<Rightarrow> (Resp_rm 0 (md_mode md) (md_size md), N(p := None)))"
| "meta_spec cfg st (Req_decr_size p len) N =
     (Resp_err 0, N(p := map_option (\<lambda>md. md\<lparr>md_size := len\<rparr>) (N p)))"
| "meta_spec cfg st (Req_update_metadentry p u) N = (case N p of
       None \<Rightarrow> (Resp_err 1, N)
     | Some md \<Rightarrow> (Resp_err 0, N(p \<mapsto> stored_fields cfg (apply_update u md))))"
| "meta_spec cfg st (Req_update_metadentry_size p sz off app) N =
     (Resp_size 0 (off + sz), N(p := map_option (\<lambda>md.
        md\<lparr>md_size := if app then md_size md + (sz + off) else max (md_size md) (sz + off)\<rparr>) (N p)))"
| "meta_spec cfg st (Req_get_metadentry_size p) N = ((case N p of
       None \<Rightarrow> Resp_size ENOENT 0 | Some md \<Rightarrow> Resp_size 0 (md_size md)), N)"
| "meta_spec cfg st (Req_mk_symlink p t) N =
     (if N p \<noteq> None then (Resp_err (- 1), N)
      else (Resp_err 0, N(p \<mapsto> stored_fields cfg
             (st (empty_metadata\<lparr>md_mode := LINK_MODE, md_target_path := t\<rparr>)))))"
| "meta_spec cfg st _ N = (Resp_err 0, N)"

text \<open>A daemon whose store works and whose coming calls succeed.\<close>

definition healthy ::
    "md_config \<Rightarrow> ('db \<Rightarrow> bytes \<rightharpoonup> bytes) \<Rightarrow> ('db \<Rightarrow> bool) \<Rightarrow> 'db daemon \<Rightarrow> bool" where
  "healthy cfg val ok d \<longleftrightarrow> ok (d_mdb d) \<and> wf_map cfg (val (d_mdb d)) \<and>
     rpc_script d = [] \<and> st_script (storage d) = []"

definition daemon_ns :: "md_config \<Rightarrow> ('db \<Rightarrow> bytes \<rightharpoonup> bytes) \<Rightarrow> 'db daemon \<Rightarrow> namespace" where
  "daemon_ns cfg val d = namespace_of cfg (val (d_mdb d))"

section \<open>The handlers implement it\<close>

lemma chunk_dir_total:
  "is_absolute p \<Longrightarrow> p \<noteq> [separator] \<Longrightarrow> \<exists>dir. chunk_dir_of p st = (Inr dir, st)"
  by (cases p) (auto simp: chunk_dir_of_def get_chunks_dir_def is_absolute_def absolute_def is_relative_def
      separator_def neq_Nil_conv)

lemma destroy_space_total:
  assumes "is_absolute p" "p \<noteq> [separator]" "st_script st = []"
  shows "\<exists>st'. destroy_chunk_space p st = (Inr (), st') \<and> st_script st' = []"
  using chunk_dir_total [OF assms(1,2), of st] assms(3)
  by (auto simp: destroy_chunk_space_def cmd_simps pop_outcome_def)

lemma get_input_assert_ok [simp]: "rpc_script d = [] \<Longrightarrow> get_input_assert d = (Inr (), d)"
  by (simp add: get_input_assert_def cmd_simps)

lemma catch_map_apply [cmd_simps]:
  "catch_map h m s = (case m s of
     (Inl e, s') \<Rightarrow> ((case h e of Some x \<Rightarrow> Inr x | None \<Rightarrow> Inl e), s') | (Inr x, s') \<Rightarrow> (Inr x, s'))"
  by (auto simp: catch_map_def cmd_simps split: prod.split sum.split option.split)

lemma resp_of_apply [cmd_simps]:
  "resp_of f m s = (case m s of (Inl e, s') \<Rightarrow> (Inl e, s') | (Inr x, s') \<Rightarrow> (Inr (f x), s'))"
  by (auto simp: resp_of_def cmd_simps split: prod.split sum.split)

text \<open>The outcome of a request at a daemon is the one of the specification: a response, and only
  the store and the chunk directories have changed.\<close>

definition implements ::
    "md_config \<Rightarrow> ('db \<Rightarrow> bytes \<rightharpoonup> bytes) \<Rightarrow> ('db \<Rightarrow> bool) \<Rightarrow> 'db daemon \<Rightarrow>
     rpc_resp res \<times> 'db daemon \<Rightarrow> rpc_resp \<times> namespace \<Rightarrow> bool" where
  "implements cfg val ok d out spec \<longleftrightarrow> (\<exists>db st.
     out = (Inr (fst spec), d\<lparr>d_mdb := db, storage := st\<rparr>) \<and>
     healthy cfg val ok (d\<lparr>d_mdb := db, storage := st\<rparr>) \<and>
     namespace_of cfg (val db) = snd spec)"

lemma implementsI:
  assumes "r = Inr resp" "d' = d\<lparr>d_mdb := db, storage := st\<rparr>" "healthy cfg val ok d'"
    "namespace_of cfg (val db) = N'"
  shows "implements cfg val ok d (r, d') (resp, N')"
  using assms by (auto simp: implements_def)

lemma implements_same:
  "healthy cfg val ok d \<Longrightarrow> implements cfg val ok d (Inr resp, d) (resp, daemon_ns cfg val d)"
  by (rule implementsI [where db = "d_mdb d" and st = "storage d"]) (simp_all add: daemon_ns_def)

context daemon_store
begin

abbreviation "cf \<equiv> env_cfg E"
abbreviation "fit d \<equiv> healthy cf val ok d"
abbreviation "ns d \<equiv> daemon_ns cf val d"
abbreviation "impl d \<equiv> implements cf val ok d"

lemma fit_simps: "fit d \<Longrightarrow> ready d" "fit d \<Longrightarrow> rpc_script d = []" "fit d \<Longrightarrow> wf_map cf (dval d)"
    "fit d \<Longrightarrow> st_script (storage d) = []"
  by (auto simp: healthy_def ready_def usable_def)

lemma fit_upd: "fit d \<Longrightarrow> ready (d\<lparr>d_mdb := db\<rparr>) \<Longrightarrow> fit (d\<lparr>d_mdb := db\<rparr>)"
  by (auto simp: healthy_def ready_def usable_def)

lemma fit_storage: "fit d \<Longrightarrow> st_script st = [] \<Longrightarrow> fit (d\<lparr>storage := st\<rparr>)"
  by (auto simp: healthy_def)

declare fit_simps [simp]

lemma ns_Some:
  assumes "fit d" "ns d p = Some md"
  shows "is_absolute p" "dval d p = Some (serialize cf md)" "storable md" "stored_fields cf md = md"
  using namespace_Some [of cf "dval d" p md] assms by (auto simp: daemon_ns_def)

lemma ns_None: "fit d \<Longrightarrow> is_absolute p \<Longrightarrow> ns d p = None \<longleftrightarrow> dval d p = None"
  using namespace_None [of cf "dval d" p] by (auto simp: daemon_ns_def)

lemma implI:
  assumes "fit d" "ready (d\<lparr>d_mdb := db\<rparr>)" "namespace_of cf (val db) = N'"
  shows "impl d (Inr resp, d\<lparr>d_mdb := db\<rparr>) (resp, N')"
  by (rule implementsI [where db = db and st = "storage d"]) (use assms fit_upd in simp_all)

lemma get_ns: "fit d \<Longrightarrow> ns d p = Some md \<Longrightarrow> get E p d = (Inr md, d)"
  using get_ok [of d p md] ns_Some [of d p md] by simp

lemma get_ns_missing: "fit d \<Longrightarrow> is_absolute p \<Longrightarrow> ns d p = None \<Longrightarrow> get E p d = (Inl NotFoundException, d)"
  using get_missing [of d p] ns_None [of d p] by simp

text \<open>The common part of the two requests that create an entry.\<close>

lemma create_ns:
  assumes "fit d" "valid_key p" "storable md"
  shows "ns d p \<noteq> None \<Longrightarrow> create E p md d = (Inl ExistsException, d)"
    "ns d p = None \<Longrightarrow> \<exists>db. create E p md d = (Inr (), d\<lparr>d_mdb := db\<rparr>) \<and> ready (d\<lparr>d_mdb := db\<rparr>) \<and>
       namespace_of cf (val db) = (ns d)(p \<mapsto> stored_fields cf (stamp d md))"
proof -
  assume "ns d p \<noteq> None"
  then obtain v where "dval d p = Some v" using ns_None [of d p] assms(1,2) by auto
  then show "create E p md d = (Inl ExistsException, d)" using create_old assms by simp
next
  assume "ns d p = None"
  then have "dval d p = None" using ns_None assms(1,2) by simp
  then obtain db where "create E p md d = (Inr (), d\<lparr>d_mdb := db\<rparr>)" "ready (d\<lparr>d_mdb := db\<rparr>)"
      "val db = (dval d)(p \<mapsto> serialize cf (stamp d md))"
    using create_new [of d p md] assms by auto
  then show "\<exists>db. create E p md d = (Inr (), d\<lparr>d_mdb := db\<rparr>) \<and> ready (d\<lparr>d_mdb := db\<rparr>) \<and>
       namespace_of cf (val db) = (ns d)(p \<mapsto> stored_fields cf (stamp d md))"
    using namespace_upd [of p "stamp d md" cf "dval d"] assms by (auto simp: daemon_ns_def)
qed

lemma create_impl:
  assumes "fit d" "meta_req (ns d) (Req_create p m)"
  shows "impl d (dispatch E (Req_create p m) d) (meta_spec cf (stamp d) (Req_create p m) (ns d))"
proof -
  define md where "md = empty_metadata\<lparr>md_mode := m\<rparr>"
  have md: "new_metadata m = Inr md" "storable md"
    using assms(2) by (auto simp: new_metadata_def md_def storable_def empty_metadata_def)
  have run: "dispatch E (Req_create p m) d =
      resp_of Resp_err (catch_map create_errno (cbind (create E p md) (\<lambda>_. cret 0))) d"
    using assms(1) md(1) by (simp add: rpc_srv_create_def cmd_simps)
  show ?thesis
  proof (cases "ns d p = None")
    case True
    obtain db where db: "create E p md d = (Inr (), d\<lparr>d_mdb := db\<rparr>)" "ready (d\<lparr>d_mdb := db\<rparr>)"
        "namespace_of cf (val db) = (ns d)(p \<mapsto> stored_fields cf (stamp d md))"
      using create_ns(2) [OF assms(1) _ md(2) True] assms(2) by auto
    have "dispatch E (Req_create p m) d = (Inr (Resp_err 0), d\<lparr>d_mdb := db\<rparr>)"
      unfolding run by (simp add: cmd_simps db(1))
    then show ?thesis using True implI [OF assms(1) db(2,3)] by (simp add: md_def)
  next
    case False
    then have "dispatch E (Req_create p m) d = (Inr (Resp_err EEXIST), d)"
      unfolding run using create_ns(1) [OF assms(1) _ md(2) False] assms(2)
      by (simp add: cmd_simps create_errno_def)
    then show ?thesis using False implements_same [OF assms(1)] by auto
  qed
qed

end

context daemon_store
begin

lemma get_str_ns: "fit d \<Longrightarrow> is_absolute p \<Longrightarrow> get_str E p d = ((case ns d p of
    None \<Rightarrow> Inl NotFoundException | Some md \<Rightarrow> Inr (serialize cf md)), d)"
  using get_str_ok [of d p] ns_None [of d p] ns_Some(2) [of d p] by (cases "ns d p") auto

lemma stat_impl:
  assumes "fit d" "meta_req (ns d) (Req_stat p)"
  shows "impl d (dispatch E (Req_stat p) d) (meta_spec cf (stamp d) (Req_stat p) (ns d))"
proof -
  have c: "c_str (serialize cf md) = serialize cf md" if "ns d p = Some md" for md
    using ns_Some(3) [OF assms(1) that] serialize_no_NUL by simp
  have "dispatch E (Req_stat p) d = (Inr (case ns d p of None \<Rightarrow> Resp_stat ENOENT None
      | Some md \<Rightarrow> Resp_stat 0 (Some (serialize cf md))), d)"
    using assms get_str_ns [OF assms(1), of p] c
    by (cases "ns d p") (simp_all add: rpc_srv_stat_def cmd_simps)
  then show ?thesis using implements_same [OF assms(1)] by simp
qed

lemma get_size_impl:
  assumes "fit d" "meta_req (ns d) (Req_get_metadentry_size p)"
  shows "impl d (dispatch E (Req_get_metadentry_size p) d)
    (meta_spec cf (stamp d) (Req_get_metadentry_size p) (ns d))"
proof -
  have "dispatch E (Req_get_metadentry_size p) d = (Inr (case ns d p of None \<Rightarrow> Resp_size ENOENT 0
      | Some md \<Rightarrow> Resp_size 0 (md_size md)), d)"
    using assms get_ns [OF assms(1), of p] get_ns_missing [OF assms(1), of p]
    by (cases "ns d p") (simp_all add: rpc_srv_get_metadentry_size_def get_size_def cmd_simps)
  then show ?thesis using implements_same [OF assms(1)] by simp
qed

text \<open>Resizing an entry.\<close>

lemma ns_resized:
  assumes "fit d" "ns d p = Some md" "unat n < 2 ^ 63"
    "val db = (dval d)(p \<mapsto> serialize cf (md\<lparr>md_size := n\<rparr>))"
  shows "namespace_of cf (val db) = (ns d)(p \<mapsto> md\<lparr>md_size := n\<rparr>)"
  using namespace_upd [of p "md\<lparr>md_size := n\<rparr>" cf "dval d"] ns_Some [OF assms(1,2)] assms(3)
  by (simp add: assms(4) daemon_ns_def storable_def)

lemma decr_impl:
  assumes "fit d" "meta_req (ns d) (Req_decr_size p len)"
  shows "impl d (dispatch E (Req_decr_size p len) d) (meta_spec cf (stamp d) (Req_decr_size p len) (ns d))"
proof -
  obtain md where md: "ns d p = Some md" and len: "unat len < 2 ^ 63" using assms(2) by auto
  note s = ns_Some [OF assms(1) md]
  obtain db where db: "mdb_decrease_size (env_backend E) p len (d_mdb d) = (Inr (), db)" "usable db"
      "val db = (dval d)(p \<mapsto> serialize cf (md\<lparr>md_size := len\<rparr>))"
    using mdb_decrease_size_ok [of "d_mdb d" p md len] s len fit_simps(1) [OF assms(1)]
    by (auto simp: ready_def)
  have "dispatch E (Req_decr_size p len) d = (Inr (Resp_err 0), d\<lparr>d_mdb := db\<rparr>)"
    using assms(1) db(1) by (simp add: rpc_srv_decr_size_def cmd_simps)
  then show ?thesis using implI [OF assms(1) _ ns_resized [OF assms(1) md len db(3)]] db(2) md
    by (simp add: ready_def)
qed

lemma update_size_impl:
  assumes "fit d" "meta_req (ns d) (Req_update_metadentry_size p sz off app)"
  shows "impl d (dispatch E (Req_update_metadentry_size p sz off app) d)
    (meta_spec cf (stamp d) (Req_update_metadentry_size p sz off app) (ns d))"
proof -
  obtain md where md: "ns d p = Some md" using assms(2) by (auto split: option.splits)
  define n where "n = (if app then md_size md + (sz + off) else max (md_size md) (sz + off))"
  have n: "unat n < 2 ^ 63" using assms(2) md unfolding n_def by simp
  note s = ns_Some [OF assms(1) md]
  obtain db where db: "update_size E p sz off app d = (Inr (), d\<lparr>d_mdb := db\<rparr>)"
      "ready (d\<lparr>d_mdb := db\<rparr>)" "val db = (dval d)(p \<mapsto> serialize cf (md\<lparr>md_size := n\<rparr>))"
    using update_size_ok [OF fit_simps(1) [OF assms(1)] s(2,3) n_def n] by auto
  have "dispatch E (Req_update_metadentry_size p sz off app) d = (Inr (Resp_size 0 (off + sz)), d\<lparr>d_mdb := db\<rparr>)"
    using assms(1) db(1) by (simp add: rpc_srv_update_metadentry_size_def cmd_simps)
  then show ?thesis using implI [OF assms(1) db(2) ns_resized [OF assms(1) md n db(3)]] md
    by (simp add: n_def cong: if_cong)
qed

lemma apply_update_storable:
  assumes "storable md" "fst (in_size u) \<longrightarrow> unat (snd (in_size u)) < 2 ^ 63"
  shows "storable (apply_update u md)"
  using assms by (simp add: apply_update_def Let_def storable_def)

lemma update_impl:
  assumes "fit d" "meta_req (ns d) (Req_update_metadentry p u)"
  shows "impl d (dispatch E (Req_update_metadentry p u) d)
    (meta_spec cf (stamp d) (Req_update_metadentry p u) (ns d))"
proof (cases "ns d p")
  case None
  then have "dispatch E (Req_update_metadentry p u) d = (Inr (Resp_err 1), d)"
    using assms get_ns_missing [OF assms(1), of p] by (simp add: rpc_srv_update_metadentry_def cmd_simps)
  then show ?thesis using None implements_same [OF assms(1)] by simp
next
  case (Some md)
  note s = ns_Some [OF assms(1) Some]
  define md' where "md' = apply_update u md"
  have md': "storable md'"
    unfolding md'_def by (rule apply_update_storable) (use s(3) assms(2) in auto)
  obtain db where db: "mdb_update (env_backend E) p p (serialize cf md') (d_mdb d) = (Inr (), db)"
      "usable db" "val db = (dval d)(p \<mapsto> serialize cf md')"
    using mdb_update_ok [of "d_mdb d" md' p p] md' fit_simps(1) [OF assms(1)] by (auto simp: ready_def)
  have "dispatch E (Req_update_metadentry p u) d = (Inr (Resp_err 0), d\<lparr>d_mdb := db\<rparr>)"
    using assms(1) db(1) get_ns [OF assms(1) Some]
    by (simp add: rpc_srv_update_metadentry_def update_def md'_def cmd_simps)
  then show ?thesis using implI [OF assms(1), of db] db(2,3) namespace_upd [OF s(1) md'] Some
    by (simp add: ready_def daemon_ns_def md'_def)
qed

lemma mk_symlink_impl:
  assumes "fit d" "meta_req (ns d) (Req_mk_symlink p t)"
  shows "impl d (dispatch E (Req_mk_symlink p t) d) (meta_spec cf (stamp d) (Req_mk_symlink p t) (ns d))"
proof -
  define md where "md = empty_metadata\<lparr>md_mode := LINK_MODE, md_target_path := t\<rparr>"
  have l: "S_ISLNK LINK_MODE" by (simp add: S_ISLNK_def LINK_MODE_def S_IFMT_def S_IFLNK_def)
  have md: "new_link_metadata LINK_MODE t = Inr md" "storable md" and k: "valid_key p"
    using assms(2) l
    by (auto simp: new_link_metadata_def md_def storable_def empty_metadata_def separator_def)
  have run: "dispatch E (Req_mk_symlink p t) d = resp_of Resp_err
      (catch_map (\<lambda>e. if is_std_exception e then Some (-1) else None) (cbind (create E p md) (\<lambda>_. cret 0))) d"
    using assms(1) md(1) by (simp add: rpc_srv_mk_symlink_def cmd_simps)
  show ?thesis
  proof (cases "ns d p = None")
    case True
    from create_ns(2) [OF assms(1) k md(2) True]
    obtain db where db: "create E p md d = (Inr (), d\<lparr>d_mdb := db\<rparr>)" "ready (d\<lparr>d_mdb := db\<rparr>)"
        "namespace_of cf (val db) = (ns d)(p \<mapsto> stored_fields cf (stamp d md))" by auto
    have "dispatch E (Req_mk_symlink p t) d = (Inr (Resp_err 0), d\<lparr>d_mdb := db\<rparr>)"
      unfolding run by (simp add: cmd_simps db(1))
    then show ?thesis using True implI [OF assms(1) db(2,3)] by (simp add: md_def)
  next
    case False
    then have "dispatch E (Req_mk_symlink p t) d = (Inr (Resp_err (- 1)), d)"
      unfolding run using create_ns(1) [OF assms(1) k md(2) False] by (simp add: cmd_simps)
    then show ?thesis using False implements_same [OF assms(1)] by auto
  qed
qed

end

context daemon_store
begin

text \<open>Removing a file's data leaves the namespace alone.\<close>

lemma remove_data_ok:
  assumes "fit d" "is_absolute p" "p \<noteq> [separator]"
  shows "\<exists>db st. remove_data_local E p d = (Inr (), d\<lparr>d_mdb := db, storage := st\<rparr>) \<and>
    fit (d\<lparr>d_mdb := db, storage := st\<rparr>) \<and> namespace_of cf (val db) = ns d"
proof -
  obtain db where db: "remove_first_chunk E p d = (Inr (), d\<lparr>d_mdb := db\<rparr>)" "ready (d\<lparr>d_mdb := db\<rparr>)"
      "val db = (dval d)(first_chunk_key p := None)"
    using remove_first_chunk_ok [OF fit_simps(1) [OF assms(1)]] by blast
  obtain st where st: "destroy_chunk_space p (storage d) = (Inr (), st)" "st_script st = []"
    using destroy_space_total [OF assms(2,3) fit_simps(4) [OF assms(1)]] by blast
  have "remove_data_local E p d = (Inr (), d\<lparr>d_mdb := db, storage := st\<rparr>)"
    by (simp add: remove_data_local_def cmd_simps db(1) st(1))
  moreover have "fit (d\<lparr>d_mdb := db, storage := st\<rparr>)"
    using fit_storage [OF fit_upd [OF assms(1) db(2)] st(2)] by simp
  moreover have "namespace_of cf (val db) = ns d" by (simp add: db(3) daemon_ns_def)
  ultimately show ?thesis by blast
qed

lemma remove_data_impl:
  assumes "fit d" "meta_req (ns d) (Req_remove_data p)"
  shows "impl d (dispatch E (Req_remove_data p) d) (meta_spec cf (stamp d) (Req_remove_data p) (ns d))"
proof -
  obtain db st where "remove_data_local E p d = (Inr (), d\<lparr>d_mdb := db, storage := st\<rparr>)"
      "fit (d\<lparr>d_mdb := db, storage := st\<rparr>)" "namespace_of cf (val db) = ns d"
    using remove_data_ok [OF assms(1), of p] assms(2) unfolding meta_req.simps by blast
  then show ?thesis using assms(1)
    by (auto intro!: implementsI [where db = db and st = st] simp: rpc_srv_remove_data_def cmd_simps)
qed

lemma remove_ns:
  assumes "fit d"
  shows "\<exists>db. remove E p d = (Inr (), d\<lparr>d_mdb := db\<rparr>) \<and> fit (d\<lparr>d_mdb := db\<rparr>) \<and>
    namespace_of cf (val db) = (ns d)(p := None)"
  using remove_ok [OF fit_simps(1) [OF assms], of p] fit_upd [OF assms]
  by (auto simp: daemon_ns_def namespace_del)

lemma remove_impl:
  assumes "fit d" "meta_req (ns d) (Req_remove_metadata p)"
  shows "impl d (dispatch E (Req_remove_metadata p) d)
    (meta_spec cf (stamp d) (Req_remove_metadata p) (ns d))"
proof (cases "ns d p")
  case None
  then have "dispatch E (Req_remove_metadata p) d = (Inr (Resp_rm EIO 0 0), d)"
    using assms get_ns_missing [OF assms(1), of p]
    by (simp add: rpc_srv_remove_metadata_def cmd_simps remove_errno_def)
  then show ?thesis using None implements_same [OF assms(1)] by simp
next
  case (Some md)
  obtain db where db: "remove E p d = (Inr (), d\<lparr>d_mdb := db\<rparr>)" "fit (d\<lparr>d_mdb := db\<rparr>)"
      "namespace_of cf (val db) = (ns d)(p := None)"
    using remove_ns [OF assms(1)] by blast
  let ?d = "d\<lparr>d_mdb := db\<rparr>"
  have "\<exists>db' st. remove_data_local E p ?d = (Inr (), ?d\<lparr>d_mdb := db', storage := st\<rparr>) \<and>
    fit (?d\<lparr>d_mdb := db', storage := st\<rparr>) \<and> namespace_of cf (val db') = ns ?d"
    using remove_data_ok [OF db(2)] assms(2) by simp
  then obtain db' st where r: "remove_data_local E p ?d = (Inr (), d\<lparr>d_mdb := db', storage := st\<rparr>)"
      "fit (d\<lparr>d_mdb := db', storage := st\<rparr>)" "namespace_of cf (val db') = (ns d)(p := None)"
    using db(3) by (auto simp: daemon_ns_def)
  have run: "dispatch E (Req_remove_metadata p) d =
      (Inr (Resp_rm 0 (md_mode md) (md_size md)),
       if implicit_data_removal \<and> S_ISREG (md_mode md) \<and> md_size md \<noteq> 0
       then d\<lparr>d_mdb := db', storage := st\<rparr> else ?d)"
    using assms(1) db(1) r(1) get_ns [OF assms(1) Some]
    by (simp add: rpc_srv_remove_metadata_def cmd_simps)
  have a: "impl d (Inr (Resp_rm 0 (md_mode md) (md_size md)), ?d)
      (Resp_rm 0 (md_mode md) (md_size md), (ns d)(p := None))"
    by (rule implementsI [where db = db and st = "storage d"]) (use db in simp_all)
  have b: "impl d (Inr (Resp_rm 0 (md_mode md) (md_size md)), d\<lparr>d_mdb := db', storage := st\<rparr>)
      (Resp_rm 0 (md_mode md) (md_size md), (ns d)(p := None))"
    by (rule implementsI [where db = db' and st = st]) (use r in simp_all)
  show ?thesis unfolding run using a b Some by (cases "S_ISREG (md_mode md) \<and> md_size md \<noteq> 0") auto
qed

lemma meta_request_impl:
  assumes "fit d" "meta_req (ns d) req"
  shows "impl d (dispatch E req d) (meta_spec cf (stamp d) req (ns d))"
proof (cases req)
  case (Req_create p m)
  then show ?thesis using create_impl [OF assms(1)] assms(2) by blast
next
  case (Req_stat p)
  then show ?thesis using stat_impl [OF assms(1)] assms(2) by blast
next
  case (Req_remove_metadata p)
  then show ?thesis using remove_impl [OF assms(1)] assms(2) by blast
next
  case (Req_remove_data p)
  then show ?thesis using remove_data_impl [OF assms(1)] assms(2) by blast
next
  case (Req_decr_size p len)
  then show ?thesis using decr_impl [OF assms(1)] assms(2) by blast
next
  case (Req_update_metadentry p u)
  then show ?thesis using update_impl [OF assms(1)] assms(2) by blast
next
  case (Req_update_metadentry_size p sz off app)
  then show ?thesis using update_size_impl [OF assms(1)] assms(2) by blast
next
  case (Req_get_metadentry_size p)
  then show ?thesis using get_size_impl [OF assms(1)] assms(2) by blast
next
  case (Req_mk_symlink p t)
  then show ?thesis using mk_symlink_impl [OF assms(1)] assms(2) by blast
qed (use assms(2) in auto)

end

section \<open>A run of requests\<close>

fun serve :: "'db daemon_env \<Rightarrow> rpc_req list \<Rightarrow> ('db daemon, rpc_resp list) cmd" where
  "serve E [] = cret []"
| "serve E (req # reqs) = cbind (dispatch E req) (\<lambda>r. cbind (serve E reqs) (\<lambda>rs. cret (r # rs)))"

fun serve_spec ::
    "md_config \<Rightarrow> (metadata \<Rightarrow> metadata) \<Rightarrow> rpc_req list \<Rightarrow> namespace \<Rightarrow> rpc_resp list \<times> namespace" where
  "serve_spec cfg st [] N = ([], N)"
| "serve_spec cfg st (req # reqs) N = (case meta_spec cfg st req N of (r, N') \<Rightarrow>
     case serve_spec cfg st reqs N' of (rs, N'') \<Rightarrow> (r # rs, N''))"

fun meta_reqs ::
    "md_config \<Rightarrow> (metadata \<Rightarrow> metadata) \<Rightarrow> namespace \<Rightarrow> rpc_req list \<Rightarrow> bool" where
  "meta_reqs cfg st N [] = True"
| "meta_reqs cfg st N (req # reqs) =
     (meta_req N req \<and> meta_reqs cfg st (snd (meta_spec cfg st req N)) reqs)"

lemma stamp_upd [simp]: "stamp (d\<lparr>d_mdb := db, storage := st\<rparr>) = stamp d"
  by (simp add: stamp_def Let_def fun_eq_iff)

context daemon_store
begin

lemma serve_impl:
  "fit d \<Longrightarrow> meta_reqs cf (stamp d) (ns d) reqs \<Longrightarrow>
   \<exists>d'. serve E reqs d = (Inr (fst (serve_spec cf (stamp d) reqs (ns d))), d') \<and> fit d' \<and>
     ns d' = snd (serve_spec cf (stamp d) reqs (ns d))"
proof (induction reqs arbitrary: d)
  case Nil
  then show ?case by (simp add: cmd_simps)
next
  case (Cons req reqs)
  obtain resp N' where s: "meta_spec cf (stamp d) req (ns d) = (resp, N')" by fastforce
  obtain db st where d': "dispatch E req d = (Inr resp, d\<lparr>d_mdb := db, storage := st\<rparr>)"
      "fit (d\<lparr>d_mdb := db, storage := st\<rparr>)" "ns (d\<lparr>d_mdb := db, storage := st\<rparr>) = N'"
    using meta_request_impl [OF Cons.prems(1), of req] Cons.prems(2) s
    by (auto simp: implements_def daemon_ns_def)
  from Cons.IH [OF d'(2)] Cons.prems(2) show ?case
    by (auto simp: cmd_simps s d' split: prod.split)
qed

end

section \<open>Properties\<close>

text \<open>C12: The daemon's metadata handlers refine the namespace specification: on any store that
  meets the contract, every run of well-formed metadata requests (create, stat, size changes,
  attribute updates, links, removal) gets exactly the responses of the specification, errors
  included, and the namespace read back from the store at the end is the specified one.\<close>

lemma metadata_run_refines:
  assumes "rocksdb_contract cfg R val ok" "healthy cfg val ok d"
    "meta_reqs cfg (stamp d) (daemon_ns cfg val d) reqs"
  shows "\<exists>d'. serve (rocksdb_env cfg R h stale) reqs d =
      (Inr (fst (serve_spec cfg (stamp d) reqs (daemon_ns cfg val d))), d') \<and>
    healthy cfg val ok d' \<and>
    daemon_ns cfg val d' = snd (serve_spec cfg (stamp d) reqs (daemon_ns cfg val d))"
  using daemon_store.serve_impl [OF rocksdb_daemon_store [OF assms(1), of h stale], of d reqs] assms(2,3)
  by simp

text \<open>A daemon on the lazily folding store, and a run on it.\<close>

definition sample_daemon :: "lazy_store daemon" where
  "sample_daemon = \<lparr>d_mdb = [],
     storage = \<lparr>root_path = ''/r'', st_chunksize = chunksize, st_dirs = Map.empty, st_script = [],
       st_bsize = 4096, st_blocks = 1000, st_bavail = 500\<rparr>,
     distributor_ref = SimpleHashDistributor 0 1, atime_state = False, mtime_state = True,
     ctime_state = False, link_cnt_state = False, blocks_state = False, mountdir = ''/m'',
     rootdir = ''/r'', clock = 7, rpc_script = []\<rparr>"

definition sample_env :: "lazy_store daemon_env" where
  "sample_env = rocksdb_env config_metadata (lazy_rocksdb config_metadata)
     (\<lambda>s. of_nat (length s)) (\<lambda>_. 0)"

lemma sample_daemon_healthy: "healthy cfg (lazy_val cfg) (lazy_ok cfg) sample_daemon"
  by (simp add: healthy_def sample_daemon_def lazy_ok_def wf_map_def lazy_val_def)

lemma sample_daemon_ns [simp]: "daemon_ns cfg (lazy_val cfg) sample_daemon = Map.empty"
  by (simp add: daemon_ns_def namespace_of_def lazy_val_def sample_daemon_def fun_eq_iff)

definition sample_run :: "rpc_req list" where
  "sample_run = [Req_create ''/d'' S_IFDIR, Req_create ''/d/a'' S_IFREG, Req_create ''/d/a'' S_IFREG,
     Req_update_metadentry_size ''/d/a'' 10 5 False, Req_get_metadentry_size ''/d/a'',
     Req_remove_metadata ''/d/a'', Req_get_metadentry_size ''/d/a'']"

lemmas sample_path_simps = valid_key_def is_absolute_def has_trailing_slash_def separator_def
  mode_defs empty_metadata_def

lemma metadata_run_refines_witness:
  "fst (serve sample_env sample_run sample_daemon) = Inr [Resp_err 0, Resp_err 0, Resp_err EEXIST,
     Resp_size 0 15, Resp_size 0 15, Resp_rm 0 S_IFREG 15, Resp_size ENOENT 0]"
proof -
  have r: "meta_reqs config_metadata (stamp sample_daemon)
      (daemon_ns config_metadata (lazy_val config_metadata) sample_daemon) sample_run"
    unfolding sample_daemon_ns
    by (simp add: sample_run_def sample_path_simps stored_fields_def stamp_def sample_daemon_def Let_def)
  have s: "fst (serve_spec config_metadata (stamp sample_daemon) sample_run Map.empty) =
      [Resp_err 0, Resp_err 0, Resp_err EEXIST, Resp_size 0 15, Resp_size 0 15,
       Resp_rm 0 S_IFREG 15, Resp_size ENOENT 0]"
    by (simp add: sample_run_def sample_path_simps stored_fields_def stamp_def sample_daemon_def Let_def)
  show ?thesis
    using metadata_run_refines [OF lazy.rocksdb_contract_axioms sample_daemon_healthy r,
        of "\<lambda>s. of_nat (length s)" "\<lambda>_. 0"] s
    by (auto simp: sample_env_def)
qed

end
