(* ===== verification/Daemon_Data.thy ===== *)
theory Daemon_Data
  imports Data_Plan Namespace
begin

text \<open>
  What one daemon does for a read or write request: \<open>stored_chunk\<close> is the content of a chunk as
  the daemon reads it back (the first chunk from the key-value store, the others from files), and
  the lemmas say which chunks a request changes and what it returns. They rest on the plan of
  rounds (\<open>Data_Plan\<close>) and on the laws of the stores.
\<close>

section \<open>Chunks as the daemon reads them back\<close>

definition stored_chunk :: "('db \<Rightarrow> bytes \<rightharpoonup> bytes) \<Rightarrow> 'db daemon \<Rightarrow> path \<Rightarrow> u64 \<Rightarrow> bytes" where
  "stored_chunk val d p c =
    (if c = 0 then (case val (d_mdb d) (first_chunk_key p) of
         None \<Rightarrow> []
       | Some v \<Rightarrow> (case deserialize_first_chunk v of Inl _ \<Rightarrow> [] | Inr fc \<Rightarrow> fc_content fc))
     else (case file_content (storage d) (chunk_file (storage d) p c) of None \<Rightarrow> [] | Some x \<Rightarrow> x))"

text \<open>Files whose chunks have separate directories.\<close>

definition apart :: "path \<Rightarrow> path \<Rightarrow> bool" where
  "apart p q = (is_absolute q \<and> get_chunks_dir p \<noteq> get_chunks_dir q)"

definition data_path :: "path \<Rightarrow> bool" where
  "data_path p = (valid_key p \<and> p \<noteq> [separator])"

text \<open>A healthy daemon whose storage has the chunk size of the build and whose first chunks are
  what the daemon writes.\<close>

definition first_chunks_ok :: "(bytes \<rightharpoonup> bytes) \<Rightarrow> bool" where
  "first_chunks_ok m \<longleftrightarrow> (\<forall>p v. m (first_chunk_key p) = Some v \<longrightarrow>
     (\<exists>fc. v = serialize_first_chunk fc \<and> fc_size fc = of_nat (length (fc_content fc)) \<and>
       length (fc_content fc) \<le> 524288))"

definition data_fit ::
    "md_config \<Rightarrow> ('db \<Rightarrow> bytes \<rightharpoonup> bytes) \<Rightarrow> ('db \<Rightarrow> bool) \<Rightarrow> 'db daemon \<Rightarrow> bool" where
  "data_fit cfg val ok d \<longleftrightarrow> healthy cfg val ok d \<and> st_chunksize (storage d) = chunksize \<and>
     first_chunks_ok (val (d_mdb d))"

text \<open>What a transfer of \<open>b\<close> to position \<open>off\<close> of chunk \<open>c\<close> leaves: the first chunk is stored as a C
  string.\<close>

definition chunk_with :: "u64 \<Rightarrow> nat \<Rightarrow> bytes \<Rightarrow> bytes \<Rightarrow> bytes" where
  "chunk_with c off b x = (if c = 0 then c_str (pwrite_at off b x) else pwrite_at off b x)"

text \<open>A step of a daemon that changes the data of file \<open>p\<close> to \<open>chunks\<close> and no other file.\<close>

definition changes_data ::
    "md_config \<Rightarrow> ('db \<Rightarrow> bytes \<rightharpoonup> bytes) \<Rightarrow> ('db \<Rightarrow> bool) \<Rightarrow> path \<Rightarrow> (u64 \<Rightarrow> bytes) \<Rightarrow>
     'db daemon \<Rightarrow> 'db daemon \<Rightarrow> bool" where
  "changes_data cfg val ok p chunks d d' \<longleftrightarrow>
     data_fit cfg val ok d' \<and> stamp d' = stamp d \<and> daemon_ns cfg val d' = daemon_ns cfg val d \<and>
     stored_chunk val d' p = chunks \<and> (\<forall>q. apart p q \<longrightarrow> stored_chunk val d' q = stored_chunk val d q)"

lemma changes_data_trans:
  "changes_data cfg val ok p f d d' \<Longrightarrow> changes_data cfg val ok p g d' d'' \<Longrightarrow>
   changes_data cfg val ok p g d d''"
  by (simp add: changes_data_def)

lemma changes_data_refl:
  "data_fit cfg val ok d \<Longrightarrow> changes_data cfg val ok p (stored_chunk val d p) d d"
  by (simp add: changes_data_def)

lemma data_path_file: "data_path p \<Longrightarrow> file_path_ok p"
  by (cases p) (auto simp: data_path_def file_path_ok_def valid_key_def is_absolute_def)

lemma apart_neq: "apart p q \<Longrightarrow> p \<noteq> q"
  by (auto simp: apart_def)

lemma apart_dir: "is_absolute p \<Longrightarrow> apart p q \<Longrightarrow> chunk_dir st p \<noteq> chunk_dir st q"
  by (auto simp: apart_def get_chunks_dir_def chunk_dir_def)

lemma resize_grow: "length x \<le> n \<Longrightarrow> resize n x = x @ replicate (n - length x) NUL"
  by (simp add: resize_def)

lemma pwrite_at_resize:
  "b \<noteq> [] \<Longrightarrow> overwrite off b (if length x < off + length b then resize (off + length b) x else x) =
     pwrite_at off b x"
  by (simp add: pwrite_at_def)

text \<open>The parts of a daemon the steps below change.\<close>

lemma stamp_ref [simp]:
  "stamp (d\<lparr>distributor_ref := r\<rparr>) = stamp d" "stamp (d\<lparr>d_mdb := db\<rparr>) = stamp d"
  "stamp (d\<lparr>storage := s\<rparr>) = stamp d"
  by (simp_all add: fun_eq_iff stamp_def)

lemma ref_frame [simp]:
  "stored_chunk val (d\<lparr>distributor_ref := r\<rparr>) = stored_chunk val d"
  "data_fit cfg val ok (d\<lparr>distributor_ref := r\<rparr>) = data_fit cfg val ok d"
  "daemon_ns cfg val (d\<lparr>distributor_ref := r\<rparr>) = daemon_ns cfg val d"
  by (simp_all add: fun_eq_iff stored_chunk_def data_fit_def healthy_def daemon_ns_def)

lemma changes_data_ref:
  "changes_data cfg val ok p f (d\<lparr>distributor_ref := r\<rparr>) d' = changes_data cfg val ok p f d d'"
  by (simp add: changes_data_def)

definition fair_first_chunk :: "first_chunk \<Rightarrow> bool" where
  "fair_first_chunk fc \<longleftrightarrow> fc_size fc = of_nat (length (fc_content fc)) \<and> length (fc_content fc) \<le> 524288"

lemma fair_first_chunk_size: "fair_first_chunk fc \<Longrightarrow> unat (fc_size fc) < 2 ^ 63"
  by (simp add: fair_first_chunk_def unat_of_nat64)

lemma first_chunks_okD:
  assumes "first_chunks_ok m" "m (first_chunk_key p) = Some v"
  obtains fc where "v = serialize_first_chunk fc" "fair_first_chunk fc"
    "deserialize_first_chunk v = Inr (fc\<lparr>fc_content := c_str (fc_content fc)\<rparr>)"
  using assms deserialize_first_chunk_serialize fair_first_chunk_size
  unfolding first_chunks_ok_def fair_first_chunk_def by blast

lemma first_chunks_ok_upd:
  "first_chunks_ok m \<Longrightarrow> fair_first_chunk fc \<Longrightarrow>
   first_chunks_ok (m(first_chunk_key p \<mapsto> serialize_first_chunk fc))"
  unfolding first_chunks_ok_def fair_first_chunk_def by auto

section \<open>One chunk\<close>

text \<open>The content a write of the first chunk stores.\<close>

lemma new_content:
  fixes off sz :: u64
  assumes "unat off + unat sz \<le> 524288" "0 < unat sz" "unat sz \<le> length buf"
  shows "overwrite (unat off) (take (unat sz) buf) (resize (unat (off + sz)) []) =
      pwrite_at (unat off) (take (unat sz) buf) []"
    "length x < 2 ^ 63 \<Longrightarrow> overwrite (unat off) (take (unat sz) buf)
        (if off + sz > of_nat (length x) then resize (unat (sz + off)) x else x) =
      pwrite_at (unat off) (take (unat sz) buf) x"
proof -
  have s: "unat (off + sz) = unat off + unat sz" using assms(1) by (intro unat_add64) simp
  have ne: "take (unat sz) buf \<noteq> []" using assms by auto
  have l: "length (take (unat sz) buf) = unat sz" using assms(3) by simp
  note p = pwrite_at_resize [OF ne, of "unat off", unfolded l]
  show "overwrite (unat off) (take (unat sz) buf) (resize (unat (off + sz)) []) =
      pwrite_at (unat off) (take (unat sz) buf) []"
    using p [of "[]"] assms(2) by (simp add: s)
  show "overwrite (unat off) (take (unat sz) buf)
      (if off + sz > of_nat (length x) then resize (unat (sz + off)) x else x) =
      pwrite_at (unat off) (take (unat sz) buf) x" if "length x < 2 ^ 63"
  proof -
    have "unat (of_nat (length x) :: u64) = length x" using that by (intro unat_of_nat64) simp
    then have "(off + sz > of_nat (length x)) = (length x < unat off + unat sz)"
      using s by (simp add: word_less_nat_alt)
    then show ?thesis using p [of x] by (simp only: s add.commute [of sz off])
  qed
qed

lemma length_pwrite_at: "length (pwrite_at off b x) \<le> max (length x) (off + length b)"
  by (auto simp: pwrite_at_eq)

lemma length_c_str: "length (c_str x) \<le> length x"
  by (simp add: c_str_def length_takeWhile_le)

context daemon_store
begin

abbreviation "dfit d \<equiv> data_fit cf val ok d"
abbreviation "schunk d \<equiv> stored_chunk val d"
abbreviation "alters p f d d' \<equiv> changes_data cf val ok p f d d'"

lemma dfit_simps: "dfit d \<Longrightarrow> fit d" "dfit d \<Longrightarrow> ready d" "dfit d \<Longrightarrow> rpc_script d = []"
    "dfit d \<Longrightarrow> st_script (storage d) = []" "dfit d \<Longrightarrow> st_chunksize (storage d) = chunksize"
    "dfit d \<Longrightarrow> first_chunks_ok (dval d)"
  using fit_simps [of d] by (auto simp: data_fit_def)

text \<open>A new first chunk in the store.\<close>

lemma first_chunk_stored:
  assumes "dfit d" "data_path p" "ready (d\<lparr>d_mdb := db\<rparr>)" "fair_first_chunk fc"
    "val db = (dval d)(first_chunk_key p \<mapsto> serialize_first_chunk fc)"
  shows "alters p ((schunk d p)(0 := c_str (fc_content fc))) d (d\<lparr>d_mdb := db\<rparr>)"
  unfolding changes_data_def
proof (intro conjI allI impI)
  note fc = deserialize_first_chunk_serialize [OF fair_first_chunk_size [OF assms(4)]]
  show "dfit (d\<lparr>d_mdb := db\<rparr>)"
    using assms(1) fit_upd [OF dfit_simps(1) [OF assms(1)] assms(3)]
      first_chunks_ok_upd [OF dfit_simps(6) [OF assms(1)] assms(4), of p]
    by (simp add: data_fit_def assms(5))
  show "daemon_ns cf val (d\<lparr>d_mdb := db\<rparr>) = daemon_ns cf val d"
    by (simp add: daemon_ns_def assms(5))
  show "schunk (d\<lparr>d_mdb := db\<rparr>) p = (schunk d p)(0 := c_str (fc_content fc))"
    by (auto simp: fun_eq_iff stored_chunk_def assms(5) fc)
  show "schunk (d\<lparr>d_mdb := db\<rparr>) q = schunk d q" if "apart p q" for q
    using apart_neq [OF that] by (auto simp: fun_eq_iff stored_chunk_def assms(5))
qed simp

lemma get_first_chunk_stored:
  assumes "dfit d" "dval d (first_chunk_key p) = Some v"
  shows "\<exists>fc. get_first_chunk E p d = (Inr fc, d) \<and> fc_content fc = schunk d p 0 \<and>
    length (schunk d p 0) \<le> 524288"
proof -
  obtain fc where fc: "v = serialize_first_chunk fc" "fair_first_chunk fc"
      "deserialize_first_chunk v = Inr (fc\<lparr>fc_content := c_str (fc_content fc)\<rparr>)"
    using first_chunks_okD [OF dfit_simps(6) [OF assms(1)] assms(2)] .
  then show ?thesis
    using get_first_chunk_ok [OF dfit_simps(2) [OF assms(1)], of p fc] assms(2) fair_first_chunk_size [OF fc(2)]
      length_c_str [of "fc_content fc"]
    by (auto simp: stored_chunk_def fair_first_chunk_def)
qed

lemma chunk_file_written:
  assumes "dfit d" "data_path p" "c \<noteq> 0" "unat off + unat sz \<le> 524288"
  shows "\<exists>st. on_storage (write_chunk p c buf sz off) d = (Inr (int (unat sz)), d\<lparr>storage := st\<rparr>) \<and>
    alters p ((schunk d p)(c := pwrite_at (unat off) (take (unat sz) buf) (schunk d p c))) d
      (d\<lparr>storage := st\<rparr>)"
proof -
  note fp = data_path_file [OF assms(2)]
  have le: "off + sz \<le> st_chunksize (storage d)"
    using assms(4) dfit_simps(5) [OF assms(1)] by (simp add: word_le_nat_alt unat_add64)
  obtain st where st: "write_chunk p c buf sz off (storage d) = (Inr (int (unat sz)), st)"
      "set (st_script st) \<subseteq> set (drop 2 (st_script (storage d)))"
    using write_chunk_ok [OF fp le] dfit_simps(4) [OF assms(1)] by fastforce
  note w = write_chunk_content [OF st(1) fp]
  have root: "chunk_file st q b = chunk_file (storage d) q b" for q b
    using w by (intro chunk_file_root) simp
  have fcs: "file_content st f = (if f = chunk_file (storage d) p c
      then Some (pwrite_at (unat off) (take (unat sz) buf)
        (case file_content (storage d) f of None \<Rightarrow> [] | Some x \<Rightarrow> x))
      else file_content (storage d) f)" for f
    using w by simp
  have other: "chunk_file (storage d) q b \<noteq> chunk_file (storage d) p c" if "apart p q" for q b
    using apart_dir [of p q "storage d"] that assms(2) by (auto simp: chunk_file_def data_path_def)
  have "alters p ((schunk d p)(c := pwrite_at (unat off) (take (unat sz) buf) (schunk d p c))) d
      (d\<lparr>storage := st\<rparr>)"
    unfolding changes_data_def
  proof (intro conjI allI impI)
    show "dfit (d\<lparr>storage := st\<rparr>)"
      using assms(1) fit_storage [OF dfit_simps(1) [OF assms(1)], of st] st(2)
        dfit_simps(4,5) [OF assms(1)] w by (simp add: data_fit_def)
    show "schunk (d\<lparr>storage := st\<rparr>) p =
        (schunk d p)(c := pwrite_at (unat off) (take (unat sz) buf) (schunk d p c))"
      using assms(3) by (auto simp: fun_eq_iff stored_chunk_def root fcs)
    show "schunk (d\<lparr>storage := st\<rparr>) q = schunk d q" if "apart p q" for q
      using other [OF that] by (auto simp: fun_eq_iff stored_chunk_def root fcs)
  qed (simp_all add: daemon_ns_def)
  then show ?thesis using st(1) by (auto simp: cmd_simps)
qed

end

context daemon_store
begin

lemma first_chunk_written:
  assumes "dfit d" "data_path p" "unat off + unat sz \<le> 524288" "0 < unat sz" "unat sz \<le> length buf"
  shows "\<exists>d'. write_file_abt E p 0 buf sz off d = (Inr (int (unat sz)), d') \<and>
    alters p ((schunk d p)(0 := chunk_with 0 (unat off) (take (unat sz) buf) (schunk d p 0))) d d'"
proof -
  let ?b = "take (unat sz) buf"
  note r = dfit_simps(2) [OF assms(1)]
  have fit_assert: "off + sz \<le> chunksize" using assms(3) by (simp add: word_le_nat_alt unat_add64)
  have sint: "sint sz = int (unat sz)" using assms(3) by (intro sint_small64) simp
  have vk: "valid_key p" using assms(2) by (simp add: data_path_def)
  have fair: "fair_first_chunk (fc\<lparr>fc_content := pwrite_at (unat off) ?b x,
      fc_size := of_nat (length (pwrite_at (unat off) ?b x))\<rparr>)" if "length x \<le> 524288" for fc :: first_chunk and x
    using length_pwrite_at [of "unat off" ?b x] assms(3,5) that by (simp add: fair_first_chunk_def)
  show ?thesis
  proof (cases "dval d (first_chunk_key p)")
    case None
    define fc where "fc = \<lparr>fc_size = of_nat (length (pwrite_at (unat off) ?b [])),
      fc_content = pwrite_at (unat off) ?b []\<rparr>"
    have old: "schunk d p 0 = []" by (simp add: stored_chunk_def None)
    obtain db where db: "create_first_chunk E p fc d = (Inr (), d\<lparr>d_mdb := db\<rparr>)" "ready (d\<lparr>d_mdb := db\<rparr>)"
        "val db = (dval d)(first_chunk_key p \<mapsto> serialize_first_chunk fc)"
      using create_first_chunk_new [OF r vk None] by blast
    have "fair_first_chunk fc" using fair [of "[]" fc] by (simp add: fc_def)
    from first_chunk_stored [OF assms(1,2) db(2) this db(3)] show ?thesis
      using db(1) fit_assert sint exists_first_chunk_ok [OF r, of p]
      by (auto simp: write_file_abt_def cmd_simps Let_def None new_content [OF assms(3-5)] chunk_with_def
          old fc_def)
  next
    case (Some v)
    obtain fc where fc: "get_first_chunk E p d = (Inr fc, d)" "fc_content fc = schunk d p 0"
        "length (schunk d p 0) \<le> 524288"
      using get_first_chunk_stored [OF assms(1) Some] by blast
    define fc' where "fc' = fc\<lparr>fc_content := pwrite_at (unat off) ?b (schunk d p 0),
      fc_size := of_nat (length (pwrite_at (unat off) ?b (schunk d p 0)))\<rparr>"
    obtain db where db: "update_first_chunk E p fc' d = (Inr (), d\<lparr>d_mdb := db\<rparr>)" "ready (d\<lparr>d_mdb := db\<rparr>)"
        "val db = (dval d)(first_chunk_key p \<mapsto> serialize_first_chunk fc')"
      using update_first_chunk_ok [OF r] by blast
    have "fair_first_chunk fc'" using fair [OF fc(3)] by (simp add: fc'_def)
    from first_chunk_stored [OF assms(1,2) db(2) this db(3)] show ?thesis
      using db(1) fc fit_assert sint exists_first_chunk_ok [OF r, of p]
        new_content(2) [OF assms(3-5), of "schunk d p 0"]
      by (auto simp: write_file_abt_def cmd_simps Let_def Some chunk_with_def fc'_def)
  qed
qed

text \<open>A write task.\<close>

lemma task_writes:
  assumes "dfit d" "data_path p" "unat off + unat sz \<le> 524288" "0 < unat sz" "unat sz \<le> length buf" "idx < k"
  shows "\<exists>d'. write_nonblock E p k idx c buf sz off d = (Inr (int (unat sz)), d') \<and>
    alters p ((schunk d p)(c := chunk_with c (unat off) (take (unat sz) buf) (schunk d p c))) d d'"
proof -
  have "\<exists>d'. write_file_abt E p c buf sz off d = (Inr (int (unat sz)), d') \<and>
      alters p ((schunk d p)(c := chunk_with c (unat off) (take (unat sz) buf) (schunk d p c))) d d'"
  proof (cases "c = 0")
    case False
    then show ?thesis
      using chunk_file_written [OF assms(1,2) False assms(3), of buf]
      by (auto simp: write_file_abt_def cmd_simps chunk_with_def)
  qed (use first_chunk_written [OF assms(1-5)] in simp)
  then show ?thesis
    using dfit_simps(3) [OF assms(1)] assms(6)
    by (auto simp: write_nonblock_def start_task_def cbind_ok cmd_simps)
qed

end

section \<open>The rounds of a request\<close>

text \<open>The host of a chunk.\<close>

definition chunk_host :: "(string \<Rightarrow> u64) \<Rightarrow> u32 \<Rightarrow> path \<Rightarrow> u64 \<Rightarrow> u32" where
  "chunk_host hash k p c = ucast (hash (p @ dec (unat (ucast c :: u32))) mod ucast k)"

lemma located_here_ok:
  assumes "k \<noteq> 0"
  shows "\<exists>r. located_here E p c h (ucast k) d =
    (Inr (ucast (chunk_host (env_hash E) k p c) = h), d\<lparr>distributor_ref := r\<rparr>)"
proof -
  have "\<exists>r. locate_data_sized (env_hash E) p (ucast c) k (distributor_ref d) =
      (Inr (chunk_host (env_hash E) k p c), r)"
    using assms by (auto simp: locate_data_sized_def Let_def hash_mod_def chunk_host_def)
  then show ?thesis by (auto simp: located_here_def cmd_simps)
qed

text \<open>The bytes of a slice, and a chunk after its slice was written.\<close>

definition slice_pos :: "nat \<Rightarrow> nat \<Rightarrow> nat" where
  "slice_pos off m = slice_lo off m - m * 524288"

definition slice_bytes :: "nat \<Rightarrow> nat \<Rightarrow> bytes \<Rightarrow> nat \<Rightarrow> bytes" where
  "slice_bytes off n buf m = take (slice_len off n m) (drop (slice_lo off m - off) buf)"

definition put_slice :: "nat \<Rightarrow> nat \<Rightarrow> bytes \<Rightarrow> nat \<Rightarrow> bytes \<Rightarrow> bytes" where
  "put_slice off n buf m x = chunk_with (of_nat m) (slice_pos off m) (slice_bytes off n buf m) x"

fun put_slices :: "nat \<Rightarrow> nat \<Rightarrow> bytes \<Rightarrow> nat list \<Rightarrow> (u64 \<Rightarrow> bytes) \<Rightarrow> u64 \<Rightarrow> bytes" where
  "put_slices off n buf [] f = f"
| "put_slices off n buf (m # ms) f =
     put_slices off n buf ms (f(of_nat m := put_slice off n buf m (f (of_nat m))))"

lemma slice_facts:
  assumes "0 < n" "off + n < 2 ^ 63" "first_chunk_of off \<le> m" "m \<le> last_chunk_of off n"
  shows "slice_pos off m = (if m = first_chunk_of off then head_gap off else 0)"
    "slice_pos off m + slice_len off n m \<le> 524288" "slice_lo off m - off + slice_len off n m \<le> n"
    "0 < slice_len off n m" "slice_lo off m = m * 524288 + slice_pos off m"
proof -
  note b = chunk_bounds [OF assms(1), of off]
  show pos: "slice_pos off m = (if m = first_chunk_of off then head_gap off else 0)"
  proof (cases "m = first_chunk_of off")
    case False
    then have "(first_chunk_of off + 1) * 524288 \<le> m * 524288"
      using assms(3) by (intro mult_le_mono1) simp
    then show ?thesis using False b(2) by (simp add: slice_pos_def slice_lo_def)
  qed (use b in \<open>simp add: slice_pos_def slice_lo_def\<close>)
  show "slice_pos off m + slice_len off n m \<le> 524288"
    using slice_len_gaps [OF assms(1,3,4)] pos by (auto split: if_splits)
  show "slice_lo off m - off + slice_len off n m \<le> n"
    using slice_lo_le_hi [OF assms(1,3,4)] by (auto simp: slice_len_def slice_lo_def slice_hi_def)
  have "first_chunk_of off * 524288 \<le> m * 524288" "m * 524288 \<le> last_chunk_of off n * 524288"
      "(first_chunk_of off + 1) * 524288 \<le> (m + 1) * 524288"
    using assms(3,4) by (intro mult_le_mono1; simp)+
  then show "0 < slice_len off n m"
    using b(2,3) assms(1) by (simp add: slice_len_def slice_lo_def slice_hi_def)
  show "slice_lo off m = m * 524288 + slice_pos off m" by (simp add: slice_pos_def slice_lo_def)
qed

lemma file_offset_slice:
  assumes "range_request i offset sz" "off = unat offset" "n = unat sz"
    "first_chunk_of off \<le> m" "m \<le> last_chunk_of off n"
  shows "unat (file_offset i (of_nat m)) = slice_pos off m"
proof -
  have n: "0 < n" "off + n < 2 ^ 63"
    using assms(1-3) valid_range_pos by (auto simp: valid_range_def range_request_def)
  have m: "unat (of_nat m :: u64) = m" using slice_bounds(3) [OF n assms(4,5)] by (simp add: unat_of_nat64)
  show ?thesis
    using assms(1,2) m unat_range_start [of offset] slice_facts(1) [OF n assms(4,5)]
    by (auto simp: file_offset_def range_request_def chunk.unat_block_overrun head_gap_def word_eq_unat64)
qed

text \<open>Slices of distinct chunks do not meet.\<close>

lemma put_slices_apply:
  assumes "distinct ms" "\<And>m. m \<in> set ms \<Longrightarrow> m < 2 ^ 44"
  shows "put_slices off n buf ms f c = (if unat c \<in> set ms then put_slice off n buf (unat c) (f c) else f c)"
  using assms
proof (induction ms arbitrary: f)
  case (Cons m ms)
  have m: "(c = of_nat m) = (unat c = m)" for c :: u64
    using Cons.prems(2) [of m] by (auto simp: word_eq_unat64 unat_of_nat64)
  show ?case using Cons m by auto
qed simp

lemma expected_plan_Nil [simp]:
  "expected_plan off n ms l = [] \<longleftrightarrow> ms = []" "[] = expected_plan off n ms l \<longleftrightarrow> ms = []"
  by (cases ms; auto)+

lemma length_slice_bytes:
  "slice_lo off m - off + slice_len off n m \<le> length buf \<Longrightarrow> length (slice_bytes off n buf m) = slice_len off n m"
  by (simp add: slice_bytes_def)

text \<open>The transfer of a slice between two buffers.\<close>

lemma transfer_ok:
  assumes "rpc_script d = []" "unat o1 + unat s \<le> length src" "unat l + unat s \<le> length dst"
  shows "bulk_transfer src o1 dst l s d =
    (Inr (Some (overwrite (unat l) (take (unat s) (drop (unat o1) src)) dst)), d)"
  using assms by (simp add: bulk_transfer_def cbind_ok cmd_simps)

text \<open>The request as the client fills it in, for the daemon it is sent to.\<close>

definition request_for :: "data_in \<Rightarrow> path \<Rightarrow> u64 \<Rightarrow> u64 \<Rightarrow> u32 \<Rightarrow> bool" where
  "request_for i p offset sz k \<longleftrightarrow> range_request i offset sz \<and> in_path i = p \<and> in_host_size i = ucast k \<and>
     k \<noteq> 0 \<and> data_path p"

definition host_plan :: "(string \<Rightarrow> u64) \<Rightarrow> u32 \<Rightarrow> data_in \<Rightarrow> u64 \<Rightarrow> u64 list \<Rightarrow> u64 \<Rightarrow> u64 \<Rightarrow>
    (u64 \<times> u64 \<times> u64 \<times> u64) list" where
  "host_plan hash k i sz cs idx left =
     chunk_plan (\<lambda>c. ucast (chunk_host hash k (in_path i) c) = in_host_id i) i sz cs idx left"

context daemon_store
begin

lemma alters_here: "dfit d \<Longrightarrow> alters p f (d\<lparr>distributor_ref := r\<rparr>) d' \<Longrightarrow> alters p f d d'"
  by (simp add: changes_data_ref)

lemma write_rounds:
  assumes "request_for i p offset sz k" "off = unat offset" "n = unat sz" "length bulk = n"
    "dfit d" "host_plan (env_hash E) k i sz cs idx left = expected_plan off n ms l"
    "\<And>m. m \<in> set ms \<Longrightarrow> first_chunk_of off \<le> m \<and> m \<le> last_chunk_of off n"
    "unat ptr = l" "l + sum_list (map (slice_len off n) ms) \<le> length loc" "length loc < 2 ^ 63"
  shows "\<exists>d'. write_chunks E i bulk cs idx left ptr loc results d =
      (Inr (Inr (results @ map (\<lambda>m. int (slice_len off n m)) ms)), d') \<and>
    alters p (put_slices off n bulk ms (schunk d p)) d d'"
  using assms(5-)
proof (induction cs arbitrary: idx left ptr loc results d ms l)
  case Nil
  then have "ms = []" by (simp add: host_plan_def)
  then show ?case using Nil.prems(1) by (auto simp: cmd_simps changes_data_refl)
next
  case (Cons c cs)
  have req: "range_request i offset sz" "in_path i = p" "in_host_size i = ucast k" "k \<noteq> 0" "data_path p"
    using assms(1) by (auto simp: request_for_def)
  have n: "0 < n" "off + n < 2 ^ 63"
    using req(1) assms(2,3) valid_range_pos by (auto simp: valid_range_def range_request_def)
  have sz: "of_nat (length bulk) = sz" using assms(3,4) by simp
  obtain r where here: "located_here E p c (in_host_id i) (in_host_size i) d =
      (Inr (ucast (chunk_host (env_hash E) k p c) = in_host_id i), d\<lparr>distributor_ref := r\<rparr>)"
    using located_here_ok [OF req(4)] unfolding req(3) by blast
  let ?d = "d\<lparr>distributor_ref := r\<rparr>"
  have dfit: "dfit ?d" using Cons.prems(1) by simp
  consider "\<not> idx < in_chunk_n i"
    | "idx < in_chunk_n i" "ucast (chunk_host (env_hash E) k p c) \<noteq> in_host_id i"
    | "idx < in_chunk_n i" "ucast (chunk_host (env_hash E) k p c) = in_host_id i" by blast
  then show ?case
  proof cases
    case 1
    then have "ms = []" using Cons.prems(2) by (simp add: host_plan_def)
    then show ?thesis using Cons.prems(1) 1 by (auto simp: cmd_simps changes_data_refl)
  next
    case 2
    have "host_plan (env_hash E) k i sz cs idx left = expected_plan off n ms l"
      using Cons.prems(2) 2 by (simp add: host_plan_def req(2))
    from Cons.IH [OF dfit this Cons.prems(3-6)] 2 here show ?thesis
      by (simp add: cmd_simps req(2) changes_data_ref)
  next
    case 3
    obtain o1 lo s where st: "plan_step i sz c idx left = (o1, lo, s)" by (metis prod_cases3)
    have plan: "expected_plan off n ms l = (c, o1, lo, s) #
        host_plan (env_hash E) k i sz cs (idx + 1) (left - s)"
      using Cons.prems(2) 3 st by (simp add: host_plan_def req(2))
    then obtain m ms' where ms: "ms = m # ms'" by (cases ms) auto
    have m: "first_chunk_of off \<le> m" "m \<le> last_chunk_of off n" using Cons.prems(3) ms by auto
    note sf = slice_facts [OF n m] and sb = slice_bounds [OF n m]
    have w: "c = of_nat m" "o1 = of_nat (slice_lo off m - off)" "lo = of_nat l" "s = of_nat (slice_len off n m)"
        "host_plan (env_hash E) k i sz cs (idx + 1) (left - s) = expected_plan off n ms' (l + slice_len off n m)"
      using plan ms by auto
    have len: "l + slice_len off n m \<le> length loc" using Cons.prems(5) ms by simp
    have u: "unat o1 = slice_lo off m - off" "unat lo = l" "unat s = slice_len off n m"
      using sb len Cons.prems(4,6) by (simp_all add: w unat_of_nat64)
    define b where "b = slice_bytes off n bulk m"
    have b: "length b = slice_len off n m" "b = take (unat s) (drop (unat o1) bulk)"
      using sf(3) assms(4) by (simp_all add: b_def slice_bytes_def u)
    have tr: "bulk_transfer bulk o1 loc lo s ?d = (Inr (Some (overwrite l b loc)), ?d)"
      using transfer_ok [of ?d o1 s bulk lo loc] dfit_simps(3) [OF dfit] sf(3) len assms(4)
      by (simp add: u b(2))
    have fo: "unat (file_offset i c) = slice_pos off m"
      using file_offset_slice [OF req(1) assms(2,3) m] by (simp add: w(1))
    have tk: "take (unat s) (drop (unat ptr) (overwrite l b loc)) = b"
      using take_drop_overwrite [of l b loc] len by (simp add: u b(1) Cons.prems(4))
    have lb: "unat s \<le> length (drop (unat ptr) (overwrite l b loc))"
      using len by (simp add: u b(1) length_overwrite Cons.prems(4))
    obtain d1 where d1: "write_nonblock E p (in_chunk_n i) idx c (drop (unat ptr) (overwrite l b loc)) s
          (file_offset i c) ?d = (Inr (int (unat s)), d1)"
        "alters p ((schunk ?d p)(c := chunk_with c (unat (file_offset i c)) b (schunk ?d p c))) ?d d1"
      using task_writes [OF dfit req(5) _ _ lb 3(1), of "file_offset i c" c, unfolded tk] sf(2,4)
      by (auto simp: fo u)
    have up: "(schunk ?d p)(c := chunk_with c (unat (file_offset i c)) b (schunk ?d p c)) =
        (schunk d p)(c := put_slice off n bulk m (schunk d p c))"
      by (simp add: put_slice_def fo b_def flip: w(1))
    have d1': "dfit d1" "schunk d1 p = (schunk d p)(c := put_slice off n bulk m (schunk d p c))"
      using d1(2) unfolding up by (simp_all add: changes_data_def)
    have ptr: "unat (ptr + s) = l + slice_len off n m"
      using Cons.prems(4,6) len u by (subst unat_add64) simp_all
    obtain d' where d': "write_chunks E i bulk cs (idx + 1) (left - s) (ptr + s) (overwrite l b loc)
          (results @ [int (unat s)]) d1 =
        (Inr (Inr ((results @ [int (unat s)]) @ map (\<lambda>m. int (slice_len off n m)) ms')), d')"
        "alters p (put_slices off n bulk ms' (schunk d1 p)) d1 d'"
      using Cons.IH [OF d1'(1) w(5) _ ptr, of "overwrite l b loc" "results @ [int (unat s)]"]
        Cons.prems(3,5,6) len by (auto simp: ms length_overwrite b(1))
    have "alters p (put_slices off n bulk ms (schunk d p)) d d'"
      using changes_data_trans [OF d1(2) d'(2)] by (simp add: changes_data_ref ms d1'(2) w(1))
    then show ?thesis
      using 3 here st tr d1(1) d'(1) u(3) by (simp add: cmd_simps req(2) sz ms Let_def)
  qed
qed

end

section \<open>The write request\<close>

text \<open>The request of a client to one of its hosts, which holds the chunks \<open>ms\<close> of the range.\<close>

definition host_request ::
    "(string \<Rightarrow> u64) \<Rightarrow> u32 \<Rightarrow> path \<Rightarrow> u64 \<Rightarrow> u64 \<Rightarrow> nat list \<Rightarrow> data_in \<Rightarrow> bool" where
  "host_request hash k p offset sz ms i \<longleftrightarrow> request_for i p offset sz k \<and>
     host_plan hash k i sz (chunk_ids i) 0 (in_total_chunk_size i) =
       expected_plan (unat offset) (unat sz) ms 0 \<and>
     (\<forall>m \<in> set ms. first_chunk_of (unat offset) \<le> m \<and> m \<le> last_chunk_of (unat offset) (unat sz)) \<and>
     in_chunk_n i = of_nat (length ms) \<and> length ms < 2 ^ 63 \<and>
     unat (in_total_chunk_size i) = sum_list (map (slice_len (unat offset) (unat sz)) ms) \<and>
     sum_list (map (slice_len (unat offset) (unat sz)) ms) < 2 ^ 63"

lemma wait_loop_ok:
  assumes "rpc_script d = []" "\<forall>v \<in> set vs. 0 \<le> v"
  shows "wait_loop stale j (map Some vs) 0 t d = (Inr (0, t + sum_list (map word_of_int vs)), d)"
  using assms(2)
  by (induction vs arbitrary: j t) (simp_all add: cmd_simps eventual_wait_def assms(1) Let_def add.assoc)

lemma sum_list_of_nat: "sum_list (map (\<lambda>m. of_nat (f m)) ms) = (of_nat (sum_list (map f ms)) :: u64)"
  by (induction ms) simp_all

context daemon_store
begin

lemma write_request_ok:
  assumes "host_request (env_hash E) k p offset sz ms i" "length bulk = unat sz" "dfit d"
  shows "\<exists>d'. rpc_srv_write E i bulk d = (Inr (0, in_total_chunk_size i), d') \<and>
    alters p (put_slices (unat offset) (unat sz) bulk ms (schunk d p)) d d'"
proof -
  let ?off = "unat offset" and ?n = "unat sz"
  have req: "request_for i p offset sz k" "host_plan (env_hash E) k i sz (chunk_ids i) 0
        (in_total_chunk_size i) = expected_plan ?off ?n ms 0"
      "\<And>m. m \<in> set ms \<Longrightarrow> first_chunk_of ?off \<le> m \<and> m \<le> last_chunk_of ?off ?n"
      "in_chunk_n i = of_nat (length ms)" "length ms < 2 ^ 63"
      "unat (in_total_chunk_size i) = sum_list (map (slice_len ?off ?n) ms)"
      "sum_list (map (slice_len ?off ?n) ms) < 2 ^ 63"
    using assms(1) by (auto simp: host_request_def)
  obtain d' where d': "write_chunks E i bulk (chunk_ids i) 0 (in_total_chunk_size i) 0
        (replicate (unat (in_total_chunk_size i)) NUL) [] d =
      (Inr (Inr (map (\<lambda>m. int (slice_len ?off ?n m)) ms)), d')"
      "alters p (put_slices ?off ?n bulk ms (schunk d p)) d d'"
    using write_rounds [OF req(1) refl refl assms(2,3) req(2,3), of 0
        "replicate (unat (in_total_chunk_size i)) NUL" "[]"] req(6,7) by auto
  have ev: "eventuals (in_chunk_n i) (map (\<lambda>m. int (slice_len ?off ?n m)) ms) =
      map Some (map (\<lambda>m. int (slice_len ?off ?n m)) ms)"
    using req(5) by (simp add: eventuals_def req(4) unat_of_nat64)
  have nil: "rpc_script d' = []" using d'(2) by (auto simp: changes_data_def dfit_simps)
  have tot: "of_nat (sum_list (map (slice_len ?off ?n) ms)) = in_total_chunk_size i"
    using req(6) [symmetric] by simp
  have "wait_for_tasks (env_stale E) (map Some (map (\<lambda>m. int (slice_len ?off ?n m)) ms)) d' =
      (Inr (0, in_total_chunk_size i), d')"
    unfolding wait_for_tasks_def
    using wait_loop_ok [OF nil, of "map (\<lambda>m. int (slice_len ?off ?n m)) ms" "env_stale E" 0 0] tot
    by (simp add: cmd_simps comp_def sum_list_of_nat)
  then show ?thesis
    using d' dfit_simps(3) [OF assms(3)] ev by (simp add: rpc_srv_write_def cmd_simps)
qed

end

section \<open>Reading a chunk\<close>

text \<open>Reads that meet no failure leave the storage as it is.\<close>

lemma read_loop_clean:
  assumes "sz \<le> length buf" "got = take sz (drop off c)"
  shows "read_loop c sz off [] buf 0 = Some (Inr (overwrite 0 got buf, int (length got)), [])"
proof -
  have step: "read_loop c sz off [] b (int t) =
      (if r = [] then Some (Inr (b, int t), [])
       else if t + length r \<noteq> sz then read_loop c sz off [] (overwrite t r b) (int (t + length r))
       else Some (Inr (overwrite t r b, int (t + length r)), []))"
    if "t \<le> sz" "r = take (sz - t) (drop (off + t) c)" for b t r
  proof -
    have "list_all proper_transfer []" by simp
    from read_loop_step [OF this that, of b] obtain k where "k = length r"
        "read_loop c sz off [] b (int t) =
          (if k = 0 then Some (Inr (b, int t), drop 1 [])
           else if t + k \<noteq> sz then read_loop c sz off (drop 1 []) (overwrite t (take k r) b) (int (t + k))
           else Some (Inr (overwrite t (take k r) b, int (t + k)), drop 1 []))"
      by blast
    then show ?thesis by simp
  qed
  show ?thesis
  proof (cases "got = [] \<or> length got = sz")
    case True
    then show ?thesis using step [of 0 got buf] assms by auto
  next
    case False
    then have "take (sz - length got) (drop (off + length got) c) = []" by (auto simp: assms(2) min_def)
    then show ?thesis
      using step [of 0 got buf] step [of "length got" "[]" "overwrite 0 got buf"] assms(2) False by auto
  qed
qed

lemma read_chunk_clean:
  assumes "file_path_ok p" "off + sz \<le> st_chunksize st" "st_script st = []"
    "file_content st (chunk_file st p c) = Some x" "unat sz \<le> length buf"
    "got = take (unat sz) (drop (unat off) x)"
  shows "read_chunk p c buf sz off st = (Inr (overwrite 0 got buf, int (length got)), st)"
  using assms sys_open_existing [of st "chunk_dir st p @ separator # dec (unat c)" x False]
    read_loop_clean [OF assms(5,6)]
  by (simp add: read_chunk_def cmd_simps chunk_path_of_ok)

text \<open>What a read task puts into its eventual when it found the bytes \<open>got\<close>.\<close>

definition answers :: "int \<Rightarrow> bytes \<Rightarrow> bool" where
  "answers v got \<longleftrightarrow> v = int (length got) \<or> v = - ENOENT \<and> got = []"

context daemon_store
begin

lemma first_chunk_read:
  assumes "dfit d" "unat off + unat sz \<le> 524288" "length buf = unat sz"
    "got = take (unat sz) (drop (unat off) (schunk d p 0))"
  shows "\<exists>v. read_file_abt E p 0 buf sz off d = (Inr (overwrite 0 got buf, v), d) \<and> answers v got"
proof (cases "dval d (first_chunk_key p)")
  case None
  then have "got = []" using assms(4) by (simp add: stored_chunk_def)
  then show ?thesis
    using get_first_chunk_missing [OF dfit_simps(2) [OF assms(1)] None]
    by (simp add: read_file_abt_def get_content_first_chunk_def catch_map_apply cmd_simps read_errno_def answers_def)
next
  case (Some v)
  obtain fc where fc: "get_first_chunk E p d = (Inr fc, d)" "fc_content fc = schunk d p 0"
      "length (schunk d p 0) \<le> 524288"
    using get_first_chunk_stored [OF assms(1) Some] by blast
  let ?x = "schunk d p 0"
  let ?n = "of_nat (length ?x) :: u64"
  have n: "unat ?n = length ?x" using fc(3) by (simp add: unat_of_nat64)
  have s: "unat (sz + off) = unat sz + unat off" using assms(2) by (intro unat_add64) simp
  have g: "get_content_first_chunk E p d = (Inr ?x, d)"
    using fc by (simp add: get_content_first_chunk_def cmd_simps)
  consider "length ?x \<le> unat off" | "unat off < length ?x" "length ?x \<le> unat off + unat sz"
    | "unat off + unat sz < length ?x" by linarith
  then show ?thesis
  proof cases
    case 1
    then have "got = []" using assms(4) by simp
    then show ?thesis
      using 1 g by (simp add: read_file_abt_def catch_map_apply cmd_simps Let_def word_le_nat_alt n s answers_def)
  next
    case 2
    then have got: "got = drop (unat off) ?x" using assms(4) by simp
    have "unat (?n - off) = length ?x - unat off" using 2 n by (subst unat_sub64) simp_all
    then have "sint (?n - off) = int (length got)"
      using fc(3) 2 by (subst sint_small64) (simp_all add: got of_nat_diff)
    then show ?thesis
      using 2 g by (simp add: read_file_abt_def catch_map_apply cmd_simps Let_def word_le_nat_alt n s answers_def got)
  next
    case 3
    have "sint sz = int (unat sz)" using assms(2) by (intro sint_small64) simp
    then show ?thesis
      using 3 g assms(4)
      by (simp add: read_file_abt_def catch_map_apply cmd_simps Let_def word_le_nat_alt n s answers_def)
  qed
qed

lemma task_reads:
  assumes "dfit d" "data_path p" "unat off + unat sz \<le> 524288" "length buf = unat sz" "idx < k"
    "got = take (unat sz) (drop (unat off) (schunk d p c))"
  shows "\<exists>v. read_nonblock E p k idx c buf sz off d = (Inr (overwrite 0 got buf, v), d) \<and> answers v got"
proof -
  have "\<exists>v. read_file_abt E p c buf sz off d = (Inr (overwrite 0 got buf, v), d) \<and> answers v got"
  proof (cases "c = 0")
    case True
    then show ?thesis using first_chunk_read [OF assms(1,3,4)] assms(6) by simp
  next
    case False
    note fp = data_path_file [OF assms(2)] and nil = dfit_simps(4) [OF assms(1)]
    have le: "off + sz \<le> st_chunksize (storage d)"
      using assms(3) dfit_simps(5) [OF assms(1)] by (simp add: word_le_nat_alt unat_add64)
    show ?thesis
    proof (cases "file_content (storage d) (chunk_file (storage d) p c)")
      case None
      then have "got = []" using assms(6) False by (simp add: stored_chunk_def)
      then show ?thesis
        using read_chunk_missing [OF fp le nil None] False
        by (simp add: read_file_abt_def catch_map_apply cmd_simps read_errno_def answers_def)
    next
      case (Some x)
      then have "got = take (unat sz) (drop (unat off) x)" using assms(6) False by (simp add: stored_chunk_def)
      then show ?thesis
        using read_chunk_clean [OF fp le nil Some, of buf got] False assms(4)
        by (simp add: read_file_abt_def catch_map_apply cmd_simps answers_def)
    qed
  qed
  then show ?thesis
    using dfit_simps(3) [OF assms(1)] assms(5)
    by (auto simp: read_nonblock_def start_task_def cbind_ok cmd_simps)
qed

end

section \<open>The read request\<close>

text \<open>The bytes the store has of a slice, and their transfer into the client's buffer.\<close>

definition slice_read :: "nat \<Rightarrow> nat \<Rightarrow> (u64 \<Rightarrow> bytes) \<Rightarrow> nat \<Rightarrow> bytes" where
  "slice_read off n f m = take (slice_len off n m) (drop (slice_pos off m) (f (of_nat m)))"

fun get_slices :: "nat \<Rightarrow> nat \<Rightarrow> (u64 \<Rightarrow> bytes) \<Rightarrow> nat list \<Rightarrow> bytes \<Rightarrow> bytes" where
  "get_slices off n f [] client = client"
| "get_slices off n f (m # ms) client =
     get_slices off n f ms (overwrite (slice_lo off m - off) (slice_read off n f m) client)"

text \<open>The rounds' results: the offsets of the plan, and the answer for the slice.\<close>

definition round_answers ::
    "nat \<Rightarrow> nat \<Rightarrow> (u64 \<Rightarrow> bytes) \<Rightarrow> nat list \<Rightarrow> nat \<Rightarrow> (u64 \<times> u64 \<times> int) list \<Rightarrow> bool" where
  "round_answers off n f ms l rs \<longleftrightarrow>
     list_all2 (\<lambda>(c, o1, lo, s) (o1', lo', v). o1' = o1 \<and> lo' = lo \<and> answers v (slice_read off n f (unat c)))
       (expected_plan off n ms l) rs"

lemma length_slice_read: "length (slice_read off n f m) \<le> slice_len off n m"
  by (simp add: slice_read_def)

lemma resize_overwrite: "length x \<le> k \<Longrightarrow> overwrite 0 x (replicate k NUL) = resize k x"
  by (simp add: overwrite_def resize_def)

context daemon_store
begin

lemma read_rounds:
  assumes "request_for i p offset sz k" "off = unat offset" "n = unat sz" "dfit d"
    "f = schunk d p" "host_plan (env_hash E) k i sz cs idx left = expected_plan off n ms l"
    "\<And>m. m \<in> set ms \<Longrightarrow> first_chunk_of off \<le> m \<and> m \<le> last_chunk_of off n"
    "unat ptr = l" "length pre = l" "l + sum_list (map (slice_len off n) ms) \<le> l + r" "l + r < 2 ^ 63"
  shows "\<exists>rs ref. read_chunks E i sz cs idx left ptr (pre @ replicate r NUL) results d =
      (Inr (Inr (pre @ concat (map (\<lambda>m. resize (slice_len off n m) (slice_read off n f m)) ms) @
          replicate (r - sum_list (map (slice_len off n) ms)) NUL, results @ rs)),
       d\<lparr>distributor_ref := ref\<rparr>) \<and> round_answers off n f ms l rs"
  using assms(4-)
proof (induction cs arbitrary: idx left ptr pre r results d ms l)
  case Nil
  then have "ms = []" by (simp add: host_plan_def)
  then show ?case
    by (intro exI [of _ "[]"] exI [of _ "distributor_ref d"]) (simp add: cmd_simps round_answers_def)
next
  case (Cons c cs)
  have req: "range_request i offset sz" "in_path i = p" "in_host_size i = ucast k" "k \<noteq> 0" "data_path p"
    using assms(1) by (auto simp: request_for_def)
  have n: "0 < n" "off + n < 2 ^ 63"
    using req(1) assms(2,3) valid_range_pos by (auto simp: valid_range_def range_request_def)
  obtain ref where here: "located_here E p c (in_host_id i) (in_host_size i) d =
      (Inr (ucast (chunk_host (env_hash E) k p c) = in_host_id i), d\<lparr>distributor_ref := ref\<rparr>)"
    using located_here_ok [OF req(4)] unfolding req(3) by blast
  let ?d = "d\<lparr>distributor_ref := ref\<rparr>"
  have dfit: "dfit ?d" and f: "f = schunk ?d p" using Cons.prems(1,2) by simp_all
  consider "\<not> idx < in_chunk_n i"
    | "idx < in_chunk_n i" "ucast (chunk_host (env_hash E) k p c) \<noteq> in_host_id i"
    | "idx < in_chunk_n i" "ucast (chunk_host (env_hash E) k p c) = in_host_id i" by blast
  then show ?case
  proof cases
    case 1
    then have "ms = []" using Cons.prems(3) by (simp add: host_plan_def)
    then show ?thesis using 1
      by (intro exI [of _ "[]"] exI [of _ "distributor_ref d"]) (simp add: cmd_simps round_answers_def)
  next
    case 2
    have "host_plan (env_hash E) k i sz cs idx left = expected_plan off n ms l"
      using Cons.prems(3) 2 by (simp add: host_plan_def req(2))
    from Cons.IH [OF dfit f this Cons.prems(4-8)] 2 here show ?thesis
      by (simp add: cmd_simps req(2))
  next
    case 3
    obtain o1 lo s where st: "plan_step i sz c idx left = (o1, lo, s)" by (metis prod_cases3)
    have plan: "expected_plan off n ms l = (c, o1, lo, s) #
        host_plan (env_hash E) k i sz cs (idx + 1) (left - s)"
      using Cons.prems(3) 3 st by (simp add: host_plan_def req(2))
    then obtain m ms' where ms: "ms = m # ms'" by (cases ms) auto
    have m: "first_chunk_of off \<le> m" "m \<le> last_chunk_of off n" using Cons.prems(4) ms by auto
    note sf = slice_facts [OF n m] and sb = slice_bounds [OF n m]
    have w: "c = of_nat m" "o1 = of_nat (slice_lo off m - off)" "lo = of_nat l" "s = of_nat (slice_len off n m)"
        "host_plan (env_hash E) k i sz cs (idx + 1) (left - s) = expected_plan off n ms' (l + slice_len off n m)"
      using plan ms by auto
    have len: "slice_len off n m \<le> r" "l + slice_len off n m < 2 ^ 63"
      using Cons.prems(7,8) ms by simp_all
    have u: "unat s = slice_len off n m" "unat c = m"
      using sb by (simp_all add: w unat_of_nat64)
    define got where "got = slice_read off n f m"
    have fo: "unat (file_offset i c) = slice_pos off m"
      using file_offset_slice [OF req(1) assms(2,3) m] by (simp add: w(1))
    have got: "got = take (unat s) (drop (unat (file_offset i c)) (schunk ?d p c))"
      unfolding u(1) fo unfolding got_def slice_read_def Cons.prems(2) w(1) by simp
    have buf: "take (unat s) (drop (unat ptr) (pre @ replicate r NUL)) = replicate (unat s) NUL"
      using len Cons.prems(5,6) by (simp add: u min_def)
    obtain v where v: "read_nonblock E p (in_chunk_n i) idx c (replicate (unat s) NUL) s (file_offset i c) ?d =
        (Inr (overwrite 0 got (replicate (unat s) NUL), v), ?d)" "answers v got"
      using task_reads [OF dfit req(5) _ _ 3(1) got, of "replicate (unat s) NUL"] sf(2) by (auto simp: u fo)
    let ?seg = "resize (slice_len off n m) got"
    have seg: "overwrite 0 got (replicate (unat s) NUL) = ?seg"
      using length_slice_read by (simp add: u resize_overwrite got_def)
    have loc: "overwrite (unat ptr) ?seg (pre @ replicate r NUL) =
        (pre @ ?seg) @ replicate (r - slice_len off n m) NUL"
      using len Cons.prems(5,6) by (simp add: overwrite_def)
    have ptr: "unat (ptr + s) = l + slice_len off n m"
      using Cons.prems(5) len u by (subst unat_add64) simp_all
    obtain rs ref' where rs: "read_chunks E i sz cs (idx + 1) (left - s) (ptr + s)
          ((pre @ ?seg) @ replicate (r - slice_len off n m) NUL) (results @ [(o1, lo, v)]) ?d =
        (Inr (Inr ((pre @ ?seg) @ concat (map (\<lambda>m. resize (slice_len off n m) (slice_read off n f m)) ms') @
          replicate (r - slice_len off n m - sum_list (map (slice_len off n) ms')) NUL,
          (results @ [(o1, lo, v)]) @ rs)), ?d\<lparr>distributor_ref := ref'\<rparr>)"
        "round_answers off n f ms' (l + slice_len off n m) rs"
      using Cons.IH [OF dfit f w(5) _ ptr, of "pre @ ?seg" "r - slice_len off n m" "results @ [(o1, lo, v)]"]
        Cons.prems(4,6,7,8) len by (auto simp: ms)
    have "round_answers off n f ms l ((o1, lo, v) # rs)"
      using rs(2) v(2) sb(3) by (simp add: round_answers_def ms w(2,3) got_def unat_of_nat64)
    moreover have "read_chunks E i sz (c # cs) idx left ptr (pre @ replicate r NUL) results d =
        read_chunks E i sz cs (idx + 1) (left - s) (ptr + s)
          ((pre @ ?seg) @ replicate (r - slice_len off n m) NUL) (results @ [(o1, lo, v)]) ?d"
      using 3 here st v(1)
      by (simp add: cmd_simps req(2) buf seg loc catch_map_apply
          del: take_append drop_append take_replicate drop_replicate append_assoc)
    ultimately show ?thesis
      using rs(1) by (intro exI [of _ "(o1, lo, v) # rs"] exI [of _ ref']) (simp add: ms got_def)
  qed
qed

end

text \<open>The loop that pushes the bytes back.\<close>

lemma push_rounds:
  assumes "rpc_script d = []" "round_answers off n f ms l rs"
    "loc = pre @ concat (map (\<lambda>m. resize (slice_len off n m) (slice_read off n f m)) ms) @ rest"
    "length pre = l" "length loc < 2 ^ 63" "0 < n" "off + n < 2 ^ 63"
    "\<And>m. m \<in> set ms \<Longrightarrow> first_chunk_of off \<le> m \<and> m \<le> last_chunk_of off n" "length client = n"
  shows "push_loop loc (map (\<lambda>(o1, lo, v). (o1, lo, Some v)) rs) 0 t client d =
    (Inr (0, t + of_nat (sum_list (map (\<lambda>m. length (slice_read off n f m)) ms)),
       get_slices off n f ms client), d)"
  using assms(2-)
proof (induction ms arbitrary: l rs pre t client)
  case Nil
  then show ?case by (simp add: round_answers_def cmd_simps)
next
  case (Cons m ms)
  have m: "first_chunk_of off \<le> m" "m \<le> last_chunk_of off n" using Cons.prems(7) by auto
  note sf = slice_facts [OF Cons.prems(5,6) m] and sb = slice_bounds [OF Cons.prems(5,6) m]
  let ?got = "slice_read off n f m"
  obtain v rs' where rs: "rs = (of_nat (slice_lo off m - off), of_nat l, v) # rs'" "answers v ?got"
      "round_answers off n f ms (l + slice_len off n m) rs'"
    using Cons.prems(1) sb(3) by (auto simp: round_answers_def list_all2_Cons1 unat_of_nat64)
  let ?o1 = "of_nat (slice_lo off m - off) :: u64" and ?lo = "of_nat l :: u64"
  have glen: "length ?got \<le> slice_len off n m" by (rule length_slice_read)
  have seg: "length (resize (slice_len off n m) ?got) = slice_len off n m" by simp
  have loc': "loc = (pre @ resize (slice_len off n m) ?got) @
      concat (map (\<lambda>m. resize (slice_len off n m) (slice_read off n f m)) ms) @ rest"
    using Cons.prems(2) by simp
  have len: "l + slice_len off n m \<le> length loc"
    using Cons.prems(2,3) seg by simp
  have u: "unat ?o1 = slice_lo off m - off" "unat ?lo = l"
    using sb len Cons.prems(4) by (simp_all add: unat_of_nat64)
  have bytes: "take (length ?got) (drop l loc) = ?got"
    using Cons.prems(2,3) glen by (simp add: resize_def)
  let ?client = "overwrite (slice_lo off m - off) ?got client"
  have cl: "length ?client = n"
    using sf(3) glen Cons.prems(8) by (simp add: length_overwrite)
  note IH = Cons.IH [OF rs(3) loc' _ Cons.prems(4-6) _ cl]
  show ?case
  proof (cases "?got = []")
    case True
    then have "v \<le> 0" "v < 0 \<longrightarrow> v = - ENOENT" using rs(2) by (auto simp: answers_def)
    then show ?thesis
      using IH [of t] True Cons.prems(3,7) assms(1)
      by (auto simp: rs(1) cmd_simps eventual_wait_def)
  next
    case False
    then have v: "v = int (length ?got)" "0 < length ?got" using rs(2) by (auto simp: answers_def)
    have uv: "unat (word_of_int v :: u64) = length ?got"
      using glen sb(4) by (simp add: v(1) unat_of_nat64)
    have tr: "bulk_transfer loc ?lo client ?o1 (word_of_int v) d = (Inr (Some ?client), d)"
      using transfer_ok [OF assms(1), of ?lo "word_of_int v" loc ?o1 client] len glen sf(3) Cons.prems(8)
      unfolding uv u bytes by auto
    show ?thesis
      using IH [of "t + word_of_int v"] tr v Cons.prems(3,7) assms(1)
      by (auto simp: rs(1) cmd_simps eventual_wait_def ac_simps)
  qed
qed

context daemon_store
begin

lemma read_request_ok:
  assumes "host_request (env_hash E) k p offset sz ms i" "length client = unat sz" "dfit d"
  shows "\<exists>ref. rpc_srv_read E i client d =
    (Inr (0, of_nat (sum_list (map (\<lambda>m. length (slice_read (unat offset) (unat sz) (schunk d p) m)) ms)),
       get_slices (unat offset) (unat sz) (schunk d p) ms client), d\<lparr>distributor_ref := ref\<rparr>)"
proof -
  let ?off = "unat offset" and ?n = "unat sz" and ?f = "schunk d p"
  have req: "request_for i p offset sz k" "host_plan (env_hash E) k i sz (chunk_ids i) 0
        (in_total_chunk_size i) = expected_plan ?off ?n ms 0"
      "\<And>m. m \<in> set ms \<Longrightarrow> first_chunk_of ?off \<le> m \<and> m \<le> last_chunk_of ?off ?n"
      "in_chunk_n i = of_nat (length ms)" "length ms < 2 ^ 63"
      "unat (in_total_chunk_size i) = sum_list (map (slice_len ?off ?n) ms)"
      "sum_list (map (slice_len ?off ?n) ms) < 2 ^ 63"
    using assms(1) by (auto simp: host_request_def)
  have n: "0 < ?n" "?off + ?n < 2 ^ 63"
    using req(1) valid_range_pos by (auto simp: valid_range_def range_request_def request_for_def)
  let ?loc = "concat (map (\<lambda>m. resize (slice_len ?off ?n m) (slice_read ?off ?n ?f m)) ms)"
  obtain rs ref where rs: "read_chunks E i sz (chunk_ids i) 0 (in_total_chunk_size i) 0
        (replicate (unat (in_total_chunk_size i)) NUL) [] d =
      (Inr (Inr (?loc, rs)), d\<lparr>distributor_ref := ref\<rparr>)" "round_answers ?off ?n ?f ms 0 rs"
    using read_rounds [OF req(1) refl refl assms(3) refl req(2,3), of 0 "[]"
        "unat (in_total_chunk_size i)" "[]"] req(6,7) by auto
  let ?d = "d\<lparr>distributor_ref := ref\<rparr>"
  have nil: "rpc_script ?d = []" using dfit_simps(3) [OF assms(3)] by simp
  have "length rs = length ms"
  proof -
    have "length (expected_plan ?off ?n xs l) = length xs" for xs l by (induction xs arbitrary: l) auto
    then show ?thesis using list_all2_lengthD [OF rs(2) [unfolded round_answers_def]] by simp
  qed
  then have ev: "read_eventuals (in_chunk_n i) rs = map (\<lambda>(o1, lo, v). (o1, lo, Some v)) rs"
    using req(5) by (simp add: read_eventuals_def req(4) unat_of_nat64)
  have "length ?loc = sum_list (map (slice_len ?off ?n) ms)" by (induction ms) simp_all
  then have push: "push_loop ?loc (map (\<lambda>(o1, lo, v). (o1, lo, Some v)) rs) 0 0 client ?d =
      (Inr (0, of_nat (sum_list (map (\<lambda>m. length (slice_read ?off ?n ?f m)) ms)),
         get_slices ?off ?n ?f ms client), ?d)"
    using push_rounds [OF nil rs(2), of ?loc "[]" "[]" client 0] n req(3,7) assms(2) by simp
  show ?thesis
    using rs(1) push dfit_simps(3) [OF assms(3)] assms(2)
    by (auto simp: rpc_srv_read_def cmd_simps wait_for_tasks_and_push_back_def ev)
qed

end

end
