(* ===== verification/Open_File_Map.thy ===== *)
theory Open_File_Map
  imports Gaofs_Prelude "HOL-Library.AList"
begin

text \<open>
  \<open>client/open_file_map.cpp\<close> and \<open>client/open_dir.cpp\<close>: the client's descriptor table. Open files are
  shared objects (\<open>dup\<close> makes a second descriptor for the same one), so the state has a heap of
  objects and the table maps a descriptor to an object's index. \<open>std::map::insert\<close> leaves an
  existing entry alone. The mutexes are not modelled: an operation is one step.
\<close>

section \<open>Open files and directories\<close>

datatype open_file_flag = Append | Creat | Trunc | Rdonly | Wronly | Rdwr | Cloexec

datatype file_type = Regular | Directory

text \<open>One record for both classes: a regular file has no entries.\<close>

record open_file =
  of_path :: path
  of_type :: file_type
  of_flags :: "open_file_flag list"
  of_pos :: u64
  of_entries :: "(string \<times> file_type) list"

definition O_RDONLY :: u32 where "O_RDONLY = 0"
definition O_WRONLY :: u32 where "O_WRONLY = 1"
definition O_RDWR :: u32 where "O_RDWR = 2"
definition O_CREAT :: u32 where "O_CREAT = 64"
definition O_EXCL :: u32 where "O_EXCL = 128"
definition O_TRUNC :: u32 where "O_TRUNC = 512"
definition O_APPEND :: u32 where "O_APPEND = 1024"
definition O_DIRECTORY :: u32 where "O_DIRECTORY = 65536"
definition O_NOFOLLOW :: u32 where "O_NOFOLLOW = 131072"
definition O_PATH :: u32 where "O_PATH = 2097152"

definition has_flag :: "u32 \<Rightarrow> u32 \<Rightarrow> bool" where
  "has_flag flags f = (flags AND f \<noteq> 0)"

text \<open>The flags that are set, in the order of the tests.\<close>

definition OpenFile :: "path \<Rightarrow> u32 \<Rightarrow> file_type \<Rightarrow> open_file" where
  "OpenFile p flags ty = \<lparr>of_path = p, of_type = ty,
     of_flags =
       (if has_flag flags O_CREAT then [Creat] else []) @
       (if has_flag flags O_APPEND then [Append] else []) @
       (if has_flag flags O_TRUNC then [Trunc] else []) @
       (if has_flag flags O_RDONLY then [Rdonly] else []) @
       (if has_flag flags O_WRONLY then [Wronly] else []) @
       (if has_flag flags O_RDWR then [Rdwr] else []),
     of_pos = 0, of_entries = []\<rparr>"

definition get_flag :: "open_file_flag \<Rightarrow> open_file \<Rightarrow> bool" where
  "get_flag f fl = (f \<in> set (of_flags fl))"

definition set_flag :: "open_file_flag \<Rightarrow> bool \<Rightarrow> open_file \<Rightarrow> open_file" where
  "set_flag f b fl = fl\<lparr>of_flags := (if b then f # of_flags fl else removeAll f (of_flags fl))\<rparr>"

definition OpenDir :: "path \<Rightarrow> open_file" where
  "OpenDir p = OpenFile p 0 Directory"

definition add_entry :: "string \<Rightarrow> file_type \<Rightarrow> open_file \<Rightarrow> open_file" where
  "add_entry name ty d = d\<lparr>of_entries := of_entries d @ [(name, ty)]\<rparr>"

text \<open>\<open>vector::at\<close> throws \<open>out_of_range\<close>; the position is narrowed to an \<open>unsigned int\<close>.\<close>

definition getdent :: "u32 \<Rightarrow> open_file \<Rightarrow> (string \<times> file_type) res" where
  "getdent pos d = (if unat pos < length (of_entries d) then Inr (of_entries d ! unat pos)
                    else Inl OutOfRange)"

definition dir_size :: "open_file \<Rightarrow> u64" where
  "dir_size d = of_nat (length (of_entries d))"

section \<open>The descriptor table\<close>

record open_file_map =
  files :: "(int \<times> nat) list"
  objects :: "open_file list"
  fd_idx :: int
  fd_validation_needed :: bool

definition INT_MAX :: int where "INT_MAX = 2147483647"

definition OpenFileMap :: open_file_map where
  "OpenFileMap = \<lparr>files = [], objects = [], fd_idx = 10000, fd_validation_needed = False\<rparr>"

definition lookup_fd :: "int \<Rightarrow> open_file_map \<Rightarrow> nat option" where
  "lookup_fd fd m = map_of (files m) fd"

definition get_file :: "int \<Rightarrow> open_file_map \<Rightarrow> open_file option" where
  "get_file fd m = (case lookup_fd fd m of
      Some i \<Rightarrow> if i < length (objects m) then Some (objects m ! i) else None
    | None \<Rightarrow> None)"

definition get_dir :: "int \<Rightarrow> open_file_map \<Rightarrow> open_file option" where
  "get_dir fd m = (case get_file fd m of
      Some f \<Rightarrow> if of_type f \<noteq> Directory then None else Some f
    | None \<Rightarrow> None)"

definition exist_fd :: "int \<Rightarrow> open_file_map \<Rightarrow> bool" where
  "exist_fd fd m = (lookup_fd fd m \<noteq> None)"

definition generate_fd_idx :: "open_file_map \<Rightarrow> int \<times> open_file_map" where
  "generate_fd_idx m =
    (let m = (if fd_idx m = INT_MAX
              then m\<lparr>fd_idx := 100000, fd_validation_needed := True\<rparr> else m)
     in (fd_idx m, m\<lparr>fd_idx := fd_idx m + 1\<rparr>))"

text \<open>The loop ends only if some descriptor is free: None when it never ends.\<close>

partial_function (option) free_fd :: "int \<Rightarrow> open_file_map \<Rightarrow> (int \<times> open_file_map) option" where
  "free_fd fd m =
    (if exist_fd fd m then (case generate_fd_idx m of (fd', m') \<Rightarrow> free_fd fd' m')
     else Some (fd, m))"

definition safe_generate_fd_idx :: "open_file_map \<Rightarrow> (int \<times> open_file_map) option" where
  "safe_generate_fd_idx m =
    (case generate_fd_idx m of (fd, m') \<Rightarrow>
       if fd_validation_needed m' then free_fd fd m' else Some (fd, m'))"

text \<open>\<open>files_.insert\<close>: an existing entry stays.\<close>

definition insert_fd :: "int \<Rightarrow> nat \<Rightarrow> open_file_map \<Rightarrow> open_file_map" where
  "insert_fd fd i m = (if exist_fd fd m then m else m\<lparr>files := (fd, i) # files m\<rparr>)"

text \<open>\<open>make_shared\<close>: a new object; the operations that return a descriptor.\<close>

definition add_file :: "open_file \<Rightarrow> open_file_map \<Rightarrow> (int \<times> open_file_map) option" where
  "add_file f m = map_option
     (\<lambda>(fd, m). (fd, insert_fd fd (length (objects m)) m\<lparr>objects := objects m @ [f]\<rparr>))
     (safe_generate_fd_idx m)"

definition remove_fd :: "int \<Rightarrow> open_file_map \<Rightarrow> bool \<times> open_file_map" where
  "remove_fd fd m =
    (if \<not> exist_fd fd m then (False, m)
     else let m = m\<lparr>files := AList.delete fd (files m)\<rparr>
          in (True, if fd_validation_needed m \<and> files m = []
                    then m\<lparr>fd_validation_needed := False\<rparr> else m))"

text \<open>The result is the new descriptor or the value of \<open>errno\<close>.\<close>

definition dup_fd :: "int \<Rightarrow> open_file_map \<Rightarrow> ((errno + int) \<times> open_file_map) option" where
  "dup_fd oldfd m = (case lookup_fd oldfd m of
      None \<Rightarrow> Some (Inl EBADF, m)
    | Some i \<Rightarrow> map_option (\<lambda>(newfd, m). (Inr newfd, insert_fd newfd i m)) (safe_generate_fd_idx m))"

definition dup2_fd :: "int \<Rightarrow> int \<Rightarrow> open_file_map \<Rightarrow> (errno + int) \<times> open_file_map" where
  "dup2_fd oldfd newfd m = (case lookup_fd oldfd m of
      None \<Rightarrow> (Inl EBADF, m)
    | Some i \<Rightarrow>
        if oldfd = newfd then (Inr newfd, m)
        else
          let m = (if exist_fd newfd m then snd (remove_fd newfd m) else m);
              m = (if fd_idx m < newfd \<and> newfd \<noteq> 0 \<and> newfd \<noteq> 1 \<and> newfd \<noteq> 2
                   then m\<lparr>fd_validation_needed := True\<rparr> else m)
          in (Inr newfd, insert_fd newfd i m))"

text \<open>The setters of a shared file change the object.\<close>

definition update_file :: "int \<Rightarrow> (open_file \<Rightarrow> open_file) \<Rightarrow> open_file_map \<Rightarrow> open_file_map" where
  "update_file fd g m = (case lookup_fd fd m of
      Some i \<Rightarrow> m\<lparr>objects := (objects m)[i := g (objects m ! i)]\<rparr>
    | None \<Rightarrow> m)"

section \<open>Fresh descriptors\<close>

lemma generate_fd_idx_frame:
  assumes "generate_fd_idx m = (fd, m')"
  shows "files m' = files m" "objects m' = objects m" "fd_idx m' = fd + 1"
    "fd = (if fd_idx m = INT_MAX then 100000 else fd_idx m)"
    "fd_validation_needed m' = (fd_validation_needed m \<or> fd_idx m = INT_MAX)"
  using assms by (auto simp: generate_fd_idx_def Let_def split: if_splits)

lemmas free_fd_induct = free_fd.raw_induct [rotated 1, consumes 1, case_names 1]

lemma free_fd_result:
  "free_fd fd m = Some r \<Longrightarrow> \<not> exist_fd (fst r) (snd r) \<and> files (snd r) = files m \<and>
    objects (snd r) = objects m \<and> (fd_validation_needed m \<longrightarrow> fd_validation_needed (snd r))"
proof (induction rule: free_fd_induct)
  case (1 free_fd fd m r)
  show ?case
  proof (cases "exist_fd fd m")
    case True
    obtain fd1 m1 where g: "generate_fd_idx m = (fd1, m1)" by fastforce
    then have "free_fd fd1 m1 = Some r" using 1(2) True by simp
    from 1(1) [OF this] show ?thesis using generate_fd_idx_frame [OF g] by simp
  next
    case False
    then show ?thesis using 1(2) by auto
  qed
qed

text \<open>How many calls of \<open>generate_fd_idx\<close> it takes at most to come to the free descriptor \<open>t\<close>.\<close>

definition fd_distance :: "int \<Rightarrow> int \<Rightarrow> nat" where
  "fd_distance t i = nat (if i \<le> t then t - i else (INT_MAX - i) + 1 + (t - 100000))"

lemma free_fd_total:
  assumes "100000 \<le> t" "t < INT_MAX" "\<not> exist_fd t m" "fd_idx m \<le> INT_MAX"
  shows "\<exists>r. free_fd fd m = Some r"
  using assms(3,4)
proof (induction "fd_distance t (fd_idx m)" arbitrary: fd m rule: less_induct)
  case less
  show ?case
  proof (cases "exist_fd fd m")
    case True
    obtain fd1 m1 where g: "generate_fd_idx m = (fd1, m1)" by fastforce
    note f = generate_fd_idx_frame [OF g]
    have e: "exist_fd x m1 = exist_fd x m" for x using f(1) by (simp add: exist_fd_def lookup_fd_def)
    have "\<exists>r. free_fd fd1 m1 = Some r"
    proof (cases "fd1 = t")
      case True
      then show ?thesis using less.prems(1) e by (subst free_fd.simps) simp
    next
      case False
      have "fd_idx m1 \<le> INT_MAX" using f(3,4) less.prems(2) by (auto simp: INT_MAX_def split: if_splits)
      moreover have "fd_distance t (fd_idx m1) < fd_distance t (fd_idx m)"
        using f(3,4) less.prems(2) assms(1,2) False
        by (auto simp: fd_distance_def INT_MAX_def split: if_splits)
      ultimately show ?thesis using less.hyps less.prems(1) e by blast
    qed
    then show ?thesis using True g by (subst free_fd.simps) simp
  next
    case False
    then show ?thesis by (subst free_fd.simps) simp
  qed
qed

lemma free_descriptor_exists:
  assumes "int (length (files m)) < INT_MAX - 100000"
  shows "\<exists>t. 100000 \<le> t \<and> t < INT_MAX \<and> \<not> exist_fd t m"
proof (rule ccontr)
  assume "\<not> ?thesis"
  then have "{100000..<INT_MAX} \<subseteq> fst ` set (files m)"
    by (auto simp: exist_fd_def lookup_fd_def map_of_eq_None_iff)
  then have "card {100000..<INT_MAX} \<le> card (fst ` set (files m))"
    by (intro card_mono) auto
  also have "\<dots> \<le> length (files m)"
    using card_image_le [of "set (files m)" fst] card_length [of "files m"] by simp
  finally show False using assms by (simp add: INT_MAX_def)
qed

lemma safe_generate_total:
  assumes "int (length (files m)) < INT_MAX - 100000" "fd_idx m \<le> INT_MAX"
  shows "\<exists>r. safe_generate_fd_idx m = Some r"
proof -
  obtain fd m' where g: "generate_fd_idx m = (fd, m')" by fastforce
  note f = generate_fd_idx_frame [OF g]
  obtain t where t: "100000 \<le> t" "t < INT_MAX" "\<not> exist_fd t m'"
    using free_descriptor_exists [of m'] assms(1) f(1) by auto
  have "fd_idx m' \<le> INT_MAX" using f(3,4) assms(2) by (auto simp: INT_MAX_def split: if_splits)
  then show ?thesis
    using free_fd_total [OF t] g by (auto simp: safe_generate_fd_idx_def)
qed

section \<open>The invariant\<close>

text \<open>Every descriptor is bound once, to an object that exists, and as long as no validation is
  asked for, all descriptors are below the index.\<close>

definition ofm_inv :: "open_file_map \<Rightarrow> bool" where
  "ofm_inv m \<longleftrightarrow> distinct (map fst (files m)) \<and> (\<forall>(fd, i) \<in> set (files m). i < length (objects m)) \<and>
    10000 \<le> fd_idx m \<and> fd_idx m \<le> INT_MAX \<and>
    (fd_validation_needed m \<or> (\<forall>(fd, i) \<in> set (files m). fd < fd_idx m))"

lemma exist_fd_iff: "exist_fd fd m \<longleftrightarrow> fd \<in> fst ` set (files m)"
  by (simp add: exist_fd_def lookup_fd_def map_of_eq_None_iff)

lemma ofm_inv_init: "ofm_inv OpenFileMap"
  by (simp add: ofm_inv_def OpenFileMap_def INT_MAX_def)

lemma generate_inv:
  assumes "ofm_inv m" "generate_fd_idx m = (fd, m')"
  shows "ofm_inv m'" "fd_validation_needed m' \<or> \<not> exist_fd fd m'"
  using assms(1) generate_fd_idx_frame [OF assms(2)]
  by (auto simp: ofm_inv_def INT_MAX_def exist_fd_iff split: if_splits)

lemma free_fd_inv: "free_fd fd m = Some r \<Longrightarrow> ofm_inv m \<longrightarrow> ofm_inv (snd r)"
proof (induction rule: free_fd_induct)
  case (1 free_fd fd m r)
  show ?case
  proof (cases "exist_fd fd m")
    case True
    obtain fd1 m1 where g: "generate_fd_idx m = (fd1, m1)" by fastforce
    then have "free_fd fd1 m1 = Some r" using 1(2) True by simp
    from 1(1) [OF this] show ?thesis using generate_inv(1) [OF _ g] by blast
  qed (use 1(2) in auto)
qed

text \<open>The generator of descriptors: a fresh one, and nothing else changes.\<close>

lemma safe_generate_fresh:
  assumes "ofm_inv m" "safe_generate_fd_idx m = Some (fd, m')"
  shows "ofm_inv m'" "\<not> exist_fd fd m'" "files m' = files m" "objects m' = objects m"
    "fd_validation_needed m' \<or> fd < fd_idx m'"
proof -
  obtain fd1 m1 where g: "generate_fd_idx m = (fd1, m1)" by fastforce
  note f = generate_fd_idx_frame [OF g] and i = generate_inv [OF assms(1) g]
  show "ofm_inv m'" "\<not> exist_fd fd m'" "files m' = files m" "objects m' = objects m"
    "fd_validation_needed m' \<or> fd < fd_idx m'"
    using assms(2) g f i free_fd_inv [of fd1 m1 "(fd, m')"] free_fd_result [of fd1 m1 "(fd, m')"]
    by (auto simp: safe_generate_fd_idx_def split: if_splits)
qed

section \<open>Steps and reachable tables\<close>

text \<open>The operations of the client on its table. A descriptor comes with the operation that
  returned it.\<close>

datatype ofm_op = Op_add open_file int | Op_remove int | Op_dup int int | Op_dup2 int int
  | Op_update int "open_file \<Rightarrow> open_file"

inductive ofm_step :: "open_file_map \<Rightarrow> ofm_op \<Rightarrow> open_file_map \<Rightarrow> bool" where
  step_add: "add_file f m = Some (fd, m') \<Longrightarrow> ofm_step m (Op_add f fd) m'"
| step_remove: "ofm_step m (Op_remove fd) (snd (remove_fd fd m))"
| step_dup: "dup_fd oldfd m = Some (Inr fd, m') \<Longrightarrow> ofm_step m (Op_dup oldfd fd) m'"
| step_dup2: "dup2_fd oldfd newfd m = (Inr newfd, m') \<Longrightarrow> ofm_step m (Op_dup2 oldfd newfd) m'"
| step_update: "ofm_step m (Op_update fd g) (update_file fd g m)"

text \<open>The one use the table does not survive: \<open>dup2\<close> onto the very next descriptor.\<close>

fun proper_op :: "ofm_op \<Rightarrow> open_file_map \<Rightarrow> bool" where
  "proper_op (Op_dup2 oldfd newfd) m = (newfd \<noteq> fd_idx m)"
| "proper_op _ m = True"

inductive ofm_reachable :: "open_file_map \<Rightarrow> bool" where
  reach_init: "ofm_reachable OpenFileMap"
| reach_step: "ofm_reachable m \<Longrightarrow> ofm_step m op m' \<Longrightarrow> proper_op op m \<Longrightarrow> ofm_reachable m'"

inductive_cases ofm_stepE [elim!]:
  "ofm_step m (Op_add f fd) m'" "ofm_step m (Op_remove fd) m'" "ofm_step m (Op_dup oldfd fd) m'"
  "ofm_step m (Op_dup2 oldfd newfd) m'" "ofm_step m (Op_update fd g) m'"

lemma insert_fd_inv:
  assumes "ofm_inv m" "i < length (objects m)" "fd_validation_needed m \<or> fd < fd_idx m"
  shows "ofm_inv (insert_fd fd i m)"
  using assms by (auto simp: insert_fd_def ofm_inv_def exist_fd_iff)

lemma append_object_inv: "ofm_inv m \<Longrightarrow> ofm_inv (m\<lparr>objects := objects m @ [f]\<rparr>)"
  by (auto simp: ofm_inv_def split: prod.splits)

lemma lookup_bound: "ofm_inv m \<Longrightarrow> lookup_fd fd m = Some i \<Longrightarrow> i < length (objects m)"
  by (auto simp: lookup_fd_def ofm_inv_def dest!: map_of_SomeD)

lemma add_file_effect:
  assumes "ofm_inv m" "add_file f m = Some (fd, m')"
  shows "ofm_inv m'" "\<not> exist_fd fd m" "files m' = (fd, length (objects m)) # files m"
    "objects m' = objects m @ [f]"
proof -
  obtain m1 where s: "safe_generate_fd_idx m = Some (fd, m1)"
      and m': "m' = (insert_fd fd (length (objects m1)) m1)\<lparr>objects := objects m1 @ [f]\<rparr>"
    using assms(2) by (auto simp: add_file_def)
  note n = safe_generate_fresh [OF assms(1) s]
  show "\<not> exist_fd fd m" using n(2,3) by (simp add: exist_fd_iff)
  show "files m' = (fd, length (objects m)) # files m" "objects m' = objects m @ [f]"
    using n(2-4) by (simp_all add: m' insert_fd_def)
  have "m' = insert_fd fd (length (objects m1)) (m1\<lparr>objects := objects m1 @ [f]\<rparr>)"
    using n(2) by (simp add: m' insert_fd_def exist_fd_iff)
  then show "ofm_inv m'"
    using insert_fd_inv [OF append_object_inv [OF n(1)], of "length (objects m1)" f fd] n(5) by simp
qed

lemma remove_fd_inv: "ofm_inv m \<Longrightarrow> ofm_inv (snd (remove_fd fd m))"
  by (auto simp: remove_fd_def Let_def ofm_inv_def AList.delete_eq distinct_map inj_on_def)

lemma remove_fd_frame:
  "objects (snd (remove_fd fd m)) = objects m" "fd_idx (snd (remove_fd fd m)) = fd_idx m"
  by (simp_all add: remove_fd_def Let_def)

lemma dup_fd_effect:
  assumes "ofm_inv m" "dup_fd oldfd m = Some (Inr fd, m')"
  shows "ofm_inv m'" "\<not> exist_fd fd m" "objects m' = objects m"
    "\<exists>i. lookup_fd oldfd m = Some i \<and> files m' = (fd, i) # files m"
proof -
  obtain i m1 where i: "lookup_fd oldfd m = Some i" and s: "safe_generate_fd_idx m = Some (fd, m1)"
      and m': "m' = insert_fd fd i m1"
    using assms(2) by (auto simp: dup_fd_def split: option.splits)
  note n = safe_generate_fresh [OF assms(1) s]
  show "\<not> exist_fd fd m" using n(2,3) by (simp add: exist_fd_iff)
  show "objects m' = objects m" "\<exists>i. lookup_fd oldfd m = Some i \<and> files m' = (fd, i) # files m"
    using n(2-4) i by (simp_all add: m' insert_fd_def)
  show "ofm_inv m'"
    using insert_fd_inv [OF n(1), of i fd] lookup_bound [OF assms(1) i] n(4,5) by (simp add: m')
qed

lemma dup2_fd_inv:
  assumes "ofm_inv m" "dup2_fd oldfd newfd m = (Inr newfd, m')" "newfd \<noteq> fd_idx m"
  shows "ofm_inv m'"
proof (cases "oldfd = newfd")
  case True
  then show ?thesis using assms by (auto simp: dup2_fd_def split: option.splits)
next
  case False
  obtain i where i: "lookup_fd oldfd m = Some i"
    using assms(2) by (auto simp: dup2_fd_def split: option.splits)
  define m1 where "m1 = (if exist_fd newfd m then snd (remove_fd newfd m) else m)"
  define m2 where "m2 = (if fd_idx m1 < newfd \<and> newfd \<noteq> 0 \<and> newfd \<noteq> 1 \<and> newfd \<noteq> 2
    then m1\<lparr>fd_validation_needed := True\<rparr> else m1)"
  have m1: "ofm_inv m1" "objects m1 = objects m" "fd_idx m1 = fd_idx m"
    using assms(1) remove_fd_inv by (simp_all add: m1_def remove_fd_frame)
  then have m2: "ofm_inv m2" "objects m2 = objects m" "fd_validation_needed m2 \<or> newfd < fd_idx m2"
    using assms(3) by (auto simp: m2_def ofm_inv_def)
  have "dup2_fd oldfd newfd m = (Inr newfd, insert_fd newfd i m2)"
    unfolding m2_def m1_def using False i by (simp add: dup2_fd_def Let_def)
  then have "m' = insert_fd newfd i m2" using assms(2) by simp
  then show ?thesis
    using insert_fd_inv [OF m2(1), of i newfd] lookup_bound [OF assms(1) i] m2(2,3) by simp
qed

lemma update_file_inv: "ofm_inv m \<Longrightarrow> ofm_inv (update_file fd g m)"
  by (auto simp: update_file_def ofm_inv_def split: option.splits)

lemma ofm_step_inv: "ofm_step m op m' \<Longrightarrow> ofm_inv m \<Longrightarrow> proper_op op m \<Longrightarrow> ofm_inv m'"
  by (induction rule: ofm_step.induct)
    (auto intro: add_file_effect(1) remove_fd_inv dup_fd_effect(1) dup2_fd_inv update_file_inv)

lemma ofm_reachable_inv: "ofm_reachable m \<Longrightarrow> ofm_inv m"
  by (induction rule: ofm_reachable.induct) (auto intro: ofm_inv_init ofm_step_inv)

section \<open>The table as a partial function\<close>

definition fd_table :: "open_file_map \<Rightarrow> int \<rightharpoonup> nat" where
  "fd_table m = (\<lambda>fd. lookup_fd fd m)"

text \<open>What POSIX asks of a descriptor table: a new descriptor was not in use, \<open>close\<close> frees it, \<open>dup\<close>
  and \<open>dup2\<close> bind another descriptor to the same open file, and nothing else changes.\<close>

inductive fd_spec :: "(int \<rightharpoonup> nat) \<Rightarrow> ofm_op \<Rightarrow> (int \<rightharpoonup> nat) \<Rightarrow> bool" where
  spec_add: "fd \<notin> dom t \<Longrightarrow> i \<notin> ran t \<Longrightarrow> fd_spec t (Op_add f fd) (t(fd \<mapsto> i))"
| spec_remove: "fd_spec t (Op_remove fd) (t(fd := None))"
| spec_dup: "t oldfd = Some i \<Longrightarrow> fd \<notin> dom t \<Longrightarrow> fd_spec t (Op_dup oldfd fd) (t(fd \<mapsto> i))"
| spec_dup2: "t oldfd = Some i \<Longrightarrow> fd_spec t (Op_dup2 oldfd newfd) (t(newfd \<mapsto> i))"
| spec_update: "fd_spec t (Op_update fd g) t"

lemma fd_table_Cons: "files m' = (fd, i) # files m \<Longrightarrow> fd_table m' = (fd_table m)(fd \<mapsto> i)"
  by (rule ext) (simp add: fd_table_def lookup_fd_def)

lemma fd_table_dom: "fd \<in> dom (fd_table m) \<longleftrightarrow> exist_fd fd m"
  by (auto simp: fd_table_def exist_fd_def)

lemma fd_table_files: "files m' = files m \<Longrightarrow> fd_table m' = fd_table m"
  by (simp add: fd_table_def lookup_fd_def)

lemma fd_table_remove: "fd_table (snd (remove_fd fd m)) = (fd_table m)(fd := None)"
proof (cases "exist_fd fd m")
  case True
  then have "files (snd (remove_fd fd m)) = AList.delete fd (files m)"
    by (simp add: remove_fd_def Let_def)
  then show ?thesis by (auto simp: fd_table_def lookup_fd_def delete_conv' fun_eq_iff)
next
  case False
  then show ?thesis by (auto simp: remove_fd_def fd_table_def exist_fd_def fun_eq_iff)
qed

lemma fd_table_new_object: "ofm_inv m \<Longrightarrow> length (objects m) \<notin> ran (fd_table m)"
  using lookup_bound [of m] by (fastforce simp: ran_def fd_table_def)

lemma fd_table_dup2:
  assumes "dup2_fd oldfd newfd m = (Inr newfd, m')" "lookup_fd oldfd m = Some i"
  shows "fd_table m' = (fd_table m)(newfd \<mapsto> i)"
proof (cases "oldfd = newfd")
  case True
  then show ?thesis using assms by (auto simp: dup2_fd_def fd_table_def fun_eq_iff)
next
  case False
  define m1 where "m1 = (if exist_fd newfd m then snd (remove_fd newfd m) else m)"
  have t1: "fd_table m1 = (fd_table m)(newfd := None)"
    by (cases "exist_fd newfd m") (auto simp: m1_def fd_table_remove, auto simp: fd_table_def exist_fd_def)
  obtain v where m': "m' = insert_fd newfd i (m1\<lparr>fd_validation_needed := v\<rparr>)"
  proof
    show "m' = insert_fd newfd i (m1\<lparr>fd_validation_needed := (if fd_idx m1 < newfd \<and> newfd \<noteq> 0 \<and>
        newfd \<noteq> 1 \<and> newfd \<noteq> 2 then True else fd_validation_needed m1)\<rparr>)"
      unfolding m1_def using assms False by (auto simp: dup2_fd_def Let_def)
  qed
  have "\<not> exist_fd newfd m1"
    using t1 fd_table_dom [of newfd m1] by simp
  then have "files m' = (newfd, i) # files m1"
    by (simp add: m' insert_fd_def exist_fd_def lookup_fd_def)
  then show ?thesis using fd_table_Cons [of m' newfd i m1] t1 by simp
qed

text \<open>C25: The descriptor table refines its specification: every operation of the client on a
  reachable table, \<open>dup2\<close> onto the next descriptor apart, changes the partial function from
  descriptors to open files as the specification says.\<close>

lemma fd_table_refines:
  assumes "ofm_reachable m" "ofm_step m op m'" "proper_op op m"
  shows "fd_spec (fd_table m) op (fd_table m')"
proof -
  have inv: "ofm_inv m" using assms(1) by (rule ofm_reachable_inv)
  from assms(2) show ?thesis
  proof cases
    case (step_add f fd)
    note e = add_file_effect [OF inv step_add(2)]
    show ?thesis
      unfolding step_add(1) fd_table_Cons [OF e(3)]
      using e(2) inv by (intro spec_add) (simp_all add: fd_table_dom fd_table_new_object)
  next
    case (step_remove fd)
    then show ?thesis by (simp add: fd_table_remove spec_remove)
  next
    case (step_dup oldfd fd)
    note e = dup_fd_effect [OF inv step_dup(2)]
    then obtain i where i: "lookup_fd oldfd m = Some i" "files m' = (fd, i) # files m" by blast
    show ?thesis
      unfolding step_dup(1) fd_table_Cons [OF i(2)]
      using e(2) i(1) by (intro spec_dup) (simp_all add: fd_table_dom, simp add: fd_table_def)
  next
    case (step_dup2 oldfd newfd)
    then obtain i where i: "lookup_fd oldfd m = Some i"
      by (auto simp: dup2_fd_def split: option.splits)
    show ?thesis
      unfolding step_dup2(1) fd_table_dup2 [OF step_dup2(2) i]
      using i by (intro spec_dup2) (simp add: fd_table_def)
  next
    case (step_update fd g)
    then show ?thesis
      using fd_table_files [of "update_file fd g m" m]
      by (simp add: update_file_def spec_update split: option.splits)
  qed
qed

lemma sample_add:
  "add_file f OpenFileMap = Some (10000, OpenFileMap\<lparr>files := [(10000, 0)], objects := [f], fd_idx := 10001\<rparr>)"
  by (simp add: add_file_def safe_generate_fd_idx_def generate_fd_idx_def OpenFileMap_def INT_MAX_def
      insert_fd_def exist_fd_def lookup_fd_def)

definition sample_table :: open_file_map where
  "sample_table = OpenFileMap\<lparr>files := [(10000, 0)], objects := [OpenFile ''/a'' 2 Regular], fd_idx := 10001\<rparr>"

lemma sample_reachable: "ofm_reachable sample_table"
  using reach_step [OF reach_init step_add [OF sample_add]] by (simp add: sample_table_def)

lemma fd_table_refines_witness:
  "fd_spec (fd_table sample_table) (Op_remove 10000) (fd_table (snd (remove_fd 10000 sample_table)))"
  by (rule fd_table_refines [OF sample_reachable step_remove]) simp





text \<open>A duplicated descriptor is the same open file, not a copy: whatever is changed through
  the old one (the position, a flag) is seen through the new one.\<close>

lemma dup_shares_file:
  assumes "ofm_reachable m" "dup_fd oldfd m = Some (Inr fd, m')"
  shows "\<not> exist_fd fd m \<and> get_file fd m' = get_file oldfd m \<and>
    get_file fd (update_file oldfd g m') = map_option g (get_file oldfd m)"
proof -
  have inv: "ofm_inv m" using assms(1) by (rule ofm_reachable_inv)
  note e = dup_fd_effect [OF inv assms(2)]
  then obtain i where i: "lookup_fd oldfd m = Some i" "files m' = (fd, i) # files m" by blast
  have b: "i < length (objects m)" using lookup_bound [OF inv i(1)] .
  have "lookup_fd oldfd m' = Some i" "lookup_fd fd m' = Some i"
    using i by (simp_all add: lookup_fd_def)
  then show ?thesis
    using e(2,3) i(1) b by (simp add: get_file_def update_file_def) (simp add: lookup_fd_def)
qed

lemma dup_shares_file_witness:
  "\<exists>fd m'. dup_fd 10000 sample_table = Some (Inr fd, m') \<and>
    get_file fd (update_file 10000 (of_pos_update (\<lambda>_. 7)) m') =
      Some (OpenFile ''/a'' 2 Regular\<lparr>of_pos := 7\<rparr>)"
proof -
  have d: "dup_fd 10000 sample_table = Some (Inr 10001,
      insert_fd 10001 0 (sample_table\<lparr>fd_idx := 10002\<rparr>))"
    by (simp add: dup_fd_def safe_generate_fd_idx_def generate_fd_idx_def sample_table_def
        OpenFileMap_def INT_MAX_def lookup_fd_def)
  have "get_file 10000 sample_table = Some (OpenFile ''/a'' 2 Regular)"
    by (simp add: get_file_def lookup_fd_def sample_table_def)
  then show ?thesis
    using dup_shares_file [OF sample_reachable d, of "of_pos_update (\<lambda>_. 7)"] d by auto
qed

text \<open>C28: \<open>dup2\<close> onto exactly the next descriptor of the table is not noticed (the test is strict):
  the next file that is opened gets the same descriptor, is not entered, and the caller's
  descriptor refers to the duplicated file.\<close>

lemma dup2_next_descriptor:
  assumes "ofm_reachable m" "get_file oldfd m = Some f0" "\<not> fd_validation_needed m" "fd_idx m < INT_MAX"
  shows "\<exists>m1 m2. dup2_fd oldfd (fd_idx m) m = (Inr (fd_idx m), m1) \<and>
    add_file f m1 = Some (fd_idx m, m2) \<and> get_file (fd_idx m) m2 = Some f0"
proof -
  have inv: "ofm_inv m" using assms(1) by (rule ofm_reachable_inv)
  obtain i where i: "lookup_fd oldfd m = Some i" "i < length (objects m)" "objects m ! i = f0"
    using assms(2) by (auto simp: get_file_def split: option.splits if_splits)
  have new: "\<not> exist_fd (fd_idx m) m"
    using inv assms(3) by (fastforce simp: ofm_inv_def exist_fd_iff)
  then have ne: "oldfd \<noteq> fd_idx m" using i(1) by (auto simp: exist_fd_def)
  define m1 where "m1 = m\<lparr>files := (fd_idx m, i) # files m\<rparr>"
  have "dup2_fd oldfd (fd_idx m) m = (Inr (fd_idx m), m1)"
    using i(1) ne new by (simp add: dup2_fd_def m1_def insert_fd_def)
  moreover have "add_file f m1 = Some (fd_idx m, m1\<lparr>fd_idx := fd_idx m + 1, objects := objects m @ [f]\<rparr>)"
    using assms(3,4) by (simp add: add_file_def safe_generate_fd_idx_def generate_fd_idx_def m1_def
        insert_fd_def exist_fd_def lookup_fd_def)
  moreover have "get_file (fd_idx m) (m1\<lparr>fd_idx := fd_idx m + 1, objects := objects m @ [f]\<rparr>) = Some f0"
    using i by (simp add: get_file_def lookup_fd_def m1_def nth_append)
  ultimately show ?thesis by blast
qed

lemma dup2_next_descriptor_witness:
  "\<exists>m1 m2. dup2_fd 10000 10001 sample_table = (Inr 10001, m1) \<and>
    add_file (OpenFile ''/b'' 0 Regular) m1 = Some (10001, m2) \<and>
    get_file 10001 m2 = Some (OpenFile ''/a'' 2 Regular)"
  using dup2_next_descriptor [OF sample_reachable, of 10000 "OpenFile ''/a'' 2 Regular" "OpenFile ''/b'' 0 Regular"]
  by (simp add: sample_table_def get_file_def lookup_fd_def OpenFileMap_def INT_MAX_def)

text \<open>Opening a file for reading only sets none of the three access flags: \<open>O_RDONLY\<close> is zero, so
  the test for it never holds, and no flags an application passes make the read-only flag true.\<close>

lemma OpenFile_rdonly: "\<not> get_flag Rdonly (OpenFile p flags ty) \<and> of_flags (OpenFile p O_RDONLY ty) = []"
  by (simp add: get_flag_def OpenFile_def has_flag_def O_RDONLY_def)

end
