(* ===== verification/Forward_Metadata.thy ===== *)
theory Forward_Metadata
  imports Forward_Data Open_File_Map
begin

text \<open>
  \<open>client/rpc/forward_metadata.cpp\<close>: the client's side of the metadata requests. Each is sent to
  the daemon the path hashes to, removals also to the daemons with chunks, directory listings to
  every daemon. The buffers a client exposes for a listing start as zeros.
\<close>

section \<open>Requests to the daemon of a path\<close>

definition meta_host :: "'n client \<Rightarrow> path \<Rightarrow> u64 res" where
  "meta_host C p =
    res_bind (locate_file_metadata (cl_hash C) (cl_distributor C) p) (\<lambda>h. Inr (ucast h))"

text \<open>\<open>post(endp, ...).get().at(0)\<close>: None when one of the calls throws. The endpoint is looked up
  before the \<open>try\<close>.\<close>

definition call_host :: "'n client \<Rightarrow> u64 \<Rightarrow> rpc_req \<Rightarrow> ('n, rpc_resp option) cmd" where
  "call_host C h req =
    cbind (clift (host_at C h)) (\<lambda>endp.
    cbind (net_send (cl_net C) endp req) (\<lambda>dl.
      cret (case dl of Reply r \<Rightarrow> Some r | _ \<Rightarrow> None)))"

definition call_meta :: "'n client \<Rightarrow> path \<Rightarrow> rpc_req \<Rightarrow> ('n, rpc_resp option) cmd" where
  "call_meta C p req = cbind (clift (meta_host C p)) (\<lambda>h. call_host C h req)"

definition err_of :: "rpc_resp option \<Rightarrow> errno" where
  "err_of r = (case r of Some (Resp_err e) \<Rightarrow> e | _ \<Rightarrow> EBUSY)"

definition forward_create :: "'n client \<Rightarrow> path \<Rightarrow> u32 \<Rightarrow> ('n, errno) cmd" where
  "forward_create C p m = cbind (call_meta C p (Req_create p m)) (\<lambda>r. cret (err_of r))"

text \<open>A null \<open>db_val\<close> is the empty string. The attribute is None when it was not assigned.\<close>

definition forward_stat :: "'n client \<Rightarrow> path \<Rightarrow> ('n, errno \<times> bytes option) cmd" where
  "forward_stat C p = cbind (call_meta C p (Req_stat p)) (\<lambda>r. case r of
      Some (Resp_stat e v) \<Rightarrow>
        if e \<noteq> 0 then cret (e, None) else cret (0, Some (case v of None \<Rightarrow> [] | Some s \<Rightarrow> s))
    | _ \<Rightarrow> cret (EBUSY, None))"

definition forward_decr_size :: "'n client \<Rightarrow> path \<Rightarrow> u64 \<Rightarrow> ('n, errno) cmd" where
  "forward_decr_size C p len = cbind (call_meta C p (Req_decr_size p len)) (\<lambda>r. cret (err_of r))"

text \<open>\<open>MetadentryUpdateFlags\<close>; the request carries no flag for the owner, the mode and the path.\<close>

record update_flags =
  uf_atime :: bool
  uf_mtime :: bool
  uf_ctime :: bool
  uf_uid :: bool
  uf_gid :: bool
  uf_mode :: bool
  uf_link_count :: bool
  uf_size :: bool
  uf_blocks :: bool
  uf_path :: bool

definition update_request :: "metadata \<Rightarrow> update_flags \<Rightarrow> update_in" where
  "update_request md fl = \<lparr>
     in_blocks = (uf_blocks fl, if uf_blocks fl then md_blocks md else 0),
     in_nlink = (uf_link_count fl, if uf_link_count fl then md_link_count md else 0),
     in_size = (uf_size fl, if uf_size fl then md_size md else 0),
     in_atime = (uf_atime fl, if uf_atime fl then md_atime md else 0),
     in_mtime = (uf_mtime fl, if uf_mtime fl then md_mtime md else 0),
     in_ctime = (uf_ctime fl, if uf_ctime fl then md_ctime md else 0)\<rparr>"

definition forward_update_metadentry ::
    "'n client \<Rightarrow> path \<Rightarrow> metadata \<Rightarrow> update_flags \<Rightarrow> ('n, errno) cmd" where
  "forward_update_metadentry C p md fl =
    cbind (call_meta C p (Req_update_metadentry p (update_request md fl))) (\<lambda>r. cret (err_of r))"

definition size_of_response :: "rpc_resp option \<Rightarrow> errno \<times> u64" where
  "size_of_response r = (case r of
      Some (Resp_size e n) \<Rightarrow> if e \<noteq> 0 then (e, 0) else (0, n)
    | _ \<Rightarrow> (EBUSY, 0))"

definition forward_update_metadentry_size ::
    "'n client \<Rightarrow> path \<Rightarrow> u64 \<Rightarrow> u64 \<Rightarrow> bool \<Rightarrow> ('n, errno \<times> u64) cmd" where
  "forward_update_metadentry_size C p sz offset app =
    cbind (call_meta C p (Req_update_metadentry_size p sz offset app)) (\<lambda>r. cret (size_of_response r))"

definition forward_get_metadentry_size :: "'n client \<Rightarrow> path \<Rightarrow> ('n, errno \<times> u64) cmd" where
  "forward_get_metadentry_size C p =
    cbind (call_meta C p (Req_get_metadentry_size p)) (\<lambda>r. cret (size_of_response r))"

definition forward_mk_symlink :: "'n client \<Rightarrow> path \<Rightarrow> string \<Rightarrow> ('n, errno) cmd" where
  "forward_mk_symlink C p target =
    cbind (call_meta C p (Req_mk_symlink p target)) (\<lambda>r. cret (err_of r))"

section \<open>Removal\<close>

text \<open>\<open>size / chunksize\<close>: a signed division by a positive number, toward zero.\<close>

definition chunks_of_size :: "u64 \<Rightarrow> u64" where
  "chunks_of_size sz =
    (if sint sz < 0 then - of_int ((- sint sz) div 524288) else of_int (sint sz div 524288))"

text \<open>The hosts of a small file's chunks without the metadata host, in the order of a
  \<open>std::set\<close>.\<close>

definition remove_targets :: "'n client \<Rightarrow> path \<Rightarrow> u64 \<Rightarrow> u64 \<Rightarrow> u64 list res" where
  "remove_targets C p metadata_host sz =
    res_bind (res_map (\<lambda>c. locate_chunk C p (of_nat c)) [0..<Suc (unat (chunks_of_size sz))]) (\<lambda>hs.
      Inr (sort (remdups (filter (\<lambda>h. \<not> (implicit_data_removal \<and> h = metadata_host)) hs))))"

text \<open>The errors of the responses: the last one counts.\<close>

fun last_err :: "delivery list \<Rightarrow> errno \<Rightarrow> errno" where
  "last_err [] err = err"
| "last_err (dl # dls) err = (case dl of
      Reply (Resp_err e) \<Rightarrow> last_err dls (if e \<noteq> 0 then e else err)
    | _ \<Rightarrow> last_err dls EBUSY)"

definition remove_chunks :: "'n client \<Rightarrow> path \<Rightarrow> u64 \<Rightarrow> u64 \<Rightarrow> ('n, errno) cmd" where
  "remove_chunks C p metadata_host sz =
    cbind
      (if chunks_of_size sz < ucast (cl_hosts C) then
         catch_map (\<lambda>e. if is_std_exception e then Some (False, []) else None)
           (cbind (clift (remove_targets C p metadata_host sz)) (\<lambda>hs.
            post_all C (map (\<lambda>h. (h, Req_remove_data p)) hs)))
       else post_all C (map (\<lambda>h. (of_nat h, Req_remove_data p)) [0..<unat (cl_hosts C)]))
      (\<lambda>(ok, dls). cret (if ok then last_err dls 0 else EBUSY))"

definition forward_remove :: "'n client \<Rightarrow> path \<Rightarrow> ('n, errno) cmd" where
  "forward_remove C p =
    cbind (clift (meta_host C p)) (\<lambda>metadata_host.
    cbind (call_host C metadata_host (Req_remove_metadata p)) (\<lambda>r. case r of
      Some (Resp_rm e m sz) \<Rightarrow>
        if e \<noteq> 0 then cret e
        else if \<not> (S_ISREG m \<and> sz \<noteq> 0) then cret 0
        else remove_chunks C p metadata_host sz
    | _ \<Rightarrow> cret EBUSY))"

section \<open>Directory listings\<close>

text \<open>The client reads the kinds and the names from its buffer; the two assertions bound the
  position of each name.\<close>

fun unpack_dirents :: "bytes \<Rightarrow> nat \<Rightarrow> nat \<Rightarrow> nat \<Rightarrow> (string \<times> file_type) list res" where
  "unpack_dirents buf j pos 0 = Inr []"
| "unpack_dirents buf j pos (Suc n) =
     res_bind (assert_res (0 < pos \<and> pos < length buf)) (\<lambda>_.
       let ftype = (if buf ! j \<noteq> NUL then Directory else Regular); name = c_str (drop pos buf)
       in res_bind (unpack_dirents buf (Suc j) (pos + length name + 1) n) (\<lambda>es.
            Inr ((name, ftype) # es)))"

text \<open>The responses of all hosts; after a failed send their contents are skipped.\<close>

fun gather_dirents ::
    "bool \<Rightarrow> delivery list \<Rightarrow> errno \<Rightarrow> open_file \<Rightarrow> (errno \<times> open_file) res" where
  "gather_dirents send_error [] err open_dir = Inr (err, open_dir)"
| "gather_dirents send_error (dl # dls) err open_dir = (case dl of
      Reply (Resp_dirents e n buf) \<Rightarrow>
        if send_error then gather_dirents send_error dls err open_dir
        else if e \<noteq> 0 then gather_dirents send_error dls e open_dir
        else res_bind (unpack_dirents buf 0 (unat n) (unat n)) (\<lambda>es.
          gather_dirents send_error dls err (fold (\<lambda>(name, ty). add_entry name ty) es open_dir))
    | _ \<Rightarrow> gather_dirents send_error dls EBUSY open_dir)"

fun expose_all :: "'n client \<Rightarrow> nat \<Rightarrow> ('n, bool) cmd" where
  "expose_all C 0 = cret True"
| "expose_all C (Suc n) =
    cbind (net_expose (cl_net C)) (\<lambda>ok. if ok then expose_all C n else cret False)"

text \<open>The directory is None when the function returns a null pointer. No target at all is a division
  by zero.\<close>

definition forward_get_dirents :: "'n client \<Rightarrow> path \<Rightarrow> ('n, errno \<times> open_file option) cmd" where
  "forward_get_dirents C p =
    (let targets = locate_directory_metadata (cl_distributor C) p in
     cbind (cassert (targets \<noteq> [])) (\<lambda>_.
     let per_host_buff_size = unat dirents_buff_size div length targets in
     cbind (expose_all C (length targets)) (\<lambda>exposed.
       if \<not> exposed then cret (EBUSY, None) else
     cbind (post_all C (map (\<lambda>h. (ucast h, Req_get_dirents p (replicate per_host_buff_size NUL))) targets))
       (\<lambda>(ok, dls).
     cbind (clift (gather_dirents (\<not> ok) dls (if ok then 0 else EBUSY) (OpenDir p))) (\<lambda>(err, open_dir).
       cret (err, Some open_dir))))))"

definition bytes_word :: "bytes \<Rightarrow> u64" where
  "bytes_word bs = of_nat (foldr (\<lambda>b n. of_char b + 256 * n) bs 0)"

fun unpack_names :: "bytes \<Rightarrow> nat \<Rightarrow> nat \<Rightarrow> string list" where
  "unpack_names buf pos 0 = []"
| "unpack_names buf pos (Suc n) =
     (let name = c_str (drop pos buf) in name # unpack_names buf (pos + length name + 1) n)"

text \<open>The listing of one host: kinds, sizes and times, names. Reading behind the buffer is
  undefined.\<close>

definition unpack_dirents_extended :: "bytes \<Rightarrow> nat \<Rightarrow> (string \<times> bool \<times> u64 \<times> u64) list res" where
  "unpack_dirents_extended buf n =
    res_bind (assert_res (n * 17 \<le> length buf)) (\<lambda>_.
      Inr (map (\<lambda>(j, name). (name, buf ! j \<noteq> NUL, bytes_word (take 8 (drop (n + 8 * j) buf)),
                 bytes_word (take 8 (drop (n * 9 + 8 * j) buf))))
        (zip [0..<n] (unpack_names buf (n * 17) n))))"

text \<open>\<open>targets[i]\<close> behind the end, and \<open>handles[0]\<close> when nothing could be posted, are undefined
  behaviour.\<close>

definition forward_get_dirents_single ::
    "'n client \<Rightarrow> path \<Rightarrow> u64 \<Rightarrow> ('n, errno \<times> (string \<times> bool \<times> u64 \<times> u64) list) cmd" where
  "forward_get_dirents_single C p server =
    (let targets = locate_directory_metadata (cl_distributor C) p in
     cbind (net_expose (cl_net C)) (\<lambda>exposed. if \<not> exposed then cret (EBUSY, []) else
     cbind (cassert (unat server < length targets)) (\<lambda>_.
     cbind (clift (host_at C (ucast (targets ! unat server)))) (\<lambda>endp.
     cbind (net_send (cl_net C) endp (Req_get_dirents_extended p (replicate (unat dirents_buff_size) NUL)))
       (\<lambda>dl. case dl of
         PostFails \<Rightarrow> craise Abort
       | Reply (Resp_dirents e n buf) \<Rightarrow>
           cbind (clift (unpack_dirents_extended buf (unat n))) (\<lambda>es. cret (e, es))
       | _ \<Rightarrow> cret (EBUSY, []))))))"

section \<open>forward_get_fs_config\<close>

text \<open>\<open>client/rpc/forward_management.cpp\<close>: None when the request fails; the caller stores the
  configuration in the context.\<close>

definition forward_get_fs_config :: "'n client \<Rightarrow> u64 \<Rightarrow> ('n, config_out option) cmd" where
  "forward_get_fs_config C local_host_id =
    cbind (call_host C local_host_id Req_fs_config) (\<lambda>r.
      cret (case r of Some (Resp_config out) \<Rightarrow> Some out | _ \<Rightarrow> None))"

end
