(* ===== verification/Gaofs_Functions.thy ===== *)
theory Gaofs_Functions
  imports Forward_Metadata
begin

text \<open>
  \<open>client/gaofs_functions.cpp\<close> with \<open>get_metadata\<close> and \<open>metadata_to_stat\<close> of
  \<open>client/preload_util.cpp\<close>: the file operations of the client. The state is the network, the
  descriptor table and \<open>errno\<close>. A function returns its C result; \<open>-1\<close> comes with \<open>errno\<close>. Following
  links may never end, which is the exception \<open>Hang\<close>.
\<close>

section \<open>The client's state\<close>

record 'n fs =
  fs_net :: 'n
  fs_files :: open_file_map
  fs_errno :: errno

text \<open>\<open>FsConfig\<close> and the mount directory, next to the network context.\<close>

record fs_conf =
  conf_atime :: bool
  conf_mtime :: bool
  conf_ctime :: bool
  conf_link_cnt :: bool
  conf_blocks :: bool
  conf_uid :: u32
  conf_gid :: u32
  conf_rootdir :: path

record 'n gaofs_ctx =
  ctx_client :: "'n client"
  ctx_mountdir :: path
  ctx_conf :: fs_conf

definition on_net :: "('n, 'a) cmd \<Rightarrow> ('n fs, 'a) cmd" where
  "on_net m = (\<lambda>s. case m (fs_net s) of (r, n) \<Rightarrow> (r, s\<lparr>fs_net := n\<rparr>))"

text \<open>\<open>errno = e; return -1\<close>.\<close>

definition fail_errno :: "errno \<Rightarrow> ('n fs, int) cmd" where
  "fail_errno e = (\<lambda>s. (Inr (- 1), s\<lparr>fs_errno := e\<rparr>))"

definition set_errno :: "errno \<Rightarrow> ('n fs, unit) cmd" where
  "set_errno e = (\<lambda>s. (Inr (), s\<lparr>fs_errno := e\<rparr>))"

text \<open>\<open>if(err) { errno = err; return -1; } return 0\<close>.\<close>

definition ret_err :: "errno \<Rightarrow> ('n fs, int) cmd" where
  "ret_err e = (if e \<noteq> 0 then fail_errno e else cret 0)"

section \<open>get_metadata and metadata_to_stat\<close>

definition stat_metadata :: "'n client \<Rightarrow> path \<Rightarrow> ('n, errno + metadata) cmd" where
  "stat_metadata C p =
    cbind (forward_stat C p) (\<lambda>(err, attr). if err \<noteq> 0 then cret (Inl err)
      else cbind (clift (deserialize config_metadata (case attr of None \<Rightarrow> [] | Some s \<Rightarrow> s)))
        (\<lambda>md. cret (Inr md)))"

text \<open>The loop over symbolic links; None when it never ends.\<close>

partial_function (option) follow_links ::
    "'n client \<Rightarrow> metadata \<Rightarrow> 'n \<Rightarrow> ((errno + metadata) res \<times> 'n) option" where
  "follow_links C md n =
    (if is_link md then
       (case cbind (clift (get_target_path md)) (stat_metadata C) n of
          (Inr (Inr md'), n') \<Rightarrow> follow_links C md' n'
        | (r, n') \<Rightarrow> Some (r, n'))
     else Some (Inr (Inr md), n))"

definition get_metadata :: "'n client \<Rightarrow> path \<Rightarrow> bool \<Rightarrow> ('n fs, metadata option) cmd" where
  "get_metadata C p follow =
    cbind (on_net (cbind (stat_metadata C p) (\<lambda>r. case r of
        Inl e \<Rightarrow> cret (Inl e)
      | Inr md \<Rightarrow>
          if follow then (\<lambda>n. case follow_links C md n of None \<Rightarrow> (Inl Hang, n) | Some r \<Rightarrow> r)
          else cret (Inr md)))) (\<lambda>r. case r of
      Inl e \<Rightarrow> cbind (set_errno e) (\<lambda>_. cret None)
    | Inr md \<Rightarrow> cret (Some md))"

text \<open>\<open>struct stat\<close>, the fields that depend on the entry (the others are constants).\<close>

record stat_buf =
  st_ino :: u64
  st_nlink :: u64
  st_uid :: u32
  st_gid :: u32
  st_mode :: u32
  st_size :: u64
  st_blks :: u64
  st_atim :: u64
  st_mtim :: u64
  st_ctim :: u64

definition metadata_to_stat :: "'n gaofs_ctx \<Rightarrow> path \<Rightarrow> metadata \<Rightarrow> stat_buf res" where
  "metadata_to_stat X p md =
    res_bind (if is_link md
              then res_bind (get_target_path md) (\<lambda>t. Inr (of_nat (length t) + of_nat (length (ctx_mountdir X))))
              else Inr (md_size md)) (\<lambda>sz.
    let conf = ctx_conf X in
    Inr \<lparr>st_ino = cl_hash (ctx_client X) p,
      st_nlink = (if conf_link_cnt conf then md_link_count md else 1),
      st_uid = conf_uid conf, st_gid = conf_gid conf, st_mode = md_mode md, st_size = sz,
      st_blks = (if conf_blocks conf then md_blocks md else 0),
      st_atim = (if conf_atime conf then md_atime md else 0),
      st_mtim = (if conf_mtime conf then md_mtime md else 0),
      st_ctim = (if conf_ctime conf then md_ctime md else 0)\<rparr>)"

section \<open>Names\<close>

text \<open>\<open>CREATE_CHECK_PARENTS\<close> is set in the build.\<close>

definition check_parent_dir :: "'n client \<Rightarrow> path \<Rightarrow> ('n fs, int) cmd" where
  "check_parent_dir C p =
    cbind (clift (dirname p)) (\<lambda>p_comp.
    cbind (get_metadata C p_comp False) (\<lambda>md. case md of
      None \<Rightarrow> cret (- 1)
    | Some md \<Rightarrow> if \<not> S_ISDIR (md_mode md) then fail_errno ENOTDIR else cret 0))"

definition S_IFCHR :: u32 where "S_IFCHR = 8192"
definition S_IFBLK :: u32 where "S_IFBLK = 24576"
definition S_IFIFO :: u32 where "S_IFIFO = 4096"
definition S_IFSOCK :: u32 where "S_IFSOCK = 49152"

definition gaofs_create :: "'n client \<Rightarrow> path \<Rightarrow> u32 \<Rightarrow> ('n fs, int) cmd" where
  "gaofs_create C p mode =
    (let ty = mode AND S_IFMT; mode = (if ty = 0 then mode OR S_IFREG else mode) in
     if ty = 0 \<or> ty = S_IFREG \<or> ty = S_IFDIR then
       cbind (check_parent_dir C p) (\<lambda>r. if r \<noteq> 0 then cret (- 1) else
       cbind (on_net (forward_create C p mode)) ret_err)
     else if ty = S_IFCHR \<or> ty = S_IFBLK \<or> ty = S_IFIFO \<or> ty = S_IFSOCK then fail_errno ENOTSUP
     else fail_errno EINVAL)"

definition gaofs_remove :: "'n client \<Rightarrow> path \<Rightarrow> ('n fs, int) cmd" where
  "gaofs_remove C p =
    cbind (get_metadata C p False) (\<lambda>md. case md of
      None \<Rightarrow> cret (- 1)
    | Some md \<Rightarrow>
        if S_ISDIR (md_mode md) then fail_errno EISDIR
        else cbind (on_net (forward_remove C p)) ret_err)"

definition gaofs_access :: "'n client \<Rightarrow> path \<Rightarrow> bool \<Rightarrow> ('n fs, int) cmd" where
  "gaofs_access C p follow =
    cbind (get_metadata C p follow) (\<lambda>md. cret (case md of None \<Rightarrow> - 1 | Some _ \<Rightarrow> 0))"

text \<open>The result with the buffer, None when it was not filled.\<close>

definition gaofs_stat :: "'n gaofs_ctx \<Rightarrow> path \<Rightarrow> bool \<Rightarrow> ('n fs, int \<times> stat_buf option) cmd" where
  "gaofs_stat X p follow =
    cbind (get_metadata (ctx_client X) p follow) (\<lambda>md. case md of
      None \<Rightarrow> cret (- 1, None)
    | Some md \<Rightarrow> cbind (clift (metadata_to_stat X p md)) (\<lambda>st. cret (0, Some st)))"

text \<open>\<open>f_bsize\<close>, \<open>f_blocks\<close> and \<open>f_bfree = f_bavail\<close> of the filled buffer.\<close>

definition gaofs_statfs :: "'n client \<Rightarrow> ('n fs, int \<times> (u64 \<times> u64 \<times> u64) option) cmd" where
  "gaofs_statfs C =
    cbind (on_net (forward_get_chunk_stat C)) (\<lambda>(err, sz, tot, free).
      if err \<noteq> 0 then cbind (fail_errno err) (\<lambda>r. cret (r, None))
      else cret (0, Some (sz, tot, free)))"

section \<open>Truncate\<close>

text \<open>\<open>gaofs_truncate(path, old_size, new_size)\<close>; both sizes are signed.\<close>

definition gaofs_truncate_sizes :: "'n client \<Rightarrow> path \<Rightarrow> u64 \<Rightarrow> u64 \<Rightarrow> ('n fs, int) cmd" where
  "gaofs_truncate_sizes C p old_size new_size =
    cbind (cassert (0 \<le> sint new_size \<and> sint new_size \<le> sint old_size)) (\<lambda>_.
    if new_size = old_size then cret 0 else
    cbind (on_net (forward_decr_size C p new_size)) (\<lambda>err.
    if err \<noteq> 0 then fail_errno err
    else cbind (on_net (forward_truncate C p old_size new_size)) ret_err))"

definition gaofs_truncate :: "'n client \<Rightarrow> path \<Rightarrow> u64 \<Rightarrow> ('n fs, int) cmd" where
  "gaofs_truncate C p offset =
    (if sint offset < 0 then fail_errno EINVAL else
     cbind (get_metadata C p True) (\<lambda>md. case md of
       None \<Rightarrow> cret (- 1)
     | Some md \<Rightarrow>
         if offset > md_size md then fail_errno EINVAL
         else gaofs_truncate_sizes C p (md_size md) offset))"

section \<open>Descriptors\<close>

definition file_map_cmd :: "(open_file_map \<Rightarrow> ((errno + int) \<times> open_file_map) option) \<Rightarrow> ('n fs, int) cmd" where
  "file_map_cmd f = (\<lambda>s. case f (fs_files s) of
      None \<Rightarrow> (Inl Hang, s)
    | Some (Inl e, m) \<Rightarrow> (Inr (- 1), s\<lparr>fs_files := m, fs_errno := e\<rparr>)
    | Some (Inr fd, m) \<Rightarrow> (Inr fd, s\<lparr>fs_files := m\<rparr>))"

text \<open>\<open>CTX->file_map()->add(...)\<close>.\<close>

definition new_fd :: "open_file \<Rightarrow> ('n fs, int) cmd" where
  "new_fd f = file_map_cmd (\<lambda>m. map_option (\<lambda>(fd, m). (Inr fd, m)) (add_file f m))"

definition gaofs_dup :: "int \<Rightarrow> ('n fs, int) cmd" where
  "gaofs_dup oldfd = file_map_cmd (dup_fd oldfd)"

definition gaofs_dup2 :: "int \<Rightarrow> int \<Rightarrow> ('n fs, int) cmd" where
  "gaofs_dup2 oldfd newfd = file_map_cmd (\<lambda>m. Some (dup2_fd oldfd newfd m))"

text \<open>\<open>CTX->file_map()->get(fd)\<close>, dereferenced without a test: a null pointer is a crash.\<close>

definition with_file :: "int \<Rightarrow> (open_file \<Rightarrow> ('n fs, 'a) cmd) \<Rightarrow> ('n fs, 'a) cmd" where
  "with_file fd k = (\<lambda>s. case get_file fd (fs_files s) of None \<Rightarrow> (Inl Abort, s) | Some f \<Rightarrow> k f s)"

definition set_pos :: "int \<Rightarrow> u64 \<Rightarrow> ('n fs, unit) cmd" where
  "set_pos fd pos = (\<lambda>s. (Inr (), s\<lparr>fs_files := update_file fd (of_pos_update (\<lambda>_. pos)) (fs_files s)\<rparr>))"

datatype whence = SEEK_SET | SEEK_CUR | SEEK_END | SEEK_OTHER

definition gaofs_lseek :: "'n client \<Rightarrow> int \<Rightarrow> u64 \<Rightarrow> whence \<Rightarrow> ('n fs, int) cmd" where
  "gaofs_lseek C fd offset w =
    with_file fd (\<lambda>f.
      let move = (\<lambda>pos. cbind (set_pos fd pos) (\<lambda>_. cret (sint pos))) in
      case w of
        SEEK_SET \<Rightarrow> if sint offset < 0 then fail_errno EINVAL else move offset
      | SEEK_CUR \<Rightarrow> move (of_pos f + offset)
      | SEEK_END \<Rightarrow>
          cbind (on_net (forward_get_metadentry_size C (of_path f))) (\<lambda>(err, file_size).
            if err \<noteq> 0 then fail_errno err
            else if sint offset < 0 \<and> sint file_size < sint (- offset) then fail_errno EINVAL
            else move (file_size + offset))
      | SEEK_OTHER \<Rightarrow> fail_errno EINVAL)"

section \<open>Directories\<close>

definition gaofs_opendir :: "'n client \<Rightarrow> path \<Rightarrow> ('n fs, int) cmd" where
  "gaofs_opendir C p =
    cbind (get_metadata C p False) (\<lambda>md. case md of
      None \<Rightarrow> cret (- 1)
    | Some md \<Rightarrow>
        if \<not> S_ISDIR (md_mode md) then fail_errno ENOTDIR else
        cbind (on_net (forward_get_dirents C p)) (\<lambda>(err, open_dir).
          if err \<noteq> 0 then fail_errno err
          else (case open_dir of None \<Rightarrow> craise Abort | Some d \<Rightarrow> new_fd d)))"

definition gaofs_rmdir :: "'n client \<Rightarrow> path \<Rightarrow> ('n fs, int) cmd" where
  "gaofs_rmdir C p =
    cbind (get_metadata C p False) (\<lambda>md. case md of
      None \<Rightarrow> cret (- 1)
    | Some md \<Rightarrow>
        if \<not> S_ISDIR (md_mode md) then fail_errno ENOTDIR else
        cbind (on_net (forward_get_dirents C p)) (\<lambda>(err, open_dir).
          if err \<noteq> 0 then fail_errno err
          else (case open_dir of
              None \<Rightarrow> craise Abort
            | Some d \<Rightarrow>
                if dir_size d \<noteq> 0 then fail_errno ENOTEMPTY
                else cbind (on_net (forward_remove C p)) ret_err)))"

text \<open>The entries written into the caller's buffer; \<open>ALIGN\<close> rounds up to eight bytes. The record
  length is an \<open>unsigned short\<close>.\<close>

record dirent =
  d_ino :: u64
  d_off :: u64
  d_reclen :: "16 word"
  d_type :: file_type
  d_name :: string

definition dirent_size :: "nat \<Rightarrow> string \<Rightarrow> u64" where
  "dirent_size header name = of_nat ((header + length name + 7) div 8 * 8)"

text \<open>The loop of both functions. \<open>header\<close> is what an entry needs besides its name; \<open>count - written\<close>
  is unsigned.\<close>

function fill_dents ::
    "(string \<Rightarrow> u64) \<Rightarrow> open_file \<Rightarrow> nat \<Rightarrow> u32 \<Rightarrow> u64 \<Rightarrow> u32 \<Rightarrow> (dirent list \<times> u64 \<times> u32) res" where
  "fill_dents hash d header nbytes pos written =
    (if pos < dir_size d then
       res_bind (getdent (ucast pos) d) (\<lambda>(name, ty).
         let total_size = dirent_size header name in
         if total_size > ucast (nbytes - written) then Inr ([], pos, written)
         else res_bind (fill_dents hash d header nbytes (pos + 1) (written + ucast total_size))
           (\<lambda>(es, pos', written').
             Inr (\<lparr>d_ino = hash (of_path d @ ''/'' @ name), d_off = pos + 1, d_reclen = ucast total_size,
                   d_type = ty, d_name = c_str name\<rparr> # es, pos', written')))
     else Inr ([], pos, written))"
  by pat_completeness auto
termination
proof (relation "measure (\<lambda>(_, d, _, _, pos, _). unat (dir_size d) - unat pos)")
  fix hash header nbytes pos written and d :: open_file and x name ty
  fix total_size :: u64
  assume "pos < dir_size d"
  then have "unat (pos + 1) = unat pos + 1" "unat pos < unat (dir_size d)"
    using unat_lt64 [of "dir_size d"] by (simp_all add: word_less_nat_alt unat_add64)
  then show "((hash, d, header, nbytes, pos + 1, written + ucast total_size), hash, d, header, nbytes, pos, written)
      \<in> measure (\<lambda>(_, d, _, _, pos, _). unat (dir_size d) - unat pos)"
    by simp
qed simp

declare fill_dents.simps [simp del]

text \<open>\<open>getdents\<close> and \<open>getdents64\<close> differ in the layout of an entry: 18 bytes before the name and
  the type behind it, or 19 bytes before the name.\<close>

definition getdents_with ::
    "nat \<Rightarrow> 'n client \<Rightarrow> int \<Rightarrow> u32 \<Rightarrow> ('n fs, int \<times> dirent list) cmd" where
  "getdents_with header C fd nbytes = (\<lambda>s. case get_dir fd (fs_files s) of
      None \<Rightarrow> cbind (fail_errno EBADF) (\<lambda>r. cret (r, [])) s
    | Some d \<Rightarrow>
        if of_pos d \<ge> dir_size d then (Inr (0, []), s)
        else cbind (clift (fill_dents (cl_hash C) d header nbytes (of_pos d) 0)) (\<lambda>(es, pos, written).
          if written = 0 then cbind (fail_errno EINVAL) (\<lambda>r. cret (r, []))
          else cbind (set_pos fd pos) (\<lambda>_. cret (sint written, es))) s)"

definition gaofs_getdents :: "'n client \<Rightarrow> int \<Rightarrow> u32 \<Rightarrow> ('n fs, int \<times> dirent list) cmd" where
  "gaofs_getdents = getdents_with (18 + 3)"

definition gaofs_getdents64 :: "'n client \<Rightarrow> int \<Rightarrow> u32 \<Rightarrow> ('n fs, int \<times> dirent list) cmd" where
  "gaofs_getdents64 = getdents_with (19 + 1)"

text \<open>\<open>gaofs_getsingleserverdir\<close>: name, kind, size, time of creation and record length.\<close>

fun fill_extended ::
    "(string \<times> bool \<times> u64 \<times> u64) list \<Rightarrow> u32 \<Rightarrow> u32 \<Rightarrow>
     (string \<times> bool \<times> u64 \<times> u64 \<times> 16 word) list \<times> u32" where
  "fill_extended [] nbytes written = ([], written)"
| "fill_extended ((name, ty, sz, ct) # es) nbytes written =
    (let total_size = dirent_size (19 + 1) name in
     if total_size > ucast (nbytes - written) then ([], written)
     else case fill_extended es nbytes (written + ucast total_size) of
       (out, written') \<Rightarrow> ((c_str name, ty, sz, ct, ucast total_size) # out, written'))"

definition gaofs_getsingleserverdir ::
    "'n client \<Rightarrow> path \<Rightarrow> u32 \<Rightarrow> int \<Rightarrow> ('n fs, int \<times> (string \<times> bool \<times> u64 \<times> u64 \<times> 16 word) list) cmd" where
  "gaofs_getsingleserverdir C p nbytes server =
    cbind (on_net (forward_get_dirents_single C p (of_int server))) (\<lambda>(err, es).
      if err \<noteq> 0 then cbind (fail_errno err) (\<lambda>r. cret (r, []))
      else case fill_extended es nbytes 0 of (out, written) \<Rightarrow>
        if written = 0 then cbind (fail_errno EINVAL) (\<lambda>r. cret (r, []))
        else cret (sint written, out))"

section \<open>Open\<close>

text \<open>One call of \<open>gaofs_open\<close>: a result, or the target of a link to call it again with.\<close>

definition open_found ::
    "'n client \<Rightarrow> path \<Rightarrow> u32 \<Rightarrow> metadata \<Rightarrow> ('n fs, int + path) cmd" where
  "open_found C p flags md =
    (if is_link md then
       if has_flag flags O_NOFOLLOW then cbind (fail_errno ELOOP) (\<lambda>r. cret (Inl r))
       else cbind (clift (get_target_path md)) (\<lambda>t. cret (Inr t))
     else cbind
       (if S_ISDIR (md_mode md) then gaofs_opendir C p
        else cbind (cassert (S_ISREG (md_mode md))) (\<lambda>_.
          if has_flag flags O_TRUNC \<and> (has_flag flags O_RDWR \<or> has_flag flags O_WRONLY) then
            cbind (gaofs_truncate_sizes C p (md_size md) 0) (\<lambda>r.
              if r \<noteq> 0 then cret (- 1) else new_fd (OpenFile p flags Regular))
          else new_fd (OpenFile p flags Regular)))
       (\<lambda>r. cret (Inl r)))"

definition open_step :: "'n client \<Rightarrow> path \<Rightarrow> u32 \<Rightarrow> u32 \<Rightarrow> ('n fs, int + path) cmd" where
  "open_step C p mode flags =
    (let existing = cbind (get_metadata C p False) (\<lambda>md. case md of
           None \<Rightarrow> cret (Inl (- 1))
         | Some md \<Rightarrow> open_found C p flags md)
     in
     if has_flag flags O_PATH then cbind (fail_errno ENOTSUP) (\<lambda>r. cret (Inl r))
     else if has_flag flags O_APPEND then cbind (fail_errno ENOTSUP) (\<lambda>r. cret (Inl r))
     else if has_flag flags O_CREAT then
       if has_flag flags O_DIRECTORY then cbind (fail_errno ENOTSUP) (\<lambda>r. cret (Inl r))
       else cbind (gaofs_create C p (mode OR S_IFREG)) (\<lambda>err.
         if err = 0 then cbind (new_fd (OpenFile p flags Regular)) (\<lambda>r. cret (Inl r))
         else cbind (cget fs_errno) (\<lambda>e.
           if e = EEXIST then if has_flag flags O_EXCL then cret (Inl (- 1)) else existing
           else cret (Inl (- 1))))
     else existing)"

text \<open>The recursion through links: None when it never ends.\<close>

partial_function (option) open_links ::
    "'n client \<Rightarrow> path \<Rightarrow> u32 \<Rightarrow> u32 \<Rightarrow> 'n fs \<Rightarrow> (int res \<times> 'n fs) option" where
  "open_links C p mode flags s =
    (case open_step C p mode flags s of
       (Inr (Inr target), s') \<Rightarrow> open_links C target mode flags s'
     | (Inr (Inl r), s') \<Rightarrow> Some (Inr r, s')
     | (Inl e, s') \<Rightarrow> Some (Inl e, s'))"

definition gaofs_open :: "'n client \<Rightarrow> path \<Rightarrow> u32 \<Rightarrow> u32 \<Rightarrow> ('n fs, int) cmd" where
  "gaofs_open C p mode flags = (\<lambda>s. case open_links C p mode flags s of
     None \<Rightarrow> (Inl Hang, s) | Some r \<Rightarrow> r)"

section \<open>Reading and writing\<close>

text \<open>\<open>count\<close> is the length of the buffer. The result is signed.\<close>

definition gaofs_pwrite :: "'n client \<Rightarrow> open_file \<Rightarrow> bytes \<Rightarrow> u64 \<Rightarrow> ('n fs, int) cmd" where
  "gaofs_pwrite C f buf offset =
    (let nbytes = of_nat (length buf); append_flag = get_flag Append f in
     if of_type f \<noteq> Regular then fail_errno EISDIR else
     cbind (on_net (forward_update_metadentry_size C (of_path f) nbytes offset append_flag))
       (\<lambda>(err, updated_size). if err \<noteq> 0 then fail_errno err else
     cbind (on_net (forward_write C (of_path f) buf append_flag offset nbytes updated_size))
       (\<lambda>(err, n). if err \<noteq> 0 then fail_errno err else cret (sint n))))"

definition gaofs_pwrite_ws :: "'n client \<Rightarrow> int \<Rightarrow> bytes \<Rightarrow> u64 \<Rightarrow> ('n fs, int) cmd" where
  "gaofs_pwrite_ws C fd buf offset = with_file fd (\<lambda>f. gaofs_pwrite C f buf offset)"

definition gaofs_write :: "'n client \<Rightarrow> int \<Rightarrow> bytes \<Rightarrow> ('n fs, int) cmd" where
  "gaofs_write C fd buf = with_file fd (\<lambda>f.
    let pos = of_pos f in
    cbind (if get_flag Append f then gaofs_lseek C fd 0 SEEK_END else cret 0) (\<lambda>_.
    cbind (gaofs_pwrite C f buf pos) (\<lambda>ret.
      if ret > 0 then cbind (set_pos fd (pos + of_nat (length buf))) (\<lambda>_. cret ret)
      else cret ret)))"

text \<open>The loop over the buffers; empty ones are skipped, a short transfer ends it.\<close>

fun pwritev_loop ::
    "'n client \<Rightarrow> open_file \<Rightarrow> bytes list \<Rightarrow> u64 \<Rightarrow> u64 \<Rightarrow> ('n fs, u64) cmd" where
  "pwritev_loop C f [] pos written = cret written"
| "pwritev_loop C f (buf # iov) pos written =
    (if buf = [] then pwritev_loop C f iov pos written
     else cbind (gaofs_pwrite C f buf pos) (\<lambda>ret.
       if ret = - 1 then cret written
       else if (of_int ret :: u64) < of_nat (length buf) then cret (written + of_int ret)
       else pwritev_loop C f iov (pos + of_int ret) (written + of_int ret)))"

definition gaofs_pwritev :: "'n client \<Rightarrow> int \<Rightarrow> bytes list \<Rightarrow> u64 \<Rightarrow> ('n fs, int) cmd" where
  "gaofs_pwritev C fd iov offset = with_file fd (\<lambda>f.
    cbind (pwritev_loop C f iov offset 0) (\<lambda>written.
      cret (if written = 0 then - 1 else sint written)))"

definition gaofs_writev :: "'n client \<Rightarrow> int \<Rightarrow> bytes list \<Rightarrow> ('n fs, int) cmd" where
  "gaofs_writev C fd iov = with_file fd (\<lambda>f.
    cbind (gaofs_pwritev C fd iov (of_pos f)) (\<lambda>ret.
    cbind (cassert (ret \<noteq> 0)) (\<lambda>_.
      if ret < 0 then cret (- 1)
      else cbind (set_pos fd (of_pos f + of_int ret)) (\<lambda>_. cret ret))))"

text \<open>A read returns the buffer with its result; \<open>zero_buffer_before_read\<close> is off.\<close>

definition gaofs_pread :: "'n client \<Rightarrow> open_file \<Rightarrow> bytes \<Rightarrow> u64 \<Rightarrow> ('n fs, int \<times> bytes) cmd" where
  "gaofs_pread C f buf offset =
    (if of_type f \<noteq> Regular then cbind (fail_errno EISDIR) (\<lambda>r. cret (r, buf)) else
     cbind (on_net (forward_read C (of_path f) buf offset (of_nat (length buf))))
       (\<lambda>(err, n, buf'). if err \<noteq> 0 then cbind (fail_errno err) (\<lambda>r. cret (r, buf'))
                          else cret (sint n, buf')))"

definition gaofs_pread_ws :: "'n client \<Rightarrow> int \<Rightarrow> bytes \<Rightarrow> u64 \<Rightarrow> ('n fs, int \<times> bytes) cmd" where
  "gaofs_pread_ws C fd buf offset = with_file fd (\<lambda>f. gaofs_pread C f buf offset)"

definition gaofs_read :: "'n client \<Rightarrow> int \<Rightarrow> bytes \<Rightarrow> ('n fs, int \<times> bytes) cmd" where
  "gaofs_read C fd buf = with_file fd (\<lambda>f.
    cbind (gaofs_pread C f buf (of_pos f)) (\<lambda>(ret, buf').
      if ret > 0 then cbind (set_pos fd (of_pos f + of_int ret)) (\<lambda>_. cret (ret, buf'))
      else cret (ret, buf')))"

text \<open>The buffers with the number of bytes read.\<close>

fun preadv_loop ::
    "'n client \<Rightarrow> open_file \<Rightarrow> bytes list \<Rightarrow> u64 \<Rightarrow> u64 \<Rightarrow> ('n fs, u64 \<times> bytes list) cmd" where
  "preadv_loop C f [] pos read = cret (read, [])"
| "preadv_loop C f (buf # iov) pos read =
    (if buf = [] then cbind (preadv_loop C f iov pos read) (\<lambda>(n, bufs). cret (n, buf # bufs))
     else cbind (gaofs_pread C f buf pos) (\<lambda>(ret, buf').
       if ret = - 1 then cret (read, buf' # iov)
       else if (of_int ret :: u64) < of_nat (length buf) then cret (read + of_int ret, buf' # iov)
       else cbind (preadv_loop C f iov (pos + of_int ret) (read + of_int ret))
         (\<lambda>(n, bufs). cret (n, buf' # bufs))))"

definition gaofs_preadv ::
    "'n client \<Rightarrow> int \<Rightarrow> bytes list \<Rightarrow> u64 \<Rightarrow> ('n fs, int \<times> bytes list) cmd" where
  "gaofs_preadv C fd iov offset = with_file fd (\<lambda>f.
    cbind (preadv_loop C f iov offset 0) (\<lambda>(n, bufs).
      cret (if n = 0 then - 1 else sint n, bufs)))"

definition gaofs_readv :: "'n client \<Rightarrow> int \<Rightarrow> bytes list \<Rightarrow> ('n fs, int \<times> bytes list) cmd" where
  "gaofs_readv C fd iov = with_file fd (\<lambda>f.
    cbind (gaofs_preadv C fd iov (of_pos f)) (\<lambda>(ret, bufs).
    cbind (cassert (ret \<noteq> 0)) (\<lambda>_.
      if ret < 0 then cret (- 1, bufs)
      else cbind (set_pos fd (of_pos f + of_int ret)) (\<lambda>_. cret (ret, bufs)))))"

end
