(* ===== verification/Meta_Service.thy ===== *)
theory Meta_Service
  imports Gaofs_Functions Namespace
begin

text \<open>
  The interface between the client and the daemons' metadata: \<open>meta_service\<close> states, over one
  namespace for the whole file system, what the client's calls rely on. The lemmas on the
  forwarding functions and on the file operations are proved inside the locale; the cluster of
  daemons provides it (theory \<open>Cluster\<close>).
\<close>

section \<open>Requests look at one path\<close>

fun req_path :: "rpc_req \<Rightarrow> path" where
  "req_path (Req_create p m) = p"
| "req_path (Req_stat p) = p"
| "req_path (Req_remove_metadata p) = p"
| "req_path (Req_remove_data p) = p"
| "req_path (Req_decr_size p len) = p"
| "req_path (Req_update_metadentry p u) = p"
| "req_path (Req_update_metadentry_size p sz off app) = p"
| "req_path (Req_get_metadentry_size p) = p"
| "req_path (Req_mk_symlink p t) = p"
| "req_path _ = []"

lemma meta_req_local: "N (req_path req) = M (req_path req) \<Longrightarrow> meta_req N req = meta_req M req"
  by (cases req) auto

lemma meta_spec_local:
  assumes "N (req_path req) = M (req_path req)"
  shows "fst (meta_spec cfg st req N) = fst (meta_spec cfg st req M)"
    "snd (meta_spec cfg st req N) = N(req_path req := snd (meta_spec cfg st req M) (req_path req))"
    "q \<noteq> req_path req \<Longrightarrow> snd (meta_spec cfg st req M) q = M q"
  using assms by (cases req; auto simp: fun_eq_iff split: option.splits)+

lemma meta_spec_new:
  "meta_req N req \<Longrightarrow> snd (meta_spec cfg st req N) q \<noteq> None \<Longrightarrow> N q \<noteq> None \<or> NUL \<notin> set q"
  by (cases req) (auto split: option.splits if_splits)

section \<open>The interface\<close>

text \<open>The entries of a directory, and the bytes a listing of them takes.\<close>

definition children :: "namespace \<Rightarrow> path \<Rightarrow> (string \<times> file_type) set" where
  "children N dir = {(name, if S_ISDIR (md_mode md) then Directory else Regular) | name md.
     name \<noteq> [] \<and> separator \<notin> set name \<and> N (child_path dir name) = Some md}"

definition listing_size :: "(string \<times> file_type) set \<Rightarrow> nat" where
  "listing_size S = (\<Sum>e \<in> S. length (fst e) + 2)"

text \<open>\<open>ns\<close> is the namespace the daemons hold together, \<open>inv\<close> their health, \<open>st p\<close> how the daemon of
  \<open>p\<close> stamps a new entry, \<open>cap\<close> the bytes one daemon may list.\<close>

locale meta_service =
  fixes C :: "'n client" and ns :: "'n \<Rightarrow> namespace" and inv :: "'n \<Rightarrow> bool"
    and st :: "path \<Rightarrow> metadata \<Rightarrow> metadata" and cap :: nat
  assumes meta_call: "inv n \<Longrightarrow> meta_req (ns n) req \<Longrightarrow>
      \<exists>n'. call_meta C (req_path req) req n =
          (Inr (Some (fst (meta_spec config_metadata (st (req_path req)) req (ns n)))), n') \<and>
        inv n' \<and> ns n' = snd (meta_spec config_metadata (st (req_path req)) req (ns n))"
    and meta_located: "\<exists>h. meta_host C p = Inr h"
    and chunks_removed: "inv n \<Longrightarrow> is_absolute p \<Longrightarrow> p \<noteq> [separator] \<Longrightarrow>
      \<exists>n'. remove_chunks C p h sz n = (Inr 0, n') \<and> inv n' \<and> ns n' = ns n"
    and listed: "inv n \<Longrightarrow> valid_key dir \<Longrightarrow>
      \<exists>e d. forward_get_dirents C dir n = (Inr (e, Some d), n) \<and> (e = 0 \<or> e = ENOBUFS) \<and>
        (listing_size (children (ns n) dir) \<le> cap \<longrightarrow> e = 0) \<and>
        (e = 0 \<longrightarrow> of_path d = dir \<and> of_type d = Directory \<and> length (of_entries d) < 2 ^ 32 \<and>
          set (of_entries d) = children (ns n) dir)"
    and ns_entries: "inv n \<Longrightarrow> ns n p = Some md \<Longrightarrow>
      is_absolute p \<and> storable md \<and> stored_fields config_metadata md = md"

definition new_entry :: "(metadata \<Rightarrow> metadata) \<Rightarrow> u32 \<Rightarrow> metadata" where
  "new_entry st m = stored_fields config_metadata (st (empty_metadata\<lparr>md_mode := m\<rparr>))"

context meta_service
begin

section \<open>The forwarding functions\<close>

lemma forward_create_ok:
  assumes "inv n" "valid_key p" "NUL \<notin> set p" "S_ISDIR m \<or> S_ISREG m"
  shows "\<exists>n'. forward_create C p m n = (Inr (if ns n p = None then 0 else EEXIST), n') \<and> inv n' \<and>
    ns n' = (if ns n p = None then (ns n)(p \<mapsto> new_entry (st p) m) else ns n)"
  using meta_call [OF assms(1), of "Req_create p m"] assms(2-4)
  by (auto simp: forward_create_def cmd_simps err_of_def new_entry_def)

lemma stat_ok:
  assumes "inv n" "is_absolute p"
  shows "\<exists>n'. stat_metadata C p n = (Inr (case ns n p of None \<Rightarrow> Inl ENOENT | Some md \<Rightarrow> Inr md), n') \<and>
    inv n' \<and> ns n' = ns n"
proof (cases "ns n p")
  case None
  then show ?thesis using meta_call [OF assms(1), of "Req_stat p"] assms(2)
    by (auto simp: stat_metadata_def forward_stat_def cmd_simps)
next
  case (Some md)
  then have "deserialize config_metadata (serialize config_metadata md) = Inr md"
    using ns_entries [OF assms(1) Some] deserialize_serialize [of md config_metadata] by simp
  then show ?thesis using meta_call [OF assms(1), of "Req_stat p"] assms(2) Some
    by (auto simp: stat_metadata_def forward_stat_def cmd_simps)
qed

lemma forward_decr_size_ok:
  assumes "inv n" "ns n p = Some md" "unat len < 2 ^ 63"
  shows "\<exists>n'. forward_decr_size C p len n = (Inr 0, n') \<and> inv n' \<and> ns n' = (ns n)(p \<mapsto> md\<lparr>md_size := len\<rparr>)"
  using meta_call [OF assms(1), of "Req_decr_size p len"] assms(2,3)
  by (auto simp: forward_decr_size_def cmd_simps err_of_def)

lemma forward_get_size_ok:
  assumes "inv n" "is_absolute p"
  shows "\<exists>n'. forward_get_metadentry_size C p n =
      (Inr (case ns n p of None \<Rightarrow> (ENOENT, 0) | Some md \<Rightarrow> (0, md_size md)), n') \<and> inv n' \<and> ns n' = ns n"
  using meta_call [OF assms(1), of "Req_get_metadentry_size p"] assms(2)
  by (cases "ns n p") (auto simp: forward_get_metadentry_size_def cmd_simps size_of_response_def)

lemma forward_update_size_ok:
  assumes "inv n" "ns n p = Some md"
    "new = (if app then md_size md + (sz + off) else max (md_size md) (sz + off))" "unat new < 2 ^ 63"
  shows "\<exists>n'. forward_update_metadentry_size C p sz off app n = (Inr (0, off + sz), n') \<and> inv n' \<and>
    ns n' = (ns n)(p \<mapsto> md\<lparr>md_size := new\<rparr>)"
  using meta_call [OF assms(1), of "Req_update_metadentry_size p sz off app"] assms(2-4)
  by (auto simp: forward_update_metadentry_size_def cmd_simps size_of_response_def cong: if_cong)

lemma forward_remove_ok:
  assumes "inv n" "is_absolute p" "p \<noteq> [separator]"
  shows "\<exists>n'. forward_remove C p n = (Inr (if ns n p = None then EIO else 0), n') \<and> inv n' \<and>
    ns n' = (ns n)(p := None)"
proof -
  obtain h where h: "meta_host C p = Inr h" using meta_located by blast
  have c: "call_host C h req n = call_meta C p req n" for req
    by (simp add: call_meta_def cmd_simps h)
  show ?thesis
  proof (cases "ns n p")
    case None
    then have same: "(ns n)(p := None) = ns n" by auto
    show ?thesis
      using meta_call [OF assms(1), of "Req_remove_metadata p"] assms(2,3) None
      by (auto simp: forward_remove_def cmd_simps h c same)
  next
    case (Some md)
    from meta_call [OF assms(1), of "Req_remove_metadata p"] assms(2,3) Some
    obtain n1 where n1: "call_meta C p (Req_remove_metadata p) n =
        (Inr (Some (Resp_rm 0 (md_mode md) (md_size md))), n1)" "inv n1" "ns n1 = (ns n)(p := None)"
      by auto
    obtain n2 where n2: "remove_chunks C p h (md_size md) n1 = (Inr 0, n2)" "inv n2" "ns n2 = ns n1"
      using chunks_removed [OF n1(2) assms(2,3)] by blast
    have "forward_remove C p n = (Inr 0, if S_ISREG (md_mode md) \<and> md_size md \<noteq> 0 then n2 else n1)"
      by (simp add: forward_remove_def cmd_simps h c n1(1) n2(1))
    then show ?thesis using Some n1(2,3) n2(2,3)
      by (cases "S_ISREG (md_mode md) \<and> md_size md \<noteq> 0") auto
  qed
qed

end

section \<open>The file operations on names\<close>

lemma on_net_apply [cmd_simps]:
  "on_net m s = (case m (fs_net s) of (r, n) \<Rightarrow> (r, s\<lparr>fs_net := n\<rparr>))"
  by (simp add: on_net_def)

lemma fail_errno_apply [cmd_simps]: "fail_errno e s = (Inr (- 1), s\<lparr>fs_errno := e\<rparr>)"
  by (simp add: fail_errno_def)

lemma set_errno_apply [cmd_simps]: "set_errno e s = (Inr (), s\<lparr>fs_errno := e\<rparr>)"
  by (simp add: set_errno_def)

text \<open>The name of a path, and a path below a directory of the namespace.\<close>

definition is_dir_entry :: "metadata option \<Rightarrow> bool" where
  "is_dir_entry e = (case e of None \<Rightarrow> False | Some md \<Rightarrow> S_ISDIR (md_mode md))"

text \<open>The type bits \<open>gaofs_create\<close> works with.\<close>

definition create_mode :: "u32 \<Rightarrow> u32" where
  "create_mode m = (if m AND S_IFMT = 0 then m OR S_IFREG else m)"

text \<open>What the creation of an entry answers: the value of \<open>errno\<close>, 0 for success.\<close>

definition create_err :: "namespace \<Rightarrow> path \<Rightarrow> path \<Rightarrow> errno" where
  "create_err N parent p = (case N parent of
      None \<Rightarrow> ENOENT
    | Some d \<Rightarrow> if \<not> S_ISDIR (md_mode d) then ENOTDIR else if N p \<noteq> None then EEXIST else 0)"

definition remove_err :: "namespace \<Rightarrow> path \<Rightarrow> errno" where
  "remove_err N p = (case N p of
      None \<Rightarrow> ENOENT
    | Some md \<Rightarrow> if S_ISDIR (md_mode md) then EISDIR else 0)"

definition rmdir_err :: "namespace \<Rightarrow> path \<Rightarrow> errno" where
  "rmdir_err N p = (case N p of
      None \<Rightarrow> ENOENT
    | Some md \<Rightarrow> if \<not> S_ISDIR (md_mode md) then ENOTDIR else if children N p \<noteq> {} then ENOTEMPTY else 0)"

context meta_service
begin

text \<open>An outcome: the result, \<open>errno\<close> and the namespace afterwards; the descriptors are untouched.\<close>

definition outcome :: "'n fs \<Rightarrow> ('n fs, 'a) cmd \<Rightarrow> 'a \<Rightarrow> errno \<Rightarrow> namespace \<Rightarrow> bool" where
  "outcome s m r e N \<longleftrightarrow>
     (\<exists>n. m s = (Inr r, s\<lparr>fs_net := n, fs_errno := e\<rparr>) \<and> inv n \<and> ns n = N)"

abbreviation "names s \<equiv> ns (fs_net s)"
abbreviation "sound s \<equiv> inv (fs_net s)"

lemma outcome_cret: "sound s \<Longrightarrow> e = fs_errno s \<Longrightarrow> N = names s \<Longrightarrow> outcome s (cret r) r e N"
  unfolding outcome_def by (rule exI [of _ "fs_net s"]) (simp add: cmd_simps)

lemma outcome_fail: "sound s \<Longrightarrow> N = names s \<Longrightarrow> outcome s (fail_errno e) (- 1) e N"
  unfolding outcome_def by (rule exI [of _ "fs_net s"]) (simp add: cmd_simps)

lemma outcome_bind:
  assumes "outcome s m x e N"
    "\<And>s'. sound s' \<Longrightarrow> names s' = N \<Longrightarrow> fs_errno s' = e \<Longrightarrow> outcome s' (f x) y e' N'"
  shows "outcome s (cbind m f) y e' N'"
proof -
  obtain n where n: "m s = (Inr x, s\<lparr>fs_net := n, fs_errno := e\<rparr>)" "inv n" "ns n = N"
    using assms(1) by (auto simp: outcome_def)
  from assms(2) [of "s\<lparr>fs_net := n, fs_errno := e\<rparr>"] n(2,3)
  obtain n' where "f x (s\<lparr>fs_net := n, fs_errno := e\<rparr>) = (Inr y, s\<lparr>fs_net := n', fs_errno := e'\<rparr>)"
      "inv n'" "ns n' = N'"
    by (auto simp: outcome_def)
  then show ?thesis by (auto simp: outcome_def cmd_simps n(1))
qed

lemma outcome_net:
  assumes "\<exists>n. m (fs_net s) = (Inr x, n) \<and> inv n \<and> ns n = N"
  shows "outcome s (on_net m) x (fs_errno s) N"
proof -
  obtain n where "m (fs_net s) = (Inr x, n)" "inv n" "ns n = N" using assms by blast
  then show ?thesis unfolding outcome_def by (intro exI [of _ n]) (simp add: cmd_simps)
qed

lemma get_metadata_ok:
  assumes "sound s" "is_absolute p"
  shows "outcome s (get_metadata C p False) (names s p)
    (if names s p = None then ENOENT else fs_errno s) (names s)"
proof -
  obtain n where n: "stat_metadata C p (fs_net s) =
      (Inr (case names s p of None \<Rightarrow> Inl ENOENT | Some md \<Rightarrow> Inr md), n)" "inv n" "ns n = names s"
    using stat_ok [OF assms] by blast
  show ?thesis unfolding outcome_def
    by (rule exI [of _ n]) (cases "names s p"; simp add: get_metadata_def cmd_simps n)
qed

lemma ret_err_ok: "sound s \<Longrightarrow> e' = (if e = 0 then fs_errno s else e) \<Longrightarrow> N = names s \<Longrightarrow>
    outcome s (ret_err e) (if e = 0 then 0 else - 1) e' N"
  by (cases "e = 0") (simp_all add: ret_err_def outcome_cret outcome_fail)

lemma check_parent_dir_ok:
  assumes "sound s" "dirname p = Inr parent" "is_absolute parent"
  shows "outcome s (check_parent_dir C p)
    (if is_dir_entry (names s parent) then 0 else - 1)
    (case names s parent of None \<Rightarrow> ENOENT | Some d \<Rightarrow> if S_ISDIR (md_mode d) then fs_errno s else ENOTDIR)
    (names s)"
proof -
  have d: "check_parent_dir C p = cbind (get_metadata C parent False) (\<lambda>md. case md of
      None \<Rightarrow> cret (- 1)
    | Some md \<Rightarrow> if \<not> S_ISDIR (md_mode md) then fail_errno ENOTDIR else cret 0)"
    by (simp add: check_parent_dir_def assms(2) fun_eq_iff cmd_simps)
  show ?thesis unfolding d
    by (rule outcome_bind [OF get_metadata_ok [OF assms(1,3)]])
      (cases "names s parent"; simp add: is_dir_entry_def outcome_cret outcome_fail)
qed

text \<open>The creation of a file or directory.\<close>

lemma gaofs_create_ok:
  assumes "sound s" "valid_key p" "NUL \<notin> set p" "dirname p = Inr parent" "is_absolute parent"
    "S_ISDIR (create_mode m) \<or> S_ISREG (create_mode m)" "err = create_err (names s) parent p"
  shows "outcome s (gaofs_create C p m) (if err = 0 then 0 else - 1) (if err = 0 then fs_errno s else err)
    (if err = 0 then (names s)(p \<mapsto> new_entry (st p) (create_mode m)) else names s)"
proof -
  have ty: "m AND S_IFMT = 0 \<or> m AND S_IFMT = S_IFREG \<or> m AND S_IFMT = S_IFDIR"
    using assms(6) by (auto simp: create_mode_def S_ISDIR_def S_ISREG_def split: if_splits)
  have d: "gaofs_create C p m = cbind (check_parent_dir C p) (\<lambda>r. if r \<noteq> 0 then cret (- 1) else
       cbind (on_net (forward_create C p (create_mode m))) ret_err)"
    unfolding gaofs_create_def create_mode_def Let_def using ty by (cases "m AND S_IFMT = 0") auto
  note fc = outcome_net [OF forward_create_ok [OF _ assms(2,3,6)]]
  show ?thesis unfolding d
    by (rule outcome_bind [OF check_parent_dir_ok [OF assms(1,4,5)]])
      (cases "is_dir_entry (names s parent)";
       auto simp: assms(7) create_err_def is_dir_entry_def simp flip: fun_upd_def split: option.splits if_splits
       intro!: outcome_cret outcome_bind [OF fc] ret_err_ok [where e = 0, simplified]
         ret_err_ok [where e = EEXIST, simplified])
qed

end

context meta_service
begin

lemma gaofs_remove_ok:
  assumes "sound s" "is_absolute p" "p \<noteq> [separator]" "err = remove_err (names s) p"
  shows "outcome s (gaofs_remove C p) (if err = 0 then 0 else - 1) (if err = 0 then fs_errno s else err)
    (if err = 0 then (names s)(p := None) else names s)"
proof (cases "names s p")
  case None
  show ?thesis unfolding gaofs_remove_def
    by (rule outcome_bind [OF get_metadata_ok [OF assms(1,2)]])
      (simp add: None assms(4) remove_err_def outcome_cret)
next
  case (Some md)
  note fr = outcome_net [OF forward_remove_ok [OF _ assms(2,3)]]
  show ?thesis unfolding gaofs_remove_def
    by (rule outcome_bind [OF get_metadata_ok [OF assms(1,2)]])
      (auto simp: Some assms(4) remove_err_def simp flip: fun_upd_def intro!: outcome_fail outcome_bind [OF fr]
        ret_err_ok [where e = 0, simplified])
qed

lemma gaofs_access_ok:
  assumes "sound s" "is_absolute p"
  shows "outcome s (gaofs_access C p False) (if names s p = None then - 1 else 0)
    (if names s p = None then ENOENT else fs_errno s) (names s)"
  unfolding gaofs_access_def
  by (rule outcome_bind [OF get_metadata_ok [OF assms]]) (cases "names s p"; simp add: outcome_cret)

lemma dir_size_zero: "length (of_entries d) < 2 ^ 32 \<Longrightarrow> dir_size d = 0 \<longleftrightarrow> set (of_entries d) = {}"
  by (auto simp: dir_size_def word_of_nat_eq_0_iff nat_dvd_not_less)

text \<open>Removing a directory: as specified, but a listing that does not fit its buffer is \<open>ENOBUFS\<close>.\<close>

lemma gaofs_rmdir_ok:
  assumes "sound s" "valid_key p" "p \<noteq> [separator]" "err = rmdir_err (names s) p"
  shows "outcome s (gaofs_rmdir C p) (if err = 0 then 0 else - 1) (if err = 0 then fs_errno s else err)
      (if err = 0 then (names s)(p := None) else names s) \<or>
    (err = ENOTEMPTY \<and> cap < listing_size (children (names s) p) \<and>
     outcome s (gaofs_rmdir C p) (- 1) ENOBUFS (names s))"
proof (cases "is_dir_entry (names s p)")
  case False
  show ?thesis unfolding gaofs_rmdir_def
    by (rule disjI1, rule outcome_bind [OF get_metadata_ok [OF assms(1) valid_key_absolute [OF assms(2)]]])
      (use False in \<open>auto simp: is_dir_entry_def assms(4) rmdir_err_def outcome_cret outcome_fail split: option.splits\<close>)
next
  case True
  then obtain md where md: "names s p = Some md" "S_ISDIR (md_mode md)"
    by (auto simp: is_dir_entry_def split: option.splits)
  have abs: "is_absolute p" using assms(2) by simp
  obtain n1 where n1: "get_metadata C p False s = (Inr (Some md), s\<lparr>fs_net := n1, fs_errno := fs_errno s\<rparr>)"
      "inv n1" "ns n1 = names s"
    using get_metadata_ok [OF assms(1) abs] md by (auto simp: outcome_def)
  define s1 where "s1 = s\<lparr>fs_net := n1, fs_errno := fs_errno s\<rparr>"
  have s1: "get_metadata C p False s = (Inr (Some md), s1)" "sound s1" "names s1 = names s"
      "fs_errno s1 = fs_errno s" using n1 by (simp_all add: s1_def)
  obtain e d where l: "forward_get_dirents C p (fs_net s1) = (Inr (e, Some d), fs_net s1)"
      "e = 0 \<or> e = ENOBUFS" "listing_size (children (names s) p) \<le> cap \<longrightarrow> e = 0"
      "e = 0 \<longrightarrow> length (of_entries d) < 2 ^ 32 \<and> set (of_entries d) = children (names s) p"
    using listed [OF s1(2) assms(2)] unfolding s1(3) by blast
  have net: "on_net (forward_get_dirents C p) s1 = (Inr (e, Some d), s1)"
    by (simp add: cmd_simps l(1))
  have run: "gaofs_rmdir C p s = (if e \<noteq> 0 then fail_errno e
      else if dir_size d \<noteq> 0 then fail_errno ENOTEMPTY
      else cbind (on_net (forward_remove C p)) ret_err) s1"
    using md(2) by (simp add: gaofs_rmdir_def cbind_ok [where m = "get_metadata C p False", OF s1(1)]
        cbind_ok [where m = "on_net (forward_get_dirents C p)", OF net])
  have fin: "outcome s (gaofs_rmdir C p) r e' N" if "outcome s1 m r e' N" "gaofs_rmdir C p s = m s1" for m r e' N
    using that by (auto simp: outcome_def s1_def)
  show ?thesis
  proof (cases "e = 0")
    case False
    then have e: "e = ENOBUFS" "cap < listing_size (children (names s) p)" using l(2,3) by auto
    then have "children (names s) p \<noteq> {}" by (auto simp: listing_size_def)
    then show ?thesis
      using fin [OF outcome_fail [OF s1(2) s1(3) [symmetric], of e]] run md e
      by (simp add: assms(4) rmdir_err_def)
  next
    case e0: True
    then have size: "dir_size d = 0 \<longleftrightarrow> children (names s) p = {}"
      using dir_size_zero l(4) by auto
    show ?thesis
    proof (cases "children (names s) p = {}")
      case False
      then show ?thesis
        using fin [OF outcome_fail [OF s1(2) s1(3) [symmetric], of ENOTEMPTY]] run e0 size md
        by (auto simp: assms(4) rmdir_err_def)
    next
      case True
      have fr: "outcome s1 (on_net (forward_remove C p)) (if names s1 p = None then EIO else 0)
          (fs_errno s1) ((names s1)(p := None))"
        by (rule outcome_net) (rule forward_remove_ok [OF s1(2) abs assms(3)])
      have "outcome s1 (cbind (on_net (forward_remove C p)) ret_err) 0 (fs_errno s) ((names s)(p := None))"
        by (rule outcome_bind [OF fr]) (use md s1(3,4) in \<open>auto intro!: ret_err_ok [where e = 0, simplified]\<close>)
      from fin [OF this] show ?thesis
        using run e0 size True md by (simp add: assms(4) rmdir_err_def)
    qed
  qed
qed

end

section \<open>Following links\<close>

text \<open>Where a path leads, None for a missing entry. A link that leads back to itself leads nowhere:
  no rule concludes.\<close>

inductive resolves :: "namespace \<Rightarrow> path \<Rightarrow> metadata option \<Rightarrow> bool" for N where
  resolves_missing: "N p = None \<Longrightarrow> resolves N p None"
| resolves_entry: "N p = Some md \<Longrightarrow> \<not> is_link md \<Longrightarrow> resolves N p (Some md)"
| resolves_link: "N p = Some md \<Longrightarrow> is_link md \<Longrightarrow> is_absolute (md_target_path md) \<Longrightarrow>
    resolves N (md_target_path md) r \<Longrightarrow> resolves N p r"

text \<open>A set of links whose targets are links of the set.\<close>

definition link_cycle :: "namespace \<Rightarrow> path set \<Rightarrow> bool" where
  "link_cycle N P \<longleftrightarrow> (\<forall>p \<in> P. \<exists>md. is_absolute p \<and> N p = Some md \<and> is_link md \<and> md_target_path md \<in> P)"

definition stat_follow :: "'n client \<Rightarrow> path \<Rightarrow> 'n \<Rightarrow> ((errno + metadata) res \<times> 'n) option" where
  "stat_follow C p n = (case stat_metadata C p n of
     (Inr (Inr md), n') \<Rightarrow> follow_links C md n' | (r, n') \<Rightarrow> Some (r, n'))"

lemma target_ok: "is_absolute (md_target_path md) \<Longrightarrow> get_target_path md = Inr (md_target_path md)"
  by (auto simp: get_target_path_def is_absolute_def)

lemma follow_link:
  "is_link md \<Longrightarrow> is_absolute (md_target_path md) \<Longrightarrow>
   follow_links C md n = stat_follow C (md_target_path md) n"
  by (subst follow_links.simps) (simp add: target_ok stat_follow_def cmd_simps)

lemma follow_no_link: "\<not> is_link md \<Longrightarrow> follow_links C md n = Some (Inr (Inr md), n)"
  by (subst follow_links.simps) simp

lemmas follow_links_induct = follow_links.raw_induct [rotated 1, consumes 1, case_names step]

lemma get_metadata_follow:
  "get_metadata C p True s = (case stat_follow C p (fs_net s) of
      None \<Rightarrow> (Inl Hang, s\<lparr>fs_net := snd (stat_metadata C p (fs_net s))\<rparr>)
    | Some (Inl e, n) \<Rightarrow> (Inl e, s\<lparr>fs_net := n\<rparr>)
    | Some (Inr (Inl e), n) \<Rightarrow> (Inr None, s\<lparr>fs_net := n, fs_errno := e\<rparr>)
    | Some (Inr (Inr md), n) \<Rightarrow> (Inr (Some md), s\<lparr>fs_net := n\<rparr>))"
  by (auto simp: get_metadata_def stat_follow_def cmd_simps split: prod.split sum.split option.split)

context meta_service
begin

lemma stat_follow_ok:
  assumes "resolves N p r" "is_absolute p" "inv n" "ns n = N"
  shows "\<exists>n'. stat_follow C p n = Some (Inr (case r of None \<Rightarrow> Inl ENOENT | Some md \<Rightarrow> Inr md), n') \<and>
    inv n' \<and> ns n' = N"
  using assms
proof (induction arbitrary: n rule: resolves.induct)
  case (resolves_missing p)
  then show ?case using stat_ok [of n p] by (auto simp: stat_follow_def)
next
  case (resolves_entry p md)
  then show ?case using stat_ok [of n p] by (auto simp: stat_follow_def follow_no_link)
next
  case (resolves_link p md r)
  obtain n' where n': "stat_metadata C p n = (Inr (Inr md), n')" "inv n'" "ns n' = N"
    using stat_ok [of n p] resolves_link by auto
  have "stat_follow C p n = stat_follow C (md_target_path md) n'"
    by (simp add: stat_follow_def n'(1) follow_link [OF resolves_link(2,3)])
  then show ?case using resolves_link.IH [OF resolves_link(3) n'(2,3)] by simp
qed

lemma get_metadata_resolves:
  assumes "sound s" "is_absolute p" "resolves (names s) p r"
  shows "outcome s (get_metadata C p True) r (if r = None then ENOENT else fs_errno s) (names s)"
proof -
  obtain n where n: "stat_follow C p (fs_net s) =
      Some (Inr (case r of None \<Rightarrow> Inl ENOENT | Some md \<Rightarrow> Inr md), n)" "inv n" "ns n = names s"
    using stat_follow_ok [OF assms(3,2,1)] by auto
  then show ?thesis unfolding outcome_def
    by (intro exI [of _ n]) (cases r; simp add: get_metadata_follow)
qed

lemma follow_cycle:
  "follow_links C' md n = Some r \<Longrightarrow> C' = C \<Longrightarrow> link_cycle N P \<Longrightarrow> is_link md \<Longrightarrow> md_target_path md \<in> P \<Longrightarrow>
   inv n \<Longrightarrow> ns n = N \<Longrightarrow> False"
proof (induction rule: follow_links_induct)
  case (step follow C' md n r)
  let ?t = "md_target_path md"
  obtain md' where md': "is_absolute ?t" "N ?t = Some md'" "is_link md'" "md_target_path md' \<in> P"
    using step(4,6) by (auto simp: link_cycle_def)
  obtain n' where n': "stat_metadata C ?t n = (Inr (Inr md'), n')" "inv n'" "ns n' = N"
    using stat_ok [OF step(7) md'(1)] md'(2) step(8) by auto
  have "follow C' md' n' = Some r"
    using step(2,3,5) n'(1) by (simp add: target_ok [OF md'(1)] cmd_simps)
  from step(1) [OF this step(3,4) md'(3,4) n'(2,3)] show False .
qed

lemma get_metadata_cycle:
  assumes "sound s" "link_cycle (names s) P" "p \<in> P"
  shows "fst (get_metadata C p True s) = Inl Hang"
proof -
  obtain md where md: "is_absolute p" "names s p = Some md" "is_link md" "md_target_path md \<in> P"
    using assms(2,3) by (auto simp: link_cycle_def)
  obtain n where n: "stat_metadata C p (fs_net s) = (Inr (Inr md), n)" "inv n" "ns n = names s"
    using stat_ok [OF assms(1) md(1)] md(2) by auto
  have "follow_links C md n = None"
    using follow_cycle [OF _ refl assms(2) md(3,4) n(2,3)] by (cases "follow_links C md n") auto
  then show ?thesis by (simp add: get_metadata_follow stat_follow_def n(1))
qed

end

text \<open>What \<open>stat\<close> answers about an entry that is not a link.\<close>

definition stat_of :: "'n gaofs_ctx \<Rightarrow> path \<Rightarrow> metadata \<Rightarrow> stat_buf" where
  "stat_of X p md = projr (metadata_to_stat X p md)"

lemma resolves_no_link: "resolves N p r \<Longrightarrow> r = Some md \<Longrightarrow> \<not> is_link md"
  by (induction rule: resolves.induct) auto

lemma metadata_to_stat_ok: "\<not> is_link md \<Longrightarrow> metadata_to_stat X p md = Inr (stat_of X p md)"
  by (simp add: stat_of_def metadata_to_stat_def Let_def)

context meta_service
begin

lemma gaofs_stat_resolves:
  assumes "sound s" "is_absolute p" "resolves (names s) p r" "ctx_client X = C"
  shows "outcome s (gaofs_stat X p True)
    (case r of None \<Rightarrow> (- 1, None) | Some md \<Rightarrow> (0, Some (stat_of X p md)))
    (if r = None then ENOENT else fs_errno s) (names s)"
proof (cases r)
  case None
  show ?thesis unfolding gaofs_stat_def assms(4)
    by (rule outcome_bind [OF get_metadata_resolves [OF assms(1-3)]]) (simp add: None outcome_cret)
next
  case (Some md)
  then have st: "clift (metadata_to_stat X p md) = cret (stat_of X p md)"
    using metadata_to_stat_ok resolves_no_link [OF assms(3)] by (auto simp: clift_def cret_def)
  have ret: "cbind (cret x) f = f x" for x and f :: "'a \<Rightarrow> ('s, 'b) cmd"
    by (simp add: cbind_def cret_def)
  show ?thesis unfolding gaofs_stat_def assms(4)
    by (rule outcome_bind [OF get_metadata_resolves [OF assms(1-3)]]) (simp add: Some st ret outcome_cret)
qed

lemma gaofs_stat_cycle:
  assumes "sound s" "link_cycle (names s) P" "p \<in> P" "ctx_client X = C"
  shows "fst (gaofs_stat X p True s) = Inl Hang"
  using get_metadata_cycle [OF assms(1-3)]
  by (cases "get_metadata C p True s") (simp add: gaofs_stat_def assms(4) cmd_simps)

end

end
