(* ===== verification/Data_Service.thy ===== *)
theory Data_Service
  imports Daemon_Data Meta_Service
begin

text \<open>
  The interface between the client and the daemons' data: \<open>data_service\<close> states, over the content
  of the files (partial functions from positions to characters), what the client's reads and
  writes rely on. The lemmas on the client's calls are proved inside the locale; the cluster of
  daemons provides it (theory \<open>File_Data\<close>).
\<close>

section \<open>Contents\<close>

text \<open>The content after a write: the bytes of the buffer, and NULs in the gap that a write behind
  the end of a chunk leaves inside that chunk.\<close>

definition written :: "nat \<Rightarrow> bytes \<Rightarrow> (nat \<Rightarrow> char option) \<Rightarrow> nat \<Rightarrow> char option" where
  "written off buf f x =
    (if off \<le> x \<and> x < off + length buf then Some (buf ! (x - off))
     else if f x = None \<and> buf \<noteq> [] \<and> x < off \<and> x div 524288 = off div 524288 then Some NUL
     else f x)"

text \<open>The buffer after a read: the bytes there are, the others as they were; and their number.\<close>

definition filled :: "nat \<Rightarrow> (nat \<Rightarrow> char option) \<Rightarrow> bytes \<Rightarrow> bytes" where
  "filled off f buf = map (\<lambda>x. case f (off + x) of None \<Rightarrow> buf ! x | Some c \<Rightarrow> c) [0..<length buf]"

definition present :: "nat \<Rightarrow> (nat \<Rightarrow> char option) \<Rightarrow> nat \<Rightarrow> nat" where
  "present off f n = length (filter (\<lambda>x. f (off + x) \<noteq> None) [0..<n])"

text \<open>A write the first chunk survives: it is stored as a C string.\<close>

definition first_chunk_safe :: "nat \<Rightarrow> bytes \<Rightarrow> (nat \<Rightarrow> char option) \<Rightarrow> bool" where
  "first_chunk_safe off buf f \<longleftrightarrow>
     (off < 524288 \<longrightarrow> NUL \<notin> set (take (524288 - off) buf) \<and> (\<forall>x < off. f x \<noteq> None))"

lemma written_Nil [simp]: "written off [] f = f"
  by (auto simp: fun_eq_iff written_def)

lemma written_append: "written (off + length a) b (written off a f) = written off (a @ b) f"
proof (cases "a = []")
  case False
  have gap: "x div 524288 = off div 524288"
    if "x < off" "x div 524288 = (off + length a) div 524288" for x
    using that div_le_mono [of x off 524288] div_le_mono [of off "off + length a" 524288] by simp
  show ?thesis
    using False gap by (auto simp: fun_eq_iff written_def nth_append)
qed simp

lemma first_chunk_safe_append:
  assumes "first_chunk_safe off (a @ b) f"
  shows "first_chunk_safe off a f" "first_chunk_safe (off + length a) b (written off a f)"
proof -
  show "first_chunk_safe off a f" using assms by (simp add: first_chunk_safe_def)
  show "first_chunk_safe (off + length a) b (written off a f)"
    using assms by (auto simp: first_chunk_safe_def written_def diff_diff_eq)
qed

lemma present_written: "present off (written off buf f) (length buf) = length buf"
  by (simp add: present_def written_def cong: filter_cong)

lemma filled_written: "length rbuf = length buf \<Longrightarrow> filled off (written off buf f) rbuf = buf"
  by (rule nth_equalityI) (auto simp: filled_def written_def)

section \<open>The interface\<close>

locale data_service =
  fixes C :: "'n client" and ns :: "'n \<Rightarrow> namespace" and content :: "'n \<Rightarrow> path \<Rightarrow> nat \<Rightarrow> char option"
    and inv :: "'n \<Rightarrow> bool"
  assumes sized: "inv n \<Longrightarrow> ns n p = Some md \<Longrightarrow> new = max (md_size md) (sz + off) \<Longrightarrow> unat new < 2 ^ 63 \<Longrightarrow>
      \<exists>n'. forward_update_metadentry_size C p sz off False n = (Inr (0, off + sz), n') \<and> inv n' \<and>
        ns n' = (ns n)(p \<mapsto> md\<lparr>md_size := new\<rparr>) \<and> content n' = content n"
    and wrote: "inv n \<Longrightarrow> data_path p \<Longrightarrow> valid_range off sz \<Longrightarrow> length buf = unat sz \<Longrightarrow>
      first_chunk_safe (unat off) buf (content n p) \<Longrightarrow>
      \<exists>n'. forward_write C p buf False a sz (off + sz) n = (Inr (0, sz), n') \<and> inv n' \<and> ns n' = ns n \<and>
        content n' p = written (unat off) buf (content n p) \<and>
        (\<forall>q. apart p q \<longrightarrow> content n' q = content n q)"
    and fetched: "inv n \<Longrightarrow> data_path p \<Longrightarrow> valid_range off sz \<Longrightarrow> length buf = unat sz \<Longrightarrow>
      \<exists>n'. forward_read C p buf off sz n =
          (Inr (0, of_nat (present (unat off) (content n p) (unat sz)), filled (unat off) (content n p) buf), n') \<and>
        inv n' \<and> ns n' = ns n \<and> content n' = content n"

section \<open>The client's calls\<close>

text \<open>An open regular file whose writes go where they are told.\<close>

definition plain_file :: "open_file \<Rightarrow> path \<Rightarrow> bool" where
  "plain_file f p \<longleftrightarrow> of_type f = Regular \<and> \<not> get_flag Append f \<and> of_path f = p \<and> data_path p"

definition grown :: "namespace \<Rightarrow> path \<Rightarrow> u64 \<Rightarrow> namespace" where
  "grown N p sz = N(p := map_option (\<lambda>md. md\<lparr>md_size := max (md_size md) sz\<rparr>) (N p))"

lemma sint_of_nat64: "k < 2 ^ 63 \<Longrightarrow> sint (of_nat k :: u64) = int k"
  by (subst sint_small64) (simp_all add: unat_of_nat64)

lemma max_lt: "unat (a :: u64) < m \<Longrightarrow> unat b < m \<Longrightarrow> unat (max a b) < m"
  by (simp add: max_def)

context data_service
begin

text \<open>What a write leaves: the state of the daemons, nothing of the client.\<close>

definition writes_to :: "'n \<Rightarrow> path \<Rightarrow> nat \<Rightarrow> bytes \<Rightarrow> 'n \<Rightarrow> bool" where
  "writes_to n p off buf n' \<longleftrightarrow> inv n' \<and>
     ns n' = (if buf = [] then ns n else grown (ns n) p (of_nat (off + length buf))) \<and>
     content n' p = written off buf (content n p) \<and> (\<forall>q. apart p q \<longrightarrow> content n' q = content n q)"

lemma writes_to_append:
  assumes "writes_to n p off a n'" "writes_to n' p (off + length a) b n''" "off + length a + length b < 2 ^ 63"
  shows "writes_to n p off (a @ b) n''"
proof -
  have "max (of_nat (off + length a)) (of_nat (off + length a + length b)) =
      (of_nat (off + length a + length b) :: u64)"
    using assms(3) by (simp add: max_def word_le_nat_alt unat_of_nat64 del: of_nat_add)
  then have "grown (grown N p (of_nat (off + length a))) p (of_nat (off + length a + length b)) =
      grown N p (of_nat (off + length a + length b))" for N
    by (auto simp: grown_def fun_eq_iff option.map_comp comp_def max.assoc simp del: of_nat_add
        intro!: option.map_cong)
  then show ?thesis
    using assms(1,2) by (auto simp: writes_to_def written_append add.assoc)
qed

lemma pwrite_ok:
  assumes "inv (fs_net s)" "plain_file f p" "ns (fs_net s) p = Some md" "unat (md_size md) < 2 ^ 63"
    "buf \<noteq> []" "unat offset + length buf < 2 ^ 63"
    "first_chunk_safe (unat offset) buf (content (fs_net s) p)"
  shows "\<exists>n. gaofs_pwrite C f buf offset s = (Inr (int (length buf)), s\<lparr>fs_net := n\<rparr>) \<and>
    writes_to (fs_net s) p (unat offset) buf n"
proof -
  define sz where "sz = (of_nat (length buf) :: u64)"
  have sz: "unat sz = length buf" using assms(6) by (simp add: sz_def unat_of_nat64)
  have sum: "unat (sz + offset) = unat offset + length buf"
    using assms(6) sz by (subst unat_add64) simp_all
  have f: "of_type f = Regular" "\<not> get_flag Append f" "of_path f = p" "data_path p"
    using assms(2) by (auto simp: plain_file_def)
  have vr: "valid_range offset sz"
    using assms(5,6) sz by (auto simp: valid_range_def word_eq_unat64)
  define new where "new = max (md_size md) (sz + offset)"
  have new: "unat new < 2 ^ 63" unfolding new_def using assms(4,6) sum by (intro max_lt) simp_all
  obtain n1 where n1: "forward_update_metadentry_size C p sz offset False (fs_net s) = (Inr (0, offset + sz), n1)"
      "inv n1" "ns n1 = (ns (fs_net s))(p \<mapsto> md\<lparr>md_size := new\<rparr>)" "content n1 = content (fs_net s)"
    using sized [OF assms(1,3) new_def new] by blast
  obtain n2 where n2: "forward_write C p buf False offset sz (offset + sz) n1 = (Inr (0, sz), n2)"
      "inv n2" "ns n2 = ns n1" "content n2 p = written (unat offset) buf (content n1 p)"
      "\<forall>q. apart p q \<longrightarrow> content n2 q = content n1 q"
    using wrote [OF n1(2) f(4) vr, of buf offset] sz assms(7) n1(4) by auto
  have end1: "sz + offset = of_nat (unat offset + length buf)" using sum by (intro word_of_nat_eqI) simp
  have "gaofs_pwrite C f buf offset s = (Inr (int (length buf)), s\<lparr>fs_net := n2\<rparr>)"
    using n1(1) n2(1) f assms(6)
    by (simp add: gaofs_pwrite_def Let_def cmd_simps on_net_apply sint_of_nat64 sz_def [symmetric])
      (simp add: sz_def sint_of_nat64)
  then show ?thesis
    using n1 n2 assms(3,5) by (auto simp: writes_to_def grown_def new_def end1 simp del: of_nat_add)
qed

end

text \<open>Several buffers are written as their concatenation would be.\<close>

context data_service
begin

lemma pwritev_loop_ok:
  assumes "inv (fs_net s)" "plain_file f p" "ns (fs_net s) p = Some md" "unat (md_size md) < 2 ^ 63"
    "unat pos + length (concat iov) < 2 ^ 63" "first_chunk_safe (unat pos) (concat iov) (content (fs_net s) p)"
  shows "\<exists>n. pwritev_loop C f iov pos w s = (Inr (w + of_nat (length (concat iov))), s\<lparr>fs_net := n\<rparr>) \<and>
    writes_to (fs_net s) p (unat pos) (concat iov) n"
  using assms(1,3-)
proof (induction iov arbitrary: s md pos w)
  case Nil
  then show ?case by (intro exI [of _ "fs_net s"]) (simp add: writes_to_def cmd_simps)
next
  case (Cons buf iov)
  show ?case
  proof (cases "buf = []")
    case True
    then show ?thesis using Cons.IH [OF Cons.prems(1-3)] Cons.prems(4,5) by simp
  next
    case False
    have safe: "first_chunk_safe (unat pos) buf (content (fs_net s) p)"
        "first_chunk_safe (unat pos + length buf) (concat iov) (written (unat pos) buf (content (fs_net s) p))"
      using first_chunk_safe_append [of "unat pos" buf "concat iov"] Cons.prems(5) by simp_all
    obtain n1 where n1: "gaofs_pwrite C f buf pos s = (Inr (int (length buf)), s\<lparr>fs_net := n1\<rparr>)"
        "writes_to (fs_net s) p (unat pos) buf n1"
      using pwrite_ok [OF Cons.prems(1) assms(2) Cons.prems(2,3) False _ safe(1)] Cons.prems(4) by auto
    define md1 where "md1 = md\<lparr>md_size := max (md_size md) (of_nat (unat pos + length buf))\<rparr>"
    have n1': "inv n1" "ns n1 p = Some md1" "content n1 p = written (unat pos) buf (content (fs_net s) p)"
      using n1(2) False Cons.prems(2) by (auto simp: writes_to_def grown_def md1_def)
    have md1: "unat (md_size md1) < 2 ^ 63"
      using Cons.prems(3,4) by (auto simp: md1_def unat_of_nat64 intro!: max_lt simp del: of_nat_add)
    have pos: "unat (pos + of_nat (length buf)) = unat pos + length buf"
      using Cons.prems(4) by (subst unat_add64) (simp_all add: unat_of_nat64)
    obtain n2 where n2: "pwritev_loop C f iov (pos + of_nat (length buf)) (w + of_nat (length buf)) (s\<lparr>fs_net := n1\<rparr>) =
        (Inr (w + of_nat (length buf) + of_nat (length (concat iov))), s\<lparr>fs_net := n2\<rparr>)"
        "writes_to n1 p (unat pos + length buf) (concat iov) n2"
      using Cons.IH [of "s\<lparr>fs_net := n1\<rparr>" md1 "pos + of_nat (length buf)" "w + of_nat (length buf)"]
        n1' md1 Cons.prems(4) safe(2) by (auto simp: pos)
    have "writes_to (fs_net s) p (unat pos) (concat (buf # iov)) n2"
      using writes_to_append [OF n1(2) n2(2)] Cons.prems(4) by simp
    moreover have "pwritev_loop C f (buf # iov) pos w s =
        (Inr (w + of_nat (length (concat (buf # iov)))), s\<lparr>fs_net := n2\<rparr>)"
      using n1(1) n2(1) False by (simp add: cmd_simps add.assoc)
    ultimately show ?thesis by blast
  qed
qed

lemma pwritev_ok:
  assumes "inv (fs_net s)" "get_file fd (fs_files s) = Some f" "plain_file f p" "ns (fs_net s) p = Some md"
    "unat (md_size md) < 2 ^ 63" "concat iov \<noteq> []" "unat pos + length (concat iov) < 2 ^ 63"
    "first_chunk_safe (unat pos) (concat iov) (content (fs_net s) p)"
  shows "\<exists>n. gaofs_pwritev C fd iov pos s = (Inr (int (length (concat iov))), s\<lparr>fs_net := n\<rparr>) \<and>
    writes_to (fs_net s) p (unat pos) (concat iov) n"
proof -
  obtain n where n: "pwritev_loop C f iov pos 0 s = (Inr (of_nat (length (concat iov))), s\<lparr>fs_net := n\<rparr>)"
      "writes_to (fs_net s) p (unat pos) (concat iov) n"
    using pwritev_loop_ok [OF assms(1,3-5,7,8), of 0] by auto
  have "length (concat iov) < 2 ^ 63" using assms(7) by simp
  then have "(of_nat (length (concat iov)) :: u64) \<noteq> 0"
      "sint (of_nat (length (concat iov)) :: u64) = int (length (concat iov))"
    using assms(6) by (auto simp: word_eq_unat64 unat_of_nat64 sint_of_nat64 simp del: length_concat)
  then show ?thesis
    using n assms(2) by (intro exI [of _ n]) (simp add: gaofs_pwritev_def with_file_def cmd_simps del: length_concat)
qed

lemma pread_ok:
  assumes "inv (fs_net s)" "plain_file f p" "buf \<noteq> []" "unat offset + length buf < 2 ^ 63"
  shows "\<exists>n. gaofs_pread C f buf offset s =
      (Inr (int (present (unat offset) (content (fs_net s) p) (length buf)),
         filled (unat offset) (content (fs_net s) p) buf), s\<lparr>fs_net := n\<rparr>) \<and>
    inv n \<and> ns n = ns (fs_net s) \<and> content n = content (fs_net s)"
proof -
  define sz where "sz = (of_nat (length buf) :: u64)"
  have sz: "unat sz = length buf" using assms(4) by (simp add: sz_def unat_of_nat64)
  have f: "of_type f = Regular" "of_path f = p" "data_path p" using assms(2) by (auto simp: plain_file_def)
  have vr: "valid_range offset sz"
    using assms(3,4) sz by (auto simp: valid_range_def word_eq_unat64)
  let ?k = "present (unat offset) (content (fs_net s) p) (length buf)"
  have "?k \<le> length buf" unfolding present_def by (rule order_trans [OF length_filter_le]) simp
  then have k: "sint (of_nat ?k :: u64) = int ?k" using assms(4) by (intro sint_of_nat64) simp
  obtain n where n: "forward_read C p buf offset sz (fs_net s) =
        (Inr (0, of_nat ?k, filled (unat offset) (content (fs_net s) p) buf), n)"
      "inv n" "ns n = ns (fs_net s)" "content n = content (fs_net s)"
    using fetched [OF assms(1) f(3) vr, of buf] sz by auto
  then show ?thesis
    using f k by (intro exI [of _ n]) (simp add: gaofs_pread_def cmd_simps on_net_apply sz_def [symmetric])
qed

end

end
