(* ===== verification/Dirents.thy ===== *)
theory Dirents
  imports Forward_Metadata
begin

text \<open>
  The two ends of a directory listing: the buffer the daemon packs (\<open>rpc_srv_get_dirents\<close>) and the
  client's loop that unpacks it (\<open>forward_get_dirents\<close>).
\<close>

section \<open>The packed buffer\<close>

definition names_text :: "string list \<Rightarrow> bytes" where
  "names_text ns = concat (map (\<lambda>n. n @ [NUL]) ns)"

lemma names_text_simps [simp]:
  "names_text [] = []" "names_text (n # ns) = n @ NUL # names_text ns"
  by (simp_all add: names_text_def)

lemma length_names_text: "length (names_text ns) = sum_list (map length ns) + length ns"
  by (induction ns) simp_all

lemma overwrite_at_end:
  "length b \<le> length r \<Longrightarrow> overwrite (length a) b (a @ r) = a @ b @ drop (length b) r"
  by (simp add: overwrite_def)

lemma pack_names_text:
  assumes "\<And>n. n \<in> set ns \<Longrightarrow> NUL \<notin> set n" "length (names_text ns) \<le> k"
  shows "pack_names ns (length a) (a @ replicate k NUL) =
    a @ names_text ns @ replicate (k - length (names_text ns)) NUL"
  using assms
proof (induction ns arbitrary: a k)
  case (Cons n ns)
  let ?b = "a @ n @ [NUL]"
  have "strcpy_at (length a) n (a @ replicate k NUL) = ?b @ replicate (k - (length n + 1)) NUL"
    using Cons.prems by (simp add: strcpy_at_def overwrite_at_end)
  moreover have "length a + length n + 1 = length ?b" by simp
  ultimately show ?case
    using Cons.IH [of "k - (length n + 1)" ?b] Cons.prems by simp
qed simp

definition kind_bytes :: "bool list \<Rightarrow> bytes" where
  "kind_bytes ks = map bool_byte ks"

lemma pack_dirents_text:
  assumes "\<And>e. e \<in> set es \<Longrightarrow> NUL \<notin> set (fst e)"
  shows "pack_dirents es = kind_bytes (map snd es) @ names_text (map fst es)"
proof -
  let ?k = "map (\<lambda>e. bool_byte (snd e)) es" and ?t = "names_text (map fst es)"
  define out where "out = sum_list (map (\<lambda>e. length (fst e)) es) + length es * (1 + 1)"
  have out: "out = length ?k + length ?t"
    by (simp add: out_def length_names_text comp_def)
  have "overwrite 0 ?k (replicate out NUL) = ?k @ replicate (length ?t) NUL"
    using out overwrite_at_end [of ?k "replicate out NUL" "[]"] by simp
  then have "pack_dirents es = pack_names (map fst es) (length ?k) (?k @ replicate (length ?t) NUL)"
    unfolding pack_dirents_def Let_def out_def [symmetric] by simp
  also have "\<dots> = ?k @ ?t @ replicate (length ?t - length ?t) NUL"
    by (rule pack_names_text) (use assms in auto)
  finally show ?thesis by (simp add: kind_bytes_def comp_def)
qed

section \<open>Unpacking\<close>

definition file_type_of :: "bool \<Rightarrow> file_type" where
  "file_type_of b = (if b then Directory else Regular)"

lemma c_str_stop: "NUL \<notin> set n \<Longrightarrow> c_str (n @ NUL # r) = n"
  by (simp add: c_str_def takeWhile_append)

lemma unpack_dirents_text:
  assumes "\<And>e. e \<in> set es \<Longrightarrow> NUL \<notin> set (fst e)" "0 < pos"
    "drop pos buf = names_text (map fst es) @ rest" "\<And>i. i < length es \<Longrightarrow> buf ! (j + i) = bool_byte (snd (es ! i))"
  shows "unpack_dirents buf j pos (length es) = Inr (map (\<lambda>(n, b). (n, file_type_of b)) es)"
  using assms
proof (induction es arbitrary: j pos)
  case (Cons e es)
  obtain n b where e: "e = (n, b)" by force
  have d: "drop pos buf = n @ NUL # names_text (map fst es) @ rest" using Cons.prems(3) e by simp
  then have p: "pos < length buf" by (metis append_is_Nil_conv drop_eq_Nil2 leI list.distinct(1))
  have "drop (pos + length n + 1) buf = drop (Suc (length n)) (drop pos buf)" by (simp add: add.commute)
  also have "\<dots> = names_text (map fst es) @ rest" by (simp add: d)
  finally have d': "drop (pos + length n + 1) buf = names_text (map fst es) @ rest" .
  have "unpack_dirents buf (Suc j) (pos + length n + 1) (length es) =
      Inr (map (\<lambda>(n, b). (n, file_type_of b)) es)"
    by (rule Cons.IH) (use Cons.prems(1,4) d' in \<open>force+\<close>)
  moreover have "c_str (drop pos buf) = n" using d Cons.prems(1) [of e] e by (simp add: c_str_stop)
  moreover have "(buf ! j \<noteq> NUL) = b" using Cons.prems(4) [of 0] e by (simp add: bool_byte_def)
  ultimately show ?case using Cons.prems(2) p e by (simp add: file_type_of_def Let_def)
qed simp

text \<open>What arrives in a larger buffer.\<close>

lemma unpack_pack_dirents:
  assumes "\<And>e. e \<in> set es \<Longrightarrow> NUL \<notin> set (fst e)" "es \<noteq> []"
  shows "unpack_dirents (pack_dirents es @ rest) 0 (length es) (length es) =
    Inr (map (\<lambda>(n, b). (n, file_type_of b)) es)"
proof (rule unpack_dirents_text [OF assms(1)])
  show "drop (length es) (pack_dirents es @ rest) = names_text (map fst es) @ rest"
    by (simp add: pack_dirents_text [OF assms(1)] kind_bytes_def)
  show "(pack_dirents es @ rest) ! (0 + i) = bool_byte (snd (es ! i))" if "i < length es" for i
    using that by (simp add: pack_dirents_text [OF assms(1)] kind_bytes_def nth_append)
qed (use assms(2) in auto)

section \<open>The extended layout\<close>

lemma length_word_bytes [simp]: "length (word_bytes w) = 8"
  by (simp add: word_bytes_def)

lemma of_char_char_of_lt: "n < 256 \<Longrightarrow> (of_char (char_of n :: char) :: nat) = n"
  by simp

lemma word_digit: "unat (drop_bit k w AND (255 :: u64)) = unat w div 2 ^ k mod 256"
proof -
  have m: "(255 :: u64) = mask 8" by (simp add: mask_eq_exp_minus_1)
  have "drop_bit k w AND (255 :: u64) = take_bit 8 (drop_bit k w)" by (simp only: take_bit_eq_mask m)
  also have "unat \<dots> = take_bit 8 (drop_bit k (unat w))"
    using unat_lt64 [of w] by (simp add: unsigned_take_bit_eq unsigned_drop_bit_eq take_bit_nat_eq_self)
  finally show ?thesis by (simp only: take_bit_eq_mod drop_bit_eq_div) simp
qed

lemma digits_value:
  "foldr (\<lambda>i n. m div 256 ^ i mod 256 + 256 * n) [0..<k] 0 = (m :: nat) mod 256 ^ k"
proof (induction k arbitrary: m)
  case (Suc k)
  have u: "[0..<Suc k] = 0 # map Suc [0..<k]" by (simp add: map_Suc_upt upt_conv_Cons del: upt_Suc)
  have "foldr (\<lambda>i n. m div 256 ^ i mod 256 + 256 * n) [0..<Suc k] 0 =
      m mod 256 + 256 * foldr (\<lambda>i n. m div 256 ^ Suc i mod 256 + 256 * n) [0..<k] 0"
    unfolding u by (simp add: foldr_map comp_def)
  also have "(\<lambda>i n. m div 256 ^ Suc i mod 256 + 256 * n) = (\<lambda>i n. (m div 256) div 256 ^ i mod 256 + 256 * n)"
    by (simp add: div_mult2_eq)
  also have "m mod 256 + 256 * foldr (\<lambda>i n. (m div 256) div 256 ^ i mod 256 + 256 * n) [0..<k] 0 =
      m mod 256 + 256 * (m div 256 mod 256 ^ k)"
    by (simp only: Suc.IH)
  also have "\<dots> = m mod 256 ^ Suc k" by (simp add: mod_mult2_eq)
  finally show ?case .
qed simp

lemma bytes_word_bytes [simp]: "bytes_word (word_bytes w) = w"
proof -
  have "foldr (\<lambda>b n. of_char b + 256 * n) (word_bytes w) 0 =
      foldr (\<lambda>i n. unat w div 256 ^ i mod 256 + 256 * n) [0..<8] (0 :: nat)"
    unfolding word_bytes_def foldr_map
    by (intro foldr_cong) (simp_all add: comp_def word_digit power_mult)
  also have "\<dots> = unat w mod 256 ^ 8" by (rule digits_value)
  also have "\<dots> = unat w" using unat_lt64 [of w] by simp
  finally show ?thesis by (simp add: bytes_word_def)
qed

definition words_text :: "u64 list \<Rightarrow> bytes" where
  "words_text ws = concat (map word_bytes ws)"

lemma length_words_text [simp]: "length (words_text ws) = 8 * length ws"
  by (induction ws) (simp_all add: words_text_def)

lemma words_text_nth: "i < length ws \<Longrightarrow> take 8 (drop (8 * i) (words_text ws @ r)) = word_bytes (ws ! i)"
proof (induction ws arbitrary: i)
  case (Cons w ws)
  then show ?case by (cases i) (simp_all add: words_text_def)
qed simp

lemma overwrite_zeros:
  assumes "k = length a" "length b \<le> n"
  shows "overwrite k b (a @ replicate n NUL) = (a @ b) @ replicate (n - length b) NUL"
  using overwrite_at_end [of b "replicate n NUL" a] assms by simp

lemma pack_extended_text:
  assumes "\<And>e. e \<in> set es \<Longrightarrow> NUL \<notin> set (fst e)"
  shows "pack_dirents_extended es = kind_bytes (map (\<lambda>e. fst (snd e)) es) @
    words_text (map (\<lambda>e. fst (snd (snd e))) es) @ words_text (map (\<lambda>e. snd (snd (snd e))) es) @
    names_text (map fst es)"
proof -
  define n where "n = length es"
  define k where "k = kind_bytes (map (\<lambda>e. fst (snd e)) es)"
  define a where "a = words_text (map (\<lambda>e. fst (snd (snd e))) es)"
  define b where "b = words_text (map (\<lambda>e. snd (snd (snd e))) es)"
  define t where "t = names_text (map fst es)"
  have l: "length k = n" "length a = 8 * n" "length b = 8 * n"
    by (simp_all add: k_def a_def b_def kind_bytes_def n_def)
  have out: "sum_list (map (\<lambda>e. length (fst e)) es) + n * (1 + 1 + 8 + 8) = 17 * n + length t"
    by (simp add: t_def length_names_text comp_def n_def)
  have 1: "overwrite 0 k (replicate (17 * n + length t) NUL) = k @ replicate (16 * n + length t) NUL"
    using overwrite_zeros [of 0 "[]" k "17 * n + length t"] l by simp
  have 2: "overwrite n a (k @ replicate (16 * n + length t) NUL) =
      (k @ a) @ replicate (8 * n + length t) NUL"
    using overwrite_zeros [of n k a "16 * n + length t"] l by simp
  have 3: "overwrite (n * (1 + 8)) b ((k @ a) @ replicate (8 * n + length t) NUL) =
      (k @ a @ b) @ replicate (length t) NUL"
    using overwrite_zeros [of "n * (1 + 8)" "k @ a" b "8 * n + length t"] l by simp
  have 4: "pack_names (map fst es) (n * (1 + 8 + 8)) ((k @ a @ b) @ replicate (length t) NUL) =
      (k @ a @ b) @ t @ replicate (length t - length t) NUL"
  proof -
    have p: "n * (1 + 8 + 8) = length (k @ a @ b)" using l by simp
    show ?thesis unfolding p t_def by (rule pack_names_text) (use assms in auto)
  qed
  have "pack_dirents_extended es = pack_names (map fst es) (n * (1 + 8 + 8))
      (overwrite (n * (1 + 8)) b (overwrite n a (overwrite 0 k (replicate (17 * n + length t) NUL))))"
    unfolding pack_dirents_extended_def Let_def n_def [symmetric] out
    by (simp add: k_def a_def b_def kind_bytes_def words_text_def comp_def)
  then show ?thesis unfolding 1 2 3 4 by (simp add: k_def a_def b_def t_def)
qed

lemma unpack_names_text:
  assumes "\<And>n. n \<in> set ns \<Longrightarrow> NUL \<notin> set n" "drop pos buf = names_text ns @ rest"
  shows "unpack_names buf pos (length ns) = ns"
  using assms
proof (induction ns arbitrary: pos)
  case (Cons n ns)
  have "drop (pos + length n + 1) buf = drop (Suc (length n)) (drop pos buf)" by (simp add: add.commute)
  also have "\<dots> = names_text ns @ rest" using Cons.prems(2) by simp
  finally have d: "drop (pos + length n + 1) buf = names_text ns @ rest" .
  have "c_str (drop pos buf) = n" using Cons.prems by (simp add: c_str_stop)
  then show ?case using Cons.IH [OF _ d] Cons.prems(1) by (simp add: Let_def)
qed simp

lemma unpack_pack_extended:
  assumes "\<And>e. e \<in> set es \<Longrightarrow> NUL \<notin> set (fst e)"
  shows "unpack_dirents_extended (pack_dirents_extended es @ rest) (length es) = Inr es"
proof -
  define n where "n = length es"
  define k where "k = kind_bytes (map (\<lambda>e. fst (snd e)) es)"
  define a where "a = words_text (map (\<lambda>e. fst (snd (snd e))) es)"
  define b where "b = words_text (map (\<lambda>e. snd (snd (snd e))) es)"
  define t where "t = names_text (map fst es)"
  define buf where "buf = pack_dirents_extended es @ rest"
  have buf: "buf = k @ a @ b @ t @ rest"
    by (simp add: buf_def pack_extended_text [OF assms] k_def a_def b_def t_def)
  have l: "length k = n" "length a = 8 * n" "length b = 8 * n"
    by (simp_all add: k_def a_def b_def kind_bytes_def n_def)
  have names: "unpack_names buf (n * 17) n = map fst es"
  proof -
    have "unpack_names buf (n * 17) (length (map fst es)) = map fst es"
      by (rule unpack_names_text [where rest = rest]) (use assms l in \<open>auto simp: buf t_def\<close>)
    then show ?thesis by (simp add: n_def)
  qed
  have kind: "buf ! j \<noteq> NUL \<longleftrightarrow> fst (snd (es ! j))" if "j < n" for j
    using that l by (simp add: buf nth_append k_def kind_bytes_def n_def bool_byte_def)
  have sz: "bytes_word (take 8 (drop (n + 8 * j) buf)) = fst (snd (snd (es ! j)))" if "j < n" for j
    using that l words_text_nth [of j "map (\<lambda>e. fst (snd (snd e))) es" "b @ t @ rest"]
    by (simp add: buf a_def n_def)
  have ct: "bytes_word (take 8 (drop (n * 9 + 8 * j) buf)) = snd (snd (snd (es ! j)))" if "j < n" for j
  proof -
    have "drop (n * 9 + 8 * j) buf = drop (8 * j) (b @ t @ rest)" using l that by (simp add: buf)
    then show ?thesis using that words_text_nth [of j "map (\<lambda>e. snd (snd (snd e))) es" "t @ rest"]
      by (simp add: b_def n_def)
  qed
  have fits: "n * 17 \<le> length buf" using l by (simp add: buf)
  have "map (\<lambda>(j, name). (name, buf ! j \<noteq> NUL, bytes_word (take 8 (drop (n + 8 * j) buf)),
      bytes_word (take 8 (drop (n * 9 + 8 * j) buf)))) (zip [0..<n] (map fst es)) = es"
    by (rule nth_equalityI) (auto simp: n_def [symmetric] kind sz ct)
  then show ?thesis
    unfolding unpack_dirents_extended_def buf_def [symmetric] n_def [symmetric]
    using fits by (simp add: names)
qed

section \<open>Property\<close>

text \<open>What the daemon packs for a directory listing the client unpacks, in both layouts and
  whatever its buffer holds behind the packed bytes: the same names in the same order with their
  kinds, and in the extended layout with their sizes and times.\<close>

lemma listing_round_trip:
  assumes "list_all (\<lambda>e. NUL \<notin> set (fst e)) es" "es \<noteq> []"
  shows "unpack_dirents_extended (pack_dirents_extended es @ rest) (length es) = Inr es \<and>
    unpack_dirents (pack_dirents (map (\<lambda>(n, k, sz, ct). (n, k)) es) @ rest) 0 (length es) (length es) =
      Inr (map (\<lambda>(n, k, sz, ct). (n, if k then Directory else Regular)) es)"
proof -
  have n: "NUL \<notin> set (fst e)" if "e \<in> set es" for e using assms(1) that by (auto simp: list_all_iff)
  let ?es = "map (\<lambda>(n, k, sz, ct). (n, k)) es"
  have "unpack_dirents (pack_dirents ?es @ rest) 0 (length ?es) (length ?es) =
      Inr (map (\<lambda>(n, b). (n, file_type_of b)) ?es)"
    by (rule unpack_pack_dirents) (use n assms(2) in force)+
  then show ?thesis using unpack_pack_extended [OF n]
    by (simp add: comp_def split_def file_type_of_def)
qed

lemma listing_round_trip_witness:
  "unpack_dirents (pack_dirents [(''a'', True), (''bc'', False)] @ ''xyz'') 0 2 2 =
     Inr [(''a'', Directory), (''bc'', Regular)]"
  using listing_round_trip [of "[(''a'', True, 0, 7), (''bc'', False, 12, 9)]" "''xyz''"]
  by (simp del: unpack_dirents.simps add: numeral_2_eq_2)

end
