(* ===== verification/Cluster.thy ===== *)
theory Cluster
  imports Meta_Service Dirents
begin

text \<open>
  A cluster of daemons behind a faultless network provides the interface \<open>meta_service\<close>: every
  entry lives on the daemon its path hashes to, so the daemons' namespaces together are one
  namespace. The end of the theory states what the client's operations do on it.
\<close>

section \<open>Listing a directory on one daemon\<close>

definition NUL_free :: "namespace \<Rightarrow> bool" where
  "NUL_free N \<longleftrightarrow> (\<forall>p. N p \<noteq> None \<longrightarrow> NUL \<notin> set p)"

lemma child_path_absolute: "valid_key dir \<Longrightarrow> is_absolute (child_path dir name)"
  by (auto simp: child_path_def is_absolute_def hd_append valid_key_def)

lemma bulk_ok:
  assumes "rpc_script d = []" "length src \<le> length dst" "length src < 2 ^ 64"
  shows "bulk_transfer src 0 dst 0 (of_nat (length src)) d = (Inr (Some (src @ drop (length src) dst)), d)"
  using assms
  by (simp add: bulk_transfer_def cmd_simps overwrite_def unsigned_of_nat take_bit_nat_eq_self)

lemma sum_list_plus_2:
  "(\<Sum>x \<leftarrow> xs. Suc (Suc (f x))) = length xs + (sum_list (map f xs) + length xs)"
  by (induction xs) simp_all

context daemon_store
begin

lemma dirents_ns:
  assumes "fit d" "valid_key dir"
  shows "\<exists>es. get_dirents E dir d = (Inr es, d) \<and> distinct (map fst es) \<and>
    set es = {(name, S_ISDIR (md_mode md)) | name md. name \<noteq> [] \<and> separator \<notin> set name \<and>
      ns d (child_path dir name) = Some md}"
proof -
  obtain es where es: "get_dirents E dir d = (Inr es, d)" "distinct (map fst es)"
      "set es = {(name, S_ISDIR (md_mode md)) | name md v. name \<noteq> [] \<and> separator \<notin> set name \<and>
        dval d (child_path dir name) = Some v \<and> deserialize cf v = Inr md}"
    using get_dirents_ok [OF fit_simps(1) [OF assms(1)] assms(2)] by blast
  have "ns d (child_path dir name) = Some md \<longleftrightarrow>
      (\<exists>v. dval d (child_path dir name) = Some v \<and> deserialize cf v = Inr md)" for name md
    using child_path_absolute [OF assms(2), of name]
    by (auto simp: daemon_ns_def namespace_of_def split: option.splits sum.splits)
  then show ?thesis using es by (intro exI [of _ es]) auto
qed

lemma listing_ok:
  assumes "fit d" "valid_key dir" "NUL_free (ns d)" "length client \<le> 8388608"
  shows "\<exists>e k buf. dispatch E (Req_get_dirents dir client) d = (Inr (Resp_dirents e k buf), d) \<and>
    finite (children (ns d) dir) \<and> (e = 0 \<or> e = ENOBUFS) \<and>
    (listing_size (children (ns d) dir) \<le> length client \<longrightarrow> e = 0) \<and>
    (e = 0 \<longrightarrow> (\<exists>es. unpack_dirents buf 0 (unat k) (unat k) = Inr es \<and> length es \<le> length client \<and>
       set es = children (ns d) dir))"
proof -
  obtain es where es: "get_dirents E dir d = (Inr es, d)"
      and dist: "distinct (map fst es)" and es_set: "set es = {(name, S_ISDIR (md_mode md)) | name md. name \<noteq> [] \<and> separator \<notin> set name \<and>
        ns d (child_path dir name) = Some md}"
    using dirents_ns [OF assms(1,2)] by blast
  let ?ts = "map (\<lambda>(n, b). (n, file_type_of b)) es"
  have kids: "set ?ts = children (ns d) dir"
    by (force simp: es_set children_def file_type_of_def image_iff)
  have nul: "NUL \<notin> set (fst e)" if "e \<in> set es" for e
  proof -
    have "\<exists>md. ns d (child_path dir (fst e)) = Some md" using that es_set by auto
    then show ?thesis using assms(3) by (auto simp: NUL_free_def child_path_def)
  qed
  let ?out = "pack_dirents es"
  have size: "listing_size (children (ns d) dir) = length ?out"
  proof -
    have "map fst ?ts = map fst es" by (simp add: comp_def split_def)
    then have d: "distinct ?ts" using dist by (metis distinct_map)
    have "listing_size (children (ns d) dir) = (\<Sum>e \<leftarrow> ?ts. length (fst e) + 2)"
      unfolding listing_size_def kids [symmetric] by (rule sum.distinct_set_conv_list [OF d])
    also have "\<dots> = length ?out"
      by (simp add: pack_dirents_text [OF nul] kind_bytes_def length_names_text comp_def split_def
          sum_list_plus_2)
    finally show ?thesis .
  qed
  have fin: "finite (children (ns d) dir)" unfolding kids [symmetric] by simp
  have len: "length es \<le> length ?out" by (simp add: pack_dirents_text [OF nul] kind_bytes_def)
  show ?thesis
  proof (cases "es = [] \<or> length client < length ?out")
    case True
    then show ?thesis using assms(1) es kids fin size
      by (auto simp: rpc_srv_get_dirents_def reply_dirents_def cmd_simps)
  next
    case False
    then have fit: "length ?out \<le> length client" "length ?out < 2 ^ 64" using assms(4) by auto
    have k: "unat (of_nat (length es) :: u64) = length es"
      using len fit by (simp add: unsigned_of_nat take_bit_nat_eq_self)
    have "dispatch E (Req_get_dirents dir client) d =
        (Inr (Resp_dirents 0 (of_nat (length es)) (?out @ drop (length ?out) client)), d)"
      using assms(1) es False bulk_ok [OF _ fit, of d]
      by (simp add: rpc_srv_get_dirents_def reply_dirents_def cmd_simps)
    moreover have "unpack_dirents (?out @ drop (length ?out) client) 0 (length es) (length es) = Inr ?ts"
      by (rule unpack_pack_dirents) (use nul False in auto)
    ultimately show ?thesis using kids len fit fin by (auto simp: k)
  qed
qed

end

section \<open>The cluster\<close>

definition cluster_client ::
    "'db daemon_env \<Rightarrow> (string \<Rightarrow> u64) \<Rightarrow> u32 \<Rightarrow> u32 \<Rightarrow> 'db cluster client" where
  "cluster_client E hash self n = \<lparr>cl_net = cluster_network E, cl_hash = hash,
     cl_distributor = SimpleHashDistributor self n, cl_hosts = n\<rparr>"

text \<open>The daemon of a path.\<close>

definition owner :: "(string \<Rightarrow> u64) \<Rightarrow> u32 \<Rightarrow> path \<Rightarrow> u32" where
  "owner hash n p = ucast (hash p mod ucast n)"

definition cluster_ns ::
    "('db \<Rightarrow> bytes \<rightharpoonup> bytes) \<Rightarrow> (string \<Rightarrow> u64) \<Rightarrow> u32 \<Rightarrow> 'db cluster \<Rightarrow> namespace" where
  "cluster_ns val hash n cl = (\<lambda>p. daemon_ns config_metadata val (cl (owner hash n p)) p)"

text \<open>All daemons are healthy, and an entry is only on the daemon of its path; but every daemon creates
  an entry of the root directory for itself when it starts.\<close>

definition cluster_ok ::
    "('db \<Rightarrow> bytes \<rightharpoonup> bytes) \<Rightarrow> ('db \<Rightarrow> bool) \<Rightarrow> (string \<Rightarrow> u64) \<Rightarrow> u32 \<Rightarrow> (u32 \<Rightarrow> metadata \<Rightarrow> metadata) \<Rightarrow>
     'db cluster \<Rightarrow> bool" where
  "cluster_ok val ok hash n stmp cl \<longleftrightarrow>
     (\<forall>h. h < n \<longrightarrow> healthy config_metadata val ok (cl h) \<and> stamp (cl h) = stmp h \<and>
        (\<forall>p. daemon_ns config_metadata val (cl h) p \<noteq> None \<longrightarrow>
          (owner hash n p = h \<or> p = [separator]) \<and> NUL \<notin> set p))"

lemma ucast_32_64_32 [simp]: "ucast (ucast (h :: u32) :: u64) = h"
  by (rule bit_word_eqI) (auto simp: bit_simps)

lemma owner_bound: "n \<noteq> 0 \<Longrightarrow> owner hash n p < n"
  using hash_mod_bound [of "hash p" n] by (simp add: hash_mod_def owner_def)

lemma ucast_less: "(ucast (h :: u32) :: u64) < ucast (n :: u32) \<longleftrightarrow> h < n"
  by (simp add: word_less_nat_alt unsigned_ucast_eq take_bit_nat_eq_self_iff
      order_less_trans [OF unsigned_less])

lemma cluster_client_sel [simp]:
  "cl_net (cluster_client E hash self n) = cluster_network E"
  "cl_hash (cluster_client E hash self n) = hash"
  "cl_distributor (cluster_client E hash self n) = SimpleHashDistributor self n"
  "cl_hosts (cluster_client E hash self n) = n"
  by (simp_all add: cluster_client_def)

lemma SimpleHashDistributor_sel [simp]:
  "d_hosts_size (SimpleHashDistributor self n) = n" "d_all_hosts (SimpleHashDistributor self n) = iota_hosts n"
  by (simp_all add: SimpleHashDistributor_def)

lemma cluster_meta_host:
  "n \<noteq> 0 \<Longrightarrow> meta_host (cluster_client E hash self n) p = Inr (ucast (owner hash n p))"
  by (simp add: meta_host_def locate_file_metadata_def hash_mod_def owner_def)

lemma cluster_host_at: "h < n \<Longrightarrow> host_at (cluster_client E hash self n) (ucast h) = Inr h"
  by (simp add: host_at_def ucast_less)

lemma cluster_net_sel [simp]:
  "net_expose (cluster_network E) = cret True" "net_send (cluster_network E) = cluster_send E"
  by (simp_all add: cluster_network_def)

lemma cluster_call:
  assumes "h < n" "dispatch E req (cl h) = (Inr resp, d)"
  shows "call_host (cluster_client E hash self n) (ucast h) req cl = (Inr (Some resp), cl(h := d))"
  by (simp add: call_host_def cmd_simps cluster_host_at [OF assms(1)] cluster_send_def assms(2))

locale cluster = rocksdb_contract config_metadata R val ok
  for R :: "'db rocksdb" and val :: "'db \<Rightarrow> bytes \<rightharpoonup> bytes" and ok :: "'db \<Rightarrow> bool" +
  fixes hash :: "string \<Rightarrow> u64" and stale :: "nat \<Rightarrow> int" and n :: u32 and self :: u32
    and stmp :: "u32 \<Rightarrow> metadata \<Rightarrow> metadata"
  assumes hosts: "n \<noteq> 0"

sublocale cluster \<subseteq> store: daemon_store "rocksdb_env config_metadata R hash stale" val ok
  by (rule rocksdb_daemon_store) (rule rocksdb_contract_axioms)

context cluster
begin

abbreviation "E \<equiv> rocksdb_env config_metadata R hash stale"
abbreviation "C \<equiv> cluster_client E hash self n"
abbreviation "cns \<equiv> cluster_ns val hash n"
abbreviation "cok \<equiv> cluster_ok val ok hash n stmp"
abbreviation "own \<equiv> owner hash n"

lemma cok_daemon:
  assumes "cok cl" "h < n"
  shows "healthy config_metadata val ok (cl h)" "stamp (cl h) = stmp h"
    "daemon_ns config_metadata val (cl h) p \<noteq> None \<Longrightarrow> (own p = h \<or> p = [separator]) \<and> NUL \<notin> set p"
  using assms by (auto simp: cluster_ok_def)

text \<open>A request at the daemon of its path.\<close>

lemma call_ok:
  assumes "cok cl" "meta_req (cns cl) req"
  shows "\<exists>cl'. call_meta C (req_path req) req cl =
      (Inr (Some (fst (meta_spec config_metadata (stmp (own (req_path req))) req (cns cl)))), cl') \<and>
    cok cl' \<and> cns cl' = snd (meta_spec config_metadata (stmp (own (req_path req))) req (cns cl))"
proof -
  define p where "p = req_path req"
  define h where "h = own p"
  have h: "h < n" using owner_bound hosts by (simp add: h_def)
  let ?N = "daemon_ns config_metadata val (cl h)"
  have same: "?N (req_path req) = cns cl (req_path req)" by (simp add: cluster_ns_def h_def p_def)
  have req: "meta_req ?N req" 
    using assms(2) meta_req_local [where N = ?N and M = "cns cl", OF same] by simp
  define spec where "spec = meta_spec config_metadata (stmp h) req ?N"
  obtain db st where d: "dispatch E req (cl h) = (Inr (fst spec), (cl h)\<lparr>d_mdb := db, storage := st\<rparr>)"
      "healthy config_metadata val ok ((cl h)\<lparr>d_mdb := db, storage := st\<rparr>)"
      "daemon_ns config_metadata val ((cl h)\<lparr>d_mdb := db, storage := st\<rparr>) = snd spec"
    using store.meta_request_impl [of "cl h" req] cok_daemon [OF assms(1) h] req
    by (auto simp: implements_def spec_def daemon_ns_def)
  define cl' where "cl' = cl(h := (cl h)\<lparr>d_mdb := db, storage := st\<rparr>)"
  note loc = meta_spec_local [where N = ?N and M = "cns cl" and cfg = config_metadata and st = "stmp h", OF same]
  have run: "call_meta C p req cl = (Inr (Some (fst spec)), cl')"
    using cluster_call [where cl = cl, OF h d(1)] by (simp add: call_meta_def cmd_simps cluster_meta_host hosts h_def cl'_def)
  have other: "q \<noteq> p \<Longrightarrow> snd spec q = ?N q" for q
    using meta_spec_local(3) [where N = ?N and M = ?N and cfg = config_metadata and st = "stmp h" and req = req, OF refl, of q]
    by (simp add: spec_def p_def)
  have "cns cl' q = snd (meta_spec config_metadata (stmp h) req (cns cl)) q" for q
  proof (cases "q = p")
    case True
    then show ?thesis using d(3) fun_cong [OF loc(2), of p]
      by (simp add: cluster_ns_def cl'_def h_def spec_def p_def)
  next
    case False
    have "snd (meta_spec config_metadata (stmp h) req (cns cl)) q = cns cl q"
      using loc(3) False by (simp add: p_def)
    then show ?thesis using d(3) other [OF False] by (simp add: cluster_ns_def cl'_def)
  qed
  then have ns': "cns cl' = snd (meta_spec config_metadata (stmp h) req (cns cl))" by blast
  have new: "(own q = h \<or> q = [separator]) \<and> NUL \<notin> set q" if "snd spec q \<noteq> None" for q
    using meta_spec_new [OF req, of config_metadata "stmp h" q] other [of q] that
      cok_daemon(3) [OF assms(1) h, of q] by (cases "q = p") (auto simp: spec_def h_def)
  have "cok cl'"
    unfolding cluster_ok_def cl'_def
    using cok_daemon [OF assms(1)] d(2,3) new by auto
  then show ?thesis using run ns' loc(1) by (auto simp: p_def h_def spec_def)
qed

end

lemma ucast_down_less: "(h :: u64) < ucast (n :: u32) \<Longrightarrow> (ucast h :: u32) < n"
proof -
  assume "h < ucast n"
  then have "unat h < unat n" by (simp add: word_less_nat_alt)
  then show "(ucast h :: u32) < n"
    using unat_ucast_64_32 [of h] mod_less_eq_dividend [of "unat h" "2 ^ 32"]
    by (simp add: word_less_nat_alt)
qed

context cluster
begin

text \<open>The removal of a file's data on one daemon, whichever it is.\<close>

lemma remove_data_at:
  assumes "cok cl" "h < n" "is_absolute p" "p \<noteq> [separator]"
  shows "\<exists>d. dispatch E (Req_remove_data p) (cl h) = (Inr (Resp_err 0), d) \<and> cok (cl(h := d)) \<and>
    cns (cl(h := d)) = cns cl"
proof -
  obtain db st where d: "dispatch E (Req_remove_data p) (cl h) =
        (Inr (Resp_err 0), (cl h)\<lparr>d_mdb := db, storage := st\<rparr>)"
      "healthy config_metadata val ok ((cl h)\<lparr>d_mdb := db, storage := st\<rparr>)"
      "daemon_ns config_metadata val ((cl h)\<lparr>d_mdb := db, storage := st\<rparr>) = daemon_ns config_metadata val (cl h)"
    using store.remove_data_impl [of "cl h" p] cok_daemon [OF assms(1,2)] assms(3,4)
    by (auto simp: implements_def daemon_ns_def)
  have "cok (cl(h := (cl h)\<lparr>d_mdb := db, storage := st\<rparr>))"
    unfolding cluster_ok_def using cok_daemon [OF assms(1)] d(2,3) by auto
  moreover have "cns (cl(h := (cl h)\<lparr>d_mdb := db, storage := st\<rparr>)) = cns cl"
    using d(3) by (simp add: cluster_ns_def fun_eq_iff)
  ultimately show ?thesis using d(1) by blast
qed

lemma post_all_remove:
  assumes "is_absolute p" "p \<noteq> [separator]" "\<And>h. h \<in> set hs \<Longrightarrow> h < ucast n" "cok cl"
  shows "\<exists>dls cl'. post_all C (map (\<lambda>h. (h, Req_remove_data p)) hs) cl = (Inr (True, dls), cl') \<and>
    cok cl' \<and> cns cl' = cns cl \<and> last_err dls 0 = 0"
  using assms(3,4)
proof (induction hs arbitrary: cl)
  case Nil
  then show ?case by (simp add: cmd_simps)
next
  case (Cons h hs)
  have h: "h < ucast n" using Cons.prems(1) by simp
  then have host: "host_at C h = Inr (ucast h)" by (simp add: host_at_def)
  obtain d where d: "dispatch E (Req_remove_data p) (cl (ucast h)) = (Inr (Resp_err 0), d)"
      "cok (cl(ucast h := d))" "cns (cl(ucast h := d)) = cns cl"
    using remove_data_at [OF Cons.prems(2) ucast_down_less [OF h] assms(1,2)] by blast
  obtain dls cl' where r: "post_all C (map (\<lambda>h. (h, Req_remove_data p)) hs) (cl(ucast h := d)) =
      (Inr (True, dls), cl')" "cok cl'" "cns cl' = cns (cl(ucast h := d))" "last_err dls 0 = 0"
    using Cons.IH [OF Cons.prems(1) [OF list.set_intros(2)] d(2)] by blast
  have "post_all C (map (\<lambda>h. (h, Req_remove_data p)) (h # hs)) cl =
      (Inr (True, Reply (Resp_err 0) # dls), cl')"
    using r(1) d(1) by (simp add: cmd_simps host cluster_send_def)
  then show ?case using r(2-4) d(3) by auto
qed

lemma locate_chunk_ok: "\<exists>h. locate_chunk C p c = Inr h \<and> h < ucast n"
proof -
  obtain r where r: "locate_data hash (SimpleHashDistributor self n) p (ucast c) = Inr r"
    using locate_data_total [of "SimpleHashDistributor self n" hash p "ucast c"] hosts by auto
  then have "r < n" using hash_mod_bound by (simp add: locate_data_def)
  then show ?thesis using r by (simp add: locate_chunk_def ucast_less)
qed

lemma remove_targets_ok:
  "\<exists>hs. remove_targets C p h sz = Inr hs \<and> (\<forall>x \<in> set hs. x < ucast n)"
proof -
  let ?f = "\<lambda>c. projr (locate_chunk C p (of_nat c))"
  have f: "locate_chunk C p c = Inr (projr (locate_chunk C p c))" "projr (locate_chunk C p c) < ucast n" for c
    using locate_chunk_ok [of p c] by auto
  have "res_map (\<lambda>c. locate_chunk C p (of_nat c)) cs = Inr (map ?f cs)" for cs
    by (rule res_map_Inr) (rule f(1))
  then show ?thesis using f(2) by (auto simp: remove_targets_def)
qed

lemma chunks_removed_ok:
  assumes "cok cl" "is_absolute p" "p \<noteq> [separator]"
  shows "\<exists>cl'. remove_chunks C p h sz cl = (Inr 0, cl') \<and> cok cl' \<and> cns cl' = cns cl"
proof -
  obtain hs where hs: "remove_targets C p h sz = Inr hs" "\<And>x. x \<in> set hs \<Longrightarrow> x < ucast n"
    using remove_targets_ok by blast
  let ?all = "map of_nat [0..<unat n] :: u64 list"
  have all: "x < ucast n" if x: "x \<in> set ?all" for x
  proof -
    obtain i where i: "x = of_nat i" "i < unat n" using x by auto
    have "unat (of_nat i :: u64) = i"
      using i(2) unat_lt32 [of n] by (simp add: unsigned_of_nat take_bit_nat_eq_self)
    then show ?thesis using i by (simp add: word_less_nat_alt)
  qed
  obtain dls cl1 where a: "post_all C (map (\<lambda>h. (h, Req_remove_data p)) hs) cl = (Inr (True, dls), cl1)"
      "cok cl1" "cns cl1 = cns cl" "last_err dls 0 = 0"
    using post_all_remove [OF assms(2,3) hs(2) assms(1)] by blast
  obtain dls' cl2 where b: "post_all C (map (\<lambda>h. (h, Req_remove_data p)) ?all) cl = (Inr (True, dls'), cl2)"
      "cok cl2" "cns cl2 = cns cl" "last_err dls' 0 = 0"
    using post_all_remove [OF assms(2,3) all assms(1)] by blast
  have b': "post_all C (map (\<lambda>h. (of_nat h, Req_remove_data p)) [0..<unat n]) cl = (Inr (True, dls'), cl2)"
    using b(1) by (simp add: comp_def)
  show ?thesis
    using a b b' by (auto simp: remove_chunks_def cmd_simps hs(1))
qed

end

section \<open>Listing a directory on the cluster\<close>

lemma fold_add_entry:
  "of_entries (fold (\<lambda>(name, ty). add_entry name ty) es d) = of_entries d @ es"
  "of_path (fold (\<lambda>(name, ty). add_entry name ty) es d) = of_path d"
  "of_type (fold (\<lambda>(name, ty). add_entry name ty) es d) = of_type d"
  by (induction es arbitrary: d) (auto simp: add_entry_def)

text \<open>A response to a listing: an error, or the entries \<open>S\<close>, at most \<open>k\<close> of them.\<close>

definition lists :: "nat \<Rightarrow> (string \<times> file_type) set \<Rightarrow> delivery \<Rightarrow> bool" where
  "lists k S dl \<longleftrightarrow> (\<exists>e m buf. dl = Reply (Resp_dirents e m buf) \<and> finite S \<and>
     (e = 0 \<or> e = ENOBUFS) \<and> (listing_size S \<le> k \<longrightarrow> e = 0) \<and>
     (e = 0 \<longrightarrow> (\<exists>es. unpack_dirents buf 0 (unat m) (unat m) = Inr es \<and> length es \<le> k \<and> set es = S)))"

lemma gather_dirents_lists:
  assumes "list_all2 (\<lambda>h dl. lists k (f h) dl) hs dls"
  shows "\<exists>e d'. gather_dirents False dls err d = Inr (e, d') \<and> of_path d' = of_path d \<and>
    of_type d' = of_type d \<and> finite (\<Union>h \<in> set hs. f h) \<and>
    (err = 0 \<or> err = ENOBUFS \<longrightarrow> e = 0 \<or> e = ENOBUFS) \<and>
    (err = 0 \<and> (\<forall>h \<in> set hs. listing_size (f h) \<le> k) \<longrightarrow> e = 0) \<and>
    (e = 0 \<longrightarrow> err = 0 \<and> length (of_entries d') \<le> length (of_entries d) + length hs * k \<and>
      set (of_entries d') = set (of_entries d) \<union> (\<Union>h \<in> set hs. f h))"
  using assms
proof (induction hs dls arbitrary: err d rule: list_all2_induct)
  case Nil
  then show ?case by simp
next
  case (Cons h hs dl dls)
  obtain e m buf where dl: "dl = Reply (Resp_dirents e m buf)" "finite (f h)"
      "e = 0 \<or> e = ENOBUFS" "listing_size (f h) \<le> k \<longrightarrow> e = 0"
      "e = 0 \<longrightarrow> (\<exists>es. unpack_dirents buf 0 (unat m) (unat m) = Inr es \<and> length es \<le> k \<and> set es = f h)"
    using Cons(1) by (auto simp: lists_def)
  show ?case
  proof (cases "e = 0")
    case False
    then show ?thesis using Cons.IH [of e d] dl(1-4) by auto
  next
    case True
    then obtain es where es: "unpack_dirents buf 0 (unat m) (unat m) = Inr es" "length es \<le> k" "set es = f h"
      using dl(5) by blast
    let ?d = "fold (\<lambda>(name, ty). add_entry name ty) es d"
    note ih = Cons.IH [of err ?d]
    obtain e' d' where r: "gather_dirents False dls err ?d = Inr (e', d')" "of_path d' = of_path ?d"
        "of_type d' = of_type ?d" "finite (\<Union>h \<in> set hs. f h)"
        "err = 0 \<or> err = ENOBUFS \<longrightarrow> e' = 0 \<or> e' = ENOBUFS"
        "err = 0 \<and> (\<forall>h \<in> set hs. listing_size (f h) \<le> k) \<longrightarrow> e' = 0"
        "e' = 0 \<longrightarrow> err = 0 \<and> length (of_entries d') \<le> length (of_entries ?d) + length hs * k \<and>
          set (of_entries d') = set (of_entries ?d) \<union> (\<Union>h \<in> set hs. f h)"
      by (rule exE [OF ih], elim exE conjE) (rule that)
    have "gather_dirents False (dl # dls) err d = Inr (e', d')" using dl(1) True es(1) r(1) by simp
    moreover have d: "of_path ?d = of_path d" "of_type ?d = of_type d"
        "length (of_entries ?d) = length (of_entries d) + length es"
        "set (of_entries ?d) = set (of_entries d) \<union> f h"
      using es(3) by (simp_all add: fold_add_entry)
    moreover have "length (of_entries d') \<le> length (of_entries d) + length (h # hs) * k"
      if "e' = 0" using r(7) that d(3) es(2) by simp
    moreover have "finite (\<Union>h \<in> set (h # hs). f h)" using r(4) dl(2) by simp
    moreover have "set (of_entries d') = set (of_entries d) \<union> (\<Union>h \<in> set (h # hs). f h)"
      if "e' = 0" using r(7) that d(4) by auto
    ultimately show ?thesis using r(2,3,5-7) by (intro exI [of _ e'] exI [of _ d']) simp
  qed
qed

lemma expose_all_cluster [simp]: "expose_all (cluster_client E hash self n) k cl = (Inr True, cl)"
  by (induction k) (simp_all add: cmd_simps)

context cluster
begin

lemma post_all_dirents:
  assumes "cok cl" "valid_key dir" "length buf \<le> 8388608" "\<And>h. h \<in> set hs \<Longrightarrow> h < n"
  shows "\<exists>dls. post_all C (map (\<lambda>h. (ucast h, Req_get_dirents dir buf)) hs) cl = (Inr (True, dls), cl) \<and>
    list_all2 (\<lambda>h dl. lists (length buf) (children (daemon_ns config_metadata val (cl h)) dir) dl) hs dls"
  using assms(4)
proof (induction hs)
  case Nil
  then show ?case by (simp add: cmd_simps)
next
  case (Cons h hs)
  have h: "h < n" using Cons.prems by simp
  have nf: "NUL_free (daemon_ns config_metadata val (cl h))"
    using cok_daemon(3) [OF assms(1) h] by (auto simp: NUL_free_def)
  obtain e k b where d: "dispatch E (Req_get_dirents dir buf) (cl h) = (Inr (Resp_dirents e k b), cl h)"
      "finite (children (daemon_ns config_metadata val (cl h)) dir)" "e = 0 \<or> e = ENOBUFS"
      "listing_size (children (daemon_ns config_metadata val (cl h)) dir) \<le> length buf \<longrightarrow> e = 0"
      "e = 0 \<longrightarrow> (\<exists>es. unpack_dirents b 0 (unat k) (unat k) = Inr es \<and> length es \<le> length buf \<and>
        set es = children (daemon_ns config_metadata val (cl h)) dir)"
    using store.listing_ok [of "cl h" dir buf] cok_daemon(1) [OF assms(1) h] assms(2,3) nf by auto
  obtain dls where r: "post_all C (map (\<lambda>h. (ucast h, Req_get_dirents dir buf)) hs) cl = (Inr (True, dls), cl)"
      "list_all2 (\<lambda>h dl. lists (length buf) (children (daemon_ns config_metadata val (cl h)) dir) dl) hs dls"
    using Cons by (metis list.set_intros(2))
  have "post_all C (map (\<lambda>h. (ucast h, Req_get_dirents dir buf)) (h # hs)) cl =
      (Inr (True, Reply (Resp_dirents e k b) # dls), cl)"
    using r(1) d(1) by (simp add: cmd_simps cluster_host_at [OF h] cluster_send_def)
  then show ?case using r(2) d(2-5) by (auto simp: lists_def)
qed

lemma child_path_not_root: "name \<noteq> [] \<Longrightarrow> separator \<notin> set name \<Longrightarrow> child_path dir name \<noteq> [separator]"
  by (cases dir) (auto simp: child_path_def split: if_splits)

lemma children_union:
  assumes "cok cl"
  shows "(\<Union>h \<in> set (iota_hosts n). children (daemon_ns config_metadata val (cl h)) dir) = children (cns cl) dir"
proof (intro set_eqI iffI)
  fix x assume "x \<in> (\<Union>h \<in> set (iota_hosts n). children (daemon_ns config_metadata val (cl h)) dir)"
  then obtain h name md where x: "h < n" "x = (name, if S_ISDIR (md_mode md) then Directory else Regular)"
      "name \<noteq> []" "separator \<notin> set name" "daemon_ns config_metadata val (cl h) (child_path dir name) = Some md"
    by (auto simp: children_def set_iota_hosts)
  then have "own (child_path dir name) = h"
    using cok_daemon(3) [OF assms x(1), of "child_path dir name"] child_path_not_root by auto
  then have "cns cl (child_path dir name) = Some md" using x(5) by (simp add: cluster_ns_def)
  then show "x \<in> children (cns cl) dir" using x(2-4) by (auto simp: children_def)
next
  fix x assume "x \<in> children (cns cl) dir"
  then obtain name md where x: "x = (name, if S_ISDIR (md_mode md) then Directory else Regular)"
      "name \<noteq> []" "separator \<notin> set name" "cns cl (child_path dir name) = Some md"
    by (auto simp: children_def)
  let ?h = "own (child_path dir name)"
  have "x \<in> children (daemon_ns config_metadata val (cl ?h)) dir"
    using x by (auto simp: children_def cluster_ns_def)
  then show "x \<in> (\<Union>h \<in> set (iota_hosts n). children (daemon_ns config_metadata val (cl h)) dir)"
    using owner_bound [OF hosts] set_iota_hosts by blast
qed

lemma listed_ok:
  assumes "cok cl" "valid_key dir"
  shows "\<exists>e d. forward_get_dirents C dir cl = (Inr (e, Some d), cl) \<and> (e = 0 \<or> e = ENOBUFS) \<and>
    (listing_size (children (cns cl) dir) \<le> 8388608 div unat n \<longrightarrow> e = 0) \<and>
    (e = 0 \<longrightarrow> of_path d = dir \<and> of_type d = Directory \<and> length (of_entries d) < 2 ^ 32 \<and>
      set (of_entries d) = children (cns cl) dir)"
proof -
  let ?hs = "iota_hosts n"
  let ?buf = "replicate (8388608 div length ?hs) NUL"
  have ne: "?hs \<noteq> []" using hosts by (simp add: unat_gt_0 flip: length_greater_0_conv)
  have sz: "unat dirents_buff_size = 8388608" by (simp add: dirents_buff_size_def)
  obtain dls where p: "post_all C (map (\<lambda>h. (ucast h, Req_get_dirents dir ?buf)) ?hs) cl = (Inr (True, dls), cl)"
      "list_all2 (\<lambda>h dl. lists (length ?buf) (children (daemon_ns config_metadata val (cl h)) dir) dl) ?hs dls"
    using post_all_dirents [OF assms, of ?buf ?hs] by (auto simp: set_iota_hosts)
  obtain e d where g: "gather_dirents False dls 0 (OpenDir dir) = Inr (e, d)"
      "of_path d = of_path (OpenDir dir)" "of_type d = of_type (OpenDir dir)"
      "finite (\<Union>h \<in> set ?hs. children (daemon_ns config_metadata val (cl h)) dir)"
      "e = 0 \<or> e = ENOBUFS"
      "(\<forall>h \<in> set ?hs. listing_size (children (daemon_ns config_metadata val (cl h)) dir) \<le> length ?buf) \<longrightarrow> e = 0"
      "e = 0 \<longrightarrow> length (of_entries d) \<le> length (of_entries (OpenDir dir)) + length ?hs * length ?buf \<and>
        set (of_entries d) = set (of_entries (OpenDir dir)) \<union>
          (\<Union>h \<in> set ?hs. children (daemon_ns config_metadata val (cl h)) dir)"
    using gather_dirents_lists [OF p(2), of 0 "OpenDir dir"] by blast
  have small: "listing_size (children (cns cl) dir) \<le> 8388608 div unat n \<longrightarrow> e = 0"
  proof
    assume c: "listing_size (children (cns cl) dir) \<le> 8388608 div unat n"
    have "listing_size (children (daemon_ns config_metadata val (cl h)) dir) \<le> length ?buf"
      if "h \<in> set ?hs" for h
    proof -
      have "listing_size (children (daemon_ns config_metadata val (cl h)) dir) \<le> listing_size (children (cns cl) dir)"
        unfolding listing_size_def
        by (rule sum_mono2) (use g(4) that children_union [OF assms(1), of dir] in auto)
      then show ?thesis using c by simp
    qed
    then show "e = 0" using g(6) by blast
  qed
  have "length ?hs * length ?buf \<le> 8388608" by simp
  then have "length (of_entries d) < 2 ^ 32" if "e = 0"
    using g(7) that by (simp add: OpenDir_def OpenFile_def del: times_div_less_eq_dividend)
  moreover have "forward_get_dirents C dir cl = (Inr (e, Some d), cl)"
    using p(1) g(1) ne
    by (simp add: forward_get_dirents_def locate_directory_metadata_def cmd_simps Let_def sz
        del: length_iota_hosts)
  ultimately show ?thesis
    using g(2,3,5,7) small children_union [OF assms(1)] by (auto simp: OpenDir_def OpenFile_def)
qed

end

section \<open>The cluster provides the interface\<close>

sublocale cluster \<subseteq> meta_service "cluster_client (rocksdb_env config_metadata R hash stale) hash self n"
    "cluster_ns val hash n" "cluster_ok val ok hash n stmp" "\<lambda>p. stmp (owner hash n p)" "8388608 div unat n"
proof unfold_locales
  fix cl req assume "cok cl" "meta_req (cns cl) req"
  then show "\<exists>cl'. call_meta C (req_path req) req cl =
      (Inr (Some (fst (meta_spec config_metadata (stmp (own (req_path req))) req (cns cl)))), cl') \<and>
    cok cl' \<and> cns cl' = snd (meta_spec config_metadata (stmp (own (req_path req))) req (cns cl))"
    by (rule call_ok)
next
  fix p show "\<exists>h. meta_host C p = Inr h" by (simp add: cluster_meta_host hosts)
next
  fix cl p h sz assume "cok cl" "is_absolute p" "p \<noteq> [separator]"
  then show "\<exists>cl'. remove_chunks C p h sz cl = (Inr 0, cl') \<and> cok cl' \<and> cns cl' = cns cl"
    by (rule chunks_removed_ok)
next
  fix cl dir assume "cok cl" "valid_key dir"
  then show "\<exists>e d. forward_get_dirents C dir cl = (Inr (e, Some d), cl) \<and> (e = 0 \<or> e = ENOBUFS) \<and>
        (listing_size (children (cns cl) dir) \<le> 8388608 div unat n \<longrightarrow> e = 0) \<and>
        (e = 0 \<longrightarrow> of_path d = dir \<and> of_type d = Directory \<and> length (of_entries d) < 2 ^ 32 \<and>
          set (of_entries d) = children (cns cl) dir)"
    by (rule listed_ok)
next
  fix cl p md assume "cok cl" "cns cl p = Some md"
  then have h: "healthy config_metadata val ok (cl (own p))"
      and ns: "namespace_of config_metadata (val (d_mdb (cl (own p)))) p = Some md"
    using cok_daemon(1) owner_bound [OF hosts] by (auto simp: cluster_ns_def daemon_ns_def)
  have wf: "wf_map config_metadata (val (d_mdb (cl (own p))))" using h unfolding healthy_def by blast
  show "is_absolute p \<and> storable md \<and> stored_fields config_metadata md = md"
    using namespace_Some [OF wf ns] by blast
qed

context cluster
begin

lemma service: "meta_service (cluster_client (rocksdb_env config_metadata R hash stale) hash self n)
    (cluster_ns val hash n) (cluster_ok val ok hash n stmp) (\<lambda>p. stmp (owner hash n p)) (8388608 div unat n)"
  by unfold_locales

end

lemma cluster_service:
  assumes "rocksdb_contract config_metadata R val ok" "n \<noteq> 0"
  shows "meta_service (cluster_client (rocksdb_env config_metadata R hash stale) hash self n)
    (cluster_ns val hash n) (cluster_ok val ok hash n stmp) (\<lambda>p. stmp (owner hash n p)) (8388608 div unat n)"
proof -
  have "cluster R val ok n" using assms by (simp add: cluster_def cluster_axioms_def)
  then show ?thesis by (rule cluster.service)
qed

interpretation lazy_cluster: cluster "lazy_rocksdb config_metadata" "lazy_val config_metadata"
    "lazy_ok config_metadata" hash stale 3 self stmp for hash stale self stmp
  by unfold_locales simp

end
