(* ===== verification/File_Data.thy ===== *)
theory File_Data
  imports Data_Service Cluster
begin

text \<open>
  The data of a file on a cluster of healthy daemons. \<open>file_bytes\<close> is the content of a file as the
  daemons hold it, a partial function from positions to characters; the lemmas say what a write
  and a read of the client (\<open>forward_write\<close>, \<open>forward_read\<close>, \<open>gaofs_pwrite\<close>, \<open>gaofs_pread\<close>) do to it and
  return from it, over all the requests the client sends and the rounds the daemons make.
\<close>

section \<open>The content of a file\<close>

definition cluster_chunk ::
    "('db \<Rightarrow> bytes \<rightharpoonup> bytes) \<Rightarrow> (string \<Rightarrow> u64) \<Rightarrow> u32 \<Rightarrow> 'db cluster \<Rightarrow> path \<Rightarrow> u64 \<Rightarrow> bytes" where
  "cluster_chunk val hash n cl p c = stored_chunk val (cl (chunk_host hash n p c)) p c"

definition byte_at :: "bytes \<Rightarrow> nat \<Rightarrow> char option" where
  "byte_at b o1 = (if o1 < length b then Some (b ! o1) else None)"

text \<open>Positions are those of \<open>off_t\<close>.\<close>

definition file_bytes ::
    "('db \<Rightarrow> bytes \<rightharpoonup> bytes) \<Rightarrow> (string \<Rightarrow> u64) \<Rightarrow> u32 \<Rightarrow> 'db cluster \<Rightarrow> path \<Rightarrow> nat \<Rightarrow> char option" where
  "file_bytes val hash n cl p x =
    (if x < 2 ^ 63
     then byte_at (cluster_chunk val hash n cl p (of_nat (x div 524288))) (x mod 524288) else None)"

definition cluster_data_ok ::
    "('db \<Rightarrow> bytes \<rightharpoonup> bytes) \<Rightarrow> ('db \<Rightarrow> bool) \<Rightarrow> (string \<Rightarrow> u64) \<Rightarrow> u32 \<Rightarrow> (u32 \<Rightarrow> metadata \<Rightarrow> metadata) \<Rightarrow>
     'db cluster \<Rightarrow> bool" where
  "cluster_data_ok val ok hash n stmp cl \<longleftrightarrow> cluster_ok val ok hash n stmp cl \<and>
     (\<forall>h < n. data_fit config_metadata val ok (cl h))"

section \<open>Chunks byte by byte\<close>

lemma length_pwrite: "b \<noteq> [] \<Longrightarrow> length (pwrite_at off b x) = max (length x) (off + length b)"
  by (auto simp: pwrite_at_eq)

lemma byte_at_pwrite:
  assumes "b \<noteq> []"
  shows "byte_at (pwrite_at off b x) i =
    (if off \<le> i \<and> i < off + length b then Some (b ! (i - off))
     else if byte_at x i = None \<and> i < off then Some NUL else byte_at x i)"
proof (cases "i < max (length x) (off + length b)")
  case True
  have y: "length (if length x < off + length b then resize (off + length b) x else x) =
      max (length x) (off + length b)" by simp
  show ?thesis
    using assms True nth_overwrite [of off b "if length x < off + length b then resize (off + length b) x else x" i]
    by (auto simp: byte_at_def length_overwrite pwrite_at_def nth_resize y split: if_splits)
next
  case False
  then show ?thesis using assms by (auto simp: byte_at_def length_pwrite)
qed

lemma byte_at_put_slice:
  assumes "0 < n" "off + n < 2 ^ 63" "first_chunk_of off \<le> m" "m \<le> last_chunk_of off n" "length buf = n"
    "m = 0 \<Longrightarrow> NUL \<notin> set (slice_bytes off n buf 0) \<and> NUL \<notin> set x \<and> slice_pos off 0 \<le> length x"
    "i < 524288"
  shows "byte_at (put_slice off n buf m x) i =
    (let y = m * 524288 + i
     in if off \<le> y \<and> y < off + n then Some (buf ! (y - off))
        else if byte_at x i = None \<and> y < off \<and> m = off div 524288 then Some NUL else byte_at x i)"
proof -
  note sf = slice_facts [OF assms(1-4)] and sb = slice_bounds [OF assms(1-4)]
  let ?b = "slice_bytes off n buf m"
  have b: "length ?b = slice_len off n m" using sf(3) assms(5) by (simp add: length_slice_bytes)
  then have ne: "?b \<noteq> []" using sf(4) by auto
  have m0: "(of_nat m :: u64) = 0 \<longleftrightarrow> m = 0"
    using sb(3) by (auto simp: word_eq_unat64 unat_of_nat64)
  have cstr: "c_str (pwrite_at (slice_pos off 0) (slice_bytes off n buf 0) x) =
      pwrite_at (slice_pos off 0) (slice_bytes off n buf 0) x" if "m = 0"
    using assms(6) [OF that] ne that
    by (intro c_str_id) (auto simp: pwrite_at_eq dest: in_set_takeD in_set_dropD)
  have put: "put_slice off n buf m x = pwrite_at (slice_pos off m) ?b x"
    using cstr m0 by (auto simp: put_slice_def chunk_with_def)
  have lo: "slice_lo off m = m * 524288 + slice_pos off m" by (rule sf(5))
  have hi: "slice_hi off n m = slice_lo off m + slice_len off n m"
    using slice_lo_le_hi [OF assms(1,3,4)] by (simp add: slice_len_def)
  have inside: "slice_pos off m \<le> i \<and> i < slice_pos off m + slice_len off n m \<longleftrightarrow>
      off \<le> m * 524288 + i \<and> m * 524288 + i < off + n"
  proof -
    have "slice_pos off m \<le> i \<longleftrightarrow> slice_lo off m \<le> m * 524288 + i" using lo by linarith
    moreover have "i < slice_pos off m + slice_len off n m \<longleftrightarrow> m * 524288 + i < slice_hi off n m"
      using lo hi by linarith
    ultimately show ?thesis using assms(7) by (auto simp: slice_lo_def slice_hi_def)
  qed
  have nth: "?b ! (i - slice_pos off m) = buf ! (m * 524288 + i - off)"
    if "slice_pos off m \<le> i" "i < slice_pos off m + slice_len off n m"
  proof -
    have "off \<le> slice_lo off m" by (simp add: slice_lo_def)
    then have "slice_lo off m - off + (i - slice_pos off m) = m * 524288 + i - off"
      using lo that by linarith
    then show ?thesis
      using that sf(3) assms(5) by (simp add: slice_bytes_def)
  qed
  have before: "i < slice_pos off m \<longleftrightarrow> m * 524288 + i < off \<and> m = off div 524288"
  proof
    assume lt: "i < slice_pos off m"
    then have "m = off div 524288" using sf(1) by (auto simp: first_chunk_of_def split: if_splits)
    moreover have "slice_lo off m = off" using lt lo by (auto simp: slice_lo_def max_def split: if_splits)
    ultimately show "m * 524288 + i < off \<and> m = off div 524288" using lt lo by simp
  next
    assume "m * 524288 + i < off \<and> m = off div 524288"
    then show "i < slice_pos off m" by (auto simp: slice_pos_def slice_lo_def)
  qed
  show ?thesis
    unfolding put byte_at_pwrite [OF ne] Let_def b using inside nth before by auto
qed

section \<open>The requests of a range at their daemons\<close>

lemma cluster_locate_chunk:
  "n \<noteq> 0 \<Longrightarrow> locate_chunk (cluster_client E hash self n) p c = Inr (ucast (chunk_host hash n p c))"
  by (simp add: locate_chunk_def locate_data_def hash_mod_def chunk_host_def)

lemma chunk_host_bound: "n \<noteq> 0 \<Longrightarrow> chunk_host hash n p c < n"
  using owner_bound [of n hash] by (simp add: chunk_host_def owner_def)

lemma on_host_cluster:
  "n \<noteq> 0 \<Longrightarrow> on_host (cluster_client E hash self n) p h c \<longleftrightarrow> ucast (chunk_host hash n p c) = h"
  by (simp add: on_host_def cluster_locate_chunk)

lemma range_request_host:
  assumes "n \<noteq> 0" "data_path p" "valid_range offset sz"
    "data_requests (cluster_client E hash self n) p offset sz = Inr reqs" "(h, i) \<in> set reqs"
  shows "host_request hash n p offset sz (request_chunks (cluster_client E hash self n) p offset sz h) i"
    "h < ucast n" "in_host_id i = h"
proof -
  let ?C = "cluster_client E hash self n"
  let ?ms = "request_chunks ?C p offset sz h"
  note spec = data_requests_spec(3) [OF assms(3-5)]
  have rng: "0 < unat sz" "unat offset + unat sz < 2 ^ 63"
    using assms(3) valid_range_pos by (auto simp: valid_range_def)
  have here: "(\<lambda>c. ucast (chunk_host hash n (in_path i) c) = in_host_id i) = on_host ?C p h"
    using spec assms(1) by (simp add: fun_eq_iff on_host_cluster)
  have ms: "?ms = filter (\<lambda>m. on_host ?C p h (of_nat m))
      [first_chunk_of (unat offset)..<Suc (last_chunk_of (unat offset) (unat sz))]"
    by (simp add: request_chunks_def host_chunks_def)
  have len: "length ?ms < 2 ^ 63"
    using length_host_chunks_bound(1) [OF rng, of "\<lambda>m. on_host ?C p h (of_nat m)"]
    by (simp add: request_chunks_def)
  have total: "sum_list (map (slice_len (unat offset) (unat sz)) ?ms) \<le> unat sz"
  proof -
    have "sum_list (map f (filter P xs)) \<le> sum_list (map f xs)" for f :: "nat \<Rightarrow> nat" and P xs
      by (induction xs) auto
    then show ?thesis using sum_slices [OF rng(1)] unfolding ms by metis
  qed
  show "host_request hash n p offset sz ?ms i"
    unfolding host_request_def request_for_def host_plan_def here
    using spec assms(1,2) request_plan [OF assms(3-5)] len total rng
    by (auto simp: ms simp del: upt_Suc)
  obtain m where "on_host ?C p h (of_nat m)" using spec unfolding ms by (auto simp: filter_empty_conv)
  then show "h < ucast n"
    using chunk_host_bound [OF assms(1)] by (auto simp: on_host_cluster assms(1) ucast_less)
  show "in_host_id i = h" using spec by simp
qed

text \<open>One host after another: what a list of requests leaves of the chunks of \<open>p\<close> on each host.\<close>

definition host_chunks_after ::
    "(u64 \<Rightarrow> (u64 \<Rightarrow> bytes) \<Rightarrow> u64 \<Rightarrow> bytes) \<Rightarrow> (u64 \<times> data_in) list \<Rightarrow> u32 \<Rightarrow> (u64 \<Rightarrow> bytes) \<Rightarrow> u64 \<Rightarrow> bytes" where
  "host_chunks_after g reqs h f = (if ucast h \<in> fst ` set reqs then g (ucast h) f else f)"

lemma ucast_up_down: "(t :: u64) < ucast (n :: u32) \<Longrightarrow> ucast (ucast t :: u32) = t"
proof -
  assume "t < ucast n"
  moreover have "unat n < 2 ^ LENGTH(32)" by (rule unsigned_less)
  ultimately have "unat t < 2 ^ 32" by (simp add: word_less_nat_alt)
  then show ?thesis by (simp add: word_eq_unat64 unat_ucast_64_32)
qed

context cluster
begin

abbreviation "cdok \<equiv> cluster_data_ok val ok hash n stmp"
abbreviation "sc \<equiv> stored_chunk val"

lemma cdok_daemon:
  assumes "cdok cl" "h < n"
  shows "store.dfit (cl h)"
  using assms by (simp add: cluster_data_ok_def)

text \<open>A step of one daemon that changes the data of one file.\<close>

lemma host_step:
  assumes "cdok cl" "h < n" "changes_data config_metadata val ok p f (cl h) d"
  shows "cdok (cl(h := d))" "cns (cl(h := d)) = cns cl"
proof -
  have d: "data_fit config_metadata val ok d" "stamp d = stamp (cl h)"
      "daemon_ns config_metadata val d = daemon_ns config_metadata val (cl h)"
    using assms(3) by (simp_all add: changes_data_def)
  then have "healthy config_metadata val ok d" by (simp add: data_fit_def)
  then show "cdok (cl(h := d))"
    using assms(1) d by (auto simp: cluster_data_ok_def cluster_ok_def)
  show "cns (cl(h := d)) = cns cl"
    using d(3) by (simp add: cluster_ns_def fun_eq_iff)
qed

lemma post_writes:
  assumes "distinct (map fst reqs)" "length buf = unat sz" "cdok cl"
    "\<And>h i. (h, i) \<in> set reqs \<Longrightarrow> host_request hash n p offset sz (ms h) i \<and> h < ucast n"
  shows "\<exists>dls cl'. post_data C Req_write reqs buf cl = (Inr (True, dls, buf), cl') \<and> cdok cl' \<and>
    cns cl' = cns cl \<and>
    (\<forall>h < n. sc (cl' h) p = host_chunks_after (\<lambda>t. put_slices (unat offset) (unat sz) buf (ms t)) reqs h
      (sc (cl h) p)) \<and>
    (\<forall>h < n. \<forall>q. apart p q \<longrightarrow> sc (cl' h) q = sc (cl h) q) \<and>
    (\<forall>t. gather_data dls 0 t = (0, t + sum_list (map (\<lambda>(h, i). in_total_chunk_size i) reqs)))"
  using assms(1,3,4)
proof (induction reqs arbitrary: cl)
  case Nil
  then show ?case by (simp add: cmd_simps host_chunks_after_def)
next
  case (Cons a reqs)
  obtain t i where a: "a = (t, i)" by force
  define h where "h = (ucast t :: u32)"
  have t: "t < ucast n" "host_request hash n p offset sz (ms t) i" using Cons.prems(3) [of t i] a by auto
  have h: "h < n" "ucast h = t"
    using ucast_down_less [OF t(1)] ucast_up_down [OF t(1)] by (simp_all add: h_def)
  have hash: "env_hash E = hash" by simp
  obtain d where d: "rpc_srv_write E i buf (cl h) = (Inr (0, in_total_chunk_size i), d)"
      "changes_data config_metadata val ok p (put_slices (unat offset) (unat sz) buf (ms t) (sc (cl h) p)) (cl h) d"
    using store.write_request_ok [of n p offset sz "ms t" i buf "cl h"] t(2) assms(2)
      cdok_daemon [OF Cons.prems(2) h(1)] by (auto simp: hash)
  note st = host_step [OF Cons.prems(2) h(1) d(2)]
  let ?cl = "cl(h := d)"
  have tail: "distinct (map fst reqs)" "t \<notin> fst ` set reqs" using Cons.prems(1) a by auto
  have mem: "host_request hash n p offset sz (ms t') i' \<and> t' < ucast n" if "(t', i') \<in> set reqs" for t' i'
    by (rule Cons.prems(3)) (simp add: that)
  obtain dls cl' where
      r: "post_data C Req_write reqs buf ?cl = (Inr (True, dls, buf), cl')" "cdok cl'" "cns cl' = cns ?cl"
        "\<forall>h < n. sc (cl' h) p = host_chunks_after (\<lambda>t. put_slices (unat offset) (unat sz) buf (ms t)) reqs h
           (sc (?cl h) p)"
        "\<forall>h < n. \<forall>q. apart p q \<longrightarrow> sc (cl' h) q = sc (?cl h) q"
        "\<forall>t. gather_data dls 0 t = (0, t + sum_list (map (\<lambda>(h, i). in_total_chunk_size i) reqs))"
    using Cons.IH [OF tail(1) st(1) mem] by blast
  have run: "post_data C Req_write (a # reqs) buf cl =
      (Inr (True, Reply (Resp_data 0 (in_total_chunk_size i) buf) # dls, buf), cl')"
    using r(1) d(1) t(1) h by (simp add: a cmd_simps host_at_def cluster_send_def resp_of_apply flip: h_def)
  have chunks: "sc (cl' x) p = host_chunks_after (\<lambda>t. put_slices (unat offset) (unat sz) buf (ms t)) (a # reqs) x
      (sc (cl x) p)" if "x < n" for x
  proof (cases "x = h")
    case True
    then show ?thesis
      using r(4) h tail(2) d(2) by (simp add: host_chunks_after_def a changes_data_def)
  next
    case False
    then have "ucast x \<noteq> t" using h(2) by (metis ucast_32_64_32)
    then show ?thesis using r(4) that False by (simp add: host_chunks_after_def a)
  qed
  have other: "sc (cl' x) q = sc (cl x) q" if "x < n" "apart p q" for x q
    using r(5) d(2) that by (auto simp: changes_data_def)
  show ?case
    using run r(2,3,6) st(2) chunks other by (auto simp: a add.assoc)
qed

end

section \<open>Writing\<close>

lemma requests_total:
  assumes "valid_range offset sz" "data_requests C p offset sz = Inr reqs"
  shows "sum_list (map (\<lambda>(h, i). in_total_chunk_size i) reqs) = sz"
proof -
  let ?f = "slice_len (unat offset) (unat sz)"
  let ?cs = "\<lambda>(h, i). request_chunks C p offset sz h"
  have sum_of_nat: "sum_list (map (\<lambda>x. of_nat (g x)) xs) = (of_nat (sum_list (map g xs)) :: u64)"
    for g :: "u64 \<times> data_in \<Rightarrow> nat" and xs by (induction xs) simp_all
  have "in_total_chunk_size i = of_nat (sum_list (map ?f (request_chunks C p offset sz h)))"
    if "(h, i) \<in> set reqs" for h i
    using data_requests_spec(3) [OF assms that] by (intro word_of_nat_eqI) simp
  then have "map (\<lambda>(h, i). in_total_chunk_size i) reqs = map (\<lambda>a. of_nat (sum_list (map ?f (?cs a)))) reqs"
    by auto
  then have "sum_list (map (\<lambda>(h, i). in_total_chunk_size i) reqs) =
      of_nat (sum_list (map (\<lambda>a. sum_list (map ?f (?cs a))) reqs))"
    by (simp only: sum_of_nat)
  also have "sum_list (map (\<lambda>a. sum_list (map ?f (?cs a))) reqs) = sum_list (map ?f (concat (map ?cs reqs)))"
    by (induction reqs) auto
  also have "\<dots> = sum_mset (image_mset ?f (mset (concat (map ?cs reqs))))"
    by (simp only: sum_mset_sum_list mset_map [symmetric])
  also have "\<dots> = sum_list (map ?f [first_chunk_of (unat offset)..<Suc (last_chunk_of (unat offset) (unat sz))])"
    unfolding request_chunks_partition [OF assms] by (simp only: sum_mset_sum_list mset_map [symmetric])
  also have "\<dots> = unat sz" by (rule sum_slices [OF valid_range_pos [OF assms(1)]])
  finally show ?thesis by simp
qed

lemma stored_first_no_NUL:
  assumes "first_chunks_ok (val (d_mdb d))"
  shows "NUL \<notin> set (stored_chunk val d p 0)"
proof (cases "val (d_mdb d) (first_chunk_key p)")
  case (Some v)
  obtain fc where "deserialize_first_chunk v = Inr (fc\<lparr>fc_content := c_str (fc_content fc)\<rparr>)"
    using first_chunks_okD [OF assms Some] by metis
  then show ?thesis by (simp add: stored_chunk_def Some)
qed (simp add: stored_chunk_def)

lemma byte_at_None: "byte_at b i = None \<longleftrightarrow> length b \<le> i"
  by (simp add: byte_at_def not_less)

text \<open>The content of a file after the slices of a range were put into its chunks.\<close>

lemma file_bytes_written:
  assumes "0 < n" "off + n < 2 ^ 63" "length buf = n" "NUL \<notin> set (cluster_chunk val hash k cl p 0)"
    "first_chunk_safe off buf (file_bytes val hash k cl p)"
    "\<And>c. cluster_chunk val hash k cl' p c =
      (if first_chunk_of off \<le> unat c \<and> unat c \<le> last_chunk_of off n
       then put_slice off n buf (unat c) (cluster_chunk val hash k cl p c) else cluster_chunk val hash k cl p c)"
  shows "file_bytes val hash k cl' p = written off buf (file_bytes val hash k cl p)"
proof
  fix x
  note b = chunk_bounds [OF assms(1), of off]
  let ?f = "file_bytes val hash k cl p"
  have wr: "written off buf f x =
      (if off \<le> x \<and> x < off + n then Some (buf ! (x - off))
       else if f x = None \<and> x < off \<and> x div 524288 = off div 524288 then Some NUL else f x)" for f x
    using assms(1,3) by (auto simp: written_def)
  show "file_bytes val hash k cl' p x = written off buf ?f x"
  proof (cases "x < 2 ^ 63")
    case False
    then show ?thesis using assms(2) by (auto simp: file_bytes_def wr)
  next
    case True
    define m where "m = x div 524288"
    define i where "i = x mod 524288"
    have x: "x = m * 524288 + i" "i < 524288" by (simp_all add: m_def i_def)
    have "m < 2 ^ 44" using True x by simp
    then have m: "unat (of_nat m :: u64) = m" by (simp add: unat_of_nat64)
    have fx: "?f x = byte_at (cluster_chunk val hash k cl p (of_nat m)) i"
      using True by (simp add: file_bytes_def m_def i_def)
    have fx': "file_bytes val hash k cl' p x = byte_at (cluster_chunk val hash k cl' p (of_nat m)) i"
      using True by (simp add: file_bytes_def m_def i_def)
    show ?thesis
    proof (cases "first_chunk_of off \<le> m \<and> m \<le> last_chunk_of off n")
      case True
      have zero: "NUL \<notin> set (slice_bytes off n buf 0) \<and>
          NUL \<notin> set (cluster_chunk val hash k cl p (of_nat m)) \<and>
          slice_pos off 0 \<le> length (cluster_chunk val hash k cl p (of_nat m))" if m0: "m = 0"
      proof -
        have off: "off < 524288" using True m0 b(2) by simp
        have pos: "slice_pos off 0 = off" "slice_lo off 0 = off" by (simp_all add: slice_pos_def slice_lo_def)
        have "slice_len off n 0 \<le> 524288 - off" by (simp add: slice_len_def slice_lo_def slice_hi_def)
        then have "set (slice_bytes off n buf 0) \<subseteq> set (take (524288 - off) buf)"
          by (simp add: slice_bytes_def pos set_take_subset_set_take)
        moreover have "off \<le> length (cluster_chunk val hash k cl p 0)"
        proof (rule ccontr)
          assume short: "\<not> ?thesis"
          then have "?f (length (cluster_chunk val hash k cl p 0)) = None"
            using off by (simp add: file_bytes_def byte_at_None)
          moreover have "?f (length (cluster_chunk val hash k cl p 0)) \<noteq> None"
            using assms(5) off short unfolding first_chunk_safe_def by (meson not_le)
          ultimately show False by contradiction
        qed
        ultimately show ?thesis
          using assms(4,5) off m0 by (auto simp: first_chunk_safe_def pos)
      qed
      have "file_bytes val hash k cl' p x =
          byte_at (put_slice off n buf m (cluster_chunk val hash k cl p (of_nat m))) i"
        using True by (simp add: fx' assms(6) m)
      also have "\<dots> =
          (if off \<le> x \<and> x < off + n then Some (buf ! (x - off))
           else if ?f x = None \<and> x < off \<and> m = off div 524288 then Some NUL else ?f x)"
        using byte_at_put_slice [OF assms(1,2) conjunct1 [OF True] conjunct2 [OF True] assms(3) zero x(2)]
        unfolding Let_def fx x(1) [symmetric] .
      finally show ?thesis unfolding wr m_def [symmetric] .
    next
      case False
      have "\<not> (off \<le> x \<and> x < off + n)"
      proof
        assume r: "off \<le> x \<and> x < off + n"
        have "first_chunk_of off \<le> m" using r by (simp add: first_chunk_of_def m_def div_le_mono)
        moreover have "m \<le> last_chunk_of off n" unfolding last_chunk_of_def m_def
          using r by (intro div_le_mono) arith
        ultimately show False using False by simp
      qed
      moreover have "m \<noteq> off div 524288"
        using False first_le_last [OF assms(1), of off] by (auto simp: first_chunk_of_def)
      moreover have "file_bytes val hash k cl' p x = ?f x"
        using False by (auto simp: fx' assms(6) m fx)
      ultimately show ?thesis unfolding wr m_def [symmetric] by presburger
    qed
  qed
qed

context cluster
begin

abbreviation "content cl \<equiv> file_bytes val hash n cl"
abbreviation "cchunk cl \<equiv> cluster_chunk val hash n cl"

lemma cchunk_first_no_NUL: "cdok cl \<Longrightarrow> NUL \<notin> set (cchunk cl p 0)"
  using chunk_host_bound [OF hosts, of hash p 0] stored_first_no_NUL
  by (auto simp: cluster_chunk_def cluster_data_ok_def data_fit_def)

text \<open>A chunk of the range is in the request to its host, any other chunk in no request.\<close>

lemma in_request:
  assumes "valid_range offset sz" "data_requests C p offset sz = Inr reqs"
  shows "first_chunk_of (unat offset) \<le> unat c \<and> unat c \<le> last_chunk_of (unat offset) (unat sz) \<longleftrightarrow>
    ucast (chunk_host hash n p c) \<in> fst ` set reqs \<and>
    unat c \<in> set (request_chunks C p offset sz (ucast (chunk_host hash n p c)))"
proof -
  have w: "of_nat (unat c) = c" by simp
  show ?thesis
    using data_requests_spec(2) [OF assms, of "unat c"]
    by (auto simp: request_chunks_def host_chunks_def on_host_cluster hosts simp del: upt_Suc)
qed

text \<open>Every chunk of the range gets its slice, whatever the bytes are.\<close>

lemma forward_write_chunks:
  assumes "cdok cl" "data_path p" "valid_range offset sz" "length buf = unat sz"
  shows "\<exists>cl'. forward_write C p buf False a sz (offset + sz) cl = (Inr (0, sz), cl') \<and> cdok cl' \<and>
    cns cl' = cns cl \<and>
    (\<forall>c. cchunk cl' p c = (if first_chunk_of (unat offset) \<le> unat c \<and> unat c \<le> last_chunk_of (unat offset) (unat sz)
      then put_slice (unat offset) (unat sz) buf (unat c) (cchunk cl p c) else cchunk cl p c)) \<and>
    (\<forall>q. apart p q \<longrightarrow> content cl' q = content cl q)"
proof -
  let ?off = "unat offset" and ?n = "unat sz"
  have rng: "0 < ?n" "?off + ?n < 2 ^ 63"
    using assms(3) valid_range_pos by (auto simp: valid_range_def)
  obtain reqs where reqs: "data_requests C p offset sz = Inr reqs"
    using data_requests_total [of C p offset sz] hosts by auto
  let ?ms = "request_chunks C p offset sz"
  have host: "host_request hash n p offset sz (?ms h) i \<and> h < ucast n" if "(h, i) \<in> set reqs" for h i
    using range_request_host [OF hosts assms(2,3) reqs that] by blast
  obtain dls cl' where w: "post_data C Req_write reqs buf cl = (Inr (True, dls, buf), cl')" "cdok cl'"
      "cns cl' = cns cl"
      "\<And>h. h < n \<Longrightarrow> sc (cl' h) p = host_chunks_after (\<lambda>t. put_slices ?off ?n buf (?ms t)) reqs h (sc (cl h) p)"
      "\<And>h q. h < n \<Longrightarrow> apart p q \<Longrightarrow> sc (cl' h) q = sc (cl h) q"
      "\<And>t. gather_data dls 0 t = (0, t + sum_list (map (\<lambda>(h, i). in_total_chunk_size i) reqs))"
    using post_writes [OF data_requests_spec(1) [OF assms(3) reqs] assms(4,1) host] by blast
  have run: "forward_write C p buf False a sz (offset + sz) cl = (Inr (0, sz), cl')"
    using rng assms(4) reqs w(1,6) requests_total [OF assms(3) reqs]
    by (simp add: forward_write_def forward_data_def cmd_simps word_gt_0 unat_gt_0)
  have chunk: "cchunk cl' p c = (if first_chunk_of ?off \<le> unat c \<and> unat c \<le> last_chunk_of ?off ?n
      then put_slice ?off ?n buf (unat c) (cchunk cl p c) else cchunk cl p c)" for c
  proof -
    let ?h = "chunk_host hash n p c"
    have ms: "distinct (?ms t)" "m \<in> set (?ms t) \<Longrightarrow> m < 2 ^ 44" for t m
      using slice_bounds(3) [OF rng] by (auto simp: request_chunks_def host_chunks_def simp del: upt_Suc)
    show ?thesis
      using w(4) [OF chunk_host_bound [OF hosts], of hash p c] in_request [OF assms(3) reqs, of c]
      by (auto simp: cluster_chunk_def host_chunks_after_def put_slices_apply [OF ms])
  qed
  have "content cl' q = content cl q" if "apart p q" for q
    using w(5) [OF chunk_host_bound [OF hosts] that] by (simp add: fun_eq_iff file_bytes_def cluster_chunk_def)
  then show ?thesis using run w(2,3) chunk by blast
qed

lemma forward_write_ok:
  assumes "cdok cl" "data_path p" "valid_range offset sz" "length buf = unat sz"
    "first_chunk_safe (unat offset) buf (content cl p)"
  shows "\<exists>cl'. forward_write C p buf False a sz (offset + sz) cl = (Inr (0, sz), cl') \<and> cdok cl' \<and>
    cns cl' = cns cl \<and> content cl' p = written (unat offset) buf (content cl p) \<and>
    (\<forall>q. apart p q \<longrightarrow> content cl' q = content cl q)"
proof -
  have rng: "0 < unat sz" "unat offset + unat sz < 2 ^ 63"
    using assms(3) valid_range_pos by (auto simp: valid_range_def)
  obtain cl' where cl': "forward_write C p buf False a sz (offset + sz) cl = (Inr (0, sz), cl')" "cdok cl'"
      "cns cl' = cns cl" "\<forall>q. apart p q \<longrightarrow> content cl' q = content cl q"
      "\<And>c. cchunk cl' p c =
        (if first_chunk_of (unat offset) \<le> unat c \<and> unat c \<le> last_chunk_of (unat offset) (unat sz)
         then put_slice (unat offset) (unat sz) buf (unat c) (cchunk cl p c) else cchunk cl p c)"
    using forward_write_chunks [OF assms(1-4), of a] by blast
  then show ?thesis
    using file_bytes_written [OF rng assms(4) cchunk_first_no_NUL [OF assms(1)] assms(5) cl'(5)] by blast
qed

text \<open>A write to the start of an empty file, within the first chunk: what comes after the first
  NUL is lost.\<close>

lemma first_chunk_truncated:
  assumes "cdok cl" "data_path p" "length buf = unat sz" "buf \<noteq> []" "unat sz \<le> 524288"
    "content cl p = (\<lambda>_. None)"
  shows "\<exists>cl'. forward_write C p buf False a sz sz cl = (Inr (0, sz), cl') \<and> cdok cl' \<and>
    content cl' p = byte_at (c_str buf)"
proof -
  have "0 < length buf" using assms(4) by simp
  then have rng: "0 < unat sz" "unat (0 :: u64) + unat sz < 2 ^ 63" using assms(5) by (simp_all add: assms(3))
  then have vr: "valid_range 0 sz" by (auto simp: valid_range_def word_eq_unat64)
  have ends: "first_chunk_of 0 = 0" "last_chunk_of 0 (unat sz) = 0"
    using assms(5) rng(1) by (simp_all add: first_chunk_of_def last_chunk_of_def)
  obtain cl' where cl': "forward_write C p buf False a sz (0 + sz) cl = (Inr (0, sz), cl')" "cdok cl'"
      "\<And>c. cchunk cl' p c = (if first_chunk_of (unat (0 :: u64)) \<le> unat c \<and> unat c \<le> last_chunk_of (unat (0 :: u64)) (unat sz)
         then put_slice (unat (0 :: u64)) (unat sz) buf (unat c) (cchunk cl p c) else cchunk cl p c)"
    using forward_write_chunks [OF assms(1,2) vr assms(3), of a] by blast
  have old: "byte_at (cchunk cl p (of_nat (x div 524288))) (x mod 524288) = None" if "x < 2 ^ 63" for x
    using fun_cong [OF assms(6), of x] that by (simp add: file_bytes_def)
  have "byte_at (cchunk cl p 0) 0 = None" using old [of 0] by simp
  then have "cchunk cl p 0 = []" by (simp add: byte_at_None)
  then have zero: "cchunk cl' p 0 = c_str buf"
    using assms(3,4,5) cl'(3) [of 0]
    by (simp add: ends put_slice_def chunk_with_def slice_pos_def slice_lo_def slice_bytes_def slice_len_def
        slice_hi_def pwrite_at_eq)
  have "length (c_str buf) \<le> 524288" using length_c_str [of buf] assms(3,5) by simp
  then have "content cl' p x = byte_at (c_str buf) x" for x
  proof (cases "x < 2 ^ 63 \<and> x div 524288 = 0")
    case True
    then have "x < 524288" by (simp add: div_eq_0_iff)
    then show ?thesis using zero by (simp add: file_bytes_def)
  next
    case False
    then have big: "524288 \<le> x" by (cases "x < 524288") auto
    then have out: "byte_at (c_str buf) x = None"
      using \<open>length (c_str buf) \<le> 524288\<close> by (simp add: byte_at_None)
    show ?thesis
    proof (cases "x < 2 ^ 63")
      case True
      define m where "m = x div 524288"
      have "m < 2 ^ 44" using True by (simp add: m_def)
      moreover have "0 < m" using big by (simp add: m_def div_greater_zero_iff)
      ultimately have "unat (of_nat m :: u64) \<noteq> 0" by (simp add: unat_of_nat64)
      then have "cchunk cl' p (of_nat m) = cchunk cl p (of_nat m)" using cl'(3) by (simp add: ends)
      then show ?thesis using old [OF True] out True by (simp add: file_bytes_def m_def)
    qed (simp add: file_bytes_def out)
  qed
  then show ?thesis using cl'(1,2) by auto
qed

end

section \<open>Reading\<close>

lemma get_slices_append: "get_slices off n f (ms @ ks) b = get_slices off n f ks (get_slices off n f ms b)"
  by (induction ms arbitrary: b) simp_all

lemma slice_read_cong: "f (of_nat m) = g (of_nat m) \<Longrightarrow> slice_read off n f m = slice_read off n g m"
  by (simp add: slice_read_def)

lemma get_slices_cong:
  "(\<And>m. m \<in> set ms \<Longrightarrow> f (of_nat m) = g (of_nat m)) \<Longrightarrow> get_slices off n f ms b = get_slices off n g ms b"
  by (induction ms arbitrary: b) (simp_all add: slice_read_cong [of f _ g])

text \<open>A position of the range, its chunk and its place in the slice of that chunk.\<close>

lemma slice_place:
  assumes "0 < n" "x < n" "first_chunk_of off \<le> m" "m \<le> last_chunk_of off n"
    "slice_lo off m - off \<le> x" "x < slice_lo off m - off + slice_len off n m"
  shows "(off + x) div 524288 = m" "slice_pos off m + (x - (slice_lo off m - off)) = (off + x) mod 524288"
proof -
  show d: "(off + x) div 524288 = m" using covering_slice [OF assms(1-4)] assms(5,6) by simp
  have "off + x = m * 524288 + (off + x) mod 524288"
    using div_mult_mod_eq [of "off + x" 524288] by (simp add: d)
  moreover have "slice_lo off m = m * 524288 + slice_pos off m" "off \<le> slice_lo off m"
    by (simp_all add: slice_pos_def slice_lo_def)
  ultimately show "slice_pos off m + (x - (slice_lo off m - off)) = (off + x) mod 524288"
    using assms(5) by linarith
qed

lemma byte_at_slice_read:
  "k < slice_len off n m \<Longrightarrow> byte_at (slice_read off n f m) k = byte_at (f (of_nat m)) (slice_pos off m + k)"
  by (auto simp: byte_at_def slice_read_def)

lemma nth_overwrite_byte:
  assumes "o1 + length b \<le> length s" "x < length s"
  shows "overwrite o1 b s ! x = (case byte_at b (x - o1) of
    Some c \<Rightarrow> if o1 \<le> x then c else s ! x | None \<Rightarrow> s ! x)"
  using nth_overwrite [OF assms] by (auto simp: byte_at_def)

lemma nth_get_slices:
  assumes "0 < n" "off + n < 2 ^ 63" "\<And>m. m \<in> set ms \<Longrightarrow> first_chunk_of off \<le> m \<and> m \<le> last_chunk_of off n"
    "distinct ms" "length b = n" "x < n"
  shows "length (get_slices off n f ms b) = n" (is ?len)
    "get_slices off n f ms b ! x =
      (if (off + x) div 524288 \<in> set ms
       then case byte_at (f (of_nat ((off + x) div 524288))) ((off + x) mod 524288) of
         None \<Rightarrow> b ! x | Some c \<Rightarrow> c
       else b ! x)" (is ?nth)
proof -
  have "?len \<and> ?nth" using assms(3-5)
  proof (induction ms arbitrary: b)
    case (Cons m ms)
    have m: "first_chunk_of off \<le> m" "m \<le> last_chunk_of off n" using Cons.prems(1) by auto
    note sf = slice_facts [OF assms(1,2) m]
    let ?o = "slice_lo off m - off" and ?s = "slice_read off n f m"
    let ?b = "overwrite ?o ?s b"
    have fit: "?o + length ?s \<le> length b"
      using sf(3) length_slice_read [of off n f m] Cons.prems(3) by simp
    then have len: "length ?b = n" using Cons.prems(3) by (simp add: length_overwrite)
    have IH: "length (get_slices off n f ms ?b) = n" "get_slices off n f ms ?b ! x =
        (if (off + x) div 524288 \<in> set ms
         then case byte_at (f (of_nat ((off + x) div 524288))) ((off + x) mod 524288) of
           None \<Rightarrow> ?b ! x | Some c \<Rightarrow> c
         else ?b ! x)"
      using Cons.IH [OF _ _ len] Cons.prems(1,2) by auto
    have b: "?b ! x = (if (off + x) div 524288 = m
        then case byte_at (f (of_nat m)) ((off + x) mod 524288) of None \<Rightarrow> b ! x | Some c \<Rightarrow> c else b ! x)"
    proof (cases "?o \<le> x \<and> x < ?o + slice_len off n m")
      case True
      note pl = slice_place [OF assms(1,6) m conjunct1 [OF True] conjunct2 [OF True]]
      have "x - ?o < slice_len off n m" using True by arith
      then have "byte_at ?s (x - ?o) = byte_at (f (of_nat m)) ((off + x) mod 524288)"
        using byte_at_slice_read [of "x - ?o" off n m f] pl(2) by simp
      then show ?thesis
        using nth_overwrite_byte [OF fit, of x] assms(6) Cons.prems(3) True pl(1) by (auto split: option.splits)
    next
      case False
      then have "(off + x) div 524288 \<noteq> m" using covering_slice [OF assms(1,6) m] by auto
      moreover have "?b ! x = b ! x"
        using nth_overwrite_byte [OF fit, of x] assms(6) Cons.prems(3) False length_slice_read [of off n f m]
        by (auto simp: byte_at_def split: option.splits)
      ultimately show ?thesis by simp
    qed
    show ?case
      using IH b Cons.prems(2) by (auto split: option.splits)
  qed (use assms(5) in simp)
  then show ?len ?nth by simp_all
qed

text \<open>The slices of a range hold the bytes that are there.\<close>

lemma length_filter_below: "length (filter (\<lambda>x. p + (x - a) < (l :: nat)) [a..<a + k]) = min k (l - p)"
proof (induction k)
  case (Suc k)
  then show ?case by (cases "p + k < l") auto
qed simp

lemma length_slice_read_filter:
  assumes "0 < n" "off + n < 2 ^ 63" "first_chunk_of off \<le> m" "m \<le> last_chunk_of off n"
    "a = slice_lo off m - off"
  shows "length (slice_read off n f m) = length (filter
    (\<lambda>x. byte_at (f (of_nat ((off + x) div 524288))) ((off + x) mod 524288) \<noteq> None)
    [a..<a + slice_len off n m])"
proof -
  note sf = slice_facts [OF assms(1-4)]
  have "filter (\<lambda>x. byte_at (f (of_nat ((off + x) div 524288))) ((off + x) mod 524288) \<noteq> None)
      [a..<a + slice_len off n m] =
    filter (\<lambda>x. slice_pos off m + (x - a) < length (f (of_nat m))) [a..<a + slice_len off n m]"
  proof (intro filter_cong refl)
    fix x assume "x \<in> set [a..<a + slice_len off n m]"
    then have x: "a \<le> x" "x < a + slice_len off n m" by auto
    then have "x < n" using sf(3) assms(5) by linarith
    from slice_place [OF assms(1) this assms(3,4)] x show
      "(byte_at (f (of_nat ((off + x) div 524288))) ((off + x) mod 524288) \<noteq> None) =
       (slice_pos off m + (x - a) < length (f (of_nat m)))"
      by (simp add: byte_at_None assms(5) not_le)
  qed
  then show ?thesis by (simp only: length_filter_below) (simp add: slice_read_def)
qed

lemma sum_slice_reads_upt:
  assumes "0 < n" "off + n < 2 ^ 63" "first_chunk_of off \<le> k" "k \<le> last_chunk_of off n + 1"
  shows "sum_list (map (\<lambda>m. length (slice_read off n f m)) [first_chunk_of off..<k]) = length (filter
    (\<lambda>x. byte_at (f (of_nat ((off + x) div 524288))) ((off + x) mod 524288) \<noteq> None)
    [0..<if k = first_chunk_of off then 0 else slice_hi off n (k - 1) - off])"
  using assms(3,4)
proof (induction k rule: dec_induct)
  case (step k)
  note b = chunk_bounds [OF assms(1), of off]
  let ?P = "\<lambda>x. byte_at (f (of_nat ((off + x) div 524288))) ((off + x) mod 524288) \<noteq> None"
  define a where "a = slice_lo off k - off"
  have k: "k \<le> last_chunk_of off n" using step by simp
  note le = slice_lo_le_hi [OF assms(1) step(1) k]
  have off: "off \<le> slice_lo off k" by (simp add: slice_lo_def)
  have hi: "slice_hi off n k - off = a + slice_len off n k"
    using le off by (simp add: a_def slice_len_def)
  have a: "a = (if k = first_chunk_of off then 0 else slice_hi off n (k - 1) - off)"
  proof (cases "k = first_chunk_of off")
    case True
    then show ?thesis using b(1) by (simp add: a_def slice_lo_def)
  next
    case False
    then have "first_chunk_of off + 1 \<le> k" using step(1) by simp
    then have "(first_chunk_of off + 1) * 524288 \<le> k * 524288" "k * 524288 \<le> last_chunk_of off n * 524288"
      using k by (intro mult_le_mono1; simp)+
    then show ?thesis
      using False b(2,3) step(1) unfolding a_def slice_lo_def slice_hi_def by auto
  qed
  have "sum_list (map (\<lambda>m. length (slice_read off n f m)) [first_chunk_of off..<Suc k]) =
      length (filter ?P [0..<a]) + length (slice_read off n f k)"
    using step(1) step.IH k by (simp add: a [symmetric])
  also have "\<dots> = length (filter ?P [0..<a + slice_len off n k])"
    using length_slice_read_filter [OF assms(1,2) step(1) k a_def, of f] upt_add_eq_append [of 0 a "slice_len off n k"]
    by simp
  finally show ?case using hi step(1) by simp
qed simp

lemma sum_slice_reads:
  assumes "0 < n" "off + n < 2 ^ 63"
  shows "sum_list (map (\<lambda>m. length (slice_read off n f m)) [first_chunk_of off..<Suc (last_chunk_of off n)]) =
    length (filter (\<lambda>x. byte_at (f (of_nat ((off + x) div 524288))) ((off + x) mod 524288) \<noteq> None) [0..<n])"
proof -
  have "slice_hi off n (last_chunk_of off n) = off + n"
    using chunk_bounds(4) [OF assms(1), of off] by (simp add: slice_hi_def)
  then show ?thesis
    using sum_slice_reads_upt [OF assms, of "Suc (last_chunk_of off n)" f] first_le_last [OF assms(1), of off]
    by auto
qed

context cluster
begin

lemma post_reads:
  assumes "cdok cl" "length buf = unat sz" "\<And>h i. (h, i) \<in> set reqs \<Longrightarrow>
      host_request hash n p offset sz (ms h) i \<and> h < ucast n \<and>
      (\<forall>m \<in> set (ms h). F (of_nat m) = sc (cl (ucast h)) p (of_nat m))"
    "0 < unat sz" "unat offset + unat sz < 2 ^ 63" "distinct (concat (map (\<lambda>(h, i). ms h) reqs))"
  shows "\<exists>dls cl'. post_data C Req_read reqs buf cl =
      (Inr (True, dls, get_slices (unat offset) (unat sz) F (concat (map (\<lambda>(h, i). ms h) reqs)) buf), cl') \<and>
    cdok cl' \<and> cns cl' = cns cl \<and> (\<forall>h. sc (cl' h) = sc (cl h)) \<and>
    (\<forall>t. gather_data dls 0 t = (0, t + of_nat (sum_list
      (map (\<lambda>m. length (slice_read (unat offset) (unat sz) F m)) (concat (map (\<lambda>(h, i). ms h) reqs))))))"
  using assms(1-3,6)
proof (induction reqs arbitrary: cl buf)
  case Nil
  then show ?case by (simp add: cmd_simps)
next
  case (Cons a reqs)
  let ?off = "unat offset" and ?n = "unat sz"
  obtain t i where a: "a = (t, i)" by force
  define h where "h = (ucast t :: u32)"
  have t: "t < ucast n" "host_request hash n p offset sz (ms t) i"
      "\<forall>m \<in> set (ms t). F (of_nat m) = sc (cl h) p (of_nat m)"
    using Cons.prems(3) [of t i] a by (auto simp: h_def)
  have h: "h < n" "ucast h = t"
    using ucast_down_less [OF t(1)] ucast_up_down [OF t(1)] by (simp_all add: h_def)
  have hash: "env_hash E = hash" by simp
  have same: "get_slices ?off ?n (sc (cl h) p) (ms t) buf = get_slices ?off ?n F (ms t) buf"
      "map (\<lambda>m. length (slice_read ?off ?n (sc (cl h) p) m)) (ms t) =
        map (\<lambda>m. length (slice_read ?off ?n F m)) (ms t)"
    using t(3) by (auto intro!: get_slices_cong simp: slice_read_def)
  let ?buf = "get_slices ?off ?n F (ms t) buf"
  let ?k = "sum_list (map (\<lambda>m. length (slice_read ?off ?n F m)) (ms t))"
  obtain ref where d: "rpc_srv_read E i buf (cl h) = (Inr (0, of_nat ?k, ?buf), (cl h)\<lparr>distributor_ref := ref\<rparr>)"
    using store.read_request_ok [of n p offset sz "ms t" i buf "cl h"] t(2) Cons.prems(2)
      cdok_daemon [OF Cons.prems(1) h(1)] unfolding hash same by auto
  let ?d = "(cl h)\<lparr>distributor_ref := ref\<rparr>" and ?cl = "cl(h := (cl h)\<lparr>distributor_ref := ref\<rparr>)"
  have "changes_data config_metadata val ok p (sc (cl h) p) (cl h) ?d"
    using cdok_daemon [OF Cons.prems(1) h(1)] by (simp add: changes_data_def)
  note st = host_step [OF Cons.prems(1) h(1) this]
  have scs: "sc (?cl x) = sc (cl x)" for x by simp
  have len: "length ?buf = ?n"
    using nth_get_slices(1) [OF assms(4,5), of "ms t" buf 0 F] t(2) Cons.prems(2,4) assms(4)
    by (auto simp: host_request_def a)
  have mem: "host_request hash n p offset sz (ms t') i' \<and> t' < ucast n \<and>
      (\<forall>m \<in> set (ms t'). F (of_nat m) = sc (?cl (ucast t')) p (of_nat m))" if "(t', i') \<in> set reqs" for t' i'
    unfolding scs by (rule Cons.prems(3)) (simp add: that)
  have dist: "distinct (concat (map (\<lambda>(h, i). ms h) reqs))" using Cons.prems(4) by (simp add: a)
  obtain dls cl' where
      r: "post_data C Req_read reqs ?buf ?cl =
          (Inr (True, dls, get_slices ?off ?n F (concat (map (\<lambda>(h, i). ms h) reqs)) ?buf), cl')"
        "cdok cl'" "cns cl' = cns ?cl" "\<forall>h. sc (cl' h) = sc (?cl h)"
        "\<forall>t. gather_data dls 0 t = (0, t + of_nat (sum_list
          (map (\<lambda>m. length (slice_read ?off ?n F m)) (concat (map (\<lambda>(h, i). ms h) reqs)))))"
    using Cons.IH [OF st(1) len mem dist] by blast
  have run: "post_data C Req_read (a # reqs) buf cl = (Inr (True, Reply (Resp_data 0 (of_nat ?k) ?buf) # dls,
      get_slices ?off ?n F (concat (map (\<lambda>(h, i). ms h) (a # reqs))) buf), cl')"
    using r(1) d t(1) h
    by (simp add: a cmd_simps host_at_def cluster_send_def resp_of_apply get_slices_append flip: h_def)
  show ?case
    using run r(2-5) st(2) scs by (auto simp: a add.assoc)
qed

lemma forward_read_ok:
  assumes "cdok cl" "data_path p" "valid_range offset sz" "length buf = unat sz"
  shows "\<exists>cl'. forward_read C p buf offset sz cl =
      (Inr (0, of_nat (present (unat offset) (content cl p) (unat sz)), filled (unat offset) (content cl p) buf), cl') \<and>
    cdok cl' \<and> cns cl' = cns cl \<and> content cl' = content cl"
proof -
  let ?off = "unat offset" and ?n = "unat sz"
  have rng: "0 < ?n" "?off + ?n < 2 ^ 63"
    using assms(3) valid_range_pos by (auto simp: valid_range_def)
  obtain reqs where reqs: "data_requests C p offset sz = Inr reqs"
    using data_requests_total [of C p offset sz] hosts by auto
  let ?ms = "request_chunks C p offset sz"
  let ?all = "concat (map (\<lambda>(h, i). ?ms h) reqs)"
  let ?r = "[first_chunk_of ?off..<Suc (last_chunk_of ?off ?n)]"
  have part: "mset ?all = mset ?r" by (rule request_chunks_partition [OF assms(3) reqs])
  have all: "distinct ?all" "set ?all = set ?r"
    using mset_eq_imp_distinct_iff [OF part] mset_eq_setD [OF part] by simp_all
  have own: "ucast h = chunk_host hash n p (of_nat m)" if "m \<in> set (?ms h)" for h m
    using that by (auto simp: request_chunks_def host_chunks_def on_host_cluster hosts simp del: upt_Suc)
  have host: "host_request hash n p offset sz (?ms h) i \<and> h < ucast n \<and>
      (\<forall>m \<in> set (?ms h). cchunk cl p (of_nat m) = sc (cl (ucast h)) p (of_nat m))" if "(h, i) \<in> set reqs" for h i
    using range_request_host [OF hosts assms(2,3) reqs that] own by (simp add: cluster_chunk_def)
  obtain dls cl' where r: "post_data C Req_read reqs buf cl =
        (Inr (True, dls, get_slices ?off ?n (cchunk cl p) ?all buf), cl')" "cdok cl'" "cns cl' = cns cl"
      "\<forall>h. sc (cl' h) = sc (cl h)"
      "\<And>t. gather_data dls 0 t = (0, t + of_nat (sum_list
        (map (\<lambda>m. length (slice_read ?off ?n (cchunk cl p) m)) ?all)))"
    using post_reads [OF assms(1,4) host rng all(1)] by blast
  have bytes: "content cl p (?off + x) =
      byte_at (cchunk cl p (of_nat ((?off + x) div 524288))) ((?off + x) mod 524288)" if "x < ?n" for x
    using rng that by (simp add: file_bytes_def)
  have "sum_list (map (\<lambda>m. length (slice_read ?off ?n (cchunk cl p) m)) ?all) =
      sum_list (map (\<lambda>m. length (slice_read ?off ?n (cchunk cl p) m)) ?r)"
    using arg_cong [OF part, of "\<lambda>M. sum_mset (image_mset (\<lambda>m. length (slice_read ?off ?n (cchunk cl p) m)) M)"]
    by (simp only: sum_mset_sum_list mset_map [symmetric])
  also have "\<dots> = present ?off (content cl p) ?n"
    unfolding present_def sum_slice_reads [OF rng]
    by (intro arg_cong [of _ _ length] filter_cong) (auto simp: bytes)
  finally have cnt: "sum_list (map (\<lambda>m. length (slice_read ?off ?n (cchunk cl p) m)) ?all) =
      present ?off (content cl p) ?n" .
  have inr: "(?off + x) div 524288 \<in> set ?r" if "x < ?n" for x
  proof -
    have "(?off + x) div 524288 \<le> (?off + ?n - 1) div 524288" using that by (intro div_le_mono) arith
    moreover have "?off div 524288 \<le> (?off + x) div 524288" by (intro div_le_mono) simp
    ultimately show ?thesis by (simp add: first_chunk_of_def last_chunk_of_def less_Suc_eq_le del: upt_Suc)
  qed
  have rm: "first_chunk_of ?off \<le> m \<and> m \<le> last_chunk_of ?off ?n" if "m \<in> set ?all" for m
    using that unfolding all(2) by auto
  have buf: "get_slices ?off ?n (cchunk cl p) ?all buf = filled ?off (content cl p) buf"
  proof (rule nth_equalityI)
    show "length (get_slices ?off ?n (cchunk cl p) ?all buf) = length (filled ?off (content cl p) buf)"
      using nth_get_slices(1) [OF rng rm all(1) assms(4) rng(1)] assms(4) by (simp add: filled_def)
    fix x assume "x < length (get_slices ?off ?n (cchunk cl p) ?all buf)"
    then have x: "x < ?n" using nth_get_slices(1) [OF rng rm all(1) assms(4) rng(1)] by simp
    show "get_slices ?off ?n (cchunk cl p) ?all buf ! x = filled ?off (content cl p) buf ! x"
      using nth_get_slices(2) [OF rng rm all(1) assms(4) x, of "cchunk cl p"] inr [OF x] x assms(4)
      unfolding all(2) by (simp add: filled_def bytes del: upt_Suc split: option.split)
  qed
  have "forward_read C p buf offset sz cl =
      (Inr (0, of_nat (present ?off (content cl p) ?n), filled ?off (content cl p) buf), cl')"
    using reqs r(1,5) by (simp add: forward_read_def forward_data_def cmd_simps cnt buf)
  moreover have "content cl' = content cl"
    using r(4) by (simp add: fun_eq_iff file_bytes_def cluster_chunk_def)
  ultimately show ?thesis using r(2,3) by blast
qed

end

section \<open>Sizes and the client's calls\<close>

lemma absolute_key_frame:
  assumes "is_absolute p" "val db = (val (d_mdb d))(p := v)"
  shows "stored_chunk val (d\<lparr>d_mdb := db\<rparr>) = stored_chunk val d"
    "first_chunks_ok (val (d_mdb d)) \<Longrightarrow> first_chunks_ok (val db)"
  using assms by (auto simp: fun_eq_iff stored_chunk_def first_chunks_ok_def)

context cluster
begin

text \<open>An update of one entry on the daemon of its path.\<close>

lemma entry_update_data:
  assumes "cdok cl" "h < n" "is_absolute p" "val db = (val (d_mdb (cl h)))(p := v)"
    "store.ready ((cl h)\<lparr>d_mdb := db\<rparr>)" "cl' = cl(h := (cl h)\<lparr>d_mdb := db\<rparr>)" "cok cl'"
  shows "cdok cl'" "content cl' = content cl"
proof -
  note df = cdok_daemon [OF assms(1,2)] and fr = absolute_key_frame [OF assms(3,4)]
  have "data_fit config_metadata val ok ((cl h)\<lparr>d_mdb := db\<rparr>)"
    using df fr(2) store.fit_upd [OF store.dfit_simps(1) [OF df] assms(5)] by (simp add: data_fit_def)
  then show "cdok cl'" using assms(1,7) by (simp add: cluster_data_ok_def assms(6))
  show "content cl' = content cl"
    using fr(1) by (simp add: fun_eq_iff file_bytes_def cluster_chunk_def assms(6))
qed

lemma size_update_ok:
  assumes "cdok cl" "cns cl p = Some md" "new = max (md_size md) (sz + off)" "unat new < 2 ^ 63"
  shows "\<exists>cl'. forward_update_metadentry_size C p sz off False cl = (Inr (0, off + sz), cl') \<and> cdok cl' \<and>
    cns cl' = (cns cl)(p \<mapsto> md\<lparr>md_size := new\<rparr>) \<and> content cl' = content cl"
proof -
  define h where "h = own p"
  have h: "h < n" using owner_bound [OF hosts] by (simp add: h_def)
  have ck: "cok cl" using assms(1) by (simp add: cluster_data_ok_def)
  note df = cdok_daemon [OF assms(1) h]
  have md: "daemon_ns config_metadata val (cl h) p = Some md"
    using assms(2) by (simp add: cluster_ns_def h_def)
  note s = store.ns_Some [OF store.dfit_simps(1) [OF df], of p md, simplified, OF md]
  obtain db where db: "update_size E p sz off False (cl h) = (Inr (), (cl h)\<lparr>d_mdb := db\<rparr>)"
      "store.ready ((cl h)\<lparr>d_mdb := db\<rparr>)"
      "val db = (val (d_mdb (cl h)))(p \<mapsto> serialize config_metadata (md\<lparr>md_size := new\<rparr>))"
    using store.update_size_ok [OF store.dfit_simps(2) [OF df], of p md new False sz off] s(2,3) assms(3,4)
    by auto
  have run: "dispatch E (Req_update_metadentry_size p sz off False) (cl h) =
      (Inr (Resp_size 0 (off + sz)), (cl h)\<lparr>d_mdb := db\<rparr>)"
    using store.dfit_simps(3) [OF df] db(1)
    by (simp add: rpc_srv_update_metadentry_size_def cmd_simps resp_of_apply)
  obtain cl' where cl': "forward_update_metadentry_size C p sz off False cl = (Inr (0, off + sz), cl')"
      "cok cl'" "cns cl' = (cns cl)(p \<mapsto> md\<lparr>md_size := new\<rparr>)"
    using forward_update_size_ok [OF ck assms(2), of new False sz off] assms(3,4) by auto
  have eq: "cl' = cl(h := (cl h)\<lparr>d_mdb := db\<rparr>)"
    using cl'(1) cluster_call [where cl = cl, OF h run]
    by (simp add: forward_update_metadentry_size_def call_meta_def cluster_meta_host hosts h_def
        cmd_simps size_of_response_def)
  show ?thesis using cl'(1,3) entry_update_data [OF assms(1) h s(1) db(3,2) eq cl'(2)] by blast
qed

lemma decr_size_ok:
  assumes "cdok cl" "cns cl p = Some md" "unat len < 2 ^ 63"
  shows "\<exists>cl'. forward_decr_size C p len cl = (Inr 0, cl') \<and> cdok cl' \<and>
    cns cl' = (cns cl)(p \<mapsto> md\<lparr>md_size := len\<rparr>) \<and> content cl' = content cl"
proof -
  define h where "h = own p"
  have h: "h < n" using owner_bound [OF hosts] by (simp add: h_def)
  have ck: "cok cl" using assms(1) by (simp add: cluster_data_ok_def)
  note df = cdok_daemon [OF assms(1) h]
  have md: "daemon_ns config_metadata val (cl h) p = Some md"
    using assms(2) by (simp add: cluster_ns_def h_def)
  note s = store.ns_Some [OF store.dfit_simps(1) [OF df], of p md, simplified, OF md]
  obtain db where db: "mdb_decrease_size (env_backend E) p len (d_mdb (cl h)) = (Inr (), db)"
      "store.ready ((cl h)\<lparr>d_mdb := db\<rparr>)"
      "val db = (val (d_mdb (cl h)))(p \<mapsto> serialize config_metadata (md\<lparr>md_size := len\<rparr>))"
    using store.mdb_decrease_size_ok [of "d_mdb (cl h)" p md len] s(2,3) assms(3)
      store.dfit_simps(2) [OF df] by (auto simp: store.ready_def)
  have run: "dispatch E (Req_decr_size p len) (cl h) = (Inr (Resp_err 0), (cl h)\<lparr>d_mdb := db\<rparr>)"
    using store.dfit_simps(3) [OF df] db(1)
    by (simp add: rpc_srv_decr_size_def on_mdb_def catch_map_def cmd_simps resp_of_apply)
  obtain cl' where cl': "forward_decr_size C p len cl = (Inr 0, cl')"
      "cok cl'" "cns cl' = (cns cl)(p \<mapsto> md\<lparr>md_size := len\<rparr>)"
    using forward_decr_size_ok [OF ck assms(2,3)] by blast
  have eq: "cl' = cl(h := (cl h)\<lparr>d_mdb := db\<rparr>)"
    using cl'(1) cluster_call [where cl = cl, OF h run]
    by (simp add: forward_decr_size_def call_meta_def cluster_meta_host hosts h_def cmd_simps err_of_def)
  show ?thesis using cl'(1,3) entry_update_data [OF assms(1) h s(1) db(3,2) eq cl'(2)] by blast
qed

end

section \<open>The cluster provides the interface\<close>

sublocale cluster \<subseteq> data: data_service "cluster_client (rocksdb_env config_metadata R hash stale) hash self n"
    "cluster_ns val hash n" "file_bytes val hash n" "cluster_data_ok val ok hash n stmp"
  by unfold_locales (rule size_update_ok forward_write_ok forward_read_ok; assumption)+

context cluster
begin

lemma data_provider:
  "data_service (cluster_client (rocksdb_env config_metadata R hash stale) hash self n)
    (cluster_ns val hash n) (file_bytes val hash n) (cluster_data_ok val ok hash n stmp)"
  by (rule data.data_service_axioms)

end

lemma cluster_axioms_ok: "rocksdb_contract config_metadata R val ok \<Longrightarrow> n \<noteq> 0 \<Longrightarrow> cluster R val ok n"
  by (simp add: cluster_def cluster_axioms_def)

lemma cluster_data_service:
  "rocksdb_contract config_metadata R val ok \<Longrightarrow> n \<noteq> 0 \<Longrightarrow>
   data_service (cluster_client (rocksdb_env config_metadata R hash stale) hash self n)
     (cluster_ns val hash n) (file_bytes val hash n) (cluster_data_ok val ok hash n stmp)"
  by (rule cluster.data_provider [OF cluster_axioms_ok])

end
