(* ===== verification/File_Operations.thy ===== *)
theory File_Operations
  imports Cluster
begin

text \<open>
  What the client's file operations do on a cluster of daemons: their results, \<open>errno\<close> and the
  namespace afterwards. The facts come from the interface \<open>meta_service\<close>, which the cluster
  provides.
\<close>

section \<open>Outcomes on a cluster\<close>

definition cluster_outcome ::
    "('db \<Rightarrow> bytes \<rightharpoonup> bytes) \<Rightarrow> ('db \<Rightarrow> bool) \<Rightarrow> (string \<Rightarrow> u64) \<Rightarrow> u32 \<Rightarrow> (u32 \<Rightarrow> metadata \<Rightarrow> metadata) \<Rightarrow>
     'db cluster fs \<Rightarrow> ('db cluster fs, 'a) cmd \<Rightarrow> 'a \<Rightarrow> errno \<Rightarrow> namespace \<Rightarrow> bool" where
  "cluster_outcome val ok hash n stmp s m r e N \<longleftrightarrow>
     (\<exists>cl. m s = (Inr r, s\<lparr>fs_net := cl, fs_errno := e\<rparr>) \<and> cluster_ok val ok hash n stmp cl \<and>
       cluster_ns val hash n cl = N)"

lemma cluster_outcome_eq:
  assumes "rocksdb_contract config_metadata R val ok" "n \<noteq> 0"
  shows "meta_service.outcome (cluster_ns val hash n) (cluster_ok val ok hash n stmp) s m r e N =
    cluster_outcome val ok hash n stmp s m r e N"
  unfolding meta_service.outcome_def [OF cluster_service [OF assms]] cluster_outcome_def by simp

section \<open>A sample cluster\<close>

definition sample_store :: "(path \<times> metadata) list \<Rightarrow> lazy_store" where
  "sample_store xs = map (\<lambda>(p, md). (p, Some (serialize config_metadata md), [])) xs"

definition entry :: "u32 \<Rightarrow> string \<Rightarrow> metadata" where
  "entry m t = empty_metadata\<lparr>md_mode := m, md_target_path := t\<rparr>"

definition sample_names :: "u32 \<Rightarrow> (path \<times> metadata) list" where
  "sample_names h = (if h = 1 then [(''/'', entry S_IFDIR []), (''/d/f'', entry S_IFREG [])]
     else if h = 2 then [(''/d'', entry S_IFDIR []), (''/e'', entry S_IFDIR []), (''/l'', entry LINK_MODE ''/d''), (''/c'', entry LINK_MODE ''/c'')]
     else [])"

definition sample_hash :: "string \<Rightarrow> u64" where
  "sample_hash s = of_nat (length s)"

definition sample_cluster :: "lazy_store cluster" where
  "sample_cluster h = sample_daemon\<lparr>d_mdb := sample_store (sample_names h)\<rparr>"

definition sample_fs :: "lazy_store cluster fs" where
  "sample_fs = \<lparr>fs_net = sample_cluster, fs_files = OpenFileMap, fs_errno = 0\<rparr>"

definition sample_ns :: namespace where
  "sample_ns = map_of (sample_names 1 @ sample_names 2)"

lemma map_of_sample_store:
  "map_of (sample_store xs) k = map_option (\<lambda>md. (Some (serialize config_metadata md), [])) (map_of xs k)"
  by (induction xs) (auto simp: sample_store_def)

lemma sample_store_ok:
  assumes "distinct (map fst xs)"
  shows "lazy_ok config_metadata (sample_store xs)"
    "lazy_val config_metadata (sample_store xs) = (\<lambda>k. map_option (serialize config_metadata) (map_of xs k))"
proof -
  have "map fst (sample_store xs) = map fst xs" by (induction xs) (auto simp: sample_store_def)
  moreover have "list_all (\<lambda>(k, e). \<not> isl (fold_entry config_metadata e)) (sample_store xs)"
    by (auto simp: sample_store_def list_all_iff)
  ultimately show "lazy_ok config_metadata (sample_store xs)"
    using assms by (simp add: lazy_ok_def)
  show "lazy_val config_metadata (sample_store xs) = (\<lambda>k. map_option (serialize config_metadata) (map_of xs k))"
    by (auto simp: lazy_val_def map_of_sample_store fun_eq_iff option.map_comp split: option.split)
qed

lemma sample_names_ok:
  "distinct (map fst (sample_names h))"
  "list_all (\<lambda>(p, md). is_absolute p \<and> NUL \<notin> set p \<and> storable md \<and> stored_fields config_metadata md = md \<and>
     owner sample_hash 3 p = h) (sample_names h)"
  by (auto simp: sample_names_def entry_def storable_def sample_path_simps LINK_MODE_def stored_fields_def
      config_metadata_def owner_def sample_hash_def)

lemma sample_daemon_ns_at:
  "daemon_ns config_metadata (lazy_val config_metadata) (sample_cluster h) = map_of (sample_names h)"
proof
  fix p
  have "\<And>md. map_of (sample_names h) p = Some md \<Longrightarrow>
      is_absolute p \<and> deserialize config_metadata (serialize config_metadata md) = Inr md"
    using sample_names_ok(2) [of h] deserialize_serialize
    by (fastforce simp: list_all_iff dest!: map_of_SomeD)
  then show "daemon_ns config_metadata (lazy_val config_metadata) (sample_cluster h) p = map_of (sample_names h) p"
    by (cases "map_of (sample_names h) p")
      (auto simp: daemon_ns_def namespace_of_def sample_cluster_def sample_store_ok(2) [OF sample_names_ok(1)])
qed

lemma sample_cluster_ok:
  "cluster_ok (lazy_val config_metadata) (lazy_ok config_metadata) sample_hash 3
     (\<lambda>_. stamp sample_daemon) sample_cluster"
proof -
  have "wf_map config_metadata (lazy_val config_metadata (sample_store (sample_names h)))" for h
    using sample_names_ok(2) [of h]
    by (fastforce simp: sample_store_ok(2) [OF sample_names_ok(1)] wf_map_def canonical_def list_all_iff
        dest!: map_of_SomeD)
  moreover have "owner sample_hash 3 p = h \<and> NUL \<notin> set p" if "map_of (sample_names h) p = Some md" for h p md
    using sample_names_ok(2) [of h] that by (fastforce simp: list_all_iff dest!: map_of_SomeD)
  ultimately show ?thesis
    using sample_store_ok(1) [OF sample_names_ok(1)]
    by (auto simp: cluster_ok_def sample_daemon_ns_at)
      (simp_all add: healthy_def sample_cluster_def sample_daemon_def stamp_def fun_eq_iff)
qed

lemma sample_cluster_ns: "cluster_ns (lazy_val config_metadata) sample_hash 3 sample_cluster = sample_ns"
proof
  fix p
  have own: "owner sample_hash 3 p = h" if "map_of (sample_names h) p = Some md" for h md
    using sample_names_ok(2) [of h] that by (fastforce simp: list_all_iff dest!: map_of_SomeD)
  show "cluster_ns (lazy_val config_metadata) sample_hash 3 sample_cluster p = sample_ns p"
  proof (cases "sample_ns p")
    case None
    then show ?thesis
      by (auto simp: cluster_ns_def sample_daemon_ns_at sample_ns_def sample_names_def split: if_splits)
  next
    case (Some md)
    then show ?thesis using own
      by (auto simp: cluster_ns_def sample_daemon_ns_at sample_ns_def map_add_def split: option.splits)
  qed
qed

lemma sample_fs_ok:
  "cluster_ok (lazy_val config_metadata) (lazy_ok config_metadata) sample_hash 3
     (\<lambda>_. stamp sample_daemon) (fs_net sample_fs)"
  "cluster_ns (lazy_val config_metadata) sample_hash 3 (fs_net sample_fs) = sample_ns"
  by (simp_all add: sample_fs_def sample_cluster_ok sample_cluster_ns)

abbreviation "sample_client \<equiv>
  cluster_client (rocksdb_env config_metadata (lazy_rocksdb config_metadata) sample_hash (\<lambda>_. 0)) sample_hash 0 3"

abbreviation "sample_outcome \<equiv> cluster_outcome (lazy_val config_metadata) (lazy_ok config_metadata)
  sample_hash 3 (\<lambda>_. stamp sample_daemon) sample_fs"

lemmas sample_contract = lazy.rocksdb_contract_axioms [of config_metadata]

lemmas sample_ns_simps = sample_ns_def sample_names_def entry_def sample_path_simps

lemma sample_ns_values:
  "sample_ns ''/'' = Some (entry S_IFDIR [])" "sample_ns ''/d'' = Some (entry S_IFDIR [])"
  "sample_ns ''/e'' = Some (entry S_IFDIR [])" "sample_ns ''/d/f'' = Some (entry S_IFREG [])" "sample_ns ''/d/g'' = None" "sample_ns ''/x'' = None"
  "sample_ns ''/l'' = Some (entry LINK_MODE ''/d'')" "sample_ns ''/c'' = Some (entry LINK_MODE ''/c'')"
  by (simp_all add: sample_ns_def sample_names_def)

lemma entry_sel [simp]: "md_mode (entry m t) = m" "md_target_path (entry m t) = t"
  by (simp_all add: entry_def empty_metadata_def)

section \<open>Creating and removing\<close>

text \<open>C29: Creating a file or directory on the cluster: it succeeds exactly if the parent is a
  directory and the name is free, and then adds just that entry, on the daemon of its path; it fails
  with \<open>ENOENT\<close>, \<open>ENOTDIR\<close> or \<open>EEXIST\<close> otherwise and changes no name.\<close>

lemma gaofs_create_spec:
  assumes "rocksdb_contract config_metadata R val ok" "n \<noteq> 0"
    "cluster_ok val ok hash n stmp (fs_net s)" "N = cluster_ns val hash n (fs_net s)"
    "valid_key p" "NUL \<notin> set p" "dirname p = Inr parent" "is_absolute parent"
    "S_ISDIR (create_mode m) \<or> S_ISREG (create_mode m)" "err = create_err N parent p"
  shows "cluster_outcome val ok hash n stmp s
    (gaofs_create (cluster_client (rocksdb_env config_metadata R hash stale) hash self n) p m)
    (if err = 0 then 0 else - 1) (if err = 0 then fs_errno s else err)
    (if err = 0 then N(p \<mapsto> new_entry (stmp (owner hash n p)) (create_mode m)) else N)"
  unfolding cluster_outcome_eq [OF assms(1,2), symmetric] assms(4)
  by (rule meta_service.gaofs_create_ok [OF cluster_service [OF assms(1,2)]]) (use assms in simp_all)

lemma gaofs_create_spec_witness:
  "sample_outcome (gaofs_create sample_client ''/d/g'' 420) 0 0
     (sample_ns(''/d/g'' \<mapsto> new_entry (stamp sample_daemon) (420 OR S_IFREG))) \<and>
   sample_outcome (gaofs_create sample_client ''/d/f'' 420) (- 1) EEXIST sample_ns \<and>
   sample_outcome (gaofs_create sample_client ''/d/f/x'' 420) (- 1) ENOTDIR sample_ns"
proof -
  note g = gaofs_create_spec [OF sample_contract _ sample_fs_ok(1) sample_fs_ok(2) [symmetric], simplified]
  show ?thesis
    using g [of "''/d/g''" "''/d''" 420 0] g [of "''/d/f''" "''/d''" 420 EEXIST]
      g [of "''/d/f/x''" "''/d/f''" 420 ENOTDIR]
    by (simp add: create_err_def create_mode_def sample_ns_values sample_path_simps dirname_def
        find_last_of_def sample_fs_def)
qed

text \<open>C30: Removing a file on the cluster takes its entry away, and only that entry, whatever number
  of daemons hold its chunks; a missing file is \<open>ENOENT\<close>, a directory \<open>EISDIR\<close>, and then no name
  changes.\<close>

lemma gaofs_remove_spec:
  assumes "rocksdb_contract config_metadata R val ok" "n \<noteq> 0"
    "cluster_ok val ok hash n stmp (fs_net s)" "N = cluster_ns val hash n (fs_net s)"
    "is_absolute p" "p \<noteq> [separator]" "err = remove_err N p"
  shows "cluster_outcome val ok hash n stmp s
    (gaofs_remove (cluster_client (rocksdb_env config_metadata R hash stale) hash self n) p)
    (if err = 0 then 0 else - 1) (if err = 0 then fs_errno s else err)
    (if err = 0 then N(p := None) else N)"
  unfolding cluster_outcome_eq [OF assms(1,2), symmetric] assms(4)
  by (rule meta_service.gaofs_remove_ok [OF cluster_service [OF assms(1,2)]]) (use assms in simp_all)

lemma gaofs_remove_spec_witness:
  "sample_outcome (gaofs_remove sample_client ''/d/f'') 0 0 (sample_ns(''/d/f'' := None)) \<and>
   sample_outcome (gaofs_remove sample_client ''/d'') (- 1) EISDIR sample_ns \<and>
   sample_outcome (gaofs_remove sample_client ''/x'') (- 1) ENOENT sample_ns"
proof -
  note g = gaofs_remove_spec [OF sample_contract _ sample_fs_ok(1) sample_fs_ok(2) [symmetric], simplified]
  show ?thesis
    using g [of "''/d/f''" 0] g [of "''/d''" EISDIR] g [of "''/x''" ENOENT]
    by (simp add: remove_err_def sample_ns_values sample_path_simps sample_fs_def)
qed

text \<open>C31: \<open>gaofs_rmdir\<close> removes a directory exactly if no daemon has an entry below it: an empty
  directory always goes, one with children stays and the call fails with \<open>ENOTEMPTY\<close> (with \<open>ENOBUFS\<close>
  if their listing can exceed a daemon's share of the 8 MiB buffer).\<close>

lemma gaofs_rmdir_spec:
  assumes "rocksdb_contract config_metadata R val ok" "n \<noteq> 0"
    "cluster_ok val ok hash n stmp (fs_net s)" "N = cluster_ns val hash n (fs_net s)"
    "valid_key p" "p \<noteq> [separator]" "err = rmdir_err N p"
    "m = gaofs_rmdir (cluster_client (rocksdb_env config_metadata R hash stale) hash self n) p"
  shows "cluster_outcome val ok hash n stmp s m (if err = 0 then 0 else - 1)
      (if err = 0 then fs_errno s else err) (if err = 0 then N(p := None) else N) \<or>
    (err = ENOTEMPTY \<and> 8388608 div unat n < listing_size (children N p) \<and>
     cluster_outcome val ok hash n stmp s m (- 1) ENOBUFS N)"
  unfolding cluster_outcome_eq [OF assms(1,2), symmetric] assms(4,8)
  by (rule meta_service.gaofs_rmdir_ok [OF cluster_service [OF assms(1,2)]]) (use assms in simp_all)

lemma gaofs_rmdir_spec_witness:
  "sample_outcome (gaofs_rmdir sample_client ''/e'') 0 0 (sample_ns(''/e'' := None)) \<and>
   sample_outcome (gaofs_rmdir sample_client ''/d/f'') (- 1) ENOTDIR sample_ns"
proof -
  note g = gaofs_rmdir_spec [OF sample_contract _ sample_fs_ok(1) sample_fs_ok(2) [symmetric] _ _ _ refl, simplified]
  have c: "children sample_ns ''/e'' = {}"
    by (auto simp: children_def child_path_def sample_ns_def sample_names_def separator_def
        split: if_splits)
  have err: "rmdir_err sample_ns ''/e'' = 0" "rmdir_err sample_ns ''/d/f'' = ENOTDIR"
    using c by (simp_all add: rmdir_err_def sample_ns_values mode_defs)
  have "sample_outcome (gaofs_rmdir sample_client ''/e'') 0 0 (sample_ns(''/e'' := None))"
    using g [where p = "''/e''" and err = 0 and stale = "\<lambda>_. 0" and self = 0]
    by (simp add: err sample_path_simps sample_fs_def)
  moreover have "sample_outcome (gaofs_rmdir sample_client ''/d/f'') (- 1) ENOTDIR sample_ns"
    using g [where p = "''/d/f''" and err = ENOTDIR and stale = "\<lambda>_. 0" and self = 0]
    by (simp add: err sample_path_simps)
  ultimately show ?thesis by blast
qed

section \<open>Following links\<close>


definition sample_ctx :: "lazy_store cluster gaofs_ctx" where
  "sample_ctx = \<lparr>ctx_client = sample_client, ctx_mountdir = ''/m'',
     ctx_conf = \<lparr>conf_atime = False, conf_mtime = True, conf_ctime = False, conf_link_cnt = False,
       conf_blocks = False, conf_uid = 0, conf_gid = 0, conf_rootdir = ''/r''\<rparr>\<rparr>"

lemma link_simps [simp]: "is_link (entry LINK_MODE t)" "\<not> is_link (entry S_IFDIR t)" "\<not> is_link (entry S_IFREG t)"
  by (simp_all add: is_link_def mode_defs LINK_MODE_def)


text \<open>C33: A cycle of links is followed for ever: there is no \<open>ELOOP\<close>, and \<open>stat\<close> on such a path never
  returns.\<close>

lemma gaofs_stat_link_cycle:
  assumes "rocksdb_contract config_metadata R val ok" "n \<noteq> 0"
    "cluster_ok val ok hash n stmp (fs_net s)" "link_cycle (cluster_ns val hash n (fs_net s)) P" "p \<in> P"
    "ctx_client X = cluster_client (rocksdb_env config_metadata R hash stale) hash self n"
  shows "fst (gaofs_stat X p True s) = Inl Hang"
  by (rule meta_service.gaofs_stat_cycle [OF cluster_service [OF assms(1,2), where hash = hash and
        stale = stale and self = self and stmp = stmp], where P = P])
    (use assms in simp_all)

lemma gaofs_stat_link_cycle_witness: "fst (gaofs_stat sample_ctx ''/c'' True sample_fs) = Inl Hang"
  by (rule gaofs_stat_link_cycle [OF sample_contract _ sample_fs_ok(1), where P = "{''/c''}" and stale = "\<lambda>_. 0"
        and self = 0])
    (simp_all add: sample_fs_ok(2) link_cycle_def sample_ns_values is_absolute_def separator_def sample_ctx_def)

section \<open>Listing a directory\<close>

text \<open>C34: A directory listing asks every daemon and gets exactly the entries of the directory, each
  with its kind, wherever they are stored; it changes nothing. It can only fail with \<open>ENOBUFS\<close>, and
  not if the names fit a daemon's share of the client's 8 MiB buffer.\<close>

lemma cluster_listing:
  assumes "rocksdb_contract config_metadata R val ok" "n \<noteq> 0"
    "cluster_ok val ok hash n stmp cl" "valid_key dir" "N = cluster_ns val hash n cl"
  shows "\<exists>e d. forward_get_dirents (cluster_client (rocksdb_env config_metadata R hash stale) hash self n) dir cl =
      (Inr (e, Some d), cl) \<and> (e = 0 \<or> e = ENOBUFS) \<and>
    (listing_size (children N dir) \<le> 8388608 div unat n \<longrightarrow> e = 0) \<and>
    (e = 0 \<longrightarrow> set (of_entries d) = children N dir)"
  using meta_service.listed [OF cluster_service [OF assms(1,2), where hash = hash and stale = stale and
        self = self and stmp = stmp], OF assms(3,4)] assms(5) by auto

lemma cluster_listing_witness:
  "\<exists>d. forward_get_dirents sample_client ''/d'' sample_cluster = (Inr (0, Some d), sample_cluster) \<and>
     set (of_entries d) = {(''f'', Regular)}"
proof -
  have c: "children sample_ns ''/d'' = {(''f'', Regular)}"
    by (auto simp: children_def child_path_def sample_ns_def sample_names_def separator_def mode_defs
        split: if_splits)
  show ?thesis
    using cluster_listing [OF sample_contract _ sample_cluster_ok, where dir = "''/d''" and
        stale = "\<lambda>_. 0" and self = 0]
    by (auto simp: sample_cluster_ns c listing_size_def sample_path_simps)
qed

end
