(* ===== verification/File_Content.thy ===== *)
theory File_Content
  imports File_Data File_Operations
begin

text \<open>
  What an application gets from the data path of the whole system: client, requests, daemons and
  their stores composed. The facts come from the interface \<open>data_service\<close>, which the cluster
  provides.
\<close>

section \<open>Writing and reading back\<close>

text \<open>C1: A write and a read back through the whole system: whatever buffers \<open>pwritev\<close> gets, on
  whatever number of daemons with whatever hash function, it writes all their bytes, raises the
  size of the file to at least the end of the write, and a later \<open>pread\<close> of the same range returns
  exactly these bytes; files in other chunk directories keep their content. (The part in the first
  chunk must have no NUL and no gap before it.)\<close>

lemma pwritev_pread:
  assumes "rocksdb_contract config_metadata R val ok" "n \<noteq> 0"
    "C = cluster_client (rocksdb_env config_metadata R hash stale) hash self n"
    "cluster_data_ok val ok hash n stmp (fs_net s)"
    "get_file fd (fs_files s) = Some f" "plain_file f p" "cluster_ns val hash n (fs_net s) p = Some md"
    "unat (md_size md) < 2 ^ 63" "concat iov \<noteq> []" "unat pos + length (concat iov) < 2 ^ 63"
    "first_chunk_safe (unat pos) (concat iov) (file_bytes val hash n (fs_net s) p)"
    "length rbuf = length (concat iov)"
  shows "\<exists>s'. gaofs_pwritev C fd iov pos s = (Inr (int (length (concat iov))), s') \<and>
    fst (gaofs_pread_ws C fd rbuf pos s') = Inr (int (length (concat iov)), concat iov) \<and>
    cluster_ns val hash n (fs_net s') =
      grown (cluster_ns val hash n (fs_net s)) p (of_nat (unat pos + length (concat iov))) \<and>
    (\<forall>q. apart p q \<longrightarrow> file_bytes val hash n (fs_net s') q = file_bytes val hash n (fs_net s) q)"
proof -
  note ds = cluster_data_service [OF assms(1,2), where hash = hash and stale = stale and self = self and stmp = stmp,
      folded assms(3)]
  obtain cl where w: "gaofs_pwritev C fd iov pos s = (Inr (int (length (concat iov))), s\<lparr>fs_net := cl\<rparr>)"
      "data_service.writes_to (cluster_ns val hash n) (file_bytes val hash n)
         (cluster_data_ok val ok hash n stmp) (fs_net s) p (unat pos) (concat iov) cl"
    using data_service.pwritev_ok [OF ds, OF assms(4-11)] by blast
  note w' = w(2) [unfolded data_service.writes_to_def [OF ds]]
  have "rbuf \<noteq> []" using assms(9,12) by auto
  then obtain cl' where "gaofs_pread C f rbuf pos (s\<lparr>fs_net := cl\<rparr>) =
      (Inr (int (present (unat pos) (file_bytes val hash n cl p) (length rbuf)),
         filled (unat pos) (file_bytes val hash n cl p) rbuf), (s\<lparr>fs_net := cl\<rparr>)\<lparr>fs_net := cl'\<rparr>)"
    using data_service.pread_ok [OF ds, of "s\<lparr>fs_net := cl\<rparr>" f p rbuf pos] w' assms(6,10,12) by auto
  then have "fst (gaofs_pread_ws C fd rbuf pos (s\<lparr>fs_net := cl\<rparr>)) = Inr (int (length (concat iov)), concat iov)"
    using w' assms(5,9,12) present_written [of "unat pos" "concat iov"] filled_written [of rbuf "concat iov" "unat pos"]
    by (simp add: gaofs_pread_ws_def with_file_def del: length_concat)
  then show ?thesis
    using w(1) w' [unfolded if_not_P [OF assms(9)]]
    by (intro exI [of _ "s\<lparr>fs_net := cl\<rparr>"]) simp
qed

text \<open>A client with one file open.\<close>

definition sample_open_fs :: "lazy_store cluster fs" where
  "sample_open_fs = sample_fs\<lparr>fs_files := OpenFileMap\<lparr>files := [(10000, 0)],
     objects := [OpenFile ''/d/f'' 2 Regular], fd_idx := 10001\<rparr>\<rparr>"

lemma sample_first_key: "lazy_val config_metadata (d_mdb (sample_cluster h)) (first_chunk_key p) = None"
proof -
  have "map_of (sample_names h) (first_chunk_key p) = None"
    by (auto simp: sample_names_def first_chunk_key_def)
  then show ?thesis by (simp add: sample_cluster_def sample_store_ok(2) [OF sample_names_ok(1)])
qed

lemma sample_data_ok:
  "cluster_data_ok (lazy_val config_metadata) (lazy_ok config_metadata) sample_hash 3
     (\<lambda>_. stamp sample_daemon) sample_cluster"
  using sample_cluster_ok
  by (auto simp: cluster_data_ok_def data_fit_def cluster_ok_def first_chunks_ok_def sample_first_key)
    (simp add: sample_cluster_def sample_daemon_def)

lemma sample_no_content: "file_bytes (lazy_val config_metadata) sample_hash 3 sample_cluster p = (\<lambda>_. None)"
proof -
  have "stored_chunk (lazy_val config_metadata) (sample_cluster h) p c = []" for h c
    using sample_first_key [of h p]
    by (simp add: stored_chunk_def sample_cluster_def sample_daemon_def file_content_def)
  then show ?thesis by (simp add: fun_eq_iff file_bytes_def cluster_chunk_def byte_at_def)
qed

lemma sample_open:
  "fs_net sample_open_fs = sample_cluster"
  "get_file 10000 (fs_files sample_open_fs) = Some (OpenFile ''/d/f'' 2 Regular)"
  "plain_file (OpenFile ''/d/f'' 2 Regular) ''/d/f''"
  by (simp_all add: sample_open_fs_def sample_fs_def OpenFileMap_def get_file_def lookup_fd_def plain_file_def
      OpenFile_def get_flag_def has_flag_def data_path_def sample_path_simps O_RDONLY_def O_WRONLY_def O_RDWR_def
      O_APPEND_def O_TRUNC_def O_CREAT_def)

text \<open>Three buffers around the border of the first chunk.\<close>

lemma pwritev_pread_witness:
  "\<exists>s'. gaofs_pwritev sample_client 10000 [''ab'', [], ''cde''] 600000 sample_open_fs = (Inr 5, s') \<and>
    fst (gaofs_pread_ws sample_client 10000 ''.....'' 600000 s') = Inr (5, ''abcde'') \<and>
    cluster_ns (lazy_val config_metadata) sample_hash 3 (fs_net s') = grown sample_ns ''/d/f'' 600005"
proof -
  have "first_chunk_safe (unat (600000 :: u64)) (concat [''ab'', [], ''cde''])
      (file_bytes (lazy_val config_metadata) sample_hash 3 (fs_net sample_open_fs) ''/d/f'')"
    by (simp add: first_chunk_safe_def)
  from pwritev_pread [OF sample_contract _ refl _ sample_open(2,3) _ _ _ _ this, of "\<lambda>_. stamp sample_daemon"
      "entry S_IFREG []" "''.....''" "\<lambda>_. 0" 0] show ?thesis
    by (fastforce simp: sample_open(1) sample_data_ok sample_cluster_ns sample_ns_values entry_def
        empty_metadata_def)
qed

section \<open>Data the first chunk loses\<close>

text \<open>C3: Binary data at the start of a file is silently lost. For a write of a buffer into the
  first chunk of an empty file every daemon and the client report success and the whole count, but
  only the bytes before the first NUL are in the file: a read of the same range returns their
  number and leaves the rest of the reader's buffer as it was.\<close>

lemma binary_data_lost:
  assumes "rocksdb_contract config_metadata R val ok" "n \<noteq> 0"
    "C = cluster_client (rocksdb_env config_metadata R hash stale) hash self n"
    "cluster_data_ok val ok hash n stmp cl" "data_path p" "file_bytes val hash n cl p = (\<lambda>_. None)"
    "length buf = unat sz" "buf \<noteq> []" "unat sz \<le> 524288" "length rbuf = unat sz"
  shows "\<exists>cl'. forward_write C p buf False 0 sz sz cl = (Inr (0, sz), cl') \<and>
    fst (forward_read C p rbuf 0 sz cl') =
      Inr (0, of_nat (length (c_str buf)), c_str buf @ drop (length (c_str buf)) rbuf)"
proof -
  note cluster = cluster_axioms_ok [OF assms(1,2)]
  obtain cl' where w: "forward_write C p buf False 0 sz sz cl = (Inr (0, sz), cl')"
      "cluster_data_ok val ok hash n stmp cl'" "file_bytes val hash n cl' p = byte_at (c_str buf)"
    using cluster.first_chunk_truncated [OF cluster assms(4,5,7-9,6)] unfolding assms(3) by blast
  have vr: "valid_range 0 sz"
    using assms(7-9) by (cases "sz = 0") (auto simp: valid_range_def)
  have k: "length (c_str buf) \<le> unat sz" using length_c_str [of buf] assms(7) by simp
  have "present 0 (byte_at (c_str buf)) (unat sz) = length (c_str buf)"
    using length_filter_below [of 0 0 "length (c_str buf)" "unat sz"] k
    by (simp add: present_def byte_at_None not_le min_def)
  moreover have "filled 0 (byte_at (c_str buf)) rbuf = c_str buf @ drop (length (c_str buf)) rbuf"
    using k assms(10) by (intro nth_equalityI) (auto simp: filled_def byte_at_def nth_append)
  ultimately show ?thesis
    using w data_service.fetched [OF cluster_data_service [OF assms(1,2), of hash stale self stmp],
        OF w(2) assms(5) vr assms(10)]
    unfolding assms(3) by (intro exI [of _ cl']) auto
qed

lemma binary_data_lost_witness:
  "\<exists>cl'. forward_write sample_client ''/d/f'' [CHR ''a'', NUL, CHR ''b''] False 0 3 3 sample_cluster = (Inr (0, 3), cl') \<and>
    fst (forward_read sample_client ''/d/f'' ''...'' 0 3 cl') = Inr (0, 1, ''a..'')"
  using binary_data_lost [OF sample_contract _ refl sample_data_ok _ sample_no_content, of "''/d/f''"
      "[CHR ''a'', NUL, CHR ''b'']" 3 "''...''" "\<lambda>_. 0" 0]
  by (simp add: c_str_def data_path_def sample_path_simps)

section \<open>Reading what is there\<close>

text \<open>C2: A \<open>pread\<close> on the cluster returns the number of bytes of the range that the daemons hold,
  put at their places in the buffer, and changes no file. In a sparse file the holes are not
  zeros: their bytes of the buffer are left alone and not counted, so that a read across a hole is
  reported shorter than where its last byte lies.\<close>

lemma pread_content:
  assumes "rocksdb_contract config_metadata R val ok" "n \<noteq> 0"
    "C = cluster_client (rocksdb_env config_metadata R hash stale) hash self n"
    "cluster_data_ok val ok hash n stmp (fs_net s)"
    "get_file fd (fs_files s) = Some f" "plain_file f p" "rbuf \<noteq> []" "unat pos + length rbuf < 2 ^ 63"
    "F = file_bytes val hash n (fs_net s)"
  shows "\<exists>s'. gaofs_pread_ws C fd rbuf pos s =
      (Inr (int (present (unat pos) (F p) (length rbuf)), filled (unat pos) (F p) rbuf), s') \<and>
    file_bytes val hash n (fs_net s') = F \<and>
    cluster_ns val hash n (fs_net s') = cluster_ns val hash n (fs_net s)"
proof -
  note ds = cluster_data_service [OF assms(1,2), of hash stale self stmp, folded assms(3)]
  obtain cl where "gaofs_pread C f rbuf pos s =
      (Inr (int (present (unat pos) (F p) (length rbuf)), filled (unat pos) (F p) rbuf), s\<lparr>fs_net := cl\<rparr>)"
      "cluster_ns val hash n cl = cluster_ns val hash n (fs_net s)" "file_bytes val hash n cl = F"
    using data_service.pread_ok [OF ds, OF assms(4,6,7,8)] unfolding assms(9) by blast
  then show ?thesis using assms(5) by (simp add: gaofs_pread_ws_def with_file_def)
qed

text \<open>The sample cluster with three bytes at the start of the second chunk, and a hole before them.\<close>

definition sample_sparse_fs :: "lazy_store cluster fs" where
  "sample_sparse_fs = sample_open_fs\<lparr>fs_net := (\<lambda>h. (sample_cluster h)\<lparr>storage := (storage sample_daemon)\<lparr>
     st_dirs := [''/r/d:f'' \<mapsto> [(''1'', ''xyz'')]]\<rparr>\<rparr>)\<rparr>"

lemma cluster_data_ok_storage:
  assumes "cluster_data_ok val ok hash n stmp cl" "st_script st = []" "st_chunksize st = chunksize"
  shows "cluster_data_ok val ok hash n stmp (\<lambda>h. (cl h)\<lparr>storage := st\<rparr>)"
  using assms by (simp add: cluster_data_ok_def cluster_ok_def data_fit_def healthy_def daemon_ns_def)

lemma sample_sparse_data_ok:
  "cluster_data_ok (lazy_val config_metadata) (lazy_ok config_metadata) sample_hash 3
     (\<lambda>_. stamp sample_daemon) (fs_net sample_sparse_fs)"
  unfolding sample_sparse_fs_def fs.select_convs fs.update_convs
  using cluster_data_ok_storage [OF sample_data_ok] by (simp add: sample_daemon_def)

lemma sample_sparse_bytes:
  "x div 524288 = 0 \<Longrightarrow>
     file_bytes (lazy_val config_metadata) sample_hash 3 (fs_net sample_sparse_fs) ''/d/f'' x = None"
  "x div 524288 = 1 \<Longrightarrow>
     file_bytes (lazy_val config_metadata) sample_hash 3 (fs_net sample_sparse_fs) ''/d/f'' x =
     (if x < 2 ^ 63 then byte_at ''xyz'' (x mod 524288) else None)"
proof -
  have dir: "chunk_dir ((storage sample_daemon)\<lparr>st_dirs := m\<rparr>) ''/d/f'' = ''/r/d:f''" for m
    by (simp add: chunk_dir_def sample_daemon_def separator_def)
  have s: "stored_chunk (lazy_val config_metadata) (fs_net sample_sparse_fs h) ''/d/f'' 0 = []"
      "stored_chunk (lazy_val config_metadata) (fs_net sample_sparse_fs h) ''/d/f'' 1 = ''xyz''" for h
    using sample_first_key [of h "''/d/f''"]
    by (simp_all add: stored_chunk_def sample_sparse_fs_def chunk_file_def dir file_content_def dec_1)
  show "x div 524288 = 0 \<Longrightarrow>
      file_bytes (lazy_val config_metadata) sample_hash 3 (fs_net sample_sparse_fs) ''/d/f'' x = None"
    by (simp add: file_bytes_def cluster_chunk_def s byte_at_def)
  show "x div 524288 = 1 \<Longrightarrow>
      file_bytes (lazy_val config_metadata) sample_hash 3 (fs_net sample_sparse_fs) ''/d/f'' x =
      (if x < 2 ^ 63 then byte_at ''xyz'' (x mod 524288) else None)"
    by (simp add: file_bytes_def cluster_chunk_def s)
qed

lemma pread_content_witness:
  "fst (gaofs_pread_ws sample_client 10000 ''.....'' 524286 sample_sparse_fs) = Inr (3, ''..xyz'')"
proof -
  let ?F = "file_bytes (lazy_val config_metadata) sample_hash 3 (fs_net sample_sparse_fs)"
  have "?F ''/d/f'' 524286 = None" "?F ''/d/f'' 524287 = None" "?F ''/d/f'' 524288 = Some CHR ''x''"
      "?F ''/d/f'' 524289 = Some CHR ''y''" "?F ''/d/f'' 524290 = Some CHR ''z''"
    by (simp_all add: sample_sparse_bytes byte_at_def)
  moreover have "[0..<5] = [0, 1, 2, 3, 4]" by code_simp
  moreover have "get_file 10000 (fs_files sample_sparse_fs) = Some (OpenFile ''/d/f'' 2 Regular)"
    using sample_open(2) by (simp add: sample_sparse_fs_def)
  ultimately show ?thesis
    using pread_content [OF sample_contract _ refl sample_sparse_data_ok _ sample_open(3) _ _ refl,
        of 10000 "''.....''" 524286 "\<lambda>_. 0" 0]
    by (auto simp: present_def filled_def)
qed

end
