(* ===== verification/Truncation.thy ===== *)
theory Truncation
  imports Rpc_Classes File_Content
begin

text \<open>
  Calls through the messages, and what truncating a file does: the request of \<open>forward_truncate\<close>
  reaches every daemon with a host number and a number of hosts of 0 (\<open>Rpc_Classes\<close>), and the
  daemon divides by that number.
\<close>

section \<open>Calls through the messages\<close>

text \<open>C5: A remote procedure call through the messages is the handler's call: for each of the
  sixteen requests the client registers, whatever the daemon's state, encoding the input, finding
  the procedure by the number of its name, decoding with the structure registered for it, running
  the handler and reading the response back gives what \<open>dispatch\<close> says, with error codes of 32
  bits and an empty string for a missing value. (Strings without NUL; the public ids of the client
  are Margo's numbers of the names.) The arguments of every request arrive unchanged, except for
  truncate, whose registered structure lacks the last two: \<open>dispatch\<close> hands zeros to its handler.\<close>

lemma wire_call_dispatch:
  assumes "margo_ids margo_id" "list_all (\<lambda>s. NUL \<notin> set s) (request_strings req)"
  shows "wire_call margo_id E req =
    Some (cbind (dispatch E req) (\<lambda>r. cret (Some (received r))))"
  using assms by (rule wire_call_eq)

lemma wire_call_dispatch_witness:
  "wire_call (\<lambda>s. case map_of register_user_request_types s of None \<Rightarrow> 0 | Some k \<Rightarrow> k) sample_env
     (Req_truncate ''/d/f'' 5 1 3) =
   Some (cbind (resp_of Resp_err (rpc_srv_truncate sample_env ''/d/f'' 5 0 0))
     (\<lambda>r. cret (Some (received r))))"
  using wire_call_dispatch [of "\<lambda>s. case map_of register_user_request_types s of None \<Rightarrow> 0 | Some k \<Rightarrow> k"
      "Req_truncate ''/d/f'' 5 1 3" sample_env]
  by (simp add: margo_ids_def register_user_request_types_def traits_defs)

section \<open>One truncate request\<close>

lemma hash_mod_0 [simp]: "hash_mod h 0 = Inl Abort"
  by (simp add: hash_mod_def)

lemma located_here_0:
  "located_here E p c 0 0 d = (Inl Abort, d\<lparr>distributor_ref := snd
     (locate_data_sized (env_hash E) p (ucast c) 0 (distributor_ref d))\<rparr>)"
  by (simp add: located_here_def on_distributor_def locate_data_sized_def cmd_simps Let_def)

definition same_store :: "'db daemon \<Rightarrow> 'db daemon \<Rightarrow> bool" where
  "same_store d d' \<longleftrightarrow> d_mdb d' = d_mdb d \<and> storage d' = storage d"

lemma same_store_pop_rpc: "pop_rpc d = (r, d') \<Longrightarrow> same_store d d'"
  by (auto simp: pop_rpc_def same_store_def split: list.splits)

lemma same_store_trans: "same_store d d' \<Longrightarrow> same_store d' d'' \<Longrightarrow> same_store d d''"
  by (simp add: same_store_def)

lemma truncate_abt_0:
  "\<exists>di. truncate_abt E p sz 0 0 d = (Inl Abort, d\<lparr>distributor_ref := di\<rparr>)"
  by (simp add: truncate_abt_def catch_map_def Let_def cmd_simps located_here_0 io_errno_def) blast

lemma start_truncate_0:
  "\<exists>d'. (chunk_truncate E p sz 0 0 d = (Inl Abort, d') \<or>
         chunk_truncate E p sz 0 0 d = (Inl ChunkOpException, d')) \<and> same_store d d'"
proof -
  obtain b1 d1 where 1: "pop_rpc d = (Inr b1, d1)" by (cases "rpc_script d") (auto simp: pop_rpc_def)
  obtain b2 d2 where 2: "pop_rpc d1 = (Inr b2, d2)" by (cases "rpc_script d1") (auto simp: pop_rpc_def)
  obtain di where 3: "truncate_abt E p sz 0 0 d2 = (Inl Abort, d2\<lparr>distributor_ref := di\<rparr>)"
    using truncate_abt_0 by blast
  note s1 = same_store_pop_rpc [OF 1] and s2 = same_store_pop_rpc [OF 2]
  have s3: "same_store d (d2\<lparr>distributor_ref := di\<rparr>)"
    using same_store_trans [OF s1 s2] by (simp add: same_store_def)
  show ?thesis
    using s1 same_store_trans [OF s1 s2] s3
    by (cases b1; cases b2)
      (auto simp: chunk_truncate_def start_task_def cmd_simps 1 2 3)
qed

text \<open>The daemon dies of the division or, when Argobots cannot start the task, answers \<open>EIO\<close>.\<close>

lemma truncate_request:
  "\<exists>d'. (dispatch E (Req_truncate p len h n) d = (Inl Abort, d') \<or>
         dispatch E (Req_truncate p len h n) d = (Inr (Resp_err EIO), d')) \<and> same_store d d'"
proof -
  obtain b d1 where 1: "pop_rpc d = (Inr b, d1)" by (cases "rpc_script d") (auto simp: pop_rpc_def)
  obtain d' where 2: "chunk_truncate E p len 0 0 d1 = (Inl Abort, d') \<or>
      chunk_truncate E p len 0 0 d1 = (Inl ChunkOpException, d')" "same_store d1 d'"
    using start_truncate_0 by blast
  note s1 = same_store_pop_rpc [OF 1]
  show ?thesis
    using s1 same_store_trans [OF s1 2(2)] 2(1)
    by (cases b) (auto simp: rpc_srv_truncate_def resp_of_def catch_map_def cmd_simps 1)
qed

section \<open>All of them\<close>

lemma post_all_truncate:
  fixes hs :: "u32 list"
  assumes "cl_net C = cluster_network E" "\<And>h. h \<in> set hs \<Longrightarrow> ucast h < (ucast (cl_hosts C) :: u64)"
  shows "\<exists>dls cl'. post_all C (map (\<lambda>h. (ucast h, Req_truncate p len (ucast h) m)) hs) cl =
      (Inr (True, dls), cl') \<and> (\<forall>h. same_store (cl h) (cl' h)) \<and>
    gather_err dls e = (if hs = [] then e else EIO)"
  using assms(2)
proof (induction hs arbitrary: cl e)
  case Nil
  then show ?case by (simp add: cmd_simps same_store_def)
next
  case (Cons h hs)
  have host: "host_at C (ucast h) = Inr h"
    using Cons.prems [of h] by (simp add: host_at_def)
  obtain d where d: "dispatch E (Req_truncate p len (ucast h) m) (cl h) = (Inl Abort, d) \<or>
      dispatch E (Req_truncate p len (ucast h) m) (cl h) = (Inr (Resp_err EIO), d)" "same_store (cl h) d"
    using truncate_request by blast
  obtain dl where dl: "net_send (cl_net C) h (Req_truncate p len (ucast h) m) cl = (Inr dl, cl(h := d))"
      "dl \<noteq> PostFails" "\<And>dls. gather_err (dl # dls) e = gather_err dls EIO"
    using d(1) by (auto simp: assms(1) cluster_network_def cluster_send_def split: prod.splits)
  obtain dls cl' where r: "post_all C (map (\<lambda>h. (ucast h, Req_truncate p len (ucast h) m)) hs) (cl(h := d)) =
      (Inr (True, dls), cl')" "\<And>h'. same_store ((cl(h := d)) h') (cl' h')"
      "gather_err dls EIO = (if hs = [] then EIO else EIO)"
    using Cons.IH [of "cl(h := d)" EIO] Cons.prems by fastforce
  have "same_store (cl h') (cl' h')" for h'
    using r(2) [of h'] d(2) by (cases "h' = h") (auto intro: same_store_trans)
  moreover have "post_all C (map (\<lambda>h. (ucast h, Req_truncate p len (ucast h) m)) (h # hs)) cl =
      (Inr (True, dl # dls), cl')"
    using r(1) dl(1,2) by (simp add: cmd_simps host split: delivery.split)
  ultimately show ?case using r(3) dl(3) by auto
qed

lemma forward_truncate_result:
  assumes "cl_net C = cluster_network E" "cl_distributor C = SimpleHashDistributor self n"
    "cl_hosts C = n" "n \<noteq> 0" "new < old"
  shows "\<exists>cl'. forward_truncate C p old new cl =
      (Inr (if truncate_chunks old new = [] then 0 else EIO), cl') \<and> (\<forall>h. same_store (cl h) (cl' h))"
proof -
  let ?loc = "\<lambda>c. locate_data (cl_hash C) (cl_distributor C) p c"
  have loc: "?loc c = Inr (projr (?loc c))" "projr (?loc c) < n" for c
  proof -
    obtain h where h: "?loc c = Inr h"
      using locate_data_total [of "SimpleHashDistributor self n" "cl_hash C" p c] assms(2,4) by auto
    show "?loc c = Inr (projr (?loc c))" "projr (?loc c) < n"
      using h locate_data_bound [OF h] by (simp_all add: assms(2))
  qed
  define hs where "hs = map (\<lambda>c. projr (?loc c)) (truncate_chunks old new)"
  have map_ok: "res_map ?loc (truncate_chunks old new) = Inr hs"
    unfolding hs_def by (rule res_map_Inr) (rule loc(1))
  have bnd: "ucast h < (ucast (cl_hosts C) :: u64)" if "h \<in> set (rev (remdups (rev hs)))" for h :: u32
    using that loc(2) by (auto simp: hs_def assms(3) ucast_less)
  obtain dls cl' where r: "post_all C (map (\<lambda>h. (ucast h, Req_truncate p new (ucast h) (ucast (cl_hosts C))))
        (rev (remdups (rev hs)))) cl = (Inr (True, dls), cl')" "\<And>h. same_store (cl h) (cl' h)"
      "gather_err dls 0 = (if rev (remdups (rev hs)) = [] then 0 else EIO)"
    using post_all_truncate [OF assms(1) bnd] by blast
  have "forward_truncate C p old new cl = (Inr (gather_err dls 0), cl')"
    using assms(5) map_ok r(1) by (simp add: forward_truncate_def cmd_simps)
  then show ?thesis using r(2,3) by (auto simp: hs_def)
qed

section \<open>Truncating a file\<close>

lemma sint_nonneg64:
  assumes "0 \<le> sint (w :: u64)"
  shows "sint w = int (unat w)"
proof -
  have "uint w = take_bit 64 (sint w)"
    using uint_word_of_int_eq [of "sint w", where 'a = 64] by simp
  also have "\<dots> = sint w"
    using assms sint_lt [of w] by (intro take_bit_int_eq_self) simp_all
  finally show ?thesis by simp
qed

lemma same_store_bytes:
  assumes "\<And>h. same_store (cl h) (cl' h)"
  shows "cluster_ns val hash n cl' = cluster_ns val hash n cl"
    "file_bytes val hash n cl' = file_bytes val hash n cl"
  using assms
  by (auto simp: fun_eq_iff cluster_ns_def daemon_ns_def file_bytes_def cluster_chunk_def
      stored_chunk_def same_store_def)



end
