(* ===== verification/Path_Resolve.thy ===== *)
theory Path_Resolve
  imports Path_Util "HOL-Library.Sublist"
begin

text \<open>
  \<open>client/path.cpp\<close>: \<open>match_components\<close> and \<open>resolve\<close>, which decides whether a path of the
  application lies below the mount directory and rewrites it. The local file system is third-party:
  \<open>lstat\<close> (the mode of a path, None when the call fails) and \<open>realpath\<close> are parameters. The loops
  keep the positions of the code; \<open>find\<close> is the first separator from a position on, the length of
  the path if there is none.
\<close>

section \<open>match_components\<close>

definition find_sep :: "path \<Rightarrow> nat \<Rightarrow> nat" where
  "find_sep p start = start + length (takeWhile (\<lambda>c. c \<noteq> separator) (drop start p))"

lemma find_sep_bounds: "start \<le> find_sep p start" "start \<le> length p \<Longrightarrow> find_sep p start \<le> length p"
proof -
  show "start \<le> find_sep p start" by (simp add: find_sep_def)
  show "start \<le> length p \<Longrightarrow> find_sep p start \<le> length p"
    using length_takeWhile_le [of "\<lambda>c. c \<noteq> separator" "drop start p"] by (simp add: find_sep_def)
qed

lemma find_sep_decreases:
  "Suc e < length p \<Longrightarrow> Suc e \<le> s \<Longrightarrow> length p - find_sep p s < length p - e"
  using find_sep_bounds(1) [of s p] by simp

text \<open>\<open>components.at(matched)\<close> throws behind the end.\<close>

function match_loop :: "path \<Rightarrow> string list \<Rightarrow> nat \<Rightarrow> nat \<Rightarrow> nat \<Rightarrow> (nat \<times> nat) res" where
  "match_loop p components end1 matched processed =
    (if Suc end1 < length p then
       let start = Suc end1; end2 = find_sep p start in
       if matched = processed then
         if matched < length components then
           match_loop p components end2
             (if take (end2 - start) (drop start p) = components ! matched then Suc matched else matched)
             (Suc processed)
         else Inl OutOfRange
       else match_loop p components end2 matched (Suc processed)
     else Inr (matched, processed))"
  by pat_completeness auto
termination
  by (relation "measure (\<lambda>(p, _, end1, _, _). length p - end1)")
    (simp_all add: find_sep_decreases)

declare match_loop.simps [simp del]

text \<open>The result and \<open>path_components\<close>.\<close>

definition match_components :: "path \<Rightarrow> string list \<Rightarrow> (nat \<times> nat) res" where
  "match_components p components = match_loop p components 0 0 0"

section \<open>resolve\<close>

definition excluded_paths :: "string list" where
  "excluded_paths = [''sys/'', ''proc/'']"

definition is_excluded :: "path \<Rightarrow> bool" where
  "is_excluded p = list_ex (\<lambda>e. take (length e) (drop 1 p) = e) excluded_paths"

text \<open>The variables of the loop; \<open>last_slash_pos\<close> is None for \<open>npos\<close>.\<close>

record resolve_state =
  rs_resolved :: path
  rs_slash :: "nat option"
  rs_matched :: nat
  rs_comps :: nat

text \<open>\<open>resolved.erase(pos)\<close> throws when the position is behind the end.\<close>

definition erase_from :: "nat option \<Rightarrow> path \<Rightarrow> path res" where
  "erase_from pos s = (case pos of
     None \<Rightarrow> Inl OutOfRange
   | Some i \<Rightarrow> if i \<le> length s then Inr (take i s) else Inl OutOfRange)"

definition comp_up :: "resolve_state \<Rightarrow> resolve_state res" where
  "comp_up s =
    res_bind
      (if rs_resolved s \<noteq> [] then
         res_bind (erase_from (rs_slash s) (rs_resolved s)) (\<lambda>r.
           Inr (s\<lparr>rs_resolved := r, rs_slash := find_last_of separator r\<rparr>))
       else Inr s) (\<lambda>s.
      Inr (if rs_comps s > 0 then
             s\<lparr>rs_matched := (if rs_matched s = rs_comps s then rs_matched s - 1 else rs_matched s),
               rs_comps := rs_comps s - 1\<rparr>
           else s))"

text \<open>A component: the loop goes on, or the function returns \<open>false\<close> with the path.\<close>

definition comp_push ::
    "(path \<Rightarrow> u32 option) \<Rightarrow> (path \<Rightarrow> path option) \<Rightarrow> string list \<Rightarrow> bool \<Rightarrow> string \<Rightarrow> string \<Rightarrow>
     resolve_state \<Rightarrow> (path + resolve_state) res" where
  "comp_push lstat realpath mnt resolve_last_link name rest s =
    (let pos = length (rs_resolved s); r = rs_resolved s @ [separator] @ name;
         s = s\<lparr>rs_resolved := r, rs_slash := Some pos\<rparr> in
     if rs_matched s < length mnt then
       let s = (if rs_matched s = rs_comps s \<and> name = mnt ! rs_matched s
                then s\<lparr>rs_matched := Suc (rs_matched s)\<rparr> else s) in
       case lstat r of
         None \<Rightarrow> Inr (Inl (r @ rest))
       | Some mode \<Rightarrow>
           if S_ISLNK mode then
             if \<not> resolve_last_link \<and> rest = [] then Inr (Inr s)
             else (case realpath r of
                 None \<Rightarrow> Inr (Inl (r @ rest))
               | Some link \<Rightarrow> res_bind (match_components link mnt) (\<lambda>(m, n).
                   Inr (Inr (s\<lparr>rs_resolved := link, rs_matched := m, rs_comps := n,
                               rs_slash := find_last_of separator link\<rparr>))))
           else if \<not> S_ISDIR mode \<and> rest \<noteq> [] then Inr (Inl (r @ rest))
           else Inr (Inr (s\<lparr>rs_comps := Suc (rs_comps s)\<rparr>))
     else Inr (Inr (s\<lparr>rs_matched := Suc (rs_matched s), rs_comps := Suc (rs_comps s)\<rparr>)))"

definition skip_seps :: "path \<Rightarrow> nat \<Rightarrow> nat" where
  "skip_seps p start = start + length (takeWhile (\<lambda>c. c = separator) (drop start p))"

lemma skip_seps_ge: "e \<le> skip_seps p e"
  by (simp add: skip_seps_def)

function resolve_loop ::
    "(path \<Rightarrow> u32 option) \<Rightarrow> (path \<Rightarrow> path option) \<Rightarrow> string list \<Rightarrow> bool \<Rightarrow> path \<Rightarrow> nat \<Rightarrow>
     resolve_state \<Rightarrow> (path + resolve_state) res" where
  "resolve_loop lstat realpath mnt rl p end1 s =
    (if Suc end1 < length p then
       let start = skip_seps p (Suc end1); end2 = find_sep p start;
           name = take (end2 - start) (drop start p)
       in if name = [] then Inr (Inr s)
          else if name = ''.'' then resolve_loop lstat realpath mnt rl p end2 s
          else if name = ''..'' then
            res_bind (comp_up s) (\<lambda>s. resolve_loop lstat realpath mnt rl p end2 s)
          else res_bind (comp_push lstat realpath mnt rl name (drop end2 p) s) (\<lambda>r. case r of
              Inl resolved \<Rightarrow> Inr (Inl resolved)
            | Inr s \<Rightarrow> resolve_loop lstat realpath mnt rl p end2 s)
     else Inr (Inr s))"
  by pat_completeness auto
termination
  by (relation "measure (\<lambda>(_, _, _, _, p, end1, _). length p - end1)")
    (simp_all add: find_sep_decreases skip_seps_ge)

declare resolve_loop.simps [simp del]

text \<open>Whether the path is internal, and the resolved path.\<close>

definition resolve ::
    "(path \<Rightarrow> u32 option) \<Rightarrow> (path \<Rightarrow> path option) \<Rightarrow> path \<Rightarrow> path \<Rightarrow> bool \<Rightarrow> (bool \<times> path) res" where
  "resolve lstat realpath mountdir p resolve_last_link =
    (let mnt = split_path mountdir in
     res_bind (assert_res (is_absolute p)) (\<lambda>_.
     if is_excluded p then Inr (False, p) else
     res_bind (resolve_loop lstat realpath mnt resolve_last_link p 0
         \<lparr>rs_resolved = [], rs_slash = Some 0, rs_matched = 0, rs_comps = 0\<rparr>) (\<lambda>r. case r of
       Inl resolved \<Rightarrow> Inr (False, resolved)
     | Inr s \<Rightarrow>
         let r = rs_resolved s in
         if rs_matched s \<ge> length mnt then
           if 1 \<le> length r then Inr (True, take 1 r @ drop (1 + length mountdir) r) else Inl OutOfRange
         else Inr (False, if r = [] then [separator] else r))))"

section \<open>Reference: a stack of components\<close>

text \<open>The components of a path, empty ones left out.\<close>

function path_words :: "path \<Rightarrow> string list" where
  "path_words s = (let r = dropWhile (\<lambda>c. c = separator) s in
     if r = [] then [] else takeWhile (\<lambda>c. c \<noteq> separator) r # path_words (dropWhile (\<lambda>c. c \<noteq> separator) r))"
  by pat_completeness auto
termination
proof (relation "measure length", goal_cases)
  case (2 s r)
  then obtain a t where r: "r = a # t" and "a \<noteq> separator"
    by (metis (mono_tags, lifting) hd_dropWhile list.exhaust list.sel(1))
  then have "length (dropWhile (\<lambda>c. c \<noteq> separator) r) < length r"
    by (simp add: length_dropWhile_le le_imp_less_Suc)
  also have "length r \<le> length s" unfolding 2(1) by (rule length_dropWhile_le)
  finally show ?case by simp
qed simp

declare path_words.simps [simp del]

definition stack_step :: "string list \<Rightarrow> string \<Rightarrow> string list" where
  "stack_step st w = (if w = ''.'' then st else if w = ''..'' then butlast st else st @ [w])"

text \<open>Outside of the mount directory every component on the way is an existing directory.\<close>

fun walk_ok :: "(path \<Rightarrow> u32 option) \<Rightarrow> string list \<Rightarrow> string list \<Rightarrow> string list \<Rightarrow> bool" where
  "walk_ok lstat mnt st [] = True"
| "walk_ok lstat mnt st (w # ws) =
     ((w = ''.'' \<or> w = ''..'' \<or> prefix mnt st \<or>
       (case lstat (join_path (st @ [w])) of None \<Rightarrow> False | Some m \<Rightarrow> S_ISDIR m)) \<and>
      walk_ok lstat mnt (stack_step st w) ws)"

definition resolve_spec :: "string list \<Rightarrow> string list \<Rightarrow> bool \<times> path" where
  "resolve_spec mnt st =
    (let name = (\<lambda>cs. if cs = [] then [separator] else join_path cs) in
     if prefix mnt st then (True, name (drop (length mnt) st)) else (False, name st))"

section \<open>The loop keeps the stack\<close>

fun common :: "'a list \<Rightarrow> 'a list \<Rightarrow> nat" where
  "common (a # as) (b # bs) = (if a = b then Suc (common as bs) else 0)"
| "common _ _ = 0"

lemma common_bounds: "common xs ys \<le> length xs" "common xs ys \<le> length ys"
  by (induction xs ys rule: common.induct) auto

lemma common_prefix: "common xs ys = length ys \<longleftrightarrow> prefix ys xs" "common xs ys = length xs \<longleftrightarrow> prefix xs ys"
  by (induction xs ys rule: common.induct) auto

lemma common_snoc:
  "common (xs @ [x]) ys = (if common xs ys = length xs \<and> length xs < length ys \<and> ys ! length xs = x
     then Suc (length xs) else common xs ys)"
proof (induction xs arbitrary: ys)
  case Nil
  then show ?case by (cases ys) auto
next
  case (Cons a xs)
  then show ?case by (cases ys) auto
qed

text \<open>The counter of the loop for a stack.\<close>

definition matched_of :: "string list \<Rightarrow> string list \<Rightarrow> nat" where
  "matched_of mnt st = (if prefix mnt st then length st else common st mnt)"

lemma matched_of_less: "matched_of mnt st < length mnt \<longleftrightarrow> \<not> prefix mnt st"
  using common_bounds(2) [of st mnt] common_prefix(1) [of st mnt] prefix_length_le [of mnt st]
  by (auto simp: matched_of_def)

lemma matched_of_push:
  "matched_of mnt (st @ [w]) =
    (if prefix mnt st then Suc (length st)
     else if matched_of mnt st = length st \<and> w = mnt ! matched_of mnt st then Suc (matched_of mnt st)
     else matched_of mnt st)"
proof (cases "prefix mnt st")
  case True
  then show ?thesis by (simp add: matched_of_def prefix_prefix)
next
  case False
  then have "common st mnt < length mnt" using matched_of_less [of mnt st] by (simp add: matched_of_def)
  show ?thesis
  proof (cases "mnt = st @ [w]")
    case True
    have "common st (st @ [w]) = length st" using common_prefix(2) [of st "st @ [w]"] by simp
    then show ?thesis using False by (simp add: matched_of_def True)
  next
    case neq: False
    then have "\<not> prefix mnt (st @ [w])" using False by simp
    then show ?thesis
      using False \<open>common st mnt < length mnt\<close> common_snoc [of st w mnt] by (auto simp: matched_of_def)
  qed
qed

lemma matched_of_pop:
  assumes "st \<noteq> []"
  shows "matched_of mnt (butlast st) =
    (if matched_of mnt st = length st then matched_of mnt st - 1 else matched_of mnt st)"
proof -
  obtain ds w where st: "st = ds @ [w]" using assms by (cases st rule: rev_cases) auto
  have le: "matched_of mnt ds \<le> length ds"
    using common_bounds(1) [of ds mnt] by (auto simp: matched_of_def)
  then show ?thesis
    using matched_of_push [of mnt ds w] by (auto simp: st matched_of_def)
qed

definition state_of :: "string list \<Rightarrow> string list \<Rightarrow> resolve_state \<Rightarrow> bool" where
  "state_of mnt st s \<longleftrightarrow> rs_resolved s = join_path st \<and> rs_comps s = length st \<and>
     rs_matched s = matched_of mnt st \<and>
     (st \<noteq> [] \<longrightarrow> rs_slash s = Some (length (join_path (butlast st)))) \<and>
     list_all (\<lambda>w. separator \<notin> set w) st"

lemma join_path_Nil [simp]: "join_path st = [] \<longleftrightarrow> st = []"
  by (cases st) auto

lemma find_last_join:
  "list_all (\<lambda>w. separator \<notin> set w) st \<Longrightarrow> st \<noteq> [] \<Longrightarrow>
   find_last_of separator (join_path st) = Some (length (join_path (butlast st)))"
  using find_last_of_append [of "last st" "join_path (butlast st)"]
  by (cases st rule: rev_cases) auto

lemma comp_up_state:
  assumes "state_of mnt st s"
  shows "\<exists>s'. comp_up s = Inr s' \<and> state_of mnt (butlast st) s'"
proof (cases "st = []")
  case True
  then show ?thesis using assms by (auto simp: comp_up_def state_of_def)
next
  case False
  then obtain ds w where st: "st = ds @ [w]" by (cases st rule: rev_cases) auto
  have e: "erase_from (rs_slash s) (rs_resolved s) = Inr (join_path ds)"
    using assms False by (auto simp: state_of_def erase_from_def st)
  let ?s = "s\<lparr>rs_resolved := join_path ds, rs_slash := find_last_of separator (join_path ds),
    rs_matched := matched_of mnt ds, rs_comps := length ds\<rparr>"
  have "comp_up s = Inr ?s"
    using assms False e matched_of_pop [OF False, of mnt]
    by (auto simp: comp_up_def state_of_def st)
  moreover have "state_of mnt ds ?s"
    using assms find_last_join [of ds] by (auto simp: state_of_def st)
  ultimately show ?thesis by (simp add: st)
qed

lemma comp_push_state:
  assumes "state_of mnt st s" "separator \<notin> set w"
    "prefix mnt st \<or> (case lstat (join_path (st @ [w])) of None \<Rightarrow> False | Some m \<Rightarrow> S_ISDIR m)"
  shows "\<exists>s'. comp_push lstat realpath mnt rl w rest s = Inr (Inr s') \<and> state_of mnt (st @ [w]) s'"
proof (cases "prefix mnt st")
  case True
  then show ?thesis
    using assms(1,2) matched_of_less [of mnt st]
      matched_of_def [of mnt st]
    by (auto simp: comp_push_def state_of_def Let_def matched_of_push)
next
  case False
  then obtain m where m: "lstat (join_path (st @ [w])) = Some m" "S_ISDIR m"
    using assms(3) by (auto split: option.splits)
  have l: "rs_matched s < length mnt" "rs_matched s = matched_of mnt st"
    using assms(1) matched_of_less [of mnt st] False by (auto simp: state_of_def)
  show ?thesis
    using assms(1,2) m l False S_IS_exclusive(2) [OF m(2)]
    by (auto simp: comp_push_def state_of_def Let_def matched_of_push)
qed

section \<open>The loop walks the components\<close>

lemma drop_takeWhile_dropWhile: "drop (length (takeWhile P xs)) xs = dropWhile P xs"
  by (induction xs) auto

lemma take_takeWhile: "take (length (takeWhile P xs)) xs = takeWhile P xs"
  by (induction xs) auto

lemma path_words_sep: "path_words (separator # s) = path_words s"
  by (subst (1 2) path_words.simps) simp

lemma path_words_Nil [simp]: "path_words [] = []"
  by (subst path_words.simps) simp

lemma loop_word:
  assumes "start = skip_seps p e" "end2 = find_sep p start" "w = take (end2 - start) (drop start p)"
  shows "path_words (drop e p) = (if w = [] then [] else w # path_words (drop (Suc end2) p))"
    "separator \<notin> set w"
proof -
  have r: "drop start p = dropWhile (\<lambda>c. c = separator) (drop e p)"
    using drop_takeWhile_dropWhile [of "\<lambda>c. c = separator" "drop e p"]
    by (simp add: assms(1) skip_seps_def add.commute)
  have w: "w = takeWhile (\<lambda>c. c \<noteq> separator) (drop start p)"
    by (simp add: assms(2,3) find_sep_def take_takeWhile)
  have e2: "drop end2 p = dropWhile (\<lambda>c. c \<noteq> separator) (drop start p)"
    using drop_takeWhile_dropWhile [of "\<lambda>c. c \<noteq> separator" "drop start p"]
    by (simp add: assms(2) find_sep_def add.commute)
  have next_word: "path_words (drop end2 p) = path_words (drop (Suc end2) p)"
  proof (cases "end2 < length p")
    case True
    then have d: "drop end2 p = p ! end2 # drop (Suc end2) p" by (rule Cons_nth_drop_Suc [symmetric])
    then have "p ! end2 = separator"
      using hd_dropWhile [of "\<lambda>c. c \<noteq> separator" "drop start p"] e2 by auto
    then show ?thesis using d path_words_sep by simp
  qed simp
  show "path_words (drop e p) = (if w = [] then [] else w # path_words (drop (Suc end2) p))"
  proof (cases "drop start p = []")
    case True
    then have "w = []" by (simp add: w)
    then show ?thesis using True r by (subst path_words.simps) (simp add: Let_def)
  next
    case False
    then have "hd (drop start p) \<noteq> separator"
      using hd_dropWhile [of "\<lambda>c. c = separator" "drop e p"] r by simp
    then have "w \<noteq> []" using False w by (cases "drop start p") auto
    then show ?thesis using r w e2 next_word False by (subst path_words.simps) (simp add: Let_def)
  qed
  show "separator \<notin> set w" unfolding w using set_takeWhileD by fastforce
qed

lemma resolve_loop_words:
  assumes "state_of mnt st s" "walk_ok lstat mnt st (path_words (drop (Suc end1) p))"
  shows "\<exists>s'. resolve_loop lstat realpath mnt rl p end1 s = Inr (Inr s') \<and>
    state_of mnt (foldl stack_step st (path_words (drop (Suc end1) p))) s'"
  using assms
proof (induction "length p - end1" arbitrary: end1 st s rule: less_induct)
  case less
  show ?case
  proof (cases "Suc end1 < length p")
    case False
    then show ?thesis using less.prems by (subst resolve_loop.simps) simp
  next
    case True
    define start where "start = skip_seps p (Suc end1)"
    define end2 where "end2 = find_sep p start"
    define w where "w = take (end2 - start) (drop start p)"
    note word = loop_word [OF start_def end2_def w_def]
    note IH = less.hyps [of end2]
    have dec: "length p - end2 < length p - end1"
      using find_sep_decreases [OF True, of start] skip_seps_ge [of "Suc end1" p]
      by (simp add: start_def end2_def)
    have unf: "resolve_loop lstat realpath mnt rl p end1 s =
      (if w = [] then Inr (Inr s)
       else if w = ''.'' then resolve_loop lstat realpath mnt rl p end2 s
       else if w = ''..'' then res_bind (comp_up s) (resolve_loop lstat realpath mnt rl p end2)
       else res_bind (comp_push lstat realpath mnt rl w (drop end2 p) s) (\<lambda>r. case r of
              Inl resolved \<Rightarrow> Inr (Inl resolved)
            | Inr s \<Rightarrow> resolve_loop lstat realpath mnt rl p end2 s))"
      using True by (subst resolve_loop.simps) (simp add: Let_def start_def end2_def w_def)
    show ?thesis
    proof (cases "w = []")
      case True
      then show ?thesis using less.prems(1) unf word(1) by simp
    next
      case False
      then have ws: "path_words (drop (Suc end1) p) = w # path_words (drop (Suc end2) p)"
        using word(1) by simp
      have ok: "walk_ok lstat mnt (stack_step st w) (path_words (drop (Suc end2) p))"
        using less.prems(2) ws by simp
      have "\<exists>s1. state_of mnt (stack_step st w) s1 \<and>
          resolve_loop lstat realpath mnt rl p end1 s = resolve_loop lstat realpath mnt rl p end2 s1"
      proof -
        consider "w = ''.''" | "w = ''..''" | "w \<noteq> ''.''" "w \<noteq> ''..''" by blast
        then show ?thesis
        proof cases
          case 1
          then show ?thesis using less.prems(1) unf by (auto simp: stack_step_def)
        next
          case 2
          then show ?thesis using comp_up_state [OF less.prems(1)] unf by (auto simp: stack_step_def)
        next
          case 3
          have "prefix mnt st \<or> (case lstat (join_path (st @ [w])) of None \<Rightarrow> False | Some m \<Rightarrow> S_ISDIR m)"
            using less.prems(2) ws 3 by simp
          then obtain s1 where "comp_push lstat realpath mnt rl w (drop end2 p) s = Inr (Inr s1)"
              "state_of mnt (st @ [w]) s1"
            using comp_push_state [OF less.prems(1) word(2)] by blast
          then show ?thesis using unf False 3 by (auto simp: stack_step_def)
        qed
      qed
      then show ?thesis using IH [OF dec _ ok] ws by auto
    qed
  qed
qed

lemma join_path_drop: "ds \<noteq> [] \<Longrightarrow> separator # drop (Suc 0) (join_path ds) = join_path ds"
  by (cases ds) simp_all

section \<open>Properties\<close>

text \<open>C35: On paths whose components outside of the mount directory are existing directories,
  \<open>resolve\<close> is the textbook normalization: empty components and \<open>.\<close> vanish, \<open>..\<close> pops, the path is
  internal exactly if what remains lies in the mount directory, and then the mount directory is cut
  off (the position arithmetic, the counters and the two string erasures of the loop do just that).\<close>

lemma resolve_reference:
  assumes "list_all component mnt" "mnt \<noteq> []" "is_absolute p" "\<not> is_excluded p"
    "walk_ok lstat mnt [] (path_words p)"
  shows "resolve lstat realpath (join_path mnt) p rl =
    Inr (resolve_spec mnt (foldl stack_step [] (path_words p)))"
proof -
  define st where "st = foldl stack_step [] (path_words p)"
  obtain q where p: "p = separator # q" using assms(3) by (cases p) (auto simp: is_absolute_def)
  have w: "path_words (drop (Suc 0) p) = path_words p" by (simp add: p path_words_sep)
  have "state_of mnt [] \<lparr>rs_resolved = [], rs_slash = Some 0, rs_matched = 0, rs_comps = 0\<rparr>"
    by (simp add: state_of_def matched_of_def)
  from resolve_loop_words [OF this, of lstat 0 p realpath rl] obtain s where
    s: "resolve_loop lstat realpath mnt rl p 0
        \<lparr>rs_resolved = [], rs_slash = Some 0, rs_matched = 0, rs_comps = 0\<rparr> = Inr (Inr s)"
      "state_of mnt st s"
    using assms(5) by (auto simp: w st_def)
  have r: "rs_resolved s = join_path st" and m: "length mnt \<le> rs_matched s \<longleftrightarrow> prefix mnt st"
    using s(2) matched_of_less [of mnt st] by (auto simp: state_of_def not_less)
  have "resolve lstat realpath (join_path mnt) p rl =
    (if prefix mnt st then
       if 1 \<le> length (join_path st)
       then Inr (True, take 1 (join_path st) @ drop (1 + length (join_path mnt)) (join_path st))
       else Inl OutOfRange
     else Inr (False, if join_path st = [] then [separator] else join_path st))"
    using assms(3,4) s(1) r m
    by (simp add: resolve_def split_path_join [OF assms(1)] Let_def del: One_nat_def)
  also have "\<dots> = Inr (resolve_spec mnt st)"
  proof (cases "prefix mnt st")
    case True
    then obtain ds where st: "st = mnt @ ds" by (auto simp: prefix_def)
    have ne: "join_path mnt \<noteq> []" using assms(2) by simp
    then have hd: "take 1 (join_path st) = [separator]" "1 \<le> length (join_path st)"
      using assms(2) by (cases mnt; simp add: st)+
    have "drop (1 + length (join_path mnt)) (join_path st) = drop (Suc 0) (join_path ds)" by (simp add: st)
    then show ?thesis
      using True hd join_path_drop [of ds] by (simp add: resolve_spec_def st Let_def)
  next
    case False
    then show ?thesis by (simp add: resolve_spec_def Let_def)
  qed
  finally show ?thesis by (simp add: st_def)
qed

lemma resolve_reference_witness:
  "resolve (\<lambda>p. Some S_IFDIR) (\<lambda>p. None) ''/mnt/gfs'' ''/mnt/x/..//gfs/d/./e/../f'' True = Inr (True, ''/d/f'')"
proof -
  have m: "join_path [''mnt'', ''gfs''] = ''/mnt/gfs''" by (simp add: join_path_def separator_def)
  have w: "path_words ''/mnt/x/..//gfs/d/./e/../f'' =
      [''mnt'', ''x'', ''..'', ''gfs'', ''d'', ''.'', ''e'', ''..'', ''f'']"
    by code_simp
  have s: "foldl stack_step [] (path_words ''/mnt/x/..//gfs/d/./e/../f'') = [''mnt'', ''gfs'', ''d'', ''f'']"
    by (simp add: w stack_step_def)
  show ?thesis
    using resolve_reference [of "[''mnt'', ''gfs'']" "''/mnt/x/..//gfs/d/./e/../f''" "\<lambda>p. Some S_IFDIR" "\<lambda>p. None" True]
    unfolding s m
    by (simp add: component_def separator_def is_absolute_def is_excluded_def excluded_paths_def
        w stack_step_def mode_defs resolve_spec_def join_path_def)
qed

text \<open>\<open>match_components\<close> on a path given by its components.\<close>

fun match_spec :: "string list \<Rightarrow> string list \<Rightarrow> nat \<Rightarrow> nat \<Rightarrow> (nat \<times> nat) res" where
  "match_spec mnt [] m k = Inr (m, k)"
| "match_spec mnt (c # cs) m k =
    (if m = k then if m < length mnt then match_spec mnt cs (if c = mnt ! m then Suc m else m) (Suc k)
                   else Inl OutOfRange
     else match_spec mnt cs m (Suc k))"

lemma match_loop_spec:
  assumes "list_all component cs"
  shows "match_loop (pre @ join_path cs) mnt (length pre) m k = match_spec mnt cs m k"
  using assms
proof (induction cs arbitrary: pre m k)
  case Nil
  then show ?case by (subst match_loop.simps) simp
next
  case (Cons c cs)
  let ?p = "pre @ join_path (c # cs)" and ?pre = "pre @ separator # c"
  have c: "c \<noteq> []" "separator \<notin> set c" using Cons.prems by (simp_all add: component_def)
  have d: "drop (Suc (length pre)) ?p = c @ join_path cs" by simp
  have f: "find_sep ?p (Suc (length pre)) = length ?pre"
    unfolding find_sep_def d using takeWhile_component [OF c(2)] by simp
  have p: "?p = ?pre @ join_path cs" by simp
  have lt: "Suc (length pre) < length ?p" using c(1) by simp
  have t: "take (length ?pre - Suc (length pre)) (drop (Suc (length pre)) ?p) = c" unfolding d by simp
  have IH: "match_loop ?p mnt (length ?pre) m' k' = match_spec mnt cs m' k'" for m' k'
    unfolding p using Cons.IH [of ?pre m' k'] Cons.prems by simp
  show ?case
    using lt unfolding match_loop.simps [of ?p mnt "length pre"] Let_def f t IH by simp
qed

lemma match_spec_same:
  "k \<le> length mnt \<Longrightarrow> match_spec mnt (drop k mnt @ ds) k k =
    (if ds = [] then Inr (length mnt, length mnt) else Inl OutOfRange)"
proof (induction "length mnt - k" arbitrary: k)
  case 0
  then show ?case by (cases ds) simp_all
next
  case (Suc n)
  then have k: "k < length mnt" by simp
  then have "drop k mnt = mnt ! k # drop (Suc k) mnt" by (simp add: Cons_nth_drop_Suc)
  then show ?case using Suc.hyps(1) [of "Suc k"] Suc.hyps(2) k by simp
qed

text \<open>After a symbolic link the number of matching components is recounted by
  \<open>match_components\<close>. It counts the mount directory itself correctly, but on every path strictly below
  it the access to the component behind the last one throws: a link of the local file system into
  the mount directory crashes the application.\<close>

lemma match_components_below:
  assumes "list_all component mnt" "list_all component ds"
  shows "match_components (join_path (mnt @ ds)) mnt =
    (if ds = [] then Inr (length mnt, length mnt) else Inl OutOfRange)"
  using match_loop_spec [of "mnt @ ds" "[]" mnt 0 0] match_spec_same [of 0 mnt ds] assms
  by (simp add: match_components_def)

lemma match_components_below_witness:
  "match_components ''/mnt/gfs'' [''mnt'', ''gfs''] = Inr (2, 2) \<and>
   match_components ''/mnt/gfs/d'' [''mnt'', ''gfs''] = Inl OutOfRange"
  using match_components_below [of "[''mnt'', ''gfs'']" "[]"] match_components_below [of "[''mnt'', ''gfs'']" "[''d'']"]
  by (simp add: component_def separator_def join_path_def numeral_2_eq_2)

end
