(* ===== verification/Preload_Context.thy ===== *)
theory Preload_Context
  imports Gaofs_Functions Path_Resolve
begin

text \<open>
  \<open>client/preload_context.cpp\<close> and the working directory of \<open>client/path.cpp\<close>: how the client tells
  paths and descriptors of GaoFS from those of the kernel, and the descriptors it keeps for itself.
  The kernel is third-party: a record of functions over a state of its own. Its calls carry the
  arguments the code passes on; memory the kernel fills is part of its state. A descriptor passed
  as an \<open>int\<close> or \<open>unsigned int\<close> is its value. Mutexes are not modelled.
\<close>

section \<open>The kernel\<close>

text \<open>Calls only the library itself makes, then those of the hooks.\<close>

datatype (plugins only: code) kmake =
    K_epoll_create u32
  | K_epoll_create1 u32
  | K_inotify_init
  | K_inotify_init1 u32
  | K_perf_event_open u64 u32 u32 u32 u64
  | K_signalfd u32 u64
  | K_signalfd4 u32 u64 u32
  | K_timerfd_create u32 u32
  | K_socket u32 u32 u32
  | K_socketpair u32 u32 u32 u64
  | K_pipe u64
  | K_pipe2 u64 u32
  | K_eventfd u32
  | K_eventfd2 u32 u32
  | K_recvmsg u32 u64 u32
  | K_accept u32 u64 u64

datatype (plugins only: code) kcall =
    K_open path u32 u32
  | K_creat path u32 u32
  | K_openat int path u32 u32
  | K_close int
  | K_stat path
  | K_lstat path
  | K_fstat int
  | K_newfstatat int path u32
  | K_read int u64
  | K_pread64 int u64 u64
  | K_readv int "bytes list"
  | K_preadv int "bytes list" u64
  | K_write int bytes
  | K_pwrite64 int bytes u64
  | K_writev int "bytes list"
  | K_pwritev int "bytes list" u64
  | K_unlinkat int path u32
  | K_symlinkat path int path
  | K_access path u32
  | K_faccessat int path u32
  | K_faccessat2 int path u32 u32
  | K_lseek int u64 u32
  | K_truncate path u64
  | K_ftruncate int u64
  | K_dup int
  | K_dup2 int int
  | K_dup3 int int u32
  | K_getdents int u32
  | K_getdents64 int u32
  | K_mkdirat int path u32
  | K_fchmodat int path u32
  | K_fchmod int u32
  | K_chdir path
  | K_fchdir int
  | K_getcwd u64
  | K_readlinkat int path u32
  | K_fcntl int u32 u64
  | K_renameat2 int path int path u32
  | K_statfs path
  | K_fstatfs int
  | K_fsync int
  | K_getxattr path string u64
  | K_execve u64 u64 u64
  | K_execveat u64 u64 u64 u64 u64
  | K_make kmake

text \<open>\<open>syscall_no_intercept\<close> and \<open>syscall_error_code\<close> of libsyscall_intercept, the \<open>lstat\<close> and
  \<open>realpath\<close> of path resolution, the buffer \<open>getcwd\<close> fills, the error of \<open>setenv\<close> (0 if none), and
  the memory of the process that internal calls read and write descriptors in.\<close>

record 'k kernel =
  k_call :: "kcall \<Rightarrow> 'k \<Rightarrow> int \<times> 'k"
  k_error_code :: "int \<Rightarrow> errno"
  k_lstat :: "'k \<Rightarrow> path \<Rightarrow> u32 option"
  k_realpath :: "'k \<Rightarrow> path \<Rightarrow> path option"
  k_cwd_buf :: "'k \<Rightarrow> bytes"
  k_setenv_err :: "'k \<Rightarrow> errno"
  k_load :: "'k \<Rightarrow> u64 \<Rightarrow> int"
  k_store :: "u64 \<Rightarrow> int \<Rightarrow> 'k \<Rightarrow> 'k"
  k_cmsgs :: "'k \<Rightarrow> u64 \<Rightarrow> (int \<times> u64 \<times> u64) list"

section \<open>The process\<close>

text \<open>\<open>MAX_OPEN_FDS\<close> is what \<open>getconf OPEN_MAX\<close> prints on the build host, 1024 by default.\<close>

definition MAX_OPEN_FDS :: int where "MAX_OPEN_FDS = 1024"
definition MAX_INTERNAL_FDS :: int where "MAX_INTERNAL_FDS = 256"
definition MIN_INTERNAL_FD :: int where "MIN_INTERNAL_FD = MAX_OPEN_FDS - MAX_INTERNAL_FDS"
definition MAX_USER_FDS :: int where "MAX_USER_FDS = MIN_INTERNAL_FD"

text \<open>The mutable state: GaoFS, the kernel, and the rest of \<open>PreloadContext\<close>. A bit of
  \<open>internal_fds_\<close> is set while its descriptor is free.\<close>

record ('n, 'k) proc =
  pr_fs :: "'n fs"
  pr_kernel :: 'k
  pr_enabled :: bool
  pr_cwd :: path
  pr_env_cwd :: "path option"
  pr_internal :: "bool list"
  pr_relocate :: bool
  pr_protected :: "bool list"

record ('n, 'k) env =
  e_ctx :: "'n gaofs_ctx"
  e_kernel :: "'k kernel"

definition on_fs :: "('n fs, 'a) cmd \<Rightarrow> (('n, 'k) proc, 'a) cmd" where
  "on_fs m = (\<lambda>s. case m (pr_fs s) of (r, f) \<Rightarrow> (r, s\<lparr>pr_fs := f\<rparr>))"

definition syscall_no_intercept :: "('n, 'k) env \<Rightarrow> kcall \<Rightarrow> (('n, 'k) proc, int) cmd" where
  "syscall_no_intercept W c = (\<lambda>s. case k_call (e_kernel W) c (pr_kernel s) of
     (r, k) \<Rightarrow> (Inr r, s\<lparr>pr_kernel := k\<rparr>))"

definition PreloadContext :: "'n fs \<Rightarrow> 'k \<Rightarrow> ('n, 'k) proc" where
  "PreloadContext f k = \<lparr>pr_fs = f\<lparr>fs_files := OpenFileMap\<rparr>, pr_kernel = k, pr_enabled = False,
     pr_cwd = [], pr_env_cwd = None, pr_internal = replicate (nat MAX_INTERNAL_FDS) True,
     pr_relocate = True, pr_protected = replicate (nat MAX_USER_FDS) False\<rparr>"

definition mountdir :: "path \<Rightarrow> 'n gaofs_ctx \<Rightarrow> 'n gaofs_ctx res" where
  "mountdir p X =
    res_bind (assert_res (is_absolute p)) (\<lambda>_.
    res_bind (assert_res (\<not> has_trailing_slash p)) (\<lambda>_. Inr (X\<lparr>ctx_mountdir := p\<rparr>)))"

section \<open>Paths\<close>

datatype relativize_status = Internal | External | Fd_unknown | Fd_not_a_dir

definition AT_FDCWD :: int where "AT_FDCWD = - 100"
definition AT_EMPTY_PATH :: u32 where "AT_EMPTY_PATH = 4096"
definition AT_REMOVEDIR :: u32 where "AT_REMOVEDIR = 512"

definition resolve_here ::
    "('n, 'k) env \<Rightarrow> ('n, 'k) proc \<Rightarrow> path \<Rightarrow> bool \<Rightarrow> (bool \<times> path) res" where
  "resolve_here W s = resolve (k_lstat (e_kernel W) (pr_kernel s)) (k_realpath (e_kernel W) (pr_kernel s))
     (ctx_mountdir (e_ctx W))"

text \<open>The status and \<open>relative_path\<close>, which stays empty when it is not assigned. The C string is not
  null.\<close>

definition relativize_fd_path ::
    "('n, 'k) env \<Rightarrow> ('n, 'k) proc \<Rightarrow> int \<Rightarrow> path \<Rightarrow> u32 \<Rightarrow> bool \<Rightarrow> (relativize_status \<times> path) res" where
  "relativize_fd_path W s dirfd raw_path flags resolve_last_link =
    (let ofm = fs_files (pr_fs s); X = e_ctx W;
         finish = (\<lambda>p. res_bind (resolve_here W s p resolve_last_link) (\<lambda>(inside, r).
           Inr (if inside then Internal else External, r)))
     in
     res_bind (assert_res (pr_enabled s)) (\<lambda>_.
     res_bind (assert_res (ctx_mountdir X \<noteq> [])) (\<lambda>_.
     if take 1 raw_path \<noteq> [separator] then
       if dirfd = AT_FDCWD then res_bind (prepend_path (pr_cwd s) raw_path) finish
       else if \<not> exist_fd dirfd ofm then Inr (Fd_unknown, [])
       else if has_flag flags AT_EMPTY_PATH then
         (case get_file dirfd ofm of None \<Rightarrow> Inl Abort | Some f \<Rightarrow> Inr (Internal, of_path f))
       else (case get_dir dirfd ofm of
           None \<Rightarrow> Inr (Fd_not_a_dir, [])
         | Some dir \<Rightarrow> finish (ctx_mountdir X @ of_path dir @ [separator] @ raw_path))
     else finish raw_path)))"

definition relativize_path ::
    "('n, 'k) env \<Rightarrow> ('n, 'k) proc \<Rightarrow> path \<Rightarrow> bool \<Rightarrow> (bool \<times> path) res" where
  "relativize_path W s raw_path resolve_last_link =
    res_bind (assert_res (pr_enabled s)) (\<lambda>_.
    res_bind (assert_res (ctx_mountdir (e_ctx W) \<noteq> [])) (\<lambda>_.
    res_bind (if take 1 raw_path \<noteq> [separator] then prepend_path (pr_cwd s) raw_path else Inr raw_path)
      (\<lambda>p. resolve_here W s p resolve_last_link)))"

section \<open>The descriptors of the library\<close>

text \<open>\<open>std::bitset\<close>: \<open>set\<close>, \<open>reset\<close> and \<open>test\<close> throw \<open>out_of_range\<close>; a negative position is a huge
  one.\<close>

definition bit_put :: "int \<Rightarrow> bool \<Rightarrow> bool list \<Rightarrow> bool list res" where
  "bit_put pos b bs = (if 0 \<le> pos \<and> pos < int (length bs) then Inr (bs[nat pos := b]) else Inl OutOfRange)"

definition bit_test :: "int \<Rightarrow> bool list \<Rightarrow> bool res" where
  "bit_test pos bs = (if 0 \<le> pos \<and> pos < int (length bs) then Inr (bs ! nat pos) else Inl OutOfRange)"

definition find_first :: "bool list \<Rightarrow> nat" where
  "find_first bs = length (takeWhile Not bs)"

definition set_internal :: "int \<Rightarrow> bool \<Rightarrow> (('n, 'k) proc, unit) cmd" where
  "set_internal pos b = (\<lambda>s. case bit_put pos b (pr_internal s) of
     Inl e \<Rightarrow> (Inl e, s) | Inr bs \<Rightarrow> (Inr (), s\<lparr>pr_internal := bs\<rparr>))"

definition O_CLOEXEC :: u32 where "O_CLOEXEC = 524288"

definition register_internal_fd :: "('n, 'k) env \<Rightarrow> int \<Rightarrow> (('n, 'k) proc, int) cmd" where
  "register_internal_fd W fd =
    cbind (cassert (fd \<ge> 0)) (\<lambda>_.
    cbind (cget pr_relocate) (\<lambda>must_relocate.
    if \<not> must_relocate then
      cbind (cassert (fd \<ge> MIN_INTERNAL_FD)) (\<lambda>_.
      cbind (set_internal (fd - MIN_INTERNAL_FD) False) (\<lambda>_. cret fd))
    else
      cbind (cget (\<lambda>s. find_first (pr_internal s))) (\<lambda>pos.
      cbind (cget (\<lambda>s. length (pr_internal s))) (\<lambda>n.
      if pos = n then craise RuntimeError else
      cbind (set_internal (int pos) False) (\<lambda>_.
      cbind (syscall_no_intercept W (K_dup3 fd (int pos + MIN_INTERNAL_FD) O_CLOEXEC)) (\<lambda>r.
      let ifd = to_int32 r in
      cbind (cassert (k_error_code (e_kernel W) ifd = 0)) (\<lambda>_.
      cbind (syscall_no_intercept W (K_close fd)) (\<lambda>_. cret ifd))))))))"

definition unregister_internal_fd :: "int \<Rightarrow> (('n, 'k) proc, unit) cmd" where
  "unregister_internal_fd fd =
    cbind (cassert (fd \<ge> MIN_INTERNAL_FD)) (\<lambda>_. set_internal (fd - MIN_INTERNAL_FD) True)"

definition is_internal_fd :: "int \<Rightarrow> ('n, 'k) proc \<Rightarrow> bool res" where
  "is_internal_fd fd s =
    (if fd < MIN_INTERNAL_FD then Inr False
     else res_bind (bit_test (fd - MIN_INTERNAL_FD) (pr_internal s)) (\<lambda>b. Inr (\<not> b)))"

definition F_GETFD :: u32 where "F_GETFD = 1"

definition fd_is_open :: "('n, 'k) env \<Rightarrow> int \<Rightarrow> (('n, 'k) proc, bool) cmd" where
  "fd_is_open W fd =
    cbind (syscall_no_intercept W (K_fcntl fd F_GETFD 0)) (\<lambda>r.
      let err = k_error_code (e_kernel W) (to_int32 r) in cret (err = 0 \<or> err \<noteq> EBADF))"

definition set_protected :: "int \<Rightarrow> bool \<Rightarrow> (('n, 'k) proc, unit) cmd" where
  "set_protected pos b = (\<lambda>s. case bit_put pos b (pr_protected s) of
     Inl e \<Rightarrow> (Inl e, s) | Inr bs \<Rightarrow> (Inr (), s\<lparr>pr_protected := bs\<rparr>))"

fun protect_loop :: "('n, 'k) env \<Rightarrow> int \<Rightarrow> int list \<Rightarrow> (('n, 'k) proc, unit) cmd" where
  "protect_loop W nullfd [] = cret ()"
| "protect_loop W nullfd (fd # fds) =
    cbind (fd_is_open W fd) (\<lambda>open.
      if open then protect_loop W nullfd fds else
      cbind (syscall_no_intercept W (K_dup3 nullfd fd O_CLOEXEC)) (\<lambda>r.
      cbind (cassert (k_error_code (e_kernel W) (to_int32 r) = 0)) (\<lambda>_.
      cbind (set_protected fd True) (\<lambda>_. protect_loop W nullfd fds))))"

definition set_relocate :: "bool \<Rightarrow> (('n, 'k) proc, unit) cmd" where
  "set_relocate b = (\<lambda>s. (Inr (), s\<lparr>pr_relocate := b\<rparr>))"

definition protect_user_fds :: "('n, 'k) env \<Rightarrow> (('n, 'k) proc, unit) cmd" where
  "protect_user_fds W =
    cbind (syscall_no_intercept W (K_open ''/dev/null'' O_RDONLY 0)) (\<lambda>r.
    cbind (protect_loop W (to_int32 r) (map int [0..<nat MAX_USER_FDS])) (\<lambda>_. set_relocate False))"

text \<open>A failing \<open>close\<close> is only logged; the bits stay set.\<close>

fun unprotect_loop :: "('n, 'k) env \<Rightarrow> nat list \<Rightarrow> (('n, 'k) proc, unit) cmd" where
  "unprotect_loop W [] = cret ()"
| "unprotect_loop W (fd # fds) =
    cbind (cget (\<lambda>s. pr_protected s ! fd)) (\<lambda>protected.
      if \<not> protected then unprotect_loop W fds
      else cbind (syscall_no_intercept W (K_close (int fd))) (\<lambda>_. unprotect_loop W fds))"

definition unprotect_user_fds :: "('n, 'k) env \<Rightarrow> (('n, 'k) proc, unit) cmd" where
  "unprotect_user_fds W =
    cbind (cget (\<lambda>s. length (pr_protected s))) (\<lambda>n.
    cbind (unprotect_loop W [0..<n]) (\<lambda>_. set_relocate True))"

section \<open>The working directory\<close>

text \<open>\<open>max_length\<close> is 4096. \<open>long ret = syscall(...) < 0\<close> stores the comparison, so the error code is
  that of 1.\<close>

definition get_sys_cwd :: "('n, 'k) env \<Rightarrow> (('n, 'k) proc, path) cmd" where
  "get_sys_cwd W =
    cbind (syscall_no_intercept W (K_getcwd 4096)) (\<lambda>r.
    if r < 0 then craise (SystemError (k_error_code (e_kernel W) 1)) else
    cbind (cget (\<lambda>s. k_cwd_buf (e_kernel W) (pr_kernel s))) (\<lambda>temp.
    if take 1 temp \<noteq> [separator] then craise RuntimeError else cret (c_str temp)))"

definition set_sys_cwd :: "('n, 'k) env \<Rightarrow> path \<Rightarrow> (('n, 'k) proc, unit) cmd" where
  "set_sys_cwd W p =
    cbind (syscall_no_intercept W (K_chdir p)) (\<lambda>r.
    if r \<noteq> 0 then craise (SystemError (k_error_code (e_kernel W) r)) else cret ())"

definition set_env_cwd :: "('n, 'k) env \<Rightarrow> path \<Rightarrow> (('n, 'k) proc, unit) cmd" where
  "set_env_cwd W p =
    cbind (cget (\<lambda>s. k_setenv_err (e_kernel W) (pr_kernel s))) (\<lambda>e.
    if e \<noteq> 0 then cbind (on_fs (set_errno e)) (\<lambda>_. craise (SystemError e))
    else (\<lambda>s. (Inr (), s\<lparr>pr_env_cwd := Some (c_str p)\<rparr>)))"

text \<open>\<open>unsetenv\<close> fails only for a malformed name; the name is a constant.\<close>

definition unset_env_cwd :: "(('n, 'k) proc, unit) cmd" where
  "unset_env_cwd = (\<lambda>s. (Inr (), s\<lparr>pr_env_cwd := None\<rparr>))"

definition put_cwd :: "path \<Rightarrow> (('n, 'k) proc, unit) cmd" where
  "put_cwd p = (\<lambda>s. (Inr (), s\<lparr>pr_cwd := p\<rparr>))"

definition init_cwd :: "('n, 'k) env \<Rightarrow> (('n, 'k) proc, unit) cmd" where
  "init_cwd W = cbind (cget pr_env_cwd) (\<lambda>env_cwd. case env_cwd of
      Some p \<Rightarrow> put_cwd p
    | None \<Rightarrow> cbind (get_sys_cwd W) put_cwd)"

definition set_cwd :: "('n, 'k) env \<Rightarrow> path \<Rightarrow> bool \<Rightarrow> (('n, 'k) proc, unit) cmd" where
  "set_cwd W p internal =
    cbind (if internal then cbind (set_sys_cwd W (ctx_mountdir (e_ctx W))) (\<lambda>_. set_env_cwd W p)
           else cbind (set_sys_cwd W p) (\<lambda>_. unset_env_cwd)) (\<lambda>_.
    put_cwd p)"

end
