(* ===== verification/Hooks.thy ===== *)
theory Hooks
  imports Preload_Context
begin

text \<open>
  \<open>client/hooks.cpp\<close>: what becomes of an intercepted system call. A hook decides whether the path or
  descriptor belongs to GaoFS; if so it calls the client's function and turns \<open>errno\<close> into a negative
  result, otherwise the call goes to the kernel, with the resolved path. Hooks that fill a buffer
  return its contents when GaoFS filled it, and None when it was left to the kernel. Results of type
  \<open>int\<close> are narrowed as in C. An \<open>unsigned int\<close> descriptor is converted to \<open>int\<close> for the table.
\<close>

section \<open>Results\<close>

definition with_errno :: "int \<Rightarrow> (('n, 'k) proc, int) cmd" where
  "with_errno ret =
    (let ret = to_int32 ret in
     if ret < 0 then cbind (cget (\<lambda>s. fs_errno (pr_fs s))) (\<lambda>e. cret (- e)) else cret ret)"

definition syscall_no_intercept_wrapper :: "('n, 'k) env \<Rightarrow> kcall \<Rightarrow> (('n, 'k) proc, int) cmd" where
  "syscall_no_intercept_wrapper W c =
    cbind (syscall_no_intercept W c) (\<lambda>result.
      let err = k_error_code (e_kernel W) result in cret (if err \<noteq> 0 then - err else result))"

text \<open>The wrapper's \<open>long\<close> returned from a function of type \<open>int\<close>, without and with a buffer; a
  client function as the value of a hook.\<close>

definition kernel_int :: "('n, 'k) env \<Rightarrow> kcall \<Rightarrow> (('n, 'k) proc, int) cmd" where
  "kernel_int W c = cbind (syscall_no_intercept_wrapper W c) (\<lambda>r. cret (to_int32 r))"

definition kernel_buf :: "('n, 'k) env \<Rightarrow> kcall \<Rightarrow> (('n, 'k) proc, int \<times> 'b option) cmd" where
  "kernel_buf W c = cbind (kernel_int W c) (\<lambda>r. cret (r, None))"

definition gaofs_int :: "('n fs, int) cmd \<Rightarrow> (('n, 'k) proc, int) cmd" where
  "gaofs_int m = cbind (on_fs m) with_errno"

definition gaofs_buf :: "('n fs, int \<times> 'b option) cmd \<Rightarrow> (('n, 'k) proc, int \<times> 'b option) cmd" where
  "gaofs_buf m = cbind (on_fs m) (\<lambda>(ret, b). cbind (with_errno ret) (\<lambda>r. cret (r, b)))"

definition filled :: "('s, int \<times> 'b) cmd \<Rightarrow> ('s, int \<times> 'b option) cmd" where
  "filled m = cbind m (\<lambda>(ret, b). cret (ret, Some b))"

section \<open>Dispatch on the path or the descriptor\<close>

text \<open>The switch over the status, shared by the hooks of the \<open>at\<close> family.\<close>

definition at_hook ::
    "('n, 'k) env \<Rightarrow> int \<Rightarrow> path \<Rightarrow> u32 \<Rightarrow> bool \<Rightarrow> (path \<Rightarrow> (('n, 'k) proc, 'a) cmd) \<Rightarrow> 'a \<Rightarrow>
     (path \<Rightarrow> (('n, 'k) proc, 'a) cmd) \<Rightarrow> (('n, 'k) proc, 'a) cmd" where
  "at_hook W dirfd cpath flags resolve_last_link forward not_a_dir serve = (\<lambda>s.
    cbind (clift (relativize_fd_path W s dirfd cpath flags resolve_last_link)) (\<lambda>(rstatus, resolved).
      case rstatus of
        Fd_unknown \<Rightarrow> forward cpath
      | External \<Rightarrow> forward resolved
      | Fd_not_a_dir \<Rightarrow> cret not_a_dir
      | Internal \<Rightarrow> serve resolved) s)"

definition path_hook ::
    "('n, 'k) env \<Rightarrow> path \<Rightarrow> bool \<Rightarrow> (path \<Rightarrow> (('n, 'k) proc, 'a) cmd) \<Rightarrow>
     (path \<Rightarrow> (('n, 'k) proc, 'a) cmd) \<Rightarrow> (('n, 'k) proc, 'a) cmd" where
  "path_hook W cpath resolve_last_link forward serve = (\<lambda>s.
    cbind (clift (relativize_path W s cpath resolve_last_link)) (\<lambda>(inside, rel_path).
      if inside then serve rel_path else forward rel_path) s)"

definition fd_hook ::
    "int \<Rightarrow> (('n, 'k) proc, 'a) cmd \<Rightarrow> (('n, 'k) proc, 'a) cmd \<Rightarrow> (('n, 'k) proc, 'a) cmd" where
  "fd_hook fd forward serve = (\<lambda>s. if exist_fd fd (fs_files (pr_fs s)) then serve s else forward s)"

text \<open>\<open>CTX->file_map()->get(fd)->path()\<close>.\<close>

definition with_path :: "int \<Rightarrow> (path \<Rightarrow> (('n, 'k) proc, 'a) cmd) \<Rightarrow> (('n, 'k) proc, 'a) cmd" where
  "with_path fd f = cbind (on_fs (with_file fd (\<lambda>file. cret (of_path file)))) f"

section \<open>Opening and closing\<close>

text \<open>Two of the branches return the raw result of the kernel.\<close>

definition hook_openat :: "('n, 'k) env \<Rightarrow> int \<Rightarrow> path \<Rightarrow> u32 \<Rightarrow> u32 \<Rightarrow> (('n, 'k) proc, int) cmd" where
  "hook_openat W dirfd cpath flags mode =
    at_hook W dirfd cpath 0 True
      (\<lambda>p. cbind (syscall_no_intercept W (K_openat dirfd p flags mode)) (\<lambda>r. cret (to_int32 r)))
      (- ENOTDIR)
      (\<lambda>p. gaofs_int (gaofs_open (ctx_client (e_ctx W)) p mode flags))"

definition remove_file :: "int \<Rightarrow> (('n, 'k) proc, bool) cmd" where
  "remove_file fd = on_fs (\<lambda>s. case remove_fd fd (fs_files s) of (b, m) \<Rightarrow> (Inr b, s\<lparr>fs_files := m\<rparr>))"

definition hook_close :: "('n, 'k) env \<Rightarrow> int \<Rightarrow> (('n, 'k) proc, int) cmd" where
  "hook_close W fd =
    fd_hook fd
      (\<lambda>s. cbind (clift (is_internal_fd fd s)) (\<lambda>internal.
        if internal then cret 0 else kernel_int W (K_close fd)) s)
      (cbind (remove_file fd) (\<lambda>_. cret 0))"

section \<open>Attributes\<close>

definition stat_internal :: "('n, 'k) env \<Rightarrow> path \<Rightarrow> (('n, 'k) proc, int \<times> stat_buf option) cmd" where
  "stat_internal W p = gaofs_buf (gaofs_stat (e_ctx W) p True)"

definition hook_stat :: "('n, 'k) env \<Rightarrow> path \<Rightarrow> (('n, 'k) proc, int \<times> stat_buf option) cmd" where
  "hook_stat W p = path_hook W p False (\<lambda>r. kernel_buf W (K_stat r)) (stat_internal W)"

definition hook_lstat :: "('n, 'k) env \<Rightarrow> path \<Rightarrow> (('n, 'k) proc, int \<times> stat_buf option) cmd" where
  "hook_lstat W p = path_hook W p True (\<lambda>r. kernel_buf W (K_lstat r)) (stat_internal W)"

definition hook_fstat :: "('n, 'k) env \<Rightarrow> u32 \<Rightarrow> (('n, 'k) proc, int \<times> stat_buf option) cmd" where
  "hook_fstat W fd =
    fd_hook (sint fd) (kernel_buf W (K_fstat (uint fd))) (with_path (sint fd) (stat_internal W))"

definition hook_fstatat ::
    "('n, 'k) env \<Rightarrow> int \<Rightarrow> path \<Rightarrow> u32 \<Rightarrow> (('n, 'k) proc, int \<times> stat_buf option) cmd" where
  "hook_fstatat W dirfd cpath flags =
    at_hook W dirfd cpath flags True (\<lambda>p. kernel_buf W (K_newfstatat dirfd p flags))
      (- ENOTDIR, None) (stat_internal W)"

definition hook_access :: "('n, 'k) env \<Rightarrow> path \<Rightarrow> u32 \<Rightarrow> (('n, 'k) proc, int) cmd" where
  "hook_access W p amode =
    path_hook W p True (\<lambda>r. kernel_int W (K_access r amode))
      (\<lambda>r. gaofs_int (gaofs_access (ctx_client (e_ctx W)) r True))"

definition hook_faccessat :: "('n, 'k) env \<Rightarrow> int \<Rightarrow> path \<Rightarrow> u32 \<Rightarrow> (('n, 'k) proc, int) cmd" where
  "hook_faccessat W dirfd cpath mode =
    at_hook W dirfd cpath 0 True (\<lambda>p. kernel_int W (K_faccessat dirfd p mode)) (- ENOTDIR)
      (\<lambda>p. gaofs_int (gaofs_access (ctx_client (e_ctx W)) p True))"

definition hook_faccessat2 ::
    "('n, 'k) env \<Rightarrow> int \<Rightarrow> path \<Rightarrow> u32 \<Rightarrow> u32 \<Rightarrow> (('n, 'k) proc, int) cmd" where
  "hook_faccessat2 W dirfd cpath mode flags =
    at_hook W dirfd cpath 0 True (\<lambda>p. kernel_int W (K_faccessat2 dirfd p mode flags)) (- ENOTDIR)
      (\<lambda>p. gaofs_int (gaofs_access (ctx_client (e_ctx W)) p True))"

section \<open>Reading and writing\<close>

definition hook_read ::
    "('n, 'k) env \<Rightarrow> u32 \<Rightarrow> bytes \<Rightarrow> (('n, 'k) proc, int \<times> bytes option) cmd" where
  "hook_read W fd buf =
    fd_hook (sint fd) (kernel_buf W (K_read (uint fd) (of_nat (length buf))))
      (gaofs_buf (filled (gaofs_read (ctx_client (e_ctx W)) (sint fd) buf)))"

definition hook_pread ::
    "('n, 'k) env \<Rightarrow> u32 \<Rightarrow> bytes \<Rightarrow> u64 \<Rightarrow> (('n, 'k) proc, int \<times> bytes option) cmd" where
  "hook_pread W fd buf pos =
    fd_hook (sint fd) (kernel_buf W (K_pread64 (uint fd) (of_nat (length buf)) pos))
      (gaofs_buf (filled (gaofs_pread_ws (ctx_client (e_ctx W)) (sint fd) buf pos)))"

text \<open>The vectored hooks take an \<open>unsigned long\<close> descriptor, of which the table sees the low half.\<close>

definition long_fd :: "u64 \<Rightarrow> int" where
  "long_fd fd = sint (ucast fd :: u32)"

definition hook_readv ::
    "('n, 'k) env \<Rightarrow> u64 \<Rightarrow> bytes list \<Rightarrow> (('n, 'k) proc, int \<times> bytes list option) cmd" where
  "hook_readv W fd iov =
    fd_hook (long_fd fd) (kernel_buf W (K_readv (uint fd) iov))
      (gaofs_buf (filled (gaofs_readv (ctx_client (e_ctx W)) (long_fd fd) iov)))"

definition hook_preadv ::
    "('n, 'k) env \<Rightarrow> u64 \<Rightarrow> bytes list \<Rightarrow> u64 \<Rightarrow> u64 \<Rightarrow> (('n, 'k) proc, int \<times> bytes list option) cmd" where
  "hook_preadv W fd iov pos_l pos_h =
    fd_hook (long_fd fd) (kernel_buf W (K_preadv (uint fd) iov pos_l))
      (gaofs_buf (filled (gaofs_preadv (ctx_client (e_ctx W)) (long_fd fd) iov pos_l)))"

definition hook_write :: "('n, 'k) env \<Rightarrow> u32 \<Rightarrow> bytes \<Rightarrow> (('n, 'k) proc, int) cmd" where
  "hook_write W fd buf =
    fd_hook (sint fd) (kernel_int W (K_write (uint fd) buf))
      (gaofs_int (gaofs_write (ctx_client (e_ctx W)) (sint fd) buf))"

definition hook_pwrite :: "('n, 'k) env \<Rightarrow> u32 \<Rightarrow> bytes \<Rightarrow> u64 \<Rightarrow> (('n, 'k) proc, int) cmd" where
  "hook_pwrite W fd buf pos =
    fd_hook (sint fd) (kernel_int W (K_pwrite64 (uint fd) buf pos))
      (gaofs_int (gaofs_pwrite_ws (ctx_client (e_ctx W)) (sint fd) buf pos))"

definition hook_writev :: "('n, 'k) env \<Rightarrow> u64 \<Rightarrow> bytes list \<Rightarrow> (('n, 'k) proc, int) cmd" where
  "hook_writev W fd iov =
    fd_hook (long_fd fd) (kernel_int W (K_writev (uint fd) iov))
      (gaofs_int (gaofs_writev (ctx_client (e_ctx W)) (long_fd fd) iov))"

definition hook_pwritev ::
    "('n, 'k) env \<Rightarrow> u64 \<Rightarrow> bytes list \<Rightarrow> u64 \<Rightarrow> u64 \<Rightarrow> (('n, 'k) proc, int) cmd" where
  "hook_pwritev W fd iov pos_l pos_h =
    fd_hook (long_fd fd) (kernel_int W (K_pwritev (uint fd) iov pos_l))
      (gaofs_int (gaofs_pwritev (ctx_client (e_ctx W)) (long_fd fd) iov pos_l))"

definition whence_of :: "u32 \<Rightarrow> whence" where
  "whence_of w = (if w = 0 then SEEK_SET else if w = 1 then SEEK_CUR else if w = 2 then SEEK_END else SEEK_OTHER)"

text \<open>The comparison with the largest \<open>off_t\<close> is never true.\<close>

definition hook_lseek :: "('n, 'k) env \<Rightarrow> u32 \<Rightarrow> u64 \<Rightarrow> u32 \<Rightarrow> (('n, 'k) proc, int) cmd" where
  "hook_lseek W fd offset w =
    fd_hook (sint fd) (syscall_no_intercept_wrapper W (K_lseek (uint fd) offset w))
      (cbind (on_fs (gaofs_lseek (ctx_client (e_ctx W)) (sint fd) offset (whence_of w))) (\<lambda>off_ret.
        if off_ret > 2 ^ 63 - 1 then cret (- EOVERFLOW)
        else if off_ret < 0 then cbind (cget (\<lambda>s. fs_errno (pr_fs s))) (\<lambda>e. cret (- e))
        else cret off_ret))"

definition hook_truncate :: "('n, 'k) env \<Rightarrow> path \<Rightarrow> u64 \<Rightarrow> (('n, 'k) proc, int) cmd" where
  "hook_truncate W p len =
    path_hook W p True (\<lambda>r. kernel_int W (K_truncate r len))
      (\<lambda>r. gaofs_int (gaofs_truncate (ctx_client (e_ctx W)) r len))"

definition hook_ftruncate :: "('n, 'k) env \<Rightarrow> u32 \<Rightarrow> u64 \<Rightarrow> (('n, 'k) proc, int) cmd" where
  "hook_ftruncate W fd len =
    fd_hook (sint fd) (kernel_int W (K_ftruncate (uint fd) len))
      (with_path (sint fd) (\<lambda>p. gaofs_int (gaofs_truncate (ctx_client (e_ctx W)) p len)))"

definition hook_fsync :: "('n, 'k) env \<Rightarrow> u32 \<Rightarrow> (('n, 'k) proc, int) cmd" where
  "hook_fsync W fd =
    fd_hook (sint fd) (kernel_int W (K_fsync (uint fd)))
      (cbind (on_fs (set_errno 0)) (\<lambda>_. cret 0))"

section \<open>Names\<close>

text \<open>The last argument of \<open>relativize_fd_path\<close> in the code, \<open>false\<close>, is that of \<open>flags\<close>.\<close>

definition hook_unlinkat :: "('n, 'k) env \<Rightarrow> int \<Rightarrow> path \<Rightarrow> u32 \<Rightarrow> (('n, 'k) proc, int) cmd" where
  "hook_unlinkat W dirfd cpath flags =
    (if flags AND NOT AT_REMOVEDIR \<noteq> 0 then cret (- EINVAL) else
     at_hook W dirfd cpath 0 True (\<lambda>p. kernel_int W (K_unlinkat dirfd p flags)) (- ENOTDIR)
       (\<lambda>p. if has_flag flags AT_REMOVEDIR
             then gaofs_int (gaofs_rmdir (ctx_client (e_ctx W)) p)
             else gaofs_int (gaofs_remove (ctx_client (e_ctx W)) p)))"

definition hook_symlinkat :: "('n, 'k) env \<Rightarrow> path \<Rightarrow> int \<Rightarrow> path \<Rightarrow> (('n, 'k) proc, int) cmd" where
  "hook_symlinkat W oldname newdfd newname =
    path_hook W oldname True
      (\<lambda>_. at_hook W newdfd newname 0 True (\<lambda>p. kernel_int W (K_symlinkat oldname newdfd p))
        (- ENOTDIR) (\<lambda>_. cret (- ENOTSUP)))
      (\<lambda>_. cret (- ENOTSUP))"

definition hook_mkdirat :: "('n, 'k) env \<Rightarrow> int \<Rightarrow> path \<Rightarrow> u32 \<Rightarrow> (('n, 'k) proc, int) cmd" where
  "hook_mkdirat W dirfd cpath mode =
    at_hook W dirfd cpath 0 True (\<lambda>p. kernel_int W (K_mkdirat dirfd p mode)) (- ENOTDIR)
      (\<lambda>p. gaofs_int (gaofs_create (ctx_client (e_ctx W)) p (mode OR S_IFDIR)))"

definition hook_fchmodat :: "('n, 'k) env \<Rightarrow> int \<Rightarrow> path \<Rightarrow> u32 \<Rightarrow> (('n, 'k) proc, int) cmd" where
  "hook_fchmodat W dirfd cpath mode =
    at_hook W dirfd cpath 0 True (\<lambda>p. kernel_int W (K_fchmodat dirfd p mode)) (- ENOTDIR)
      (\<lambda>_. cret (- ENOTSUP))"

definition hook_fchmod :: "('n, 'k) env \<Rightarrow> u32 \<Rightarrow> u32 \<Rightarrow> (('n, 'k) proc, int) cmd" where
  "hook_fchmod W fd mode =
    fd_hook (sint fd) (kernel_int W (K_fchmod (uint fd) mode)) (cret (- ENOTSUP))"

definition hook_readlinkat ::
    "('n, 'k) env \<Rightarrow> int \<Rightarrow> path \<Rightarrow> u32 \<Rightarrow> (('n, 'k) proc, int) cmd" where
  "hook_readlinkat W dirfd cpath bufsiz =
    at_hook W dirfd cpath 0 True (\<lambda>p. kernel_int W (K_readlinkat dirfd p bufsiz)) (- ENOTDIR)
      (\<lambda>_. cret (- ENOTSUP))"

definition hook_renameat ::
    "('n, 'k) env \<Rightarrow> int \<Rightarrow> path \<Rightarrow> int \<Rightarrow> path \<Rightarrow> u32 \<Rightarrow> (('n, 'k) proc, int) cmd" where
  "hook_renameat W olddfd oldname newdfd newname flags =
    (let rename = (\<lambda>oldpath newpath. kernel_int W (K_renameat2 olddfd oldpath newdfd newpath flags)) in
     at_hook W olddfd oldname 0 True
       (\<lambda>oldpath. at_hook W newdfd newname 0 True (rename oldpath) (- ENOTDIR) (\<lambda>_. cret (- ENOTSUP)))
       (- ENOTDIR) (\<lambda>_. cret (- ENOTSUP)))"

definition hook_getxattr :: "('n, 'k) env \<Rightarrow> path \<Rightarrow> string \<Rightarrow> u64 \<Rightarrow> (('n, 'k) proc, int) cmd" where
  "hook_getxattr W p name sz =
    path_hook W p True (\<lambda>_. kernel_int W (K_getxattr p name sz)) (\<lambda>_. cret (- ENOTSUP))"

section \<open>Descriptors\<close>

definition hook_dup :: "('n, 'k) env \<Rightarrow> u32 \<Rightarrow> (('n, 'k) proc, int) cmd" where
  "hook_dup W fd =
    fd_hook (sint fd) (kernel_int W (K_dup (uint fd))) (gaofs_int (gaofs_dup (sint fd)))"

definition hook_dup2 :: "('n, 'k) env \<Rightarrow> u32 \<Rightarrow> u32 \<Rightarrow> (('n, 'k) proc, int) cmd" where
  "hook_dup2 W oldfd newfd =
    fd_hook (sint oldfd) (kernel_int W (K_dup2 (uint oldfd) (uint newfd)))
      (gaofs_int (gaofs_dup2 (sint oldfd) (sint newfd)))"

definition hook_dup3 :: "('n, 'k) env \<Rightarrow> u32 \<Rightarrow> u32 \<Rightarrow> u32 \<Rightarrow> (('n, 'k) proc, int) cmd" where
  "hook_dup3 W oldfd newfd flags =
    fd_hook (sint oldfd) (kernel_int W (K_dup3 (uint oldfd) (uint newfd) flags)) (cret (- ENOTSUP))"

definition F_DUPFD :: u32 where "F_DUPFD = 0"
definition F_SETFD :: u32 where "F_SETFD = 2"
definition F_GETFL :: u32 where "F_GETFL = 3"
definition F_DUPFD_CLOEXEC :: u32 where "F_DUPFD_CLOEXEC = 1030"
definition FD_CLOEXEC :: u64 where "FD_CLOEXEC = 1"

definition set_cloexec :: "int \<Rightarrow> bool \<Rightarrow> (('n, 'k) proc, unit) cmd" where
  "set_cloexec fd b =
    on_fs (\<lambda>s. (Inr (), s\<lparr>fs_files := update_file fd (set_flag Cloexec b) (fs_files s)\<rparr>))"

definition fcntl_getfl :: "open_file \<Rightarrow> u32" where
  "fcntl_getfl f = (if get_flag Rdonly f then O_RDONLY else 0) OR (if get_flag Wronly f then O_WRONLY else 0)
     OR (if get_flag Rdwr f then O_RDWR else 0)"

definition hook_fcntl :: "('n, 'k) env \<Rightarrow> u32 \<Rightarrow> u32 \<Rightarrow> u64 \<Rightarrow> (('n, 'k) proc, int) cmd" where
  "hook_fcntl W fd cmd arg =
    fd_hook (sint fd) (kernel_int W (K_fcntl (uint fd) cmd arg))
      (if cmd = F_DUPFD then gaofs_int (gaofs_dup (sint fd))
       else if cmd = F_DUPFD_CLOEXEC then
         cbind (on_fs (gaofs_dup (sint fd))) (\<lambda>ret.
           if ret = - 1 then cbind (cget (\<lambda>s. fs_errno (pr_fs s))) (\<lambda>e. cret (- e))
           else cbind (set_cloexec (sint fd) True) (\<lambda>_. cret ret))
       else if cmd = F_GETFD then
         on_fs (with_file (sint fd) (\<lambda>f. cret (if get_flag Cloexec f then uint FD_CLOEXEC else 0)))
       else if cmd = F_GETFL then on_fs (with_file (sint fd) (\<lambda>f. cret (sint (fcntl_getfl f))))
       else if cmd = F_SETFD then cbind (set_cloexec (sint fd) (arg AND FD_CLOEXEC \<noteq> 0)) (\<lambda>_. cret 0)
       else cret (- ENOTSUP))"

section \<open>Directories\<close>

definition hook_getdents ::
    "('n, 'k) env \<Rightarrow> u32 \<Rightarrow> u32 \<Rightarrow> (('n, 'k) proc, int \<times> dirent list option) cmd" where
  "hook_getdents W fd nbytes =
    fd_hook (sint fd) (kernel_buf W (K_getdents (uint fd) nbytes))
      (gaofs_buf (filled (gaofs_getdents (ctx_client (e_ctx W)) (sint fd) nbytes)))"

definition hook_getdents64 ::
    "('n, 'k) env \<Rightarrow> u32 \<Rightarrow> u32 \<Rightarrow> (('n, 'k) proc, int \<times> dirent list option) cmd" where
  "hook_getdents64 W fd nbytes =
    fd_hook (sint fd) (kernel_buf W (K_getdents64 (uint fd) nbytes))
      (gaofs_buf (filled (gaofs_getdents64 (ctx_client (e_ctx W)) (sint fd) nbytes)))"

text \<open>\<open>set_cwd\<close> in a \<open>try\<close> block.\<close>

definition try_set_cwd :: "('n, 'k) env \<Rightarrow> path \<Rightarrow> bool \<Rightarrow> (('n, 'k) proc, int) cmd" where
  "try_set_cwd W p internal =
    ccatch (cbind (set_cwd W p internal) (\<lambda>_. cret 0))
      (\<lambda>e. case e of SystemError c \<Rightarrow> cret (- c) | _ \<Rightarrow> craise e)"

definition strip_slash :: "path \<Rightarrow> path" where
  "strip_slash p = (if has_trailing_slash p then butlast p else p)"

definition hook_chdir :: "('n, 'k) env \<Rightarrow> path \<Rightarrow> (('n, 'k) proc, int) cmd" where
  "hook_chdir W p =
    path_hook W p True (\<lambda>r. try_set_cwd W r False)
      (\<lambda>r. cbind (on_fs (get_metadata (ctx_client (e_ctx W)) r False)) (\<lambda>md. case md of
          None \<Rightarrow> cbind (cget (\<lambda>s. fs_errno (pr_fs s))) (\<lambda>e. cret (- e))
        | Some md \<Rightarrow>
            if \<not> S_ISDIR (md_mode md) then cret (- ENOTDIR)
            else try_set_cwd W (strip_slash (ctx_mountdir (e_ctx W) @ r)) True))"

definition hook_fchdir :: "('n, 'k) env \<Rightarrow> u32 \<Rightarrow> (('n, 'k) proc, int) cmd" where
  "hook_fchdir W fd =
    fd_hook (sint fd)
      (cbind (syscall_no_intercept_wrapper W (K_fchdir (uint fd))) (\<lambda>ret.
        if ret < 0 then craise (SystemError (k_error_code (e_kernel W) ret))
        else cbind unset_env_cwd (\<lambda>_. cbind (get_sys_cwd W) (\<lambda>p. cbind (put_cwd p) (\<lambda>_. cret 0)))))
      (\<lambda>s. (case get_dir (sint fd) (fs_files (pr_fs s)) of
          None \<Rightarrow> cret (- EBADF)
        | Some d \<Rightarrow> try_set_cwd W (strip_slash (ctx_mountdir (e_ctx W) @ of_path d)) True) s)"

definition hook_getcwd :: "u64 \<Rightarrow> (('n, 'k) proc, int \<times> bytes option) cmd" where
  "hook_getcwd sz = cbind (cget pr_cwd) (\<lambda>cwd.
    if of_nat (length cwd) + 1 > sz then cret (- ERANGE, None)
    else cret (to_int32 (int (length cwd) + 1), Some (c_str cwd @ [NUL])))"

section \<open>File systems\<close>

definition hook_statfs ::
    "('n, 'k) env \<Rightarrow> path \<Rightarrow> (('n, 'k) proc, int \<times> (u64 \<times> u64 \<times> u64) option) cmd" where
  "hook_statfs W p =
    path_hook W p True (\<lambda>r. kernel_buf W (K_statfs r))
      (\<lambda>_. gaofs_buf (gaofs_statfs (ctx_client (e_ctx W))))"

definition hook_fstatfs ::
    "('n, 'k) env \<Rightarrow> u32 \<Rightarrow> (('n, 'k) proc, int \<times> (u64 \<times> u64 \<times> u64) option) cmd" where
  "hook_fstatfs W fd =
    fd_hook (sint fd) (kernel_buf W (K_fstatfs (uint fd))) (gaofs_buf (gaofs_statfs (ctx_client (e_ctx W))))"

end
