(* ===== verification/Intercept.thy ===== *)
theory Intercept
  imports Hooks
begin

text \<open>
  \<open>client/intercept.cpp\<close>: the entry point of every intercepted system call. A call made by the
  application is dispatched to its hook; a call made while a hook runs (by the RPC library, say) is
  recognised by the thread's reentrance flag and only tracked for the descriptors it makes or
  destroys. The arguments are the registers, 64 bits each, that the dispatcher narrows; a pointer to
  a string or to a buffer the code reads is the string or the buffer, other pointers are addresses.
  \<open>SYS_socketcall\<close> does not exist on the build's platform.
\<close>

section \<open>System calls\<close>

text \<open>Grouped in the order of the dispatcher; the last two groups are of interest only when the
  library makes the call.\<close>

datatype (plugins only: code) open_call =
    Sys_execve u64 u64 u64
  | Sys_execveat u64 u64 u64 u64 u64
  | Sys_open path u64 u64
  | Sys_creat path u64
  | Sys_openat u64 path u64 u64
  | Sys_close u64
  | Sys_stat path
  | Sys_lstat path
  | Sys_fstat u64
  | Sys_newfstatat u64 path u64

datatype (plugins only: code) io_call =
    Sys_read u64 bytes
  | Sys_pread64 u64 bytes u64
  | Sys_readv u64 "bytes list"
  | Sys_preadv u64 "bytes list" u64 u64
  | Sys_pwrite64 u64 bytes u64
  | Sys_write u64 bytes
  | Sys_writev u64 "bytes list"
  | Sys_pwritev u64 "bytes list" u64 u64

datatype (plugins only: code) name_call =
    Sys_unlink path
  | Sys_unlinkat u64 path u64
  | Sys_rmdir path
  | Sys_symlink path path
  | Sys_symlinkat path u64 path
  | Sys_access path u64
  | Sys_faccessat u64 path u64
  | Sys_faccessat2 u64 path u64 u64

datatype (plugins only: code) fd_call =
    Sys_lseek u64 u64 u64
  | Sys_truncate path u64
  | Sys_ftruncate u64 u64
  | Sys_dup u64
  | Sys_dup2 u64 u64
  | Sys_dup3 u64 u64 u64
  | Sys_getdents u64 u64
  | Sys_getdents64 u64 u64

datatype (plugins only: code) dir_call =
    Sys_mkdirat u64 path u64
  | Sys_mkdir path u64
  | Sys_chmod path u64
  | Sys_fchmod u64 u64
  | Sys_fchmodat u64 path u64
  | Sys_chdir path
  | Sys_fchdir u64
  | Sys_getcwd u64

datatype (plugins only: code) misc_call =
    Sys_readlink path u64
  | Sys_readlinkat u64 path u64
  | Sys_fcntl u64 u64 u64
  | Sys_rename path path
  | Sys_renameat u64 path u64 path
  | Sys_renameat2 u64 path u64 path u64
  | Sys_fstatfs u64
  | Sys_statfs path
  | Sys_fsync u64
  | Sys_getxattr path string u64 u64

datatype (plugins only: code) make_call =
    Sys_epoll_create u64
  | Sys_epoll_create1 u64
  | Sys_inotify_init
  | Sys_inotify_init1 u64
  | Sys_perf_event_open u64 u64 u64 u64 u64
  | Sys_signalfd u64 u64
  | Sys_signalfd4 u64 u64 u64
  | Sys_timerfd_create u64 u64

datatype (plugins only: code) socket_call =
    Sys_socket u64 u64 u64
  | Sys_socketpair u64 u64 u64 u64
  | Sys_pipe u64
  | Sys_pipe2 u64 u64
  | Sys_eventfd u64
  | Sys_eventfd2 u64 u64
  | Sys_recvmsg u64 u64 u64
  | Sys_accept u64 u64 u64

datatype (plugins only: code) syscall =
    Opens open_call
  | Transfers io_call
  | Names name_call
  | Moves fd_call
  | Changes dir_call
  | Queries misc_call
  | Makes make_call
  | Sockets socket_call
  | Sys_other nat "u64 list"

text \<open>\<open>static_cast<int>\<close> and \<open>static_cast<unsigned int>\<close> of a register.\<close>

abbreviation int_arg :: "u64 \<Rightarrow> int" where "int_arg a \<equiv> sint (ucast a :: u32)"
abbreviation uint_arg :: "u64 \<Rightarrow> u32" where "uint_arg a \<equiv> ucast a"

text \<open>What a hooked call leaves behind besides its result: the buffer GaoFS filled.\<close>

datatype (plugins only: code) out_buf =
    Out_none
  | Out_stat stat_buf
  | Out_bytes bytes
  | Out_iov "bytes list"
  | Out_dents "dirent list"
  | Out_statfs u64 u64 u64

definition out_int :: "('s, int) cmd \<Rightarrow> ('s, (int \<times> out_buf) option) cmd" where
  "out_int m = cbind m (\<lambda>r. cret (Some (r, Out_none)))"

definition out_with :: "('a \<Rightarrow> out_buf) \<Rightarrow> ('s, int \<times> 'a option) cmd \<Rightarrow> ('s, (int \<times> out_buf) option) cmd" where
  "out_with f m = cbind m (\<lambda>(r, b). cret (Some (r, case b of None \<Rightarrow> Out_none | Some x \<Rightarrow> f x)))"

section \<open>Calls of the application\<close>

text \<open>None is \<open>forward_to_kernel\<close>. The size of \<open>getxattr\<close> is taken from the register behind its last
  argument; here \<open>Sys_getxattr\<close> carries both.\<close>

fun hook_open :: "('n, 'k) env \<Rightarrow> open_call \<Rightarrow> (('n, 'k) proc, (int \<times> out_buf) option) cmd" where
  "hook_open W (Sys_execve a0 a1 a2) = out_int (syscall_no_intercept W (K_execve a0 a1 a2))"
| "hook_open W (Sys_execveat a0 a1 a2 a3 a4) =
     out_int (syscall_no_intercept W (K_execveat a0 a1 a2 a3 a4))"
| "hook_open W (Sys_open p a1 a2) =
     out_int (hook_openat W AT_FDCWD p (uint_arg a1) (uint_arg a2))"
| "hook_open W (Sys_creat p a1) =
     out_int (hook_openat W AT_FDCWD p (O_WRONLY OR O_CREAT OR O_TRUNC) (uint_arg a1))"
| "hook_open W (Sys_openat a0 p a2 a3) =
     out_int (hook_openat W (int_arg a0) p (uint_arg a2) (uint_arg a3))"
| "hook_open W (Sys_close a0) = out_int (hook_close W (int_arg a0))"
| "hook_open W (Sys_stat p) = out_with Out_stat (hook_stat W p)"
| "hook_open W (Sys_lstat p) = out_with Out_stat (hook_lstat W p)"
| "hook_open W (Sys_fstat a0) = out_with Out_stat (hook_fstat W (uint_arg a0))"
| "hook_open W (Sys_newfstatat a0 p a3) =
     out_with Out_stat (hook_fstatat W (int_arg a0) p (uint_arg a3))"

fun hook_io :: "('n, 'k) env \<Rightarrow> io_call \<Rightarrow> (('n, 'k) proc, (int \<times> out_buf) option) cmd" where
  "hook_io W (Sys_read a0 buf) = out_with Out_bytes (hook_read W (uint_arg a0) buf)"
| "hook_io W (Sys_pread64 a0 buf a3) = out_with Out_bytes (hook_pread W (uint_arg a0) buf a3)"
| "hook_io W (Sys_readv a0 iov) = out_with Out_iov (hook_readv W a0 iov)"
| "hook_io W (Sys_preadv a0 iov a3 a4) = out_with Out_iov (hook_preadv W a0 iov a3 a4)"
| "hook_io W (Sys_pwrite64 a0 buf a3) = out_int (hook_pwrite W (uint_arg a0) buf a3)"
| "hook_io W (Sys_write a0 buf) = out_int (hook_write W (uint_arg a0) buf)"
| "hook_io W (Sys_writev a0 iov) = out_int (hook_writev W a0 iov)"
| "hook_io W (Sys_pwritev a0 iov a3 a4) = out_int (hook_pwritev W a0 iov a3 a4)"

fun hook_name :: "('n, 'k) env \<Rightarrow> name_call \<Rightarrow> (('n, 'k) proc, (int \<times> out_buf) option) cmd" where
  "hook_name W (Sys_unlink p) = out_int (hook_unlinkat W AT_FDCWD p 0)"
| "hook_name W (Sys_unlinkat a0 p a2) = out_int (hook_unlinkat W (int_arg a0) p (uint_arg a2))"
| "hook_name W (Sys_rmdir p) = out_int (hook_unlinkat W AT_FDCWD p AT_REMOVEDIR)"
| "hook_name W (Sys_symlink p q) = out_int (hook_symlinkat W p AT_FDCWD q)"
| "hook_name W (Sys_symlinkat p a1 q) = out_int (hook_symlinkat W p (int_arg a1) q)"
| "hook_name W (Sys_access p a1) = out_int (hook_access W p (uint_arg a1))"
| "hook_name W (Sys_faccessat a0 p a2) =
     out_int (hook_faccessat W (int_arg a0) p (uint_arg a2))"
| "hook_name W (Sys_faccessat2 a0 p a2 a3) =
     out_int (hook_faccessat2 W (int_arg a0) p (uint_arg a2) (uint_arg a3))"

fun hook_fd :: "('n, 'k) env \<Rightarrow> fd_call \<Rightarrow> (('n, 'k) proc, (int \<times> out_buf) option) cmd" where
  "hook_fd W (Sys_lseek a0 a1 a2) = out_int (hook_lseek W (uint_arg a0) a1 (uint_arg a2))"
| "hook_fd W (Sys_truncate p a1) = out_int (hook_truncate W p a1)"
| "hook_fd W (Sys_ftruncate a0 a1) = out_int (hook_ftruncate W (uint_arg a0) a1)"
| "hook_fd W (Sys_dup a0) = out_int (hook_dup W (uint_arg a0))"
| "hook_fd W (Sys_dup2 a0 a1) = out_int (hook_dup2 W (uint_arg a0) (uint_arg a1))"
| "hook_fd W (Sys_dup3 a0 a1 a2) =
     out_int (hook_dup3 W (uint_arg a0) (uint_arg a1) (uint_arg a2))"
| "hook_fd W (Sys_getdents a0 a2) =
     out_with Out_dents (hook_getdents W (uint_arg a0) (uint_arg a2))"
| "hook_fd W (Sys_getdents64 a0 a2) =
     out_with Out_dents (hook_getdents64 W (uint_arg a0) (uint_arg a2))"

fun hook_dir :: "('n, 'k) env \<Rightarrow> dir_call \<Rightarrow> (('n, 'k) proc, (int \<times> out_buf) option) cmd" where
  "hook_dir W (Sys_mkdirat a0 p a2) = out_int (hook_mkdirat W (int_arg a0) p (uint_arg a2))"
| "hook_dir W (Sys_mkdir p a1) = out_int (hook_mkdirat W AT_FDCWD p (uint_arg a1))"
| "hook_dir W (Sys_chmod p a1) = out_int (hook_fchmodat W AT_FDCWD p (uint_arg a1))"
| "hook_dir W (Sys_fchmod a0 a1) = out_int (hook_fchmod W (uint_arg a0) (uint_arg a1))"
| "hook_dir W (Sys_fchmodat a0 p a2) = out_int (hook_fchmodat W (int_arg a0) p (uint_arg a2))"
| "hook_dir W (Sys_chdir p) = out_int (hook_chdir W p)"
| "hook_dir W (Sys_fchdir a0) = out_int (hook_fchdir W (uint_arg a0))"
| "hook_dir W (Sys_getcwd a1) = out_with Out_bytes (hook_getcwd a1)"

fun hook_misc :: "('n, 'k) env \<Rightarrow> misc_call \<Rightarrow> (('n, 'k) proc, (int \<times> out_buf) option) cmd" where
  "hook_misc W (Sys_readlink p a2) = out_int (hook_readlinkat W AT_FDCWD p (uint_arg a2))"
| "hook_misc W (Sys_readlinkat a0 p a3) =
     out_int (hook_readlinkat W (int_arg a0) p (uint_arg a3))"
| "hook_misc W (Sys_fcntl a0 a1 a2) = out_int (hook_fcntl W (uint_arg a0) (uint_arg a1) a2)"
| "hook_misc W (Sys_rename p q) = out_int (hook_renameat W AT_FDCWD p AT_FDCWD q 0)"
| "hook_misc W (Sys_renameat a0 p a2 q) =
     out_int (hook_renameat W (int_arg a0) p (int_arg a2) q 0)"
| "hook_misc W (Sys_renameat2 a0 p a2 q a4) =
     out_int (hook_renameat W (int_arg a0) p (int_arg a2) q (uint_arg a4))"
| "hook_misc W (Sys_fstatfs a0) =
     out_with (\<lambda>(a, b, c). Out_statfs a b c) (hook_fstatfs W (uint_arg a0))"
| "hook_misc W (Sys_statfs p) =
     out_with (\<lambda>(a, b, c). Out_statfs a b c) (hook_statfs W p)"
| "hook_misc W (Sys_fsync a0) = out_int (hook_fsync W (uint_arg a0))"
| "hook_misc W (Sys_getxattr p name a3 a4) = out_int (hook_getxattr W p name a4)"

fun hook :: "('n, 'k) env \<Rightarrow> syscall \<Rightarrow> (('n, 'k) proc, (int \<times> out_buf) option) cmd" where
  "hook W (Opens c) = hook_open W c"
| "hook W (Transfers c) = hook_io W c"
| "hook W (Names c) = hook_name W c"
| "hook W (Moves c) = hook_fd W c"
| "hook W (Changes c) = hook_dir W c"
| "hook W (Queries c) = hook_misc W c"
| "hook W _ = cret None"

section \<open>Calls of the library\<close>

text \<open>The three ways a returned descriptor is registered.\<close>

definition register_or_error :: "('n, 'k) env \<Rightarrow> kcall \<Rightarrow> (('n, 'k) proc, int) cmd" where
  "register_or_error W c = cbind (syscall_no_intercept W c) (\<lambda>result.
     let syserror = k_error_code (e_kernel W) result in
     if syserror = 0 then register_internal_fd W (to_int32 result) else cret (- syserror))"

definition register_no_error :: "('n, 'k) env \<Rightarrow> kcall \<Rightarrow> (('n, 'k) proc, int) cmd" where
  "register_no_error W c = cbind (syscall_no_intercept W c) (\<lambda>result.
     if k_error_code (e_kernel W) result = 0 then register_internal_fd W (to_int32 result) else cret result)"

definition register_nonneg :: "('n, 'k) env \<Rightarrow> kcall \<Rightarrow> (('n, 'k) proc, int) cmd" where
  "register_nonneg W c = cbind (syscall_no_intercept W c) (\<lambda>result.
     if result \<ge> 0 then register_internal_fd W (to_int32 result) else cret result)"

text \<open>A descriptor in memory is replaced by its internal one.\<close>

definition register_at :: "('n, 'k) env \<Rightarrow> u64 \<Rightarrow> (('n, 'k) proc, unit) cmd" where
  "register_at W a =
    cbind (cget (\<lambda>s. k_load (e_kernel W) (pr_kernel s) a)) (\<lambda>fd.
    cbind (register_internal_fd W fd) (\<lambda>ifd s.
      (Inr (), s\<lparr>pr_kernel := k_store (e_kernel W) a ifd (pr_kernel s)\<rparr>)))"

fun register_all :: "('n, 'k) env \<Rightarrow> u64 list \<Rightarrow> (('n, 'k) proc, unit) cmd" where
  "register_all W [] = cret ()"
| "register_all W (a # as) = cbind (register_at W a) (\<lambda>_. register_all W as)"

definition register_addresses :: "('n, 'k) env \<Rightarrow> kcall \<Rightarrow> ('k \<Rightarrow> u64 list) \<Rightarrow> (('n, 'k) proc, int) cmd" where
  "register_addresses W c addrs = cbind (syscall_no_intercept W c) (\<lambda>result.
     if result \<ge> 0 then cbind (cget (\<lambda>s. addrs (pr_kernel s))) (\<lambda>as.
       cbind (register_all W as) (\<lambda>_. cret result))
     else cret result)"

text \<open>The descriptors in the control messages of \<open>recvmsg\<close>: type, length and address of the data of
  each message; \<open>CMSG_LEN(0)\<close> is 16. The level of the message is not looked at.\<close>

definition SCM_RIGHTS :: int where "SCM_RIGHTS = 1"

definition rights_addresses :: "int \<times> u64 \<times> u64 \<Rightarrow> u64 list" where
  "rights_addresses m = (case m of (ty, len, addr) \<Rightarrow>
     if ty = SCM_RIGHTS then
       let nfd = (if len > 16 then (len - 16) div 4 else 0)
       in map (\<lambda>i. addr + 4 * of_nat i) [0..<unat nfd]
     else [])"

fun internal_open :: "('n, 'k) env \<Rightarrow> open_call \<Rightarrow> (('n, 'k) proc, (int \<times> out_buf) option) cmd" where
  "internal_open W (Sys_open p a1 a2) =
     out_int (register_or_error W (K_open p (uint_arg a1) (uint_arg a2)))"
| "internal_open W (Sys_creat p a1) =
     out_int (register_or_error W (K_creat p (O_WRONLY OR O_CREAT OR O_TRUNC) (uint_arg a1)))"
| "internal_open W (Sys_openat a0 p a2 a3) =
     out_int (register_or_error W (K_openat (int_arg a0) p (uint_arg a2) (uint_arg a3)))"
| "internal_open W (Sys_close a0) =
     out_int (cbind (syscall_no_intercept W (K_close (int_arg a0))) (\<lambda>result.
       if k_error_code (e_kernel W) result = 0
       then cbind (unregister_internal_fd (int_arg a0)) (\<lambda>_. cret result) else cret result))"
| "internal_open W _ = cret None"

fun internal_fd :: "('n, 'k) env \<Rightarrow> fd_call \<Rightarrow> (('n, 'k) proc, (int \<times> out_buf) option) cmd" where
  "internal_fd W (Sys_dup a0) = out_int (register_no_error W (K_dup (uint (uint_arg a0))))"
| "internal_fd W (Sys_dup2 a0 a1) =
     out_int (register_no_error W (K_dup2 (uint (uint_arg a0)) (uint (uint_arg a1))))"
| "internal_fd W (Sys_dup3 a0 a1 a2) =
     out_int (register_no_error W (K_dup3 (uint (uint_arg a0)) (uint (uint_arg a1)) (uint_arg a2)))"
| "internal_fd W _ = cret None"

fun internal_misc :: "('n, 'k) env \<Rightarrow> misc_call \<Rightarrow> (('n, 'k) proc, (int \<times> out_buf) option) cmd" where
  "internal_misc W (Sys_fcntl a0 a1 a2) =
     out_int (cbind (syscall_no_intercept W (K_fcntl (int_arg a0) (uint_arg a1) a2)) (\<lambda>result.
       if k_error_code (e_kernel W) result = 0 \<and>
          (uint_arg a1 = F_DUPFD \<or> uint_arg a1 = F_DUPFD_CLOEXEC)
       then register_internal_fd W (to_int32 result) else cret result))"
| "internal_misc W _ = cret None"

fun internal_make :: "('n, 'k) env \<Rightarrow> make_call \<Rightarrow> (('n, 'k) proc, (int \<times> out_buf) option) cmd" where
  "internal_make W (Sys_epoll_create a0) =
     out_int (register_or_error W (K_make (K_epoll_create (uint_arg a0))))"
| "internal_make W (Sys_epoll_create1 a0) =
     out_int (register_or_error W (K_make (K_epoll_create1 (uint_arg a0))))"
| "internal_make W Sys_inotify_init = out_int (register_nonneg W (K_make K_inotify_init))"
| "internal_make W (Sys_inotify_init1 a0) =
     out_int (register_nonneg W (K_make (K_inotify_init1 (uint_arg a0))))"
| "internal_make W (Sys_perf_event_open a0 a1 a2 a3 a4) =
     out_int (register_nonneg W (K_make (K_perf_event_open a0 (uint_arg a1) (uint_arg a2) (uint_arg a3) a4)))"
| "internal_make W (Sys_signalfd a0 a1) =
     out_int (register_nonneg W (K_make (K_signalfd (uint_arg a0) a1)))"
| "internal_make W (Sys_signalfd4 a0 a1 a2) =
     out_int (register_nonneg W (K_make (K_signalfd4 (uint_arg a0) a1 (uint_arg a2))))"
| "internal_make W (Sys_timerfd_create a0 a1) =
     out_int (register_nonneg W (K_make (K_timerfd_create (uint_arg a0) (uint_arg a1))))"

fun internal_socket :: "('n, 'k) env \<Rightarrow> socket_call \<Rightarrow> (('n, 'k) proc, (int \<times> out_buf) option) cmd" where
  "internal_socket W (Sys_socket a0 a1 a2) =
     out_int (register_nonneg W (K_make (K_socket (uint_arg a0) (uint_arg a1) (uint_arg a2))))"
| "internal_socket W (Sys_socketpair a0 a1 a2 a3) =
     out_int (register_addresses W (K_make (K_socketpair (uint_arg a0) (uint_arg a1) (uint_arg a2) a3))
       (\<lambda>_. [a3, a3 + 4]))"
| "internal_socket W (Sys_pipe a0) =
     out_int (register_addresses W (K_make (K_pipe a0)) (\<lambda>_. [a0, a0 + 4]))"
| "internal_socket W (Sys_pipe2 a0 a1) =
     out_int (register_addresses W (K_make (K_pipe2 a0 (uint_arg a1))) (\<lambda>_. [a0, a0 + 4]))"
| "internal_socket W (Sys_eventfd a0) =
     out_int (register_nonneg W (K_make (K_eventfd (uint_arg a0))))"
| "internal_socket W (Sys_eventfd2 a0 a1) =
     out_int (register_nonneg W (K_make (K_eventfd2 (uint_arg a0) (uint_arg a1))))"
| "internal_socket W (Sys_recvmsg a0 a1 a2) =
     out_int (register_addresses W (K_make (K_recvmsg (uint_arg a0) a1 (uint_arg a2)))
       (\<lambda>k. concat (map rights_addresses (k_cmsgs (e_kernel W) k a1))))"
| "internal_socket W (Sys_accept a0 a1 a2) =
     out_int (register_nonneg W (K_make (K_accept (uint_arg a0) a1 a2)))"

fun hook_internal :: "('n, 'k) env \<Rightarrow> syscall \<Rightarrow> (('n, 'k) proc, (int \<times> out_buf) option) cmd" where
  "hook_internal W (Opens c) = internal_open W c"
| "hook_internal W (Moves c) = internal_fd W c"
| "hook_internal W (Queries c) = internal_misc W c"
| "hook_internal W (Makes c) = internal_make W c"
| "hook_internal W (Sockets c) = internal_socket W c"
| "hook_internal W _ = cret None"

section \<open>The guard\<close>

text \<open>\<open>gaofs::syscall::info\<close>: the flags of a call.\<close>

definition no_info :: u32 where "no_info = 0"
definition from_internal_code :: u32 where "from_internal_code = 1"
definition from_external_code :: u32 where "from_external_code = 2"
definition to_kernel :: u32 where "to_kernel = 16"
definition to_hook :: u32 where "to_hook = 32"
definition executed :: u32 where "executed = 256"
definition not_executed :: u32 where "not_executed = 0"

text \<open>A thread: the process and the two thread-local variables.\<close>

record ('n, 'k) thread =
  th_proc :: "('n, 'k) proc"
  th_guard :: bool
  th_info :: u32

definition on_proc :: "(('n, 'k) proc, 'a) cmd \<Rightarrow> (('n, 'k) thread, 'a) cmd" where
  "on_proc m = (\<lambda>t. case m (th_proc t) of (r, s) \<Rightarrow> (r, t\<lparr>th_proc := s\<rparr>))"

definition set_guard :: "bool \<Rightarrow> (('n, 'k) thread, unit) cmd" where
  "set_guard b = (\<lambda>t. (Inr (), t\<lparr>th_guard := b\<rparr>))"

definition save_info :: "u32 \<Rightarrow> (('n, 'k) thread, unit) cmd" where
  "save_info i = (\<lambda>t. (Inr (), t\<lparr>th_info := i\<rparr>))"

text \<open>A forwarded call leaves its flags for \<open>hook_forwarded_syscall\<close>.\<close>

definition note_forward ::
    "u32 \<Rightarrow> (('n, 'k) proc, (int \<times> out_buf) option) cmd \<Rightarrow> (('n, 'k) thread, (int \<times> out_buf) option) cmd" where
  "note_forward origin m = cbind (on_proc m) (\<lambda>r. case r of
      None \<Rightarrow> cbind (save_info (origin OR to_kernel OR not_executed)) (\<lambda>_. cret None)
    | Some x \<Rightarrow> cret (Some x))"

definition keep_errno :: "(('n, 'k) thread, 'a) cmd \<Rightarrow> (('n, 'k) thread, 'a) cmd" where
  "keep_errno m =
    cbind (cget (\<lambda>t. fs_errno (pr_fs (th_proc t)))) (\<lambda>oerrno.
    cbind m (\<lambda>r. cbind (on_proc (on_fs (set_errno oerrno))) (\<lambda>_. cret r)))"

definition hook_guard_wrapper ::
    "('n, 'k) env \<Rightarrow> syscall \<Rightarrow> (('n, 'k) thread, (int \<times> out_buf) option) cmd" where
  "hook_guard_wrapper W sc =
    cbind (on_proc (cbind (cget pr_enabled) cassert)) (\<lambda>_.
    cbind (cget th_guard) (\<lambda>reentered.
    if reentered then keep_errno (note_forward from_internal_code (hook_internal W sc))
    else cbind (set_guard True) (\<lambda>_.
      cbind (keep_errno (note_forward from_external_code (hook W sc))) (\<lambda>r.
      cbind (set_guard False) (\<lambda>_. cret r)))))"

definition internal_hook_guard_wrapper ::
    "('n, 'k) env \<Rightarrow> syscall \<Rightarrow> (('n, 'k) thread, (int \<times> out_buf) option) cmd" where
  "internal_hook_guard_wrapper W sc =
    cbind (on_proc (cbind (cget pr_enabled) cassert)) (\<lambda>_.
    cbind (cget th_guard) (\<lambda>reentered.
    if reentered then
      cbind (save_info (from_internal_code OR to_kernel OR not_executed)) (\<lambda>_. cret None)
    else cbind (set_guard True) (\<lambda>_.
      cbind (keep_errno (note_forward from_internal_code (hook_internal W sc))) (\<lambda>r.
      cbind (set_guard False) (\<lambda>_. cret r)))))"

definition hook_forwarded_syscall :: "(('n, 'k) thread, unit) cmd" where
  "hook_forwarded_syscall = cbind (cget th_info) (\<lambda>i. if i = no_info then cret () else save_info no_info)"

definition hook_clone_at_child :: "(('n, 'k) thread, unit) cmd" where
  "hook_clone_at_child = cbind (set_guard True) (\<lambda>_. set_guard False)"

definition hook_clone_at_parent :: "(('n, 'k) thread, unit) cmd" where
  "hook_clone_at_parent = cbind (set_guard True) (\<lambda>_. set_guard False)"

text \<open>The hook points of libsyscall_intercept; the other three are set and cleared with the first.\<close>

datatype hook_point = No_hook | Internal_hook | Application_hook

definition start_self_interception :: hook_point where
  "start_self_interception = Internal_hook"

definition start_interception :: "('n, 'k) proc \<Rightarrow> hook_point res" where
  "start_interception s = res_bind (assert_res (pr_enabled s)) (\<lambda>_. Inr Application_hook)"

definition stop_interception :: "('n, 'k) proc \<Rightarrow> hook_point res" where
  "stop_interception s = res_bind (assert_res (pr_enabled s)) (\<lambda>_. Inr No_hook)"

end
