(* ===== verification/Hook_Frames.thy ===== *)
theory Hook_Frames
  imports Intercept
begin

text \<open>
  What a hooked call can touch. A relation between the state before and after a command is tracked
  through the command's structure: the locale \<open>step_relation\<close> has the rules for any reflexive and
  transitive relation, and is interpreted on the four that are used here (GaoFS unchanged, the kernel
  unchanged, the library's descriptors unchanged, well-formedness kept).
\<close>

named_theorems within_intros \<open>rules for relations between the states of a command\<close>

section \<open>Relations between states\<close>

definition within :: "('s \<Rightarrow> 's \<Rightarrow> bool) \<Rightarrow> ('s, 'a) cmd \<Rightarrow> bool" where
  "within R m = (\<forall>s. R s (snd (m s)))"

lemma withinD: "within R m \<Longrightarrow> m s = (r, s') \<Longrightarrow> R s s'"
  by (metis snd_conv within_def)

lemma within_at: "within R m \<Longrightarrow> R s (snd (m s))"
  by (simp add: within_def)

lemma within_mono: "within R m \<Longrightarrow> (\<And>s s'. R s s' \<Longrightarrow> R' s s') \<Longrightarrow> within R' m"
  by (auto simp: within_def)

locale step_relation =
  fixes R :: "'s \<Rightarrow> 's \<Rightarrow> bool"
  assumes step_refl: "R s s" and step_trans: "R s t \<Longrightarrow> R t u \<Longrightarrow> R s u"
begin

lemma pure:
  "within R (cret x)" "within R (craise e)" "within R (clift r)" "within R (cget f)" "within R (cassert b)"
  by (simp_all add: within_def cmd_simps step_refl)

lemma bind: "within R m \<Longrightarrow> (\<And>x. within R (f x)) \<Longrightarrow> within R (cbind m f)"
  by (auto simp: within_def cbind_apply split: prod.split sum.split)
    (metis snd_conv step_trans)+

lemma catch: "within R m \<Longrightarrow> (\<And>e. within R (h e)) \<Longrightarrow> within R (ccatch m h)"
  by (auto simp: within_def ccatch_apply split: prod.split sum.split)
    (metis snd_conv step_trans)+

lemma branch: "within R m \<Longrightarrow> within R n \<Longrightarrow> within R (if b then m else n)"
  by simp

text \<open>A command chosen from the state.\<close>

lemma chosen: "(\<And>s. within R (f s)) \<Longrightarrow> within R (\<lambda>s. f s s)"
  by (simp add: within_def)

lemma out: "within R m \<Longrightarrow> within R (out_int m)" "within R m' \<Longrightarrow> within R (out_with g m')"
  "within R m'' \<Longrightarrow> within R (filled m'')"
  by (auto simp: out_int_def out_with_def filled_def intro!: bind pure split: prod.split)

end

section \<open>The four relations\<close>

abbreviation same_fs :: "('n, 'k) proc \<Rightarrow> ('n, 'k) proc \<Rightarrow> bool" where
  "same_fs s s' \<equiv> pr_fs s' = pr_fs s"

abbreviation same_kernel :: "('n, 'k) proc \<Rightarrow> ('n, 'k) proc \<Rightarrow> bool" where
  "same_kernel s s' \<equiv> pr_kernel s' = pr_kernel s"

abbreviation same_internal :: "('n, 'k) proc \<Rightarrow> ('n, 'k) proc \<Rightarrow> bool" where
  "same_internal s s' \<equiv> pr_internal s' = pr_internal s \<and> pr_relocate s' = pr_relocate s \<and>
     pr_protected s' = pr_protected s \<and> pr_enabled s' = pr_enabled s"

text \<open>The table of descriptors: bound once, to objects that exist, with the counter in its range.\<close>

definition wf_files :: "open_file_map \<Rightarrow> bool" where
  "wf_files m \<longleftrightarrow> distinct (map fst (files m)) \<and> (\<forall>(fd, i) \<in> set (files m). i < length (objects m)) \<and>
     10000 \<le> fd_idx m \<and> fd_idx m \<le> INT_MAX"

abbreviation keeps_files :: "'n fs \<Rightarrow> 'n fs \<Rightarrow> bool" where
  "keeps_files f f' \<equiv> wf_files (fs_files f) \<longrightarrow> wf_files (fs_files f')"

interpretation fs_frame: step_relation same_fs by unfold_locales auto
interpretation kernel_frame: step_relation same_kernel by unfold_locales auto
interpretation internal_frame: step_relation same_internal by unfold_locales auto
interpretation files_type: step_relation keeps_files by unfold_locales auto

section \<open>Primitive steps\<close>

lemma within_on_fs [within_intros]:
  "within same_kernel (on_fs m)" "within same_internal (on_fs m)"
  by (auto simp: within_def on_fs_def split: prod.split)

lemma within_syscall [within_intros]:
  "within same_fs (syscall_no_intercept W c)" "within same_internal (syscall_no_intercept W c)"
  by (auto simp: within_def syscall_no_intercept_def split: prod.split)

lemma within_env [within_intros]:
  "within same_fs unset_env_cwd" "within same_kernel unset_env_cwd" "within same_internal unset_env_cwd"
  "within same_fs (put_cwd p)" "within same_kernel (put_cwd p)" "within same_internal (put_cwd p)"
  by (simp_all add: within_def unset_env_cwd_def put_cwd_def)

lemma within_fs_primitives [within_intros]:
  "within keeps_files (on_net m)" "within keeps_files (set_errno e)" "within keeps_files (fail_errno e)"
  "within keeps_files (ret_err e)"
  by (auto simp: within_def on_net_def set_errno_def fail_errno_def ret_err_def cret_def split: prod.split)

section \<open>The descriptor table\<close>

lemma generate_wf: "wf_files m \<Longrightarrow> generate_fd_idx m = (fd, m') \<Longrightarrow> wf_files m'"
  by (auto simp: wf_files_def generate_fd_idx_def INT_MAX_def Let_def split: if_splits)

lemma free_fd_wf: "free_fd fd m = Some r \<Longrightarrow> wf_files m \<longrightarrow> wf_files (snd r)"
proof (induction rule: free_fd_induct)
  case (1 free_fd fd m r)
  obtain fd1 m1 where g: "generate_fd_idx m = (fd1, m1)" by fastforce
  show ?case
  proof (cases "exist_fd fd m")
    case True
    then have "free_fd fd1 m1 = Some r" using 1(2) g by simp
    from 1(1) [OF this] show ?thesis using generate_wf [OF _ g] by blast
  qed (use 1(2) in auto)
qed

lemma safe_generate_wf:
  assumes "wf_files m" "safe_generate_fd_idx m = Some (fd, m')"
  shows "wf_files m'" "files m' = files m" "objects m' = objects m"
proof -
  obtain fd1 m1 where g: "generate_fd_idx m = (fd1, m1)" by fastforce
  note w = generate_wf [OF assms(1) g] and f = generate_fd_idx_frame [OF g]
  show "wf_files m'" "files m' = files m" "objects m' = objects m"
    using assms(2) g w f free_fd_wf [of fd1 m1 "(fd, m')"] free_fd_result [of fd1 m1 "(fd, m')"]
    by (auto simp: safe_generate_fd_idx_def split: if_splits)
qed

lemma insert_fd_wf: "wf_files m \<Longrightarrow> i < length (objects m) \<Longrightarrow> wf_files (insert_fd fd i m)"
  by (auto simp: wf_files_def insert_fd_def exist_fd_iff)

lemma add_object_wf:
  "wf_files m \<Longrightarrow> wf_files (insert_fd fd (length (objects m)) m\<lparr>objects := objects m @ [f]\<rparr>)"
  by (auto simp: wf_files_def insert_fd_def exist_fd_iff)

lemma lookup_fd_wf: "wf_files m \<Longrightarrow> lookup_fd fd m = Some i \<Longrightarrow> i < length (objects m)"
  by (auto simp: wf_files_def lookup_fd_def dest: map_of_SomeD)

lemma add_file_wf:
  assumes "wf_files m" "add_file f m = Some (fd, m')"
  shows "wf_files m'"
proof -
  obtain m1 where "safe_generate_fd_idx m = Some (fd, m1)"
    and m': "m' = insert_fd fd (length (objects m1)) m1\<lparr>objects := objects m1 @ [f]\<rparr>"
    using assms(2) by (auto simp: add_file_def)
  then show ?thesis unfolding m' using safe_generate_wf(1) [OF assms(1)] by (intro add_object_wf)
qed

lemma remove_fd_wf: "wf_files m \<Longrightarrow> wf_files (snd (remove_fd fd m))"
  by (auto simp: wf_files_def remove_fd_def Let_def AList.delete_eq distinct_map inj_on_def)

lemma dup_fd_wf:
  assumes "wf_files m" "dup_fd oldfd m = Some (r, m')"
  shows "wf_files m'"
proof (cases "lookup_fd oldfd m")
  case (Some i)
  then obtain fd m1 where g: "safe_generate_fd_idx m = Some (fd, m1)" and m': "m' = insert_fd fd i m1"
    using assms(2) by (auto simp: dup_fd_def)
  note w = safe_generate_wf [OF assms(1) g]
  show ?thesis unfolding m' using lookup_fd_wf [OF assms(1) Some] w by (intro insert_fd_wf) simp_all
qed (use assms in \<open>simp add: dup_fd_def\<close>)

lemma dup2_fd_wf:
  assumes "wf_files m"
  shows "wf_files (snd (dup2_fd oldfd newfd m))"
proof (cases "lookup_fd oldfd m = None \<or> oldfd = newfd")
  case False
  then obtain i where i: "lookup_fd oldfd m = Some i" "oldfd \<noteq> newfd" by auto
  define m1 where "m1 = (if exist_fd newfd m then snd (remove_fd newfd m) else m)"
  define m2 where "m2 = (if fd_idx m1 < newfd \<and> newfd \<noteq> 0 \<and> newfd \<noteq> 1 \<and> newfd \<noteq> 2
      then m1\<lparr>fd_validation_needed := True\<rparr> else m1)"
  have "wf_files m1" using assms remove_fd_wf by (simp add: m1_def)
  then have w: "wf_files m2" by (simp add: m2_def wf_files_def)
  have "objects m2 = objects m" by (simp add: m1_def m2_def remove_fd_def Let_def)
  then have "wf_files (insert_fd newfd i m2)"
    using insert_fd_wf [OF w] lookup_fd_wf [OF assms i(1)] by simp
  then show ?thesis using i unfolding dup2_fd_def Let_def m1_def [symmetric] m2_def [symmetric] by simp
qed (use assms in \<open>auto simp: dup2_fd_def split: option.splits\<close>)

lemma update_file_wf: "wf_files m \<Longrightarrow> wf_files (update_file fd g m)"
  by (auto simp: wf_files_def update_file_def split: option.split)

section \<open>The file operations keep the table well formed\<close>

lemma within_file_map_cmd:
  "(\<And>m r m'. wf_files m \<Longrightarrow> f m = Some (r, m') \<Longrightarrow> wf_files m') \<Longrightarrow> within keeps_files (file_map_cmd f)"
  by (auto simp: within_def file_map_cmd_def split: option.split prod.split sum.split)

lemma within_table [within_intros]:
  "within keeps_files (new_fd f)" "within keeps_files (gaofs_dup oldfd)"
  "within keeps_files (gaofs_dup2 oldfd newfd)"
  unfolding new_fd_def gaofs_dup_def gaofs_dup2_def
  by (rule within_file_map_cmd, auto intro: add_file_wf dup_fd_wf
      dest: dup2_fd_wf [of _ oldfd newfd])+

lemma within_file [within_intros]:
  "within keeps_files (set_pos fd pos)"
  "(\<And>x. within keeps_files (k x)) \<Longrightarrow> within keeps_files (with_file fd k)"
  by (auto simp: set_pos_def with_file_def within_def update_file_wf split: option.split)

lemmas files_rules = files_type.bind files_type.pure files_type.branch files_type.out

lemma within_get_metadata [within_intros]: "within keeps_files (get_metadata C p follow)"
  unfolding get_metadata_def by (auto intro!: files_rules within_intros split: sum.split)

lemma within_names [within_intros]:
  "within keeps_files (gaofs_create C p mode)" "within keeps_files (gaofs_remove C p)"
  "within keeps_files (gaofs_access C p follow)" "within keeps_files (gaofs_stat X p follow)"
  "within keeps_files (gaofs_statfs C)" "within keeps_files (gaofs_truncate_sizes C p old_size new_size)"
  "within keeps_files (gaofs_rmdir C p)" "within keeps_files (gaofs_opendir C p)"
  unfolding gaofs_create_def check_parent_dir_def gaofs_remove_def gaofs_access_def gaofs_stat_def
    gaofs_statfs_def gaofs_truncate_sizes_def gaofs_rmdir_def gaofs_opendir_def Let_def
  by (auto intro!: files_rules within_intros split: option.split prod.split)

lemma within_truncate [within_intros]: "within keeps_files (gaofs_truncate C p offset)"
  unfolding gaofs_truncate_def by (auto intro!: files_rules within_intros split: option.split)

lemma within_lseek [within_intros]: "within keeps_files (gaofs_lseek C fd offset w)"
  unfolding gaofs_lseek_def Let_def by (auto intro!: files_rules within_intros split: whence.split prod.split)

lemma within_getdents [within_intros]:
  fixes C :: "'n client"
  shows "within keeps_files (gaofs_getdents C fd n)" "within keeps_files (gaofs_getdents64 C fd n)"
proof -
  have *: "keeps_files s (snd (getdents_with header C fd n s))" for header s
  proof (cases "get_dir fd (fs_files s)")
    case None
    have "within keeps_files (cbind (fail_errno EBADF) (\<lambda>r. cret (r, [] :: dirent list)))"
      by (auto intro!: files_rules within_intros)
    from within_at [OF this] show ?thesis using None by (simp add: getdents_with_def)
  next
    case (Some d)
    have "within (keeps_files :: 'n fs \<Rightarrow> _) (cbind (clift (fill_dents (cl_hash C) d header n (of_pos d) 0)) (\<lambda>(es, pos, written).
        if written = 0 then cbind (fail_errno EINVAL) (\<lambda>r. cret (r, []))
        else cbind (set_pos fd pos) (\<lambda>_. cret (sint written, es))))"
      by (auto intro!: files_rules within_intros split: prod.split)
    from within_at [OF this] show ?thesis using Some by (simp add: getdents_with_def)
  qed
  show "within keeps_files (gaofs_getdents C fd n)" "within keeps_files (gaofs_getdents64 C fd n)"
    using * by (simp_all add: within_def gaofs_getdents_def gaofs_getdents64_def)
qed

lemma within_open_step: "within keeps_files (open_step C p mode flags)"
  unfolding open_step_def open_found_def Let_def
  by (auto intro!: files_rules within_intros split: option.split prod.split)

lemmas open_links_induct = open_links.raw_induct [rotated 1, consumes 1, case_names 1]

lemma open_links_files: "open_links C p mode flags s = Some y \<Longrightarrow> keeps_files s (snd y)"
proof (induction rule: open_links_induct)
  case (1 links C p mode flags s y)
  obtain r1 s1 where st: "open_step C p mode flags s = (r1, s1)" by fastforce
  have k: "keeps_files s s1" by (rule withinD [OF within_open_step st])
  show ?case
  proof (cases "\<exists>t. r1 = Inr (Inr t)")
    case True
    then obtain t where "links C t mode flags s1 = Some y" using 1(2) st by auto
    from 1(1) [OF this] show ?thesis using k by (cases y) auto
  next
    case False
    then show ?thesis using 1(2) st k by (auto split: sum.splits)
  qed
qed

lemma within_open [within_intros]: "within keeps_files (gaofs_open C p mode flags)"
  unfolding gaofs_open_def within_def by (auto split: option.split dest: open_links_files)

lemma within_pwrite [within_intros]:
  "within keeps_files (gaofs_pwrite C f buf offset)" "within keeps_files (gaofs_pread C f buf offset)"
  unfolding gaofs_pwrite_def gaofs_pread_def Let_def
  by (auto intro!: files_rules within_intros split: prod.split)

lemma within_pwritev_loop [within_intros]: "within keeps_files (pwritev_loop C f iov pos written)"
  by (induction iov arbitrary: pos written) (auto intro!: files_rules within_intros)

lemma within_preadv_loop [within_intros]: "within keeps_files (preadv_loop C f iov pos read)"
  by (induction iov arbitrary: pos read) (auto intro!: files_rules within_intros split: prod.split)

lemma within_vectors [within_intros]:
  "within keeps_files (gaofs_pwritev C fd iov offset)" "within keeps_files (gaofs_preadv C fd iov offset)"
  unfolding gaofs_pwritev_def gaofs_preadv_def
  by (auto intro!: files_rules within_intros split: prod.split)

lemma within_transfers [within_intros]:
  "within keeps_files (gaofs_pwrite_ws C fd buf offset)" "within keeps_files (gaofs_pread_ws C fd buf offset)"
  "within keeps_files (gaofs_write C fd buf)" "within keeps_files (gaofs_read C fd buf)"
  "within keeps_files (gaofs_writev C fd iov)" "within keeps_files (gaofs_readv C fd iov)"
  unfolding gaofs_pwrite_ws_def gaofs_pread_ws_def gaofs_write_def gaofs_read_def gaofs_writev_def
    gaofs_readv_def Let_def
  by (auto intro!: files_rules within_intros split: prod.split)

section \<open>Hooks, for any relation\<close>

text \<open>What a relation must tolerate to hold across every hook: the steps of the kernel and those of
  the environment.\<close>

locale process_relation = step_relation R for R :: "('n, 'k) proc \<Rightarrow> ('n, 'k) proc \<Rightarrow> bool" +
  assumes syscall_step: "within R (syscall_no_intercept W c)"
    and cwd_step: "within R (put_cwd p)" "within R unset_env_cwd"
    and env_step: "R s (s\<lparr>pr_env_cwd := v\<rparr>)"
    and table_step: "keeps_files (pr_fs s) f \<Longrightarrow> R s (s\<lparr>pr_fs := f\<rparr>)"
begin

lemma fs_step: "within keeps_files m \<Longrightarrow> within R (on_fs m)"
  by (auto simp: within_def on_fs_def split: prod.split) (metis snd_conv table_step)

lemma errno_result: "within R (with_errno r)"
  unfolding with_errno_def Let_def by (auto intro!: bind pure)

lemma kernel_results:
  "within R (syscall_no_intercept_wrapper W c)" "within R (kernel_int W c)" "within R (kernel_buf W c)"
  unfolding syscall_no_intercept_wrapper_def kernel_int_def kernel_buf_def Let_def
  by (auto intro!: bind pure syscall_step)

lemma gaofs_results:
  "within keeps_files m \<Longrightarrow> within R (gaofs_int m)" "within keeps_files m' \<Longrightarrow> within R (gaofs_buf m')"
  unfolding gaofs_int_def gaofs_buf_def
  by (auto intro!: bind pure errno_result fs_step split: prod.split)

lemma at_hook_steps:
  "(\<And>q. within R (forward q)) \<Longrightarrow> (\<And>q. within R (serve q)) \<Longrightarrow>
   within R (at_hook W d p fl rl forward x serve)"
  by (auto simp: within_def at_hook_def cbind_apply clift_apply cret_apply step_refl
      split: sum.split prod.split relativize_status.split)

lemma path_hook_steps:
  "(\<And>q. within R (forward q)) \<Longrightarrow> (\<And>q. within R (serve q)) \<Longrightarrow>
   within R (path_hook W p rl forward serve)"
  by (auto simp: within_def path_hook_def cbind_apply clift_apply step_refl
      split: sum.split prod.split)

lemma fd_hook_steps: "within R m \<Longrightarrow> within R m' \<Longrightarrow> within R (fd_hook fd m m')"
  by (auto simp: within_def fd_hook_def)

lemma with_path_steps:
  "(\<And>q. within R (f q)) \<Longrightarrow> within R (with_path fd f)"
  unfolding with_path_def by (auto intro!: bind fs_step files_rules within_intros)


lemma cwd_commands:
  "within R (get_sys_cwd W)" "within R (set_sys_cwd W p)" "within R (set_env_cwd W p)"
proof -
  show "within R (get_sys_cwd W)" "within R (set_sys_cwd W p)"
    unfolding get_sys_cwd_def set_sys_cwd_def by (auto intro!: bind pure syscall_step)
  show "within R (set_env_cwd W p)"
    unfolding set_env_cwd_def
    by (rule bind [OF pure(4)], rule branch)
      (auto intro!: bind pure fs_step within_intros, simp add: within_def env_step)
qed

lemma set_cwd_steps: "within R (set_cwd W p i)" "within R (try_set_cwd W p i)"
  unfolding try_set_cwd_def set_cwd_def
  by (auto intro!: bind pure catch cwd_commands cwd_step split: exn.split)

lemmas steps = bind pure branch out kernel_results gaofs_results at_hook_steps path_hook_steps
  fd_hook_steps with_path_steps syscall_step fs_step cwd_step cwd_commands set_cwd_steps errno_result

lemmas files_steps = steps files_type.pure files_type.branch files_type.out within_intros

lemma open_steps: "within R (hook_open W c)"
proof (cases c)
  case (Sys_close a)
  have "within R (\<lambda>s. cbind (clift (is_internal_fd fd s)) (\<lambda>i. if i then cret 0 else kernel_int W (K_close fd)) s)" for fd
    by (rule chosen) (auto intro!: steps)
  moreover have "within keeps_files (\<lambda>s. case remove_fd fd (fs_files s) of (b, m) \<Rightarrow> (Inr b, s\<lparr>fs_files := m\<rparr>))" for fd
    using remove_fd_wf by (auto simp: within_def split: prod.split) (metis snd_conv)
  ultimately show ?thesis using Sys_close
    by (auto simp: hook_close_def remove_file_def intro!: steps)
qed (auto simp: hook_openat_def hook_stat_def hook_lstat_def hook_fstat_def hook_fstatat_def
    stat_internal_def intro!: files_steps)

lemma io_steps: "within R (hook_io W c)"
  by (cases c) (auto simp: hook_read_def hook_pread_def hook_readv_def hook_preadv_def hook_write_def
    hook_pwrite_def hook_writev_def hook_pwritev_def intro!: files_steps)

lemma name_steps: "within R (hook_name W c)"
  by (cases c) (auto simp: hook_unlinkat_def hook_symlinkat_def hook_access_def hook_faccessat_def
    hook_faccessat2_def intro!: files_steps)

lemma fd_steps: "within R (hook_fd W c)"
  by (cases c) (auto simp: hook_lseek_def hook_truncate_def hook_ftruncate_def hook_dup_def
    hook_dup2_def hook_dup3_def hook_getdents_def hook_getdents64_def intro!: files_steps)

lemma dir_steps: "within R (hook_dir W c)"
proof (cases c)
  case (Sys_fchdir a)
  have "within R (\<lambda>s. (case get_dir fd (fs_files (pr_fs s)) of None \<Rightarrow> cret (- EBADF)
      | Some d \<Rightarrow> try_set_cwd W (strip_slash (ctx_mountdir (e_ctx W) @ of_path d)) True) s)" for fd
    by (rule chosen) (auto intro!: steps split: option.split)
  then show ?thesis using Sys_fchdir by (auto simp: hook_fchdir_def intro!: steps)
qed (auto simp: hook_mkdirat_def hook_fchmodat_def hook_fchmod_def hook_chdir_def hook_getcwd_def
    intro!: files_steps split: option.split)

lemma misc_steps: "within R (hook_misc W c)"
proof -
  have "within R (set_cloexec fd b)" for fd b
    unfolding set_cloexec_def by (rule fs_step) (simp add: within_def update_file_wf)
  then show ?thesis
    by (cases c) (auto simp: hook_readlinkat_def hook_fcntl_def hook_renameat_def hook_fstatfs_def
      hook_statfs_def hook_fsync_def hook_getxattr_def Let_def intro!: files_steps)
qed

lemma hook_steps: "within R (hook W sc)"
  by (cases sc) (auto intro: steps open_steps io_steps name_steps fd_steps dir_steps misc_steps)

end

section \<open>The process is well formed\<close>

definition wf_proc :: "('n, 'k) proc \<Rightarrow> bool" where
  "wf_proc s \<longleftrightarrow> wf_files (fs_files (pr_fs s)) \<and> length (pr_internal s) = nat MAX_INTERNAL_FDS \<and>
     length (pr_protected s) = nat MAX_USER_FDS"

abbreviation keeps_wf :: "('n, 'k) proc \<Rightarrow> ('n, 'k) proc \<Rightarrow> bool" where
  "keeps_wf s s' \<equiv> wf_proc s \<longrightarrow> wf_proc s'"

interpretation internal_hooks: process_relation same_internal
  by unfold_locales (auto intro: within_intros)

interpretation proc_type: process_relation keeps_wf
  by unfold_locales (auto simp: within_def wf_proc_def syscall_no_intercept_def put_cwd_def unset_env_cwd_def
    split: prod.split)

lemma wf_proc_start: "wf_proc (PreloadContext f k)"
  by (simp add: wf_proc_def PreloadContext_def wf_files_def OpenFileMap_def INT_MAX_def)

lemma bit_put_length: "bit_put pos b bs = Inr bs' \<Longrightarrow> length bs' = length bs"
  by (auto simp: bit_put_def split: if_splits)

lemma set_bits_wf: "within keeps_wf (set_internal pos b)" "within keeps_wf (set_protected pos b)"
  "within keeps_wf (set_relocate b)"
  by (auto simp: within_def set_internal_def set_protected_def set_relocate_def wf_proc_def
      split: sum.split dest: bit_put_length)

lemma register_wf: "within keeps_wf (register_internal_fd W fd)" "within keeps_wf (unregister_internal_fd fd)"
  unfolding register_internal_fd_def unregister_internal_fd_def Let_def
  by (auto intro!: proc_type.steps set_bits_wf)

lemma register_at_wf: "within keeps_wf (register_at W a)"
  unfolding register_at_def
  by (rule proc_type.bind [OF proc_type.pure(4)], rule proc_type.bind [OF register_wf(1)])
    (simp add: within_def wf_proc_def)

lemma register_all_wf: "within keeps_wf (register_all W as)"
  by (induction as) (auto intro: proc_type.pure proc_type.bind register_at_wf)

lemma register_calls_wf:
  "within keeps_wf (register_or_error W c)" "within keeps_wf (register_no_error W c)"
  "within keeps_wf (register_nonneg W c)" "within keeps_wf (register_addresses W c addrs)"
  unfolding register_or_error_def register_no_error_def register_nonneg_def register_addresses_def Let_def
  by (auto intro!: proc_type.steps register_wf register_all_wf)

lemma hook_internal_wf: "within keeps_wf (hook_internal W sc)"
proof -
  note rules = proc_type.steps register_calls_wf register_wf
  have "within keeps_wf (internal_open W c1)" for c1 by (cases c1) (auto intro!: rules)
  moreover have "within keeps_wf (internal_fd W c2)" for c2 by (cases c2) (auto intro!: rules)
  moreover have "within keeps_wf (internal_misc W c3)" for c3 by (cases c3) (auto intro!: rules)
  moreover have "within keeps_wf (internal_make W c4)" for c4 by (cases c4) (auto intro!: rules)
  moreover have "within keeps_wf (internal_socket W c5)" for c5 by (cases c5) (auto intro!: rules)
  ultimately show ?thesis by (cases sc) (auto intro: proc_type.pure)
qed

section \<open>Runs of a client thread\<close>

text \<open>The calls of a thread, each through the hook point that is installed: the application's, or the
  library's own while the client starts.\<close>

inductive client_run :: "('n, 'k) env \<Rightarrow> ('n, 'k) thread \<Rightarrow> ('n, 'k) thread \<Rightarrow> bool" where
  run_start: "client_run W t t"
| run_call: "client_run W t t' \<Longrightarrow> hook_guard_wrapper W sc t' = (r, t'') \<Longrightarrow> client_run W t t''"
| run_self: "client_run W t t' \<Longrightarrow> internal_hook_guard_wrapper W sc t' = (r, t'') \<Longrightarrow> client_run W t t''"
| run_forwarded: "client_run W t t' \<Longrightarrow> hook_forwarded_syscall t' = (u, t'') \<Longrightarrow> client_run W t t''"

abbreviation keeps_wf_thread :: "('n, 'k) thread \<Rightarrow> ('n, 'k) thread \<Rightarrow> bool" where
  "keeps_wf_thread t t' \<equiv> keeps_wf (th_proc t) (th_proc t')"

interpretation thread_type: step_relation keeps_wf_thread by unfold_locales auto

lemma on_proc_wf: "within keeps_wf m \<Longrightarrow> within keeps_wf_thread (on_proc m)"
  by (auto simp: within_def on_proc_def split: prod.split)

lemma thread_steps_wf:
  "within keeps_wf_thread (set_guard b)" "within keeps_wf_thread (save_info i)"
  by (simp_all add: within_def set_guard_def save_info_def)

lemma keep_errno_wf: "within keeps_wf_thread m \<Longrightarrow> within keeps_wf_thread (keep_errno m)"
  unfolding keep_errno_def
  by (auto intro!: thread_type.bind thread_type.pure on_proc_wf proc_type.fs_step within_intros)

lemma note_forward_wf: "within keeps_wf m \<Longrightarrow> within keeps_wf_thread (note_forward origin m)"
  unfolding note_forward_def
  by (auto intro!: thread_type.bind thread_type.pure on_proc_wf thread_steps_wf split: option.split)

lemma guards_wf:
  "within keeps_wf_thread (hook_guard_wrapper W sc)"
  "within keeps_wf_thread (internal_hook_guard_wrapper W sc)"
  "within keeps_wf_thread hook_forwarded_syscall"
  unfolding hook_guard_wrapper_def internal_hook_guard_wrapper_def hook_forwarded_syscall_def
  by (auto intro!: thread_type.bind thread_type.pure thread_type.branch on_proc_wf thread_steps_wf
      keep_errno_wf note_forward_wf hook_internal_wf proc_type.hook_steps proc_type.pure proc_type.bind)

lemma client_run_wf: "client_run W t t' \<Longrightarrow> wf_proc (th_proc t) \<Longrightarrow> wf_proc (th_proc t')"
proof (induction rule: client_run.induct)
  case (run_call W t t' sc r t'')
  then show ?case using withinD [OF guards_wf(1) run_call(2)] by simp
next
  case (run_self W t t' sc r t'')
  then show ?case using withinD [OF guards_wf(2) run_self(2)] by simp
next
  case (run_forwarded W t t' u t'')
  then show ?case using withinD [OF guards_wf(3) run_forwarded(2)] by simp
qed

end
