(* ===== verification/Hook_Safety.thy ===== *)
theory Hook_Safety
  imports Hook_Frames File_Operations
begin

text \<open>
  Which calls GaoFS serves, and what follows for the rest of the process: a call that is not GaoFS's
  never touches GaoFS, a call it serves never reaches the kernel, and the descriptors of the library
  survive whatever the application does.
\<close>

section \<open>Calls that GaoFS serves\<close>

definition own_fd :: "('n, 'k) proc \<Rightarrow> int \<Rightarrow> bool" where
  "own_fd s fd = exist_fd fd (fs_files (pr_fs s))"

definition at_internal :: "('n, 'k) env \<Rightarrow> ('n, 'k) proc \<Rightarrow> int \<Rightarrow> path \<Rightarrow> u32 \<Rightarrow> bool" where
  "at_internal W s dirfd p flags = (case relativize_fd_path W s dirfd p flags True of
     Inr (Internal, r) \<Rightarrow> True | _ \<Rightarrow> False)"

definition path_internal :: "('n, 'k) env \<Rightarrow> ('n, 'k) proc \<Rightarrow> path \<Rightarrow> bool \<Rightarrow> bool" where
  "path_internal W s p follow = (case relativize_path W s p follow of Inr (inside, r) \<Rightarrow> inside | _ \<Rightarrow> False)"

fun served_open :: "('n, 'k) env \<Rightarrow> ('n, 'k) proc \<Rightarrow> open_call \<Rightarrow> bool" where
  "served_open W s (Sys_open p a1 a2) = at_internal W s AT_FDCWD p 0"
| "served_open W s (Sys_creat p a1) = at_internal W s AT_FDCWD p 0"
| "served_open W s (Sys_openat a0 p a2 a3) = at_internal W s (int_arg a0) p 0"
| "served_open W s (Sys_close a0) = own_fd s (int_arg a0)"
| "served_open W s (Sys_stat p) = path_internal W s p False"
| "served_open W s (Sys_lstat p) = path_internal W s p True"
| "served_open W s (Sys_fstat a0) = own_fd s (int_arg a0)"
| "served_open W s (Sys_newfstatat a0 p a3) = at_internal W s (int_arg a0) p (uint_arg a3)"
| "served_open W s _ = False"

fun served_io :: "('n, 'k) proc \<Rightarrow> io_call \<Rightarrow> bool" where
  "served_io s (Sys_read a0 _) = own_fd s (int_arg a0)"
| "served_io s (Sys_pread64 a0 _ _) = own_fd s (int_arg a0)"
| "served_io s (Sys_readv a0 _) = own_fd s (int_arg a0)"
| "served_io s (Sys_preadv a0 _ _ _) = own_fd s (int_arg a0)"
| "served_io s (Sys_pwrite64 a0 _ _) = own_fd s (int_arg a0)"
| "served_io s (Sys_write a0 _) = own_fd s (int_arg a0)"
| "served_io s (Sys_writev a0 _) = own_fd s (int_arg a0)"
| "served_io s (Sys_pwritev a0 _ _ _) = own_fd s (int_arg a0)"

fun served_name :: "('n, 'k) env \<Rightarrow> ('n, 'k) proc \<Rightarrow> name_call \<Rightarrow> bool" where
  "served_name W s (Sys_unlink p) = at_internal W s AT_FDCWD p 0"
| "served_name W s (Sys_unlinkat a0 p a2) = at_internal W s (int_arg a0) p 0"
| "served_name W s (Sys_rmdir p) = at_internal W s AT_FDCWD p 0"
| "served_name W s (Sys_symlink p q) = (path_internal W s p True \<or> at_internal W s AT_FDCWD q 0)"
| "served_name W s (Sys_symlinkat p a1 q) = (path_internal W s p True \<or> at_internal W s (int_arg a1) q 0)"
| "served_name W s (Sys_access p a1) = path_internal W s p True"
| "served_name W s (Sys_faccessat a0 p a2) = at_internal W s (int_arg a0) p 0"
| "served_name W s (Sys_faccessat2 a0 p a2 a3) = at_internal W s (int_arg a0) p 0"

fun served_fd :: "('n, 'k) env \<Rightarrow> ('n, 'k) proc \<Rightarrow> fd_call \<Rightarrow> bool" where
  "served_fd W s (Sys_lseek a0 _ _) = own_fd s (int_arg a0)"
| "served_fd W s (Sys_truncate p _) = path_internal W s p True"
| "served_fd W s (Sys_ftruncate a0 _) = own_fd s (int_arg a0)"
| "served_fd W s (Sys_dup a0) = own_fd s (int_arg a0)"
| "served_fd W s (Sys_dup2 a0 _) = own_fd s (int_arg a0)"
| "served_fd W s (Sys_dup3 a0 _ _) = own_fd s (int_arg a0)"
| "served_fd W s (Sys_getdents a0 _) = own_fd s (int_arg a0)"
| "served_fd W s (Sys_getdents64 a0 _) = own_fd s (int_arg a0)"

fun served_dir :: "('n, 'k) env \<Rightarrow> ('n, 'k) proc \<Rightarrow> dir_call \<Rightarrow> bool" where
  "served_dir W s (Sys_mkdirat a0 p _) = at_internal W s (int_arg a0) p 0"
| "served_dir W s (Sys_mkdir p _) = at_internal W s AT_FDCWD p 0"
| "served_dir W s (Sys_chmod p _) = at_internal W s AT_FDCWD p 0"
| "served_dir W s (Sys_fchmod a0 _) = own_fd s (int_arg a0)"
| "served_dir W s (Sys_fchmodat a0 p _) = at_internal W s (int_arg a0) p 0"
| "served_dir W s (Sys_chdir p) = path_internal W s p True"
| "served_dir W s (Sys_fchdir a0) = own_fd s (int_arg a0)"
| "served_dir W s (Sys_getcwd _) = True"

fun served_misc :: "('n, 'k) env \<Rightarrow> ('n, 'k) proc \<Rightarrow> misc_call \<Rightarrow> bool" where
  "served_misc W s (Sys_readlink p _) = at_internal W s AT_FDCWD p 0"
| "served_misc W s (Sys_readlinkat a0 p _) = at_internal W s (int_arg a0) p 0"
| "served_misc W s (Sys_fcntl a0 _ _) = own_fd s (int_arg a0)"
| "served_misc W s (Sys_rename p q) = (at_internal W s AT_FDCWD p 0 \<or> at_internal W s AT_FDCWD q 0)"
| "served_misc W s (Sys_renameat a0 p a2 q) =
     (at_internal W s (int_arg a0) p 0 \<or> at_internal W s (int_arg a2) q 0)"
| "served_misc W s (Sys_renameat2 a0 p a2 q _) =
     (at_internal W s (int_arg a0) p 0 \<or> at_internal W s (int_arg a2) q 0)"
| "served_misc W s (Sys_fstatfs a0) = own_fd s (int_arg a0)"
| "served_misc W s (Sys_statfs p) = path_internal W s p True"
| "served_misc W s (Sys_fsync a0) = own_fd s (int_arg a0)"
| "served_misc W s (Sys_getxattr p _ _ _) = path_internal W s p True"

text \<open>A call is GaoFS's when one of its paths resolves below the mount directory or its descriptor is
  in the table.\<close>

fun served :: "('n, 'k) env \<Rightarrow> ('n, 'k) proc \<Rightarrow> syscall \<Rightarrow> bool" where
  "served W s (Opens c) = served_open W s c"
| "served W s (Transfers c) = served_io s c"
| "served W s (Names c) = served_name W s c"
| "served W s (Moves c) = served_fd W s c"
| "served W s (Changes c) = served_dir W s c"
| "served W s (Queries c) = served_misc W s c"
| "served W s _ = False"

section \<open>The dispatch, in a given state\<close>

lemma snd_out [simp]: "snd (out_int m s) = snd (m s)" "snd (out_with g m' s) = snd (m' s)"
  by (auto simp: out_int_def out_with_def cbind_apply cret_apply split: prod.split sum.split)

lemma at_hook_outside:
  assumes "\<not> at_internal W s d p fl" "\<And>q. P (snd (forward q s))" "P s"
  shows "P (snd (at_hook W d p fl True forward x answer s))"
  using assms by (auto simp: at_hook_def at_internal_def cbind_apply clift_apply cret_apply
    split: sum.splits prod.splits relativize_status.splits)

lemma at_hook_inside:
  assumes "at_internal W s d p fl" "\<And>q. P (snd (answer q s))"
  shows "P (snd (at_hook W d p fl True forward x answer s))"
  using assms by (auto simp: at_hook_def at_internal_def cbind_apply clift_apply
    split: sum.splits prod.splits relativize_status.splits)

lemma path_hook_outside:
  assumes "\<not> path_internal W s p rl" "\<And>q. P (snd (forward q s))" "P s"
  shows "P (snd (path_hook W p rl forward answer s))"
  using assms by (auto simp: path_hook_def path_internal_def cbind_apply clift_apply
    split: sum.splits prod.splits)

lemma path_hook_inside:
  assumes "path_internal W s p rl" "\<And>q. P (snd (answer q s))"
  shows "P (snd (path_hook W p rl forward answer s))"
  using assms by (auto simp: path_hook_def path_internal_def cbind_apply clift_apply
    split: sum.splits prod.splits)

lemma fd_hook_outside: "\<not> own_fd s fd \<Longrightarrow> fd_hook fd forward answer s = forward s"
  and fd_hook_inside: "own_fd s fd \<Longrightarrow> fd_hook fd forward answer s = answer s"
  by (simp_all add: fd_hook_def own_fd_def)

section \<open>Calls that are not GaoFS's\<close>

lemma kernel_results_fs [within_intros]:
  "within same_fs (syscall_no_intercept_wrapper W c)" "within same_fs (kernel_int W c)"
  "within same_fs (kernel_buf W c)" "within same_fs (get_sys_cwd W)" "within same_fs (set_sys_cwd W p)"
  "within same_fs (try_set_cwd W p False)"
  unfolding syscall_no_intercept_wrapper_def kernel_int_def kernel_buf_def get_sys_cwd_def set_sys_cwd_def
    try_set_cwd_def set_cwd_def Let_def
  by (auto intro!: fs_frame.bind fs_frame.pure fs_frame.catch within_intros split: exn.split)

lemma kernel_fs [simp]:
  "pr_fs (snd (kernel_int W c s)) = pr_fs s" "pr_fs (snd (kernel_buf W c s)) = pr_fs s"
  "pr_fs (snd (syscall_no_intercept W c s)) = pr_fs s"
  "pr_fs (snd (syscall_no_intercept_wrapper W c s)) = pr_fs s"
  "pr_fs (snd (try_set_cwd W p False s)) = pr_fs s"
  by (rule within_at [of same_fs], rule within_intros)+

lemma constant_state [simp]: "snd (cret x s) = s"
  by (simp add: cret_apply)

lemmas outside = at_hook_outside [where P = "\<lambda>t. pr_fs t = pr_fs s" for s]
  path_hook_outside [where P = "\<lambda>t. pr_fs t = pr_fs s" for s]

lemma close_foreign:
  "\<not> own_fd s fd \<Longrightarrow> pr_fs (snd (hook_close W fd s)) = pr_fs s"
  by (auto simp: hook_close_def fd_hook_outside cbind_apply clift_apply split: sum.split)

lemma openat_foreign:
  "\<not> at_internal W s d p 0 \<Longrightarrow> pr_fs (snd (hook_openat W d p fl m s)) = pr_fs s"
  unfolding hook_openat_def
  by (rule outside(1)) (auto simp: cbind_apply cret_apply syscall_no_intercept_def split: prod.split)

lemma open_foreign: "\<not> served_open W s c \<Longrightarrow> pr_fs (snd (hook_open W c s)) = pr_fs s"
  by (cases c) (auto simp: close_foreign openat_foreign hook_stat_def hook_lstat_def hook_fstat_def
    hook_fstatat_def fd_hook_outside intro!: outside)

lemma io_foreign: "\<not> served_io s c \<Longrightarrow> pr_fs (snd (hook_io W c s)) = pr_fs s"
  by (cases c) (auto simp: hook_read_def hook_pread_def hook_readv_def hook_preadv_def hook_write_def
    hook_pwrite_def hook_writev_def hook_pwritev_def long_fd_def fd_hook_outside)

lemma name_foreign: "\<not> served_name W s c \<Longrightarrow> pr_fs (snd (hook_name W c s)) = pr_fs s"
  by (cases c) (auto simp: hook_unlinkat_def hook_symlinkat_def hook_access_def hook_faccessat_def
    hook_faccessat2_def intro!: outside)

lemma fd_foreign: "\<not> served_fd W s c \<Longrightarrow> pr_fs (snd (hook_fd W c s)) = pr_fs s"
  by (cases c) (auto simp: hook_lseek_def hook_truncate_def hook_ftruncate_def hook_dup_def
    hook_dup2_def hook_dup3_def hook_getdents_def hook_getdents64_def fd_hook_outside intro!: outside)

lemma fchdir_foreign:
  "\<not> own_fd s (sint fd) \<Longrightarrow> pr_fs (snd (hook_fchdir W fd s)) = pr_fs s"
proof -
  have "within same_fs (cbind (syscall_no_intercept_wrapper W (K_fchdir (uint fd))) (\<lambda>ret.
        if ret < 0 then craise (SystemError (k_error_code (e_kernel W) ret))
        else cbind unset_env_cwd (\<lambda>_. cbind (get_sys_cwd W) (\<lambda>p. cbind (put_cwd p) (\<lambda>_. cret 0)))))"
    by (auto intro!: fs_frame.bind fs_frame.pure within_intros)
  from within_at [OF this]
  show "\<not> own_fd s (sint fd) \<Longrightarrow> pr_fs (snd (hook_fchdir W fd s)) = pr_fs s"
    by (simp add: hook_fchdir_def fd_hook_outside)
qed

lemma dir_foreign: "\<not> served_dir W s c \<Longrightarrow> pr_fs (snd (hook_dir W c s)) = pr_fs s"
  by (cases c) (auto simp: hook_mkdirat_def hook_fchmodat_def hook_fchmod_def hook_chdir_def
    fchdir_foreign fd_hook_outside intro!: outside)

lemma misc_foreign: "\<not> served_misc W s c \<Longrightarrow> pr_fs (snd (hook_misc W c s)) = pr_fs s"
  by (cases c) (auto simp: hook_readlinkat_def hook_fcntl_def hook_renameat_def hook_fstatfs_def
    hook_statfs_def hook_fsync_def hook_getxattr_def Let_def fd_hook_outside intro!: outside)

lemma foreign_frame:
  assumes "\<not> served W s sc"
  shows "pr_fs (snd (hook W sc s)) = pr_fs s"
  using assms by (cases sc)
    (auto simp: open_foreign io_foreign name_foreign fd_foreign dir_foreign misc_foreign)

section \<open>Calls that are GaoFS's\<close>

lemma gaofs_results_kernel [within_intros]:
  "within same_kernel (gaofs_int m)" "within same_kernel (gaofs_buf m')"
  "within same_kernel (with_errno r)" "within same_kernel (set_cloexec fd b)"
  "(\<And>q. within same_kernel (f q)) \<Longrightarrow> within same_kernel (with_path fd f)"
  unfolding gaofs_int_def gaofs_buf_def with_errno_def set_cloexec_def with_path_def Let_def
  by (auto intro!: kernel_frame.bind kernel_frame.pure within_intros split: prod.split)

lemmas kernel_steps = kernel_frame.bind kernel_frame.pure kernel_frame.branch within_intros

lemma inside:
  "at_internal W s d p fl \<Longrightarrow> (\<And>q. within same_kernel (answer q)) \<Longrightarrow>
    pr_kernel (snd (at_hook W d p fl True forward x answer s)) = pr_kernel s"
  "path_internal W s p rl \<Longrightarrow> (\<And>q. within same_kernel (answer' q)) \<Longrightarrow>
    pr_kernel (snd (path_hook W p rl forward' answer' s)) = pr_kernel s"
  "own_fd s fd \<Longrightarrow> within same_kernel m \<Longrightarrow> pr_kernel (snd (fd_hook fd m' m s)) = pr_kernel s"
  by (rule at_hook_inside path_hook_inside, assumption, rule within_at, assumption)+
    (simp only: fd_hook_inside, erule within_at)

lemma open_own: "served_open W s c \<Longrightarrow> pr_kernel (snd (hook_open W c s)) = pr_kernel s"
  by (cases c) (auto simp: hook_openat_def hook_close_def remove_file_def hook_stat_def hook_lstat_def
    hook_fstat_def hook_fstatat_def stat_internal_def intro!: inside kernel_steps)

lemma io_own: "served_io s c \<Longrightarrow> pr_kernel (snd (hook_io W c s)) = pr_kernel s"
  by (cases c) (auto simp: hook_read_def hook_pread_def hook_readv_def hook_preadv_def hook_write_def
    hook_pwrite_def hook_writev_def hook_pwritev_def long_fd_def intro!: inside kernel_steps)

text \<open>A call with two paths, one of them GaoFS's.\<close>

lemma rename_own:
  assumes "at_internal W s d p 0 \<or> at_internal W s d' q 0"
  shows "pr_kernel (snd (hook_renameat W d p d' q fl s)) = pr_kernel s"
proof (cases "at_internal W s d p 0")
  case True
  then show ?thesis by (auto simp: hook_renameat_def Let_def intro!: inside kernel_steps)
next
  case False
  with assms show ?thesis unfolding hook_renameat_def Let_def
    by (intro at_hook_outside [where P = "\<lambda>t. pr_kernel t = pr_kernel s"] inside(1))
      (auto intro!: kernel_steps)
qed

lemma symlink_own:
  assumes "path_internal W s p True \<or> at_internal W s d q 0"
  shows "pr_kernel (snd (hook_symlinkat W p d q s)) = pr_kernel s"
proof (cases "path_internal W s p True")
  case True
  then show ?thesis by (auto simp: hook_symlinkat_def intro!: inside kernel_steps)
next
  case False
  with assms show ?thesis unfolding hook_symlinkat_def
    by (intro path_hook_outside [where P = "\<lambda>t. pr_kernel t = pr_kernel s"] inside(1))
      (auto intro!: kernel_steps)
qed

lemma name_own: "served_name W s c \<Longrightarrow> pr_kernel (snd (hook_name W c s)) = pr_kernel s"
  by (cases c) (auto simp: hook_unlinkat_def symlink_own hook_access_def hook_faccessat_def
    hook_faccessat2_def intro!: inside kernel_steps)

lemma fd_own: "served_fd W s c \<Longrightarrow> pr_kernel (snd (hook_fd W c s)) = pr_kernel s"
  by (cases c) (auto simp: hook_lseek_def hook_truncate_def hook_ftruncate_def hook_dup_def
    hook_dup2_def hook_dup3_def hook_getdents_def hook_getdents64_def intro!: inside kernel_steps)

lemma misc_own: "served_misc W s c \<Longrightarrow> pr_kernel (snd (hook_misc W c s)) = pr_kernel s"
  by (cases c) (auto simp: hook_readlinkat_def hook_fcntl_def rename_own hook_fstatfs_def
    hook_statfs_def hook_fsync_def hook_getxattr_def intro!: inside kernel_steps)

text \<open>\<open>chdir\<close> and \<open>fchdir\<close> move the process to the mount directory: the one step of a served call
  that the kernel sees.\<close>

definition moves_cwd :: "syscall \<Rightarrow> bool" where
  "moves_cwd sc = (case sc of Changes (Sys_chdir p) \<Rightarrow> True | Changes (Sys_fchdir a) \<Rightarrow> True | _ \<Rightarrow> False)"

lemma dir_own:
  "served_dir W s c \<Longrightarrow> \<not> moves_cwd (Changes c) \<Longrightarrow> pr_kernel (snd (hook_dir W c s)) = pr_kernel s"
  by (cases c) (auto simp: hook_mkdirat_def hook_fchmodat_def hook_fchmod_def hook_getcwd_def
    moves_cwd_def cbind_apply cget_apply cret_apply intro!: inside kernel_steps)

lemma own_frame:
  assumes "served W s sc" "\<not> moves_cwd sc"
  shows "pr_kernel (snd (hook W sc s)) = pr_kernel s"
  using assms by (cases sc) (auto simp: open_own io_own name_own fd_own dir_own misc_own)

section \<open>A sample process\<close>

text \<open>A kernel that logs its calls and answers 0 to all but \<open>dup3\<close>; the directory \<open>/m\<close> and the
  link \<open>/l\<close> to \<open>/t\<close> exist.\<close>

definition sample_call :: "kcall \<Rightarrow> kcall list \<Rightarrow> int \<times> kcall list" where
  "sample_call c k = (case c of K_dup3 a b fl \<Rightarrow> b | _ \<Rightarrow> 0, k @ [c])"

definition sample_kernel :: "kcall list kernel" where
  "sample_kernel = \<lparr>k_call = sample_call,
     k_error_code = (\<lambda>r. if - 4096 < r \<and> r < 0 then - r else 0),
     k_lstat = (\<lambda>k p. if p = ''/m'' then Some S_IFDIR else if p = ''/l'' then Some S_IFLNK else None),
     k_realpath = (\<lambda>k p. if p = ''/l'' then Some ''/t'' else Some p), k_cwd_buf = (\<lambda>_. ''/''),
     k_setenv_err = (\<lambda>_. 0), k_load = (\<lambda>_ _. 0), k_store = (\<lambda>_ _ k. k), k_cmsgs = (\<lambda>_ _. [])\<rparr>"

definition sample_env :: "(lazy_store cluster, kcall list) env" where
  "sample_env = \<lparr>e_ctx = sample_ctx, e_kernel = sample_kernel\<rparr>"

text \<open>The file \<open>/f\<close> is open as descriptor 10000.\<close>

definition sample_proc :: "(lazy_store cluster, kcall list) proc" where
  "sample_proc = (PreloadContext sample_fs [])\<lparr>pr_enabled := True, pr_cwd := ''/home'',
     pr_fs := sample_fs\<lparr>fs_files := OpenFileMap\<lparr>files := [(10000, 0)], objects := [OpenFile ''/f'' 0 Regular],
       fd_idx := 10001\<rparr>\<rparr>\<rparr>"

lemma sample_proc_simps [simp]:
  "pr_enabled sample_proc" "pr_cwd sample_proc = ''/home''" "pr_kernel sample_proc = []"
  "pr_relocate sample_proc" "pr_internal sample_proc = replicate 256 True"
  "fs_files (pr_fs sample_proc) = OpenFileMap\<lparr>files := [(10000, 0)],
     objects := [OpenFile ''/f'' 0 Regular], fd_idx := 10001\<rparr>"
  by (simp_all add: sample_proc_def PreloadContext_def MAX_INTERNAL_FDS_def)

lemma sample_env_simps [simp]:
  "ctx_mountdir (e_ctx sample_env) = ''/m''" "e_kernel sample_env = sample_kernel"
  "k_error_code sample_kernel r = (if - 4096 < r \<and> r < 0 then - r else 0)"
  "k_call sample_kernel = sample_call"
  by (simp_all add: sample_env_def sample_ctx_def sample_kernel_def)

lemma sample_proc_wf: "wf_proc sample_proc"
  by (simp add: wf_proc_def sample_proc_def PreloadContext_def wf_files_def OpenFileMap_def INT_MAX_def)

section \<open>Properties of every hooked call\<close>





section \<open>Well-formed threads\<close>

definition start_thread :: "'n fs \<Rightarrow> 'k \<Rightarrow> ('n, 'k) thread" where
  "start_thread f k = \<lparr>th_proc = (PreloadContext f k)\<lparr>pr_enabled := True\<rparr>, th_guard = False, th_info = no_info\<rparr>"

lemma wf_files_total: "wf_files m \<Longrightarrow> exist_fd fd m \<longleftrightarrow> get_file fd m \<noteq> None"
  by (auto simp: exist_fd_def get_file_def lookup_fd_wf split: option.split)

text \<open>C15: Whatever system calls a thread makes, through the hooks of the application or of the library
  itself and whatever they return or throw, the client stays well formed: every descriptor of the
  table is bound once and to an open file that exists (so no hook dereferences a null file after its
  test), the counter of descriptors stays in its range, and both bit sets keep their size.\<close>

lemma client_run_well_formed:
  assumes "client_run W (start_thread f k) t"
  shows "wf_proc (th_proc t) \<and>
    (exist_fd fd (fs_files (pr_fs (th_proc t))) \<longleftrightarrow> get_file fd (fs_files (pr_fs (th_proc t))) \<noteq> None)"
proof -
  have "wf_proc (th_proc (start_thread f k))"
    using wf_proc_start by (simp add: start_thread_def wf_proc_def)
  then have "wf_proc (th_proc t)" by (rule client_run_wf [OF assms])
  then show ?thesis using wf_files_total by (auto simp: wf_proc_def)
qed

lemma client_run_well_formed_witness:
  "client_run sample_env (start_thread sample_fs []) (start_thread sample_fs [K_dup 3]) \<and>
   wf_proc (th_proc (start_thread sample_fs [K_dup 3]))"
proof -
  have "hook_guard_wrapper sample_env (Moves (Sys_dup 3)) (start_thread sample_fs []) =
      (Inr (Some (0, Out_none)), start_thread sample_fs [K_dup 3])"
    by (simp add: hook_guard_wrapper_def start_thread_def cmd_simps on_proc_def set_guard_def keep_errno_def
        note_forward_def out_int_def hook_dup_def fd_hook_def PreloadContext_def exist_fd_def lookup_fd_def
        OpenFileMap_def kernel_int_def syscall_no_intercept_wrapper_def syscall_no_intercept_def
        sample_call_def to_int32_def on_fs_def set_errno_def)
  then have "client_run sample_env (start_thread sample_fs []) (start_thread sample_fs [K_dup 3])"
    by (rule run_call [OF run_start])
  with client_run_well_formed [OF this] show ?thesis by blast
qed

section \<open>The descriptors of the library\<close>

fun run_calls :: "('n, 'k) env \<Rightarrow> syscall list \<Rightarrow> ('n, 'k) proc \<Rightarrow> ('n, 'k) proc" where
  "run_calls W [] s = s"
| "run_calls W (sc # scs) s = run_calls W scs (snd (hook W sc s))"

lemma run_calls_internal: "same_internal s (run_calls W scs s)"
proof (induction scs arbitrary: s)
  case (Cons sc scs)
  then show ?case using within_at [OF internal_hooks.hook_steps [of W sc], of s] by simp
qed simp

lemma find_first_free:
  "find_first bs \<noteq> length bs \<Longrightarrow> find_first bs < length bs \<and> bs ! find_first bs"
  unfolding find_first_def
  using nth_length_takeWhile [of Not bs] length_takeWhile_le [of Not bs] by auto

lemma to_int32_small: "- (2 ^ 31) \<le> v \<Longrightarrow> v < 2 ^ 31 \<Longrightarrow> to_int32 v = v"
  using signed_take_bit_int_eq_self [of 31 v] by (simp add: to_int32_def sint_sbintrunc')

text \<open>The manual of \<open>dup3\<close>: unless it fails it returns the descriptor it was asked for.\<close>

definition dup3_documented :: "'k kernel \<Rightarrow> bool" where
  "dup3_documented K \<longleftrightarrow> (\<forall>a b fl k r k'. k_call K (K_dup3 a b fl) k = (r, k') \<longrightarrow>
     k_error_code K (to_int32 r) = 0 \<longrightarrow> r = b)"

lemma register_internal_fd_result:
  assumes "wf_proc s" "pr_relocate s" "register_internal_fd W fd s = (Inr ifd, s')"
    and dup3: "dup3_documented (e_kernel W)"
  shows "MIN_INTERNAL_FD \<le> ifd" "ifd < MAX_OPEN_FDS" "is_internal_fd ifd s = Inr False"
    "is_internal_fd ifd s' = Inr True"
proof -
  let ?n = "find_first (pr_internal s)"
  have len: "length (pr_internal s) = 256" using assms(1) by (simp add: wf_proc_def MAX_INTERNAL_FDS_def)
  obtain r k where d: "k_call (e_kernel W) (K_dup3 fd (int ?n + MIN_INTERNAL_FD) O_CLOEXEC) (pr_kernel s) = (r, k)"
    by fastforce
  have reg: "?n \<noteq> length (pr_internal s)" "k_error_code (e_kernel W) (to_int32 r) = 0" "ifd = to_int32 r"
    "pr_internal s' = (pr_internal s)[?n := False]"
    using assms(2,3) d len
    by (auto simp: register_internal_fd_def cmd_simps set_internal_def bit_put_def syscall_no_intercept_def
        Let_def assert_res_def split: if_splits sum.splits prod.splits)
  note n = find_first_free [OF reg(1)]
  have "r = int ?n + MIN_INTERNAL_FD" using dup3 d reg(2) unfolding dup3_documented_def by blast
  moreover have "to_int32 (int ?n + 768) = int ?n + 768"
    by (rule to_int32_small) (use n len in auto)
  ultimately have ifd: "ifd = int ?n + 768" using reg(3) by (simp add: MIN_INTERNAL_FD_def MAX_OPEN_FDS_def MAX_INTERNAL_FDS_def)
  show "MIN_INTERNAL_FD \<le> ifd" "ifd < MAX_OPEN_FDS" "is_internal_fd ifd s = Inr False"
      "is_internal_fd ifd s' = Inr True"
    using n len reg(4) unfolding ifd
    by (simp_all add: MIN_INTERNAL_FD_def MAX_OPEN_FDS_def MAX_INTERNAL_FDS_def is_internal_fd_def bit_test_def)
qed



section \<open>Closing twice\<close>

lemma remove_fd_gone: "wf_files m \<Longrightarrow> \<not> exist_fd fd (snd (remove_fd fd m))"
  by (auto simp: remove_fd_def exist_fd_def lookup_fd_def Let_def delete_conv')



section \<open>The root as working directory\<close>


text \<open>C38: After a successful \<open>chdir("/")\<close> every relative path aborts the client: \<open>prepend_path\<close> asserts
  that the working directory has no trailing slash, which the root has.\<close>

lemma chdir_root_aborts:
  assumes "pr_enabled s" and "split_path (ctx_mountdir (e_ctx W)) \<noteq> []"
    and "k_call (e_kernel W) (K_chdir ''/'') (pr_kernel s) = (0, k)"
    and "take 1 p \<noteq> ''/''" and "ctx_mountdir (e_ctx W) \<noteq> []"
  shows "\<exists>s'. hook_chdir W ''/'' s = (Inr 0, s') \<and> hook_openat W AT_FDCWD p fl mode s' = (Inl Abort, s')"
proof -
  let ?s = "s\<lparr>pr_kernel := k, pr_env_cwd := None, pr_cwd := ''/''\<rparr>"
  have m: "ctx_mountdir (e_ctx W) \<noteq> []" using assms(5) .
  have "relativize_path W s ''/'' True = Inr (False, ''/'')"
    using assms(1,2) m
    by (simp add: relativize_path_def resolve_here_def resolve_def is_absolute_def separator_def is_excluded_def
        excluded_paths_def resolve_loop.simps Let_def)
  then have "hook_chdir W ''/'' s = (Inr 0, ?s)"
    using assms(3) by (simp add: hook_chdir_def path_hook_def cmd_simps try_set_cwd_def set_cwd_def
        set_sys_cwd_def syscall_no_intercept_def unset_env_cwd_def put_cwd_def)
  moreover have "hook_openat W AT_FDCWD p fl mode ?s = (Inl Abort, ?s)"
    using assms(1,4) m
    by (simp add: hook_openat_def at_hook_def relativize_fd_path_def prepend_path_def has_trailing_slash_def
        separator_def cmd_simps Let_def)
  ultimately show ?thesis by blast
qed

lemma chdir_root_aborts_witness:
  "\<exists>s'. hook_chdir sample_env ''/'' sample_proc = (Inr 0, s') \<and>
     hook_openat sample_env AT_FDCWD ''x'' 0 0 s' = (Inl Abort, s')"
proof -
  have "split_path (ctx_mountdir (e_ctx sample_env)) \<noteq> []" by simp code_simp
  then show ?thesis by (intro chdir_root_aborts [where k = "[K_chdir ''/'']"]) (simp_all add: sample_call_def)
qed

section \<open>stat and lstat\<close>

text \<open>C40: \<open>stat\<close> and \<open>lstat\<close> have their flags the wrong way round: of a link in the root directory to a
  place outside the mount directory, \<open>lstat\<close> returns what the kernel says about the link's target,
  and \<open>stat\<close> passes the link itself.\<close>

lemma lstat_follows_link:
  assumes "pr_enabled s" and "split_path (ctx_mountdir (e_ctx W)) = c # cs"
    and "name \<noteq> []" and "separator \<notin> set name" and "name \<notin> {''.'', ''..'', c}"
    and "k_lstat (e_kernel W) (pr_kernel s) (separator # name) = Some m" and "S_ISLNK m"
    and "k_realpath (e_kernel W) (pr_kernel s) (separator # name) = Some target"
    and "match_components target (c # cs) = Inr (0, n)" and "target \<noteq> []" and "ctx_mountdir (e_ctx W) \<noteq> []"
  shows "hook_lstat W (separator # name) s = kernel_buf W (K_lstat target) s \<and>
    hook_stat W (separator # name) s = kernel_buf W (K_stat (separator # name)) s"
proof -
  have ex: "\<not> is_excluded (separator # name)"
    using assms(4) by (auto simp: is_excluded_def excluded_paths_def separator_def dest!: arg_cong [where f = set] in_set_takeD)
  have tw: "takeWhile (\<lambda>x. x \<noteq> separator) name = name" "takeWhile (\<lambda>x. x = separator) name = []"
    using assms(3,4) by (auto simp: takeWhile_eq_all_conv takeWhile_eq_Nil_iff) (metis list.set_sel(1))
  have "resolve_loop lst rp mnt rl (separator # name) 0 st =
      res_bind (comp_push lst rp mnt rl name [] st) (\<lambda>r. case r of
        Inl resolved \<Rightarrow> Inr (Inl resolved)
      | Inr s \<Rightarrow> resolve_loop lst rp mnt rl (separator # name) (Suc (length name)) s)" for lst rp mnt rl st
    using assms(3,5)
    by (subst resolve_loop.simps) (simp add: skip_seps_def find_sep_def Let_def tw)
  moreover have "resolve_loop lst rp mnt rl (separator # name) (Suc (length name)) st = Inr (Inr st)" for lst rp mnt rl st
    by (subst resolve_loop.simps) simp
  ultimately have "resolve (k_lstat (e_kernel W) (pr_kernel s)) (k_realpath (e_kernel W) (pr_kernel s))
      (ctx_mountdir (e_ctx W)) (separator # name) rl = Inr (False, if rl then target else separator # name)" for rl
    using assms(2,5-10) ex
    by (simp add: resolve_def comp_push_def Let_def is_absolute_def)
  then show ?thesis using assms(1,11)
    by (simp add: hook_lstat_def hook_stat_def path_hook_def relativize_path_def resolve_here_def cmd_simps)
qed

lemma lstat_follows_link_witness:
  "hook_lstat sample_env ''/l'' sample_proc = kernel_buf sample_env (K_lstat ''/t'') sample_proc \<and>
   hook_stat sample_env ''/l'' sample_proc = kernel_buf sample_env (K_stat ''/l'') sample_proc"
proof -
  have m: "split_path ''/m'' = [''m'']" by code_simp
  have n: "match_components ''/t'' [''m''] = Inr (0, 1)" by code_simp
  show ?thesis
    using lstat_follows_link [of sample_proc sample_env "''m''" "[]" "''l''" S_IFLNK "''/t''" 1] m n
    by (simp add: separator_def sample_kernel_def mode_defs)
qed

end
