(* ===== verification/Hosts_File.thy ===== *)
theory Hosts_File
  imports Gaofs_Prelude "HOL-Library.Char_ord" "HOL-Library.List_Lexorder" "HOL-Library.Product_Lexorder"
    "HOL-Library.Multiset"
begin

text \<open>
  The hosts file, through which clients find the daemons: every daemon appends a line with its
  host name and address (\<open>daemon/util.cpp\<close>); a client reads all lines, sorts them and looks the
  addresses up (\<open>client/preload_util.cpp\<close>). With the helpers of \<open>common/env_util.cpp\<close> and
  \<open>common/rpc/rpc_util.cpp\<close>. The order of \<open>std::pair<std::string, std::string>\<close> is the
  lexicographic order of the library's instances.
\<close>

section \<open>The node\<close>

text \<open>What a process asks its node: the environment, the host name (None when \<open>gethostname\<close> fails),
  and whether a file can be opened for appending and written.\<close>

record node =
  nd_getenv :: "string \<Rightarrow> string option"
  nd_hostname :: "string option"
  nd_open_append :: "path \<Rightarrow> bool"
  nd_write :: "path \<Rightarrow> bool"

type_synonym files = "path \<Rightarrow> string option"

definition get_var :: "node \<Rightarrow> string \<Rightarrow> string \<Rightarrow> string" where
  "get_var nd name default_value =
    (case nd_getenv nd name of Some val \<Rightarrow> val | None \<Rightarrow> default_value)"

definition get_my_hostname :: "node \<Rightarrow> bool \<Rightarrow> string" where
  "get_my_hostname nd short_name =
    (case nd_hostname nd of
       None \<Rightarrow> []
     | Some hostname \<Rightarrow> if \<not> short_name then hostname else takeWhile (\<lambda>c. c \<noteq> CHR ''.'') hostname)"

definition client_hosts_file_var :: string where
  "client_hosts_file_var = ''LIBGAOFS_HOSTS_FILE''"

definition daemon_hosts_file_var :: string where
  "daemon_hosts_file_var = ''GAOFS_HOSTS_FILE''"

definition hostfile_path :: path where
  "hostfile_path = ''./gaofs_hosts.txt''"

section \<open>The daemon's line\<close>

definition LF :: char where "LF = CHR 0x0A"

definition host_entry :: "string \<Rightarrow> string \<Rightarrow> string" where
  "host_entry name rootdir_suffix =
    (if rootdir_suffix = [] then name else name @ ''#'' @ rootdir_suffix)"

text \<open>A file opened for appending is created when it does not exist.\<close>

definition populate_hosts_file ::
    "node \<Rightarrow> path \<Rightarrow> string \<Rightarrow> string \<Rightarrow> (files, unit) cmd" where
  "populate_hosts_file nd hosts_file rootdir_suffix self_addr = (\<lambda>fs.
    if \<not> nd_open_append nd hosts_file then (Inl RuntimeError, fs) else
    let old = (case fs hosts_file of None \<Rightarrow> [] | Some s \<Rightarrow> s);
        hostname = host_entry (get_my_hostname nd True) rootdir_suffix
    in if \<not> nd_write nd hosts_file then (Inl RuntimeError, fs(hosts_file \<mapsto> old))
       else (Inr (), fs(hosts_file \<mapsto> old @ hostname @ '' '' @ self_addr @ [LF])))"

definition destroy_hosts_file :: "path \<Rightarrow> (files, unit) cmd" where
  "destroy_hosts_file hosts_file = (\<lambda>fs. (Inr (), fs(hosts_file := None)))"

section \<open>Reading the file\<close>

text \<open>\<open>getline\<close> until the end of the file.\<close>

fun get_lines :: "string \<Rightarrow> string list" where
  "get_lines [] = []"
| "get_lines (c # s) =
    (if c = LF then [] # get_lines s
     else case (s, get_lines s) of
         ([], _) \<Rightarrow> [[c]]
       | (d # _, ls) \<Rightarrow> (case ls of [] \<Rightarrow> [[c]] | l # ls' \<Rightarrow> (c # l) # ls'))"

text \<open>The match of \<open>^(\S+)\s+(\S+)$\<close> on a whole line.\<close>

definition match_line :: "string \<Rightarrow> (string \<times> string) option" where
  "match_line line =
    (let host = takeWhile (\<lambda>c. \<not> is_space c) line;
         rest = dropWhile (\<lambda>c. \<not> is_space c) line;
         uri = dropWhile is_space rest
     in if host \<noteq> [] \<and> rest \<noteq> [] \<and> uri \<noteq> [] \<and> list_all (\<lambda>c. \<not> is_space c) uri
        then Some (host, uri) else None)"

text \<open>\<open>uri.find(s) != npos\<close>.\<close>

fun contains :: "string \<Rightarrow> string \<Rightarrow> bool" where
  "contains s [] = (s = [])"
| "contains s (c # u) = (take (length s) (c # u) = s \<or> contains s u)"

text \<open>The protocol and whether \<open>auto_sm\<close> is switched on.\<close>

definition extract_protocol :: "string \<Rightarrow> (string \<times> bool) res" where
  "extract_protocol uri =
    (if \<not> contains ''://'' uri then Inl RuntimeError else
     let protocol =
           (if contains ''ofi+sockets'' uri then ''ofi+sockets''
            else if contains ''ofi+psm2'' uri then ''ofi+psm2''
            else if contains ''ofi+verbs'' uri then ''ofi+verbs'' else []);
         sm = contains ''na+sm'' uri;
         auto_sm = (sm \<and> protocol \<noteq> []);
         protocol = (if sm \<and> protocol = [] then ''na+sm'' else protocol)
     in if protocol = [] then Inl RuntimeError else Inr (protocol, auto_sm))"

text \<open>From the last \<open>#\<close> on.\<close>

definition erase_suffix :: "string \<Rightarrow> string" where
  "erase_suffix h =
    (if CHR ''#'' \<in> set h then rev (tl (dropWhile (\<lambda>c. c \<noteq> CHR ''#'') (rev h))) else h)"

record hosts_info =
  hi_hosts :: "(string \<times> string) list"
  hi_protocol :: string
  hi_auto_sm :: bool

fun match_lines :: "string list \<Rightarrow> (string \<times> string) list res" where
  "match_lines [] = Inr []"
| "match_lines (line # lines) = (case match_line line of
      None \<Rightarrow> Inl RuntimeError
    | Some h \<Rightarrow> res_bind (match_lines lines) (\<lambda>hs. Inr (h # hs)))"

definition load_hostfile :: "files \<Rightarrow> path \<Rightarrow> hosts_info res" where
  "load_hostfile fs path = (case fs path of
      None \<Rightarrow> Inl RuntimeError
    | Some text \<Rightarrow>
        res_bind (match_lines (get_lines text)) (\<lambda>hosts.
        if hosts = [] then Inl RuntimeError else
        res_bind (extract_protocol (snd (hosts ! 0))) (\<lambda>(protocol, auto_sm).
          Inr \<lparr>hi_hosts = map (\<lambda>(h, uri). (erase_suffix h, uri)) (sort hosts),
               hi_protocol = protocol, hi_auto_sm = auto_sm\<rparr>)))"

definition read_hosts_file :: "node \<Rightarrow> files \<Rightarrow> hosts_info res" where
  "read_hosts_file nd fs =
    (let hostfile = get_var nd client_hosts_file_var hostfile_path
     in case load_hostfile fs hostfile of
          Inl e \<Rightarrow> Inl (if is_std_exception e then RuntimeError else e)
        | Inr i \<Rightarrow> if hi_hosts i = [] then Inl RuntimeError else Inr i)"

section \<open>Lemmas\<close>

definition token :: "string \<Rightarrow> bool" where
  "token s \<longleftrightarrow> s \<noteq> [] \<and> list_all (\<lambda>c. \<not> is_space c) s"

lemma is_space_simps [simp]: "is_space CHR '' ''" "is_space LF" "\<not> is_space CHR ''#''"
  by (simp_all add: is_space_def LF_def)

lemma get_lines_line: "LF \<notin> set l \<Longrightarrow> get_lines (l @ LF # s) = l # get_lines s"
  by (induction l) (auto split: list.splits)

text \<open>A line of two tokens matches, and only such a line.\<close>

lemma match_line_tokens:
  assumes "token h" "token u"
  shows "match_line (h @ '' '' @ u) = Some (h, u)"
proof -
  have h: "\<not> is_space c" if "c \<in> set h" for c using assms(1) that by (simp add: token_def list_all_iff)
  have "takeWhile (\<lambda>c. \<not> is_space c) (h @ '' '' @ u) = h"
    "dropWhile (\<lambda>c. \<not> is_space c) (h @ '' '' @ u) = '' '' @ u"
    using h by (simp_all add: takeWhile_append2 dropWhile_append2)
  moreover have "dropWhile is_space ('' '' @ u) = u"
    using assms(2) by (cases u) (simp_all add: token_def)
  ultimately show ?thesis
    using assms by (simp only: match_line_def Let_def) (simp add: token_def)
qed

lemma if_Some: "(if c then Some x else None) = Some y \<longleftrightarrow> c \<and> x = y"
  by simp

lemma match_line_Some:
  assumes "match_line l = Some (h, u)"
  shows "token h" "token u" "\<exists>w. l = h @ w @ u \<and> w \<noteq> [] \<and> list_all is_space w"
proof -
  let ?P = "\<lambda>c. \<not> is_space c"
  define rest where "rest = dropWhile ?P l"
  have d: "h = takeWhile ?P l" "u = dropWhile is_space rest" "h \<noteq> []" "u \<noteq> []" "rest \<noteq> []" "list_all ?P u"
    using assms unfolding match_line_def Let_def if_Some rest_def prod.inject by metis+
  show "token h" unfolding token_def list_all_iff using d(1,3) by (auto dest: set_takeWhileD)
  show "token u" using d(4,6) by (simp add: token_def)
  have "l = h @ rest" unfolding d(1) rest_def by simp
  moreover have "rest = takeWhile is_space rest @ u" unfolding d(2) by simp
  moreover have "is_space (hd rest)" using hd_dropWhile [of ?P l] d(5) by (simp add: rest_def)
  then have "takeWhile is_space rest \<noteq> []" using d(5) by (cases rest) simp_all
  moreover have "list_all is_space (takeWhile is_space rest)"
    by (auto simp: list_all_iff dest: set_takeWhileD)
  ultimately show "\<exists>w. l = h @ w @ u \<and> w \<noteq> [] \<and> list_all is_space w" by metis
qed

lemma erase_suffix_entry:
  "CHR ''#'' \<notin> set s \<Longrightarrow> CHR ''#'' \<notin> set h \<Longrightarrow> erase_suffix (host_entry h s) = h"
  by (auto simp: erase_suffix_def host_entry_def dropWhile_append)

lemma sort_mset_cong: "mset xs = mset ys \<Longrightarrow> sort xs = (sort ys :: ('a :: linorder) list)"
  by (rule properties_for_sort) simp_all

section \<open>What the daemons write is what a client reads\<close>

definition host_line :: "string \<times> string \<Rightarrow> string" where
  "host_line = (\<lambda>(h, u). h @ '' '' @ u)"

lemma match_lines_tokens:
  "list_all (\<lambda>(h, u). token h \<and> token u) es \<Longrightarrow> match_lines (map host_line es) = Inr es"
proof (induction es)
  case (Cons e es)
  obtain h u where e: "e = (h, u)" by fastforce
  have "match_line (host_line e) = Some e"
    using match_line_tokens [of h u] Cons.prems by (simp add: e host_line_def)
  then show ?case using Cons by simp
qed simp

lemma LF_token: "token h \<Longrightarrow> LF \<notin> set h"
  by (auto simp: token_def list_all_iff)

definition hosts_text :: "(string \<times> string) list \<Rightarrow> string" where
  "hosts_text es = concat (map (\<lambda>e. host_line e @ [LF]) es)"

lemma hosts_text_simps [simp]:
  "hosts_text [] = []" "hosts_text (e # es) = host_line e @ LF # hosts_text es"
  by (simp_all add: hosts_text_def)

lemma LF_host_line: "token h \<Longrightarrow> token u \<Longrightarrow> LF \<notin> set (host_line (h, u))"
  using LF_token by (auto simp: host_line_def LF_def)

lemma get_lines_hosts_text:
  "list_all (\<lambda>(h, u). token h \<and> token u) es \<Longrightarrow> get_lines (hosts_text es) = map host_line es"
proof (induction es)
  case (Cons e es)
  then have "LF \<notin> set (host_line e)" by (cases e) (simp add: LF_host_line)
  then show ?case using Cons by (simp add: get_lines_line)
qed simp

lemma load_hosts_text:
  assumes "fs f = Some (hosts_text es)" "es \<noteq> []" "list_all (\<lambda>(h, u). token h \<and> token u) es"
  shows "load_hostfile fs f = res_bind (extract_protocol (snd (hd es))) (\<lambda>(protocol, auto_sm).
    Inr \<lparr>hi_hosts = map (\<lambda>(h, uri). (erase_suffix h, uri)) (sort es),
         hi_protocol = protocol, hi_auto_sm = auto_sm\<rparr>)"
  using assms by (simp add: load_hostfile_def get_lines_hosts_text match_lines_tokens hd_conv_nth)

text \<open>A daemon that registers itself: its node, its root directory suffix and its address.\<close>

type_synonym registration = "node \<times> string \<times> string"

definition reg_entry :: "registration \<Rightarrow> string \<times> string" where
  "reg_entry = (\<lambda>(nd, suffix, addr). (host_entry (get_my_hostname nd True) suffix, addr))"

definition reg_ok :: "path \<Rightarrow> registration \<Rightarrow> bool" where
  "reg_ok f = (\<lambda>(nd, suffix, addr). nd_open_append nd f \<and> nd_write nd f \<and>
     token (get_my_hostname nd True) \<and> CHR ''#'' \<notin> set (get_my_hostname nd True) \<and>
     list_all (\<lambda>c. \<not> is_space c) suffix \<and> CHR ''#'' \<notin> set suffix \<and> token addr)"

fun register_daemons :: "registration list \<Rightarrow> path \<Rightarrow> (files, unit) cmd" where
  "register_daemons [] f = cret ()"
| "register_daemons ((nd, suffix, addr) # ds) f =
     cbind (populate_hosts_file nd f suffix addr) (\<lambda>_. register_daemons ds f)"

lemma register_daemons_text:
  "list_all (reg_ok f) ds \<Longrightarrow> fs f = Some old \<Longrightarrow>
     register_daemons ds f fs = (Inr (), fs(f \<mapsto> old @ hosts_text (map reg_entry ds)))"
proof (induction ds arbitrary: fs old)
  case (Cons d ds)
  obtain nd suffix addr where d: "d = (nd, suffix, addr)" by (cases d) auto
  let ?old = "old @ host_line (reg_entry d) @ [LF]"
  have "populate_hosts_file nd f suffix addr fs = (Inr (), fs(f \<mapsto> ?old))"
    using Cons.prems by (simp add: d reg_ok_def populate_hosts_file_def reg_entry_def host_line_def Let_def)
  moreover have "register_daemons ds f (fs(f \<mapsto> ?old)) =
      (Inr (), fs(f \<mapsto> ?old @ hosts_text (map reg_entry ds)))"
    using Cons.IH [of "fs(f \<mapsto> ?old)" ?old] Cons.prems(1) by (simp del: fun_upd_apply add: fun_upd_same)
  ultimately show ?case by (simp add: d cbind_ok del: fun_upd_apply)
qed (simp add: cmd_simps fun_upd_idem)

text \<open>The first daemon finds no file, which is as good as an empty one.\<close>

lemma register_daemons_created:
  assumes "list_all (reg_ok f) ds" "ds \<noteq> []" "fs f = None \<or> fs f = Some []"
  shows "register_daemons ds f fs = (Inr (), fs(f \<mapsto> hosts_text (map reg_entry ds)))"
proof -
  obtain nd suffix addr ds' where d: "ds = (nd, suffix, addr) # ds'" using assms(2) by (cases ds) auto
  have "populate_hosts_file nd f suffix addr fs = populate_hosts_file nd f suffix addr (fs(f \<mapsto> []))"
    using assms(1,3) by (auto simp: d reg_ok_def populate_hosts_file_def Let_def)
  then have "register_daemons ds f fs = register_daemons ds f (fs(f \<mapsto> []))"
    by (simp add: d cbind_def del: fun_upd_apply)
  then show ?thesis using register_daemons_text [OF assms(1), of "fs(f \<mapsto> [])" "[]"] by simp
qed

lemma reg_entry_token: "reg_ok f d \<Longrightarrow> token (fst (reg_entry d)) \<and> token (snd (reg_entry d))"
  by (auto simp: reg_ok_def reg_entry_def host_entry_def token_def split: prod.splits)

lemma reg_entry_tokens:
  "list_all (reg_ok f) ds \<Longrightarrow> list_all (\<lambda>(h, u). token h \<and> token u) (map reg_entry ds)"
  using reg_entry_token by (fastforce simp: list_all_iff)

lemma erase_suffix_reg:
  "reg_ok f d \<Longrightarrow> (case reg_entry d of (h, u) \<Rightarrow> (erase_suffix h, u)) =
     (get_my_hostname (fst d) True, snd (snd d))"
  by (auto simp: reg_ok_def reg_entry_def erase_suffix_entry split: prod.splits)

text \<open>The hosts a client gets, in the order of the sorted lines.\<close>

definition known_hosts :: "registration list \<Rightarrow> (string \<times> string) list" where
  "known_hosts ds = map (\<lambda>(h, u). (erase_suffix h, u)) (sort (map reg_entry ds))"

lemma known_hosts_perm: "mset ds = mset ds' \<Longrightarrow> known_hosts ds = known_hosts ds'"
  unfolding known_hosts_def
  by (rule arg_cong [where f = "map _"], rule sort_mset_cong) (simp add: mset_map)

lemma known_hosts_mset:
  assumes "list_all (reg_ok f) ds"
  shows "mset (known_hosts ds) = mset (map (\<lambda>d. (get_my_hostname (fst d) True, snd (snd d))) ds)"
proof -
  have "mset (known_hosts ds) = image_mset (\<lambda>d. case reg_entry d of (h, u) \<Rightarrow> (erase_suffix h, u)) (mset ds)"
    by (simp add: known_hosts_def multiset.map_comp comp_def)
  also have "\<dots> = mset (map (\<lambda>d. (get_my_hostname (fst d) True, snd (snd d))) ds)"
    unfolding mset_map using assms erase_suffix_reg
    by (intro image_mset_cong) (auto simp: list_all_iff)
  finally show ?thesis .
qed

lemma load_registered:
  assumes "list_all (reg_ok f) ds" "ds \<noteq> []" "fs f = None \<or> fs f = Some []"
    "extract_protocol (snd (snd (hd ds))) = Inr (protocol, sm)"
  shows "load_hostfile (snd (register_daemons ds f fs)) f =
    Inr \<lparr>hi_hosts = known_hosts ds, hi_protocol = protocol, hi_auto_sm = sm\<rparr>"
proof -
  have "snd (hd (map reg_entry ds)) = snd (snd (hd ds))"
    using assms(2) by (cases ds) (auto simp: reg_entry_def)
  then show ?thesis
    using load_hosts_text [of _ f "map reg_entry ds", OF _ _ reg_entry_tokens [OF assms(1)]] assms(2,4)
    by (simp add: register_daemons_created [where fs = fs, OF assms(1-3)] known_hosts_def)
qed

end
