(* ===== verification/Daemon_Start.thy ===== *)
theory Daemon_Start
  imports Hosts_File Rpc_Classes
begin

text \<open>
  The life of a daemon: \<open>daemon/daemon.cpp\<close> with the constructors of \<open>MetadataDB\<close>, its backend
  and \<open>ChunkStorage\<close>. The command line is parsed by a library: an option that was given is \<open>Some\<close>
  of its value, a flag is a truth value. The local file system is the map \<open>st_dirs\<close> of
  \<open>Chunk_Storage\<close> (its calls take their outcomes from \<open>st_script\<close>); what RocksDB keeps in a
  directory while no process has it open is \<open>sv_dbs\<close>.
\<close>

section \<open>The node and the process\<close>

record margo_options =
  mo_bind_addr :: string
  mo_auto_sm :: bool
  mo_no_block :: bool
  mo_rpc_threads :: nat

text \<open>What a daemon asks its node and its libraries: the canonical form of a path, which paths lie
  in the tree of a directory, access rights, \<open>DB::Open\<close> on what a directory holds (None when it
  fails; a missing store is created), and Margo's start and address.\<close>

record 'db host =
  hs_node :: node
  hs_canonical :: "path \<Rightarrow> path res"
  hs_below :: "path \<Rightarrow> path \<Rightarrow> bool"
  hs_access :: "path \<Rightarrow> bool"
  hs_open_db :: "path \<Rightarrow> 'db option \<Rightarrow> 'db option"
  hs_margo_init :: "margo_options \<Rightarrow> bool"
  hs_self_addr :: "margo_options \<Rightarrow> string"

record cli_options =
  op_mountdir :: "string option"
  op_rootdir :: "string option"
  op_rootdir_suffix :: "string option"
  op_metadir :: "string option"
  op_listen :: "string option"
  op_hosts_file :: "string option"
  op_rpc_protocol :: "string option"
  op_dbbackend :: "string option"
  op_parallax_size :: "string option"
  op_stats_file :: "string option"
  op_auto_sm :: bool
  op_clean_rootdir :: bool
  op_clean_rootdir_finish :: bool
  op_enable_collection :: bool
  op_enable_chunkstats :: bool
  op_version :: bool

text \<open>The fields of \<open>GAOFS_DATA\<close> that only the start and the end use.\<close>

record settings =
  se_hosts_file :: string
  se_bind_addr :: string
  se_rpc_protocol :: string
  se_use_auto_sm :: bool
  se_rootdir_suffix :: string
  se_metadir :: path
  se_dbbackend :: string
  se_parallax_size_md :: u64
  se_enable_stats :: bool
  se_enable_chunkstats :: bool
  se_stats_file :: string

text \<open>The process and what its node keeps: the singletons (\<open>sv_mdb\<close> is the directory of the open
  store), \<open>keep_rootdir\<close>, the environment variable \<open>FI_VERBS_IFACE\<close>, the stores on disk and the
  shared files.\<close>

record 'db server =
  sv_daemon :: "'db daemon"
  sv_settings :: settings
  sv_mdb :: "path option"
  sv_self_addr :: string
  sv_server_rpc_mid :: bool
  sv_io_streams :: nat
  sv_stats :: bool
  sv_keep_rootdir :: bool
  sv_verbs_iface :: "string option"
  sv_dbs :: "path \<rightharpoonup> 'db"
  sv_files :: files

definition on_daemon :: "('db daemon, 'a) cmd \<Rightarrow> ('db server, 'a) cmd" where
  "on_daemon m = (\<lambda>s. case m (sv_daemon s) of (r, d) \<Rightarrow> (r, s\<lparr>sv_daemon := d\<rparr>))"

definition on_disk :: "(chunk_storage, 'a) cmd \<Rightarrow> ('db server, 'a) cmd" where
  "on_disk m = on_daemon (on_storage m)"

definition on_files :: "(files, 'a) cmd \<Rightarrow> ('db server, 'a) cmd" where
  "on_files m = (\<lambda>s. case m (sv_files s) of (r, fs) \<Rightarrow> (r, s\<lparr>sv_files := fs\<rparr>))"

definition upd :: "('s \<Rightarrow> 's) \<Rightarrow> ('s, unit) cmd" where
  "upd f = (\<lambda>s. (Inr (), f s))"

definition set_settings :: "(settings \<Rightarrow> settings) \<Rightarrow> ('db server, unit) cmd" where
  "set_settings f = upd (\<lambda>s. s\<lparr>sv_settings := f (sv_settings s)\<rparr>)"

definition set_daemon :: "('db daemon \<Rightarrow> 'db daemon) \<Rightarrow> ('db server, unit) cmd" where
  "set_daemon f = upd (\<lambda>s. s\<lparr>sv_daemon := f (sv_daemon s)\<rparr>)"

text \<open>A \<open>try\<close> block that answers whether an exception ended it.\<close>

definition try_std :: "('s, unit) cmd \<Rightarrow> ('s, bool) cmd" where
  "try_std m = ccatch (cbind m (\<lambda>_. cret True)) (\<lambda>e. if is_std_exception e then cret False else craise e)"

section \<open>std::filesystem\<close>

text \<open>\<open>fs::path::operator/=\<close>: an absolute second path replaces the first.\<close>

definition path_append :: "path \<Rightarrow> path \<Rightarrow> path" where
  "path_append p q =
    (if is_absolute q then q
     else if p \<noteq> [] \<and> last p \<noteq> separator then p @ [separator] @ q else p @ q)"

definition ancestor :: "path \<Rightarrow> path \<Rightarrow> bool" where
  "ancestor q p \<longleftrightarrow> q \<noteq> [] \<and> (q = p \<or> take (Suc (length q)) p = q @ [separator])"

definition create_directories :: "path \<Rightarrow> ('db server, unit) cmd" where
  "create_directories p =
    (if p = [] then craise (SystemError EINVAL) else
     on_disk (cbind pop_outcome (\<lambda>r. \<lambda>st. case r of
       Fail e \<Rightarrow> (Inl (SystemError e), st)
     | _ \<Rightarrow> (Inr (), st\<lparr>st_dirs := (\<lambda>q. if ancestor q p \<and> st_dirs st q = None then Some [] else st_dirs st q)\<rparr>))))"

text \<open>\<open>fs::remove_all\<close> with an error code as its result; a failing call removes nothing.\<close>

definition remove_all :: "'db host \<Rightarrow> path \<Rightarrow> ('db server, errno option) cmd" where
  "remove_all H p =
    cbind (on_disk pop_outcome) (\<lambda>r. \<lambda>s. case r of
      Fail e \<Rightarrow> (Inr (Some e), s)
    | _ \<Rightarrow> (Inr None, s\<lparr>sv_dbs := (\<lambda>q. if hs_below H p q then None else sv_dbs s q),
        sv_files := (\<lambda>q. if hs_below H p q then None else sv_files s q),
        sv_daemon := (sv_daemon s)\<lparr>storage := (storage (sv_daemon s))\<lparr>st_dirs :=
          (\<lambda>q. if hs_below H p q then None else st_dirs (storage (sv_daemon s)) q)\<rparr>\<rparr>\<rparr>))"

definition remove_all_throwing :: "'db host \<Rightarrow> path \<Rightarrow> ('db server, unit) cmd" where
  "remove_all_throwing H p = cbind (remove_all H p) (\<lambda>r. case r of
      None \<Rightarrow> cret () | Some e \<Rightarrow> craise (SystemError e))"

section \<open>The command line\<close>

text \<open>\<open>std::stoi\<close>: \<open>stol\<close> and a check of the range of \<open>int\<close>.\<close>

definition stoi :: "string \<Rightarrow> u64 res" where
  "stoi s = res_bind (stol s) (\<lambda>(v, n).
    if - (2 ^ 31) \<le> sint v \<and> sint v < 2 ^ 31 then Inr v else Inl OutOfRange)"

definition parallax_size_md :: "u32 \<Rightarrow> u64" where
  "parallax_size_md size_md = ucast size_md * 1024 * 1024 * 1024"

definition given :: "string option \<Rightarrow> bool" where
  "given x = (x \<noteq> None)"

definition parse_rpc :: "'db host \<Rightarrow> cli_options \<Rightarrow> ('db server, unit) cmd" where
  "parse_rpc H opts =
    (let rpc_protocol = (case op_rpc_protocol opts of Some p \<Rightarrow> p | None \<Rightarrow> ''ofi+sockets'') in
     if rpc_protocol \<notin> {''ofi+verbs'', ''ofi+sockets'', ''ofi+psm2''} then craise RuntimeError else
     cbind (set_settings (\<lambda>g. g\<lparr>se_use_auto_sm := op_auto_sm opts\<rparr>)) (\<lambda>_.
     cbind (case op_listen opts of
         Some addr \<Rightarrow>
           if rpc_protocol = ''ofi+verbs''
           then cbind (upd (\<lambda>s. if sv_verbs_iface s = None then s\<lparr>sv_verbs_iface := Some addr\<rparr> else s)) (\<lambda>_. cret [])
           else cret addr
       | None \<Rightarrow> cret (if rpc_protocol \<noteq> ''ofi+verbs'' then get_my_hostname (hs_node H) True else [])) (\<lambda>addr.
     set_settings (\<lambda>g. g\<lparr>se_rpc_protocol := rpc_protocol,
       se_bind_addr := rpc_protocol @ ''://'' @ addr\<rparr>))))"

definition parse_hosts_file :: "'db host \<Rightarrow> cli_options \<Rightarrow> ('db server, unit) cmd" where
  "parse_hosts_file H opts = set_settings (\<lambda>g. g\<lparr>se_hosts_file := (case op_hosts_file opts of
      Some f \<Rightarrow> f
    | None \<Rightarrow> get_var (hs_node H) daemon_hosts_file_var hostfile_path)\<rparr>)"

definition parse_mountdir :: "'db host \<Rightarrow> cli_options \<Rightarrow> ('db server, unit) cmd" where
  "parse_mountdir H opts =
    cbind (cassert (given (op_mountdir opts))) (\<lambda>_.
    cbind (create_directories (the (op_mountdir opts))) (\<lambda>_.
    cbind (clift (hs_canonical H (the (op_mountdir opts)))) (\<lambda>m.
    set_daemon (\<lambda>d. d\<lparr>mountdir := m\<rparr>))))"

definition data_chunk_dir :: string where "data_chunk_dir = ''chunks''"
definition metadata_dir :: string where "metadata_dir = ''metadata''"

text \<open>The root directory of this daemon and the suffix it remembers.\<close>

definition parse_suffix :: "cli_options \<Rightarrow> path \<Rightarrow> ('db server, path) cmd" where
  "parse_suffix opts dir = (case op_rootdir_suffix opts of
      None \<Rightarrow> cret dir
    | Some sfx \<Rightarrow>
        if sfx = data_chunk_dir \<or> sfx = metadata_dir then craise RuntimeError
        else if CHR ''#'' \<in> set sfx then craise RuntimeError
        else cbind (set_settings (\<lambda>g. g\<lparr>se_rootdir_suffix := sfx\<rparr>)) (\<lambda>_. cret (path_append dir sfx)))"

definition parse_rootdir :: "'db host \<Rightarrow> cli_options \<Rightarrow> ('db server, unit) cmd" where
  "parse_rootdir H opts =
    cbind (cassert (given (op_rootdir opts))) (\<lambda>_.
    cbind (parse_suffix opts (the (op_rootdir opts))) (\<lambda>rootdir_path.
    cbind (if op_clean_rootdir opts then remove_all_throwing H rootdir_path else cret ()) (\<lambda>_.
    cbind (upd (\<lambda>s. if op_clean_rootdir_finish opts then s\<lparr>sv_keep_rootdir := False\<rparr> else s)) (\<lambda>_.
    cbind (create_directories rootdir_path) (\<lambda>_.
    set_daemon (\<lambda>d. d\<lparr>rootdir := rootdir_path\<rparr>))))))"

definition parse_metadir :: "'db host \<Rightarrow> cli_options \<Rightarrow> ('db server, unit) cmd" where
  "parse_metadir H opts = (case op_metadir opts of
      Some metadir_path \<Rightarrow>
        cbind (if op_clean_rootdir opts then remove_all_throwing H metadir_path else cret ()) (\<lambda>_.
        cbind (create_directories metadir_path) (\<lambda>_.
        cbind (clift (hs_canonical H metadir_path)) (\<lambda>m.
        set_settings (\<lambda>g. g\<lparr>se_metadir := m\<rparr>))))
    | None \<Rightarrow> upd (\<lambda>s. s\<lparr>sv_settings := (sv_settings s)\<lparr>se_metadir := rootdir (sv_daemon s)\<rparr>\<rparr>))"

definition rocksdb_backend :: string where "rocksdb_backend = ''rocksdb''"

text \<open>The build has RocksDB and not Parallax.\<close>

definition parse_backend :: "cli_options \<Rightarrow> ('db server, unit) cmd" where
  "parse_backend opts =
    cbind (case op_dbbackend opts of
        Some b \<Rightarrow> if b = rocksdb_backend then set_settings (\<lambda>g. g\<lparr>se_dbbackend := b\<rparr>) else craise RuntimeError
      | None \<Rightarrow> set_settings (\<lambda>g. g\<lparr>se_dbbackend := rocksdb_backend\<rparr>)) (\<lambda>_.
    case op_parallax_size opts of
      Some n \<Rightarrow> cbind (clift (stoi n)) (\<lambda>v. set_settings (\<lambda>g. g\<lparr>se_parallax_size_md := parallax_size_md (ucast v)\<rparr>))
    | None \<Rightarrow> cret ())"

definition parse_stats :: "cli_options \<Rightarrow> ('db server, unit) cmd" where
  "parse_stats opts = set_settings (\<lambda>g.
    let g = (if op_enable_collection opts then g\<lparr>se_enable_stats := True\<rparr> else g);
        g = (if op_enable_chunkstats opts then g\<lparr>se_enable_chunkstats := True\<rparr> else g)
    in g\<lparr>se_stats_file := (case op_stats_file opts of Some f \<Rightarrow> f | None \<Rightarrow> [])\<rparr>)"

definition parse_input :: "'db host \<Rightarrow> cli_options \<Rightarrow> ('db server, unit) cmd" where
  "parse_input H opts =
    cbind (parse_rpc H opts) (\<lambda>_.
    cbind (parse_hosts_file H opts) (\<lambda>_.
    cbind (parse_mountdir H opts) (\<lambda>_.
    cbind (parse_rootdir H opts) (\<lambda>_.
    cbind (parse_metadir H opts) (\<lambda>_.
    cbind (parse_backend opts) (\<lambda>_.
    parse_stats opts))))))"

section \<open>Start\<close>

definition daemon_io_xstreams :: nat where "daemon_io_xstreams = 8"
definition daemon_handler_xstreams :: nat where "daemon_handler_xstreams = 4"

text \<open>A margo or Argobots call that must succeed.\<close>

definition must :: "('db server, unit) cmd" where
  "must = cbind (on_daemon pop_rpc) (\<lambda>ok. if ok then cret () else craise RuntimeError)"

primrec create_xstreams :: "nat \<Rightarrow> ('db server, unit) cmd" where
  "create_xstreams 0 = cret ()"
| "create_xstreams (Suc k) = cbind must (\<lambda>_. create_xstreams k)"

definition init_io_tasklet_pool :: "('db server, unit) cmd" where
  "init_io_tasklet_pool =
    cbind must (\<lambda>_.
    cbind (create_xstreams daemon_io_xstreams) (\<lambda>_.
    upd (\<lambda>s. s\<lparr>sv_io_streams := daemon_io_xstreams\<rparr>)))"

definition margo_options_of :: "settings \<Rightarrow> margo_options" where
  "margo_options_of g = \<lparr>mo_bind_addr = se_bind_addr g, mo_auto_sm = se_use_auto_sm g,
     mo_no_block = (''ofi+psm2'' = se_rpc_protocol g), mo_rpc_threads = daemon_handler_xstreams\<rparr>"

text \<open>\<open>register_server_rpcs\<close>, the last call, is in \<open>Rpc_Classes\<close>.\<close>

definition init_rpc_server :: "'db host \<Rightarrow> ('db server, unit) cmd" where
  "init_rpc_server H =
    cbind (cget (\<lambda>s. margo_options_of (sv_settings s))) (\<lambda>mo.
    if \<not> hs_margo_init H mo then craise RuntimeError else
    cbind must (\<lambda>_.
    cbind must (\<lambda>_.
    upd (\<lambda>s. s\<lparr>sv_self_addr := c_str (hs_self_addr H mo), sv_server_rpc_mid := True\<rparr>))))"

text \<open>The constructor of \<open>RocksDBBackend\<close> opens the store of a directory, which \<open>MetadataDBFactory\<close> creates
  below the directory of \<open>MetadataDB\<close>. Another backend than RocksDB ends the process.\<close>

definition RocksDBBackend :: "'db host \<Rightarrow> path \<Rightarrow> ('db server, unit) cmd" where
  "RocksDBBackend H p = (\<lambda>s. case hs_open_db H p (sv_dbs s p) of
      None \<Rightarrow> (Inl RuntimeError, s)
    | Some db \<Rightarrow> (Inr (), s\<lparr>sv_daemon := (sv_daemon s)\<lparr>d_mdb := db\<rparr>, sv_mdb := Some p\<rparr>))"

definition MetadataDB :: "'db host \<Rightarrow> path \<Rightarrow> string \<Rightarrow> ('db server, unit) cmd" where
  "MetadataDB H p database =
    (if database = rocksdb_backend then
       let metadata_path = p @ [separator] @ rocksdb_backend in
       cbind (create_directories metadata_path) (\<lambda>_. RocksDBBackend H metadata_path)
     else craise Abort)"

abbreviation EPERM :: errno where "EPERM \<equiv> 1"

definition ChunkStorage :: "'db host \<Rightarrow> path \<Rightarrow> u64 \<Rightarrow> ('db server, unit) cmd" where
  "ChunkStorage H p chunk_size =
    cbind (cassert (is_absolute p)) (\<lambda>_.
    if \<not> hs_access H p then craise (ChunkStorageException EPERM) else
    set_daemon (\<lambda>d. d\<lparr>storage := (storage d)\<lparr>root_path := p, st_chunksize := chunk_size\<rparr>\<rparr>))"

definition root_mode :: u32 where "root_mode = S_IFDIR OR 448 OR 56 OR 7"

text \<open>An exception other than \<open>ExistsException\<close> becomes a \<open>runtime_error\<close>.\<close>

definition create_root :: "'db daemon_env \<Rightarrow> ('db server, unit) cmd" where
  "create_root E = cbind (clift (new_metadata root_mode)) (\<lambda>root_md.
     ccatch (on_daemon (create E [separator] root_md)) (\<lambda>e.
       if e = ExistsException then cret ()
       else if is_std_exception e then craise RuntimeError else craise e))"

definition register_host :: "'db host \<Rightarrow> ('db server, unit) cmd" where
  "register_host H =
    cbind (cget (\<lambda>s. (se_hosts_file (sv_settings s), se_rootdir_suffix (sv_settings s), sv_self_addr s)))
      (\<lambda>(hosts_file, sfx, addr).
        if hosts_file \<noteq> [] then on_files (populate_hosts_file (hs_node H) hosts_file sfx addr) else cret ())"

definition set_metadata_states :: "md_config \<Rightarrow> 'db daemon \<Rightarrow> 'db daemon" where
  "set_metadata_states cfg d = d\<lparr>atime_state := use_atime cfg, mtime_state := use_mtime cfg,
     ctime_state := use_ctime cfg, link_cnt_state := use_link_cnt cfg, blocks_state := use_blocks cfg\<rparr>"

definition daemon_init_environment :: "'db daemon_env \<Rightarrow> 'db host \<Rightarrow> ('db server, unit) cmd" where
  "daemon_init_environment E H =
    cbind (cget (\<lambda>s. se_metadir (sv_settings s) @ [separator] @ metadata_dir)) (\<lambda>metadata_path.
    cbind (create_directories metadata_path) (\<lambda>_.
    cbind (cget (\<lambda>s. se_dbbackend (sv_settings s))) (\<lambda>dbbackend.
    cbind (MetadataDB H metadata_path dbbackend) (\<lambda>_.
    cbind (set_daemon (\<lambda>d. d\<lparr>distributor_ref := SimpleHashDistributor 0 0\<rparr>)) (\<lambda>_.
    cbind (upd (\<lambda>s. if se_enable_stats (sv_settings s) \<or> se_enable_chunkstats (sv_settings s)
                    then s\<lparr>sv_stats := True\<rparr> else s)) (\<lambda>_.
    cbind (cget (\<lambda>s. rootdir (sv_daemon s) @ [separator] @ data_chunk_dir)) (\<lambda>chunk_storage_path.
    cbind (create_directories chunk_storage_path) (\<lambda>_.
    cbind (ChunkStorage H chunk_storage_path chunksize) (\<lambda>_.
    cbind (init_rpc_server H) (\<lambda>_.
    cbind init_io_tasklet_pool (\<lambda>_.
    cbind (set_daemon (set_metadata_states (env_cfg E))) (\<lambda>_.
    cbind (create_root E) (\<lambda>_.
    register_host H)))))))))))))"

section \<open>End\<close>

text \<open>A store whose directory is gone when it is closed leaves nothing.\<close>

definition close_mdb :: "('db server, unit) cmd" where
  "close_mdb = upd (\<lambda>s. case sv_mdb s of
      None \<Rightarrow> s
    | Some p \<Rightarrow> s\<lparr>sv_mdb := None, sv_dbs :=
        (if st_dirs (storage (sv_daemon s)) p = None then sv_dbs s else (sv_dbs s)(p \<mapsto> d_mdb (sv_daemon s)))\<rparr>)"

definition remove_rootdirs :: "'db host \<Rightarrow> ('db server, unit) cmd" where
  "remove_rootdirs H =
    cbind (cget (\<lambda>s. (sv_keep_rootdir s, se_metadir (sv_settings s), rootdir (sv_daemon s)))) (\<lambda>(keep, metadir, root).
      if keep then cret ()
      else cbind (remove_all H metadir) (\<lambda>_. cbind (remove_all H root) (\<lambda>_. cret ())))"

definition destroy_enviroment :: "'db host \<Rightarrow> ('db server, unit) cmd" where
  "destroy_enviroment H =
    cbind (cget (\<lambda>s. daemon.mountdir (sv_daemon s))) (\<lambda>m.
    cbind (remove_all H m) (\<lambda>_.
    cbind (cget (\<lambda>s. se_hosts_file (sv_settings s))) (\<lambda>hosts_file.
    cbind (if hosts_file \<noteq> [] then on_files (destroy_hosts_file hosts_file) else cret ()) (\<lambda>_.
    cbind close_mdb (\<lambda>_.
    cbind (remove_rootdirs H) (\<lambda>_.
    upd (\<lambda>s. s\<lparr>sv_stats := False\<rparr>)))))))"

text \<open>\<open>main\<close> after the command line was read; \<open>run\<close> is what the daemon does until the signal. The
  result is the exit code.\<close>

definition daemon_main ::
    "'db daemon_env \<Rightarrow> 'db host \<Rightarrow> cli_options \<Rightarrow> ('db daemon \<Rightarrow> 'db daemon) \<Rightarrow> ('db server, nat) cmd" where
  "daemon_main E H opts run =
    (if op_version opts then cret 0 else
     cbind (try_std (parse_input H opts)) (\<lambda>ok. if \<not> ok then cret 1 else
     cbind (try_std (daemon_init_environment E H)) (\<lambda>ok.
       if \<not> ok then cbind (destroy_enviroment H) (\<lambda>_. cret 1)
       else cbind (set_daemon run) (\<lambda>_. cbind (destroy_enviroment H) (\<lambda>_. cret 0)))))"

end
