(* ===== verification/Daemon_Restart.thy ===== *)
theory Daemon_Restart
  imports Daemon_Start File_Data
begin

text \<open>
  What the start of a daemon makes of the disk it finds: it serves what was stored, or a file
  system with nothing but its root directory. The locale \<open>daemon_host\<close> is the interface to the
  node: a store opens with the content it was closed with, and the other calls succeed.
\<close>

section \<open>Steps on an undisturbed node\<close>

text \<open>No call of the process fails any more.\<close>

definition quiet :: "'db server \<Rightarrow> bool" where
  "quiet s \<longleftrightarrow> rpc_script (sv_daemon s) = [] \<and> st_script (storage (sv_daemon s)) = []"

definition dir_files :: "'db server \<Rightarrow> path \<Rightarrow> (string \<times> bytes) list" where
  "dir_files s q = (case st_dirs (storage (sv_daemon s)) q of None \<Rightarrow> [] | Some es \<Rightarrow> es)"

text \<open>What is left of the disk when the paths of \<open>P\<close> were removed.\<close>

definition trimmed :: "(path \<Rightarrow> bool) \<Rightarrow> 'db server \<Rightarrow> 'db server \<Rightarrow> bool" where
  "trimmed P s s' \<longleftrightarrow> quiet s' \<and> sv_dbs s' = (\<lambda>q. if P q then None else sv_dbs s q) \<and>
     dir_files s' = (\<lambda>q. if P q then [] else dir_files s q) \<and>
     sv_files s' = (\<lambda>q. if P q then None else sv_files s q) \<and> sv_mdb s' = sv_mdb s \<and>
     d_mdb (sv_daemon s') = d_mdb (sv_daemon s)"

lemma trimmed_trans:
  "trimmed P s s' \<Longrightarrow> trimmed Q s' s'' \<Longrightarrow> trimmed (\<lambda>q. P q \<or> Q q) s s''"
  by (auto simp: trimmed_def fun_eq_iff)

text \<open>The parts of the state the rest of the start looks at.\<close>

definition conf :: "'db server \<Rightarrow> path \<times> path \<times> path \<times> string \<times> bool" where
  "conf s = (daemon.mountdir (sv_daemon s), rootdir (sv_daemon s), se_metadir (sv_settings s),
     se_dbbackend (sv_settings s), sv_keep_rootdir s)"

definition dir_exists :: "'db server \<Rightarrow> path \<Rightarrow> bool" where
  "dir_exists s p \<longleftrightarrow> st_dirs (storage (sv_daemon s)) p \<noteq> None"

lemma create_directories_ok:
  assumes "quiet s" "p \<noteq> []"
  shows "\<exists>s'. create_directories p s = (Inr (), s') \<and> trimmed (\<lambda>_. False) s s' \<and> conf s' = conf s \<and>
    sv_settings s' = sv_settings s \<and> dir_exists s' p \<and> (\<forall>q. dir_exists s q \<longrightarrow> dir_exists s' q) \<and>
    root_path (storage (sv_daemon s')) = root_path (storage (sv_daemon s)) \<and>
    st_chunksize (storage (sv_daemon s')) = st_chunksize (storage (sv_daemon s)) \<and>
    stamp (sv_daemon s') = stamp (sv_daemon s)"
  using assms
  by (auto simp: create_directories_def quiet_def on_disk_def on_daemon_def on_storage_def pop_outcome_def
      cbind_def dir_files_def ancestor_def trimmed_def conf_def dir_exists_def fun_eq_iff split: option.splits)

lemma remove_all_ok:
  assumes "quiet s"
  shows "\<exists>s'. remove_all H p s = (Inr None, s') \<and> trimmed (hs_below H p) s s' \<and> conf s' = conf s \<and>
    sv_settings s' = sv_settings s \<and> (\<forall>q. \<not> hs_below H p q \<longrightarrow> dir_exists s q \<longrightarrow> dir_exists s' q)"
  using assms
  by (auto simp: remove_all_def quiet_def on_disk_def on_daemon_def on_storage_def pop_outcome_def
      cbind_def dir_files_def trimmed_def conf_def dir_exists_def fun_eq_iff)

lemma trimmed_upd:
  assumes "quiet s" "sv_dbs s' = sv_dbs s" "sv_files s' = sv_files s" "sv_mdb s' = sv_mdb s"
    "d_mdb (sv_daemon s') = d_mdb (sv_daemon s)" "rpc_script (sv_daemon s') = rpc_script (sv_daemon s)"
    "st_script (storage (sv_daemon s')) = st_script (storage (sv_daemon s))"
    "st_dirs (storage (sv_daemon s')) = st_dirs (storage (sv_daemon s))"
  shows "trimmed (\<lambda>_. False) s s'"
  using assms by (simp add: trimmed_def quiet_def dir_files_def fun_eq_iff)

lemma trimmed_quiet: "trimmed P s s' \<Longrightarrow> quiet s'"
  by (simp add: trimmed_def)

section \<open>The command line\<close>

definition options_ok :: "'db host \<Rightarrow> cli_options \<Rightarrow> path \<Rightarrow> path \<Rightarrow> path \<Rightarrow> bool" where
  "options_ok H opts mnt root meta \<longleftrightarrow>
     op_rpc_protocol opts \<in> {None, Some ''ofi+sockets'', Some ''ofi+verbs'', Some ''ofi+psm2''} \<and>
     (case op_mountdir opts of None \<Rightarrow> False | Some m \<Rightarrow> m \<noteq> [] \<and> hs_canonical H m = Inr mnt) \<and>
     (case op_rootdir opts of None \<Rightarrow> False | Some r \<Rightarrow> (case op_rootdir_suffix opts of
        None \<Rightarrow> root = r
      | Some x \<Rightarrow> x \<notin> {data_chunk_dir, metadata_dir} \<and> CHR ''#'' \<notin> set x \<and> root = path_append r x)) \<and>
     is_absolute root \<and>
     (case op_metadir opts of None \<Rightarrow> meta = root | Some p \<Rightarrow> p \<noteq> [] \<and> hs_canonical H p = Inr meta) \<and>
     op_dbbackend opts \<in> {None, Some rocksdb_backend} \<and> op_parallax_size opts = None \<and> \<not> op_version opts"

text \<open>The paths \<open>--clean-rootdir\<close> removes.\<close>

definition cleaned :: "'db host \<Rightarrow> cli_options \<Rightarrow> path \<Rightarrow> path \<Rightarrow> bool" where
  "cleaned H opts root q \<longleftrightarrow> op_clean_rootdir opts \<and>
     (hs_below H root q \<or> (case op_metadir opts of None \<Rightarrow> False | Some m \<Rightarrow> hs_below H m q))"

lemma set_simps [cmd_simps]:
  "upd f s = (Inr (), f s)"
  "set_settings g s = (Inr (), s\<lparr>sv_settings := g (sv_settings s)\<rparr>)"
  "set_daemon k s = (Inr (), s\<lparr>sv_daemon := k (sv_daemon s)\<rparr>)"
  by (simp_all add: upd_def set_settings_def set_daemon_def)

lemma parse_rpc_ok:
  assumes "op_rpc_protocol opts \<in> {None, Some ''ofi+sockets'', Some ''ofi+verbs'', Some ''ofi+psm2''}"
  shows "\<exists>g v. parse_rpc H opts s = (Inr (), s\<lparr>sv_verbs_iface := v, sv_settings := g\<rparr>)"
proof -
  define P where "P = (case op_rpc_protocol opts of Some p \<Rightarrow> p | None \<Rightarrow> ''ofi+sockets'')"
  have P: "P \<in> {''ofi+verbs'', ''ofi+sockets'', ''ofi+psm2''}" using assms by (auto simp: P_def)
  have self: "s\<lparr>sv_settings := g\<rparr> = s\<lparr>sv_verbs_iface := sv_verbs_iface s, sv_settings := g\<rparr>" for g
    by simp
  show ?thesis
    unfolding parse_rpc_def Let_def P_def [symmetric] using P
    by (cases "op_listen opts"; cases "P = ''ofi+verbs''"; cases "sv_verbs_iface s = None")
      (simp_all add: cmd_simps, (blast intro: self)+)
qed

lemma parse_hosts_ok:
  assumes "quiet s" "options_ok H opts mnt root meta"
  shows "\<exists>s'. cbind (parse_rpc H opts) (\<lambda>_. parse_hosts_file H opts) s = (Inr (), s') \<and>
    trimmed (\<lambda>_. False) s s' \<and> sv_daemon s' = sv_daemon s \<and> sv_keep_rootdir s' = sv_keep_rootdir s"
proof -
  obtain g v where r: "parse_rpc H opts s = (Inr (), s\<lparr>sv_verbs_iface := v, sv_settings := g\<rparr>)"
    using parse_rpc_ok assms(2) unfolding options_ok_def by blast
  then show ?thesis
    using assms(1) by (auto simp: cmd_simps parse_hosts_file_def intro: trimmed_upd)
qed

lemma parse_mountdir_ok:
  assumes "quiet s" "options_ok H opts mnt root meta"
  shows "\<exists>s'. parse_mountdir H opts s = (Inr (), s') \<and> trimmed (\<lambda>_. False) s s' \<and>
    daemon.mountdir (sv_daemon s') = mnt \<and> sv_keep_rootdir s' = sv_keep_rootdir s"
proof -
  obtain m where m: "op_mountdir opts = Some m" "m \<noteq> []" "hs_canonical H m = Inr mnt"
    using assms(2) by (auto simp: options_ok_def split: option.splits)
  obtain s1 where s1: "create_directories m s = (Inr (), s1)" "trimmed (\<lambda>_. False) s s1" "conf s1 = conf s"
    using create_directories_ok [OF assms(1) m(2)] by blast
  let ?s' = "s1\<lparr>sv_daemon := (sv_daemon s1)\<lparr>daemon.mountdir := mnt\<rparr>\<rparr>"
  have "trimmed (\<lambda>_. False) s1 ?s'" by (rule trimmed_upd [OF trimmed_quiet [OF s1(2)]]) simp_all
  from trimmed_trans [OF s1(2) this] show ?thesis
    using s1(1,3) by (simp add: parse_mountdir_def cmd_simps m given_def conf_def)
qed

lemma clean_ok:
  assumes "quiet s"
  shows "\<exists>s'. (if b then remove_all_throwing H p else cret ()) s = (Inr (), s') \<and>
    trimmed (\<lambda>q. b \<and> hs_below H p q) s s' \<and> conf s' = conf s"
proof (cases b)
  case True
  obtain s' where "remove_all H p s = (Inr None, s')" "trimmed (hs_below H p) s s'" "conf s' = conf s"
    using remove_all_ok [OF assms] by blast
  then show ?thesis using True by (simp add: remove_all_throwing_def cmd_simps)
qed (simp add: cmd_simps trimmed_upd assms)

lemma path_append_absolute: "is_absolute (path_append p q) \<Longrightarrow> path_append p q \<noteq> []"
  by (auto simp: is_absolute_def)

lemma parse_suffix_ok:
  assumes "quiet s" "options_ok H opts mnt root meta" "op_rootdir opts = Some r"
  shows "\<exists>s'. parse_suffix opts r s = (Inr root, s') \<and> trimmed (\<lambda>_. False) s s' \<and>
    sv_daemon s' = sv_daemon s \<and> sv_keep_rootdir s' = sv_keep_rootdir s"
proof (cases "op_rootdir_suffix opts")
  case None
  then show ?thesis using assms trimmed_upd [OF assms(1), of s]
    by (simp add: parse_suffix_def options_ok_def cmd_simps)
next
  case (Some x)
  let ?s' = "s\<lparr>sv_settings := (sv_settings s)\<lparr>se_rootdir_suffix := x\<rparr>\<rparr>"
  have "trimmed (\<lambda>_. False) s ?s'" by (rule trimmed_upd [OF assms(1)]) simp_all
  moreover have "parse_suffix opts r s = (Inr root, ?s')"
    using assms(2,3) Some by (simp add: parse_suffix_def options_ok_def cmd_simps)
  ultimately show ?thesis by simp
qed

lemma parse_rootdir_ok:
  assumes "quiet s" "options_ok H opts mnt root meta"
  shows "\<exists>s'. parse_rootdir H opts s = (Inr (), s') \<and>
    trimmed (\<lambda>q. op_clean_rootdir opts \<and> hs_below H root q) s s' \<and> rootdir (sv_daemon s') = root \<and>
    daemon.mountdir (sv_daemon s') = daemon.mountdir (sv_daemon s) \<and>
    sv_keep_rootdir s' = (sv_keep_rootdir s \<and> \<not> op_clean_rootdir_finish opts)"
proof -
  obtain r where r: "op_rootdir opts = Some r"
    using assms(2) by (auto simp: options_ok_def split: option.splits)
  have root: "root \<noteq> []" using assms(2) by (auto simp: options_ok_def is_absolute_def)
  obtain s1 where s1: "parse_suffix opts r s = (Inr root, s1)" "trimmed (\<lambda>_. False) s s1"
      "sv_daemon s1 = sv_daemon s" "sv_keep_rootdir s1 = sv_keep_rootdir s"
    using parse_suffix_ok [OF assms r] by blast
  obtain s2 where s2: "(if op_clean_rootdir opts then remove_all_throwing H root else cret ()) s1 = (Inr (), s2)"
      "trimmed (\<lambda>q. op_clean_rootdir opts \<and> hs_below H root q) s1 s2" "conf s2 = conf s1"
    using clean_ok [OF trimmed_quiet [OF s1(2)]] by blast
  define s3 where "s3 = (if op_clean_rootdir_finish opts then s2\<lparr>sv_keep_rootdir := False\<rparr> else s2)"
  have s3: "trimmed (\<lambda>_. False) s2 s3"
    unfolding s3_def by (rule trimmed_upd [OF trimmed_quiet [OF s2(2)]]) simp_all
  obtain s4 where s4: "create_directories root s3 = (Inr (), s4)" "trimmed (\<lambda>_. False) s3 s4" "conf s4 = conf s3"
    using create_directories_ok [OF trimmed_quiet [OF s3] root] by blast
  let ?s' = "s4\<lparr>sv_daemon := (sv_daemon s4)\<lparr>rootdir := root\<rparr>\<rparr>"
  have s': "trimmed (\<lambda>_. False) s4 ?s'" by (rule trimmed_upd [OF trimmed_quiet [OF s4(2)]]) simp_all
  have run: "parse_rootdir H opts s = (Inr (), ?s')"
    using s1(1) s2(1) s4(1) by (simp add: parse_rootdir_def r given_def cbind_apply cassert_apply set_simps
        flip: s3_def)
  have "conf s3 = (case conf s1 of (m, r, me, b, k) \<Rightarrow> (m, r, me, b, k \<and> \<not> op_clean_rootdir_finish opts))"
    using s2(3) by (simp add: s3_def conf_def)
  then show ?thesis
    using run s1(3,4) s4(3) trimmed_trans [OF trimmed_trans [OF trimmed_trans [OF trimmed_trans
          [OF s1(2) s2(2)] s3] s4(2)] s']
    by (simp add: conf_def)
qed

lemma parse_metadir_ok:
  assumes "quiet s" "options_ok H opts mnt root meta" "rootdir (sv_daemon s) = root"
  shows "\<exists>s'. parse_metadir H opts s = (Inr (), s') \<and>
    trimmed (\<lambda>q. op_clean_rootdir opts \<and> (case op_metadir opts of None \<Rightarrow> False | Some m \<Rightarrow> hs_below H m q)) s s' \<and>
    se_metadir (sv_settings s') = meta \<and> rootdir (sv_daemon s') = root \<and>
    daemon.mountdir (sv_daemon s') = daemon.mountdir (sv_daemon s) \<and> sv_keep_rootdir s' = sv_keep_rootdir s"
proof (cases "op_metadir opts")
  case None
  let ?s' = "s\<lparr>sv_settings := (sv_settings s)\<lparr>se_metadir := rootdir (sv_daemon s)\<rparr>\<rparr>"
  have "trimmed (\<lambda>_. False) s ?s'" by (rule trimmed_upd [OF assms(1)]) simp_all
  then show ?thesis using None assms(2,3) by (simp add: parse_metadir_def options_ok_def set_simps)
next
  case (Some p)
  have p: "p \<noteq> []" "hs_canonical H p = Inr meta" using assms(2) Some by (auto simp: options_ok_def)
  obtain s1 where s1: "(if op_clean_rootdir opts then remove_all_throwing H p else cret ()) s = (Inr (), s1)"
      "trimmed (\<lambda>q. op_clean_rootdir opts \<and> hs_below H p q) s s1" "conf s1 = conf s"
    using clean_ok [OF assms(1)] by blast
  obtain s2 where s2: "create_directories p s1 = (Inr (), s2)" "trimmed (\<lambda>_. False) s1 s2" "conf s2 = conf s1"
    using create_directories_ok [OF trimmed_quiet [OF s1(2)] p(1)] by blast
  let ?s' = "s2\<lparr>sv_settings := (sv_settings s2)\<lparr>se_metadir := meta\<rparr>\<rparr>"
  have s': "trimmed (\<lambda>_. False) s2 ?s'" by (rule trimmed_upd [OF trimmed_quiet [OF s2(2)]]) simp_all
  have "parse_metadir H opts s = (Inr (), ?s')"
    using s1(1) s2(1) p(2) by (simp add: parse_metadir_def Some cbind_apply clift_apply set_simps)
  then show ?thesis
    using s1(3) s2(3) assms(3) trimmed_trans [OF trimmed_trans [OF s1(2) s2(2)] s'] Some
    by (simp add: conf_def)
qed

lemma parse_rest_ok:
  assumes "quiet s" "options_ok H opts mnt root meta"
  shows "\<exists>s'. cbind (parse_backend opts) (\<lambda>_. parse_stats opts) s = (Inr (), s') \<and>
    trimmed (\<lambda>_. False) s s' \<and> sv_daemon s' = sv_daemon s \<and> sv_keep_rootdir s' = sv_keep_rootdir s \<and>
    se_metadir (sv_settings s') = se_metadir (sv_settings s) \<and> se_dbbackend (sv_settings s') = rocksdb_backend"
proof -
  have b: "op_dbbackend opts \<in> {None, Some rocksdb_backend}" "op_parallax_size opts = None"
    using assms(2) by (simp_all add: options_ok_def)
  let ?g = "(sv_settings s)\<lparr>se_dbbackend := rocksdb_backend\<rparr>"
  have p: "parse_backend opts s = (Inr (), s\<lparr>sv_settings := ?g\<rparr>)"
    using b by (auto simp: parse_backend_def cmd_simps)
  obtain g where g: "parse_stats opts (s\<lparr>sv_settings := ?g\<rparr>) = (Inr (), s\<lparr>sv_settings := g\<rparr>)"
      "se_metadir g = se_metadir ?g" "se_dbbackend g = se_dbbackend ?g"
    by (simp add: parse_stats_def set_simps Let_def)
  have "trimmed (\<lambda>_. False) s (s\<lparr>sv_settings := g\<rparr>)" by (rule trimmed_upd [OF assms(1)]) simp_all
  then show ?thesis using p g by (simp add: cbind_apply)
qed

lemma parse_input_ok:
  fixes s :: "'db server"
  assumes "quiet s" "options_ok H opts mnt root meta"
  shows "\<exists>s'. parse_input H opts s = (Inr (), s') \<and> trimmed (cleaned H opts root) s s' \<and>
    conf s' = (mnt, root, meta, rocksdb_backend, sv_keep_rootdir s \<and> \<not> op_clean_rootdir_finish opts)"
proof -
  obtain s1 where s1: "cbind (parse_rpc H opts) (\<lambda>_. parse_hosts_file H opts) s = (Inr (), s1)"
      "trimmed (\<lambda>_. False) s s1" "sv_keep_rootdir s1 = sv_keep_rootdir s"
    using parse_hosts_ok [OF assms] by blast
  obtain s2 where s2: "parse_mountdir H opts s1 = (Inr (), s2)" "trimmed (\<lambda>_. False) s1 s2"
      "daemon.mountdir (sv_daemon s2) = mnt" "sv_keep_rootdir s2 = sv_keep_rootdir s1"
    using parse_mountdir_ok [OF trimmed_quiet [OF s1(2)] assms(2)] by blast
  obtain s3 where s3: "parse_rootdir H opts s2 = (Inr (), s3)"
      "trimmed (\<lambda>q. op_clean_rootdir opts \<and> hs_below H root q) s2 s3" "rootdir (sv_daemon s3) = root"
      "daemon.mountdir (sv_daemon s3) = mnt"
      "sv_keep_rootdir s3 = (sv_keep_rootdir s2 \<and> \<not> op_clean_rootdir_finish opts)"
    using parse_rootdir_ok [OF trimmed_quiet [OF s2(2)] assms(2)] s2(3) by auto
  obtain s4 where s4: "parse_metadir H opts s3 = (Inr (), s4)"
      "trimmed (\<lambda>q. op_clean_rootdir opts \<and> (case op_metadir opts of None \<Rightarrow> False | Some m \<Rightarrow> hs_below H m q)) s3 s4"
      "se_metadir (sv_settings s4) = meta" "rootdir (sv_daemon s4) = root"
      "daemon.mountdir (sv_daemon s4) = mnt" "sv_keep_rootdir s4 = sv_keep_rootdir s3"
    using parse_metadir_ok [OF trimmed_quiet [OF s3(2)] assms(2) s3(3)] s3(4) by auto
  obtain s5 where s5: "cbind (parse_backend opts) (\<lambda>_. parse_stats opts) s4 = (Inr (), s5)"
      "trimmed (\<lambda>_. False) s4 s5" "sv_daemon s5 = sv_daemon s4" "sv_keep_rootdir s5 = sv_keep_rootdir s4"
      "se_metadir (sv_settings s5) = meta" "se_dbbackend (sv_settings s5) = rocksdb_backend"
    using parse_rest_ok [OF trimmed_quiet [OF s4(2)] assms(2)] s4(3) by auto
  define A :: "('db server, unit) cmd" where "A = cbind (parse_rpc H opts) (\<lambda>_. parse_hosts_file H opts)"
  define Z :: "('db server, unit) cmd" where "Z = cbind (parse_backend opts) (\<lambda>_. parse_stats opts)"
  have "parse_input H opts = cbind A (\<lambda>_. cbind (parse_mountdir H opts) (\<lambda>_. cbind (parse_rootdir H opts)
      (\<lambda>_. cbind (parse_metadir H opts) (\<lambda>_. Z))))"
    by (simp add: parse_input_def cbind_assoc A_def Z_def)
  then have "parse_input H opts s = (Inr (), s5)"
    using s1(1) s2(1) s3(1) s4(1) s5(1) by (simp add: cbind_apply flip: A_def Z_def)
  moreover have "trimmed (cleaned H opts root) s s5"
    using trimmed_trans [OF trimmed_trans [OF trimmed_trans [OF trimmed_trans [OF s1(2) s2(2)] s3(2)] s4(2)] s5(2)]
    by (simp add: cleaned_def [abs_def] conj_disj_distribL)
  ultimately show ?thesis
    using s1(3) s2(4) s3(5) s4(4-6) s5(3-6) by (simp add: conf_def)
qed

section \<open>The store and the root directory\<close>

definition root_md :: metadata where
  "root_md = empty_metadata\<lparr>md_mode := root_mode\<rparr>"

text \<open>What a store contains, None being no store, and what it contains when the daemon is up.\<close>

definition store_map :: "('db \<Rightarrow> bytes \<rightharpoonup> bytes) \<Rightarrow> 'db option \<Rightarrow> bytes \<rightharpoonup> bytes" where
  "store_map val x = (case x of None \<Rightarrow> Map.empty | Some db \<Rightarrow> val db)"

definition with_root :: "(bytes \<rightharpoonup> bytes) \<Rightarrow> bytes \<rightharpoonup> bytes" where
  "with_root m = (if m [separator] = None then m([separator] \<mapsto> serialize config_metadata root_md) else m)"

definition store_ok :: "('db \<Rightarrow> bytes \<rightharpoonup> bytes) \<Rightarrow> ('db \<Rightarrow> bool) \<Rightarrow> 'db option \<Rightarrow> bool" where
  "store_ok val ok x \<longleftrightarrow> (case x of None \<Rightarrow> True
    | Some db \<Rightarrow> ok db \<and> wf_map config_metadata (val db) \<and> first_chunks_ok (val db))"

definition db_dir :: "path \<Rightarrow> path" where
  "db_dir meta = (meta @ [separator] @ metadata_dir) @ [separator] @ rocksdb_backend"

lemma root_facts [simp]:
  "new_metadata root_mode = Inr root_md" "storable root_md" "valid_key [separator]"
  by (simp_all add: new_metadata_def root_mode_def mode_defs root_md_def storable_def empty_metadata_def
      valid_key_def is_absolute_def)

lemma must_ok [simp]: "quiet s \<Longrightarrow> must s = (Inr (), s)"
  by (simp add: must_def on_daemon_def pop_rpc_def cmd_simps quiet_def)

lemma create_xstreams_ok [simp]: "quiet s \<Longrightarrow> create_xstreams k s = (Inr (), s)"
  by (induction k) (simp_all add: cmd_simps)

locale daemon_host = rocksdb_contract config_metadata R val ok
  for R :: "'db rocksdb" and val :: "'db \<Rightarrow> bytes \<rightharpoonup> bytes" and ok :: "'db \<Rightarrow> bool" +
  fixes H :: "'db host" and hash :: "string \<Rightarrow> u64" and stale :: "nat \<Rightarrow> int"
  assumes open_new: "\<exists>db. hs_open_db H p None = Some db \<and> ok db \<and> val db = Map.empty"
    and open_old: "ok db \<Longrightarrow> \<exists>db'. hs_open_db H p (Some db) = Some db' \<and> ok db' \<and> val db' = val db"
    and margo: "hs_margo_init H mo"
    and access: "hs_access H p"
    and appendable: "nd_open_append (hs_node H) f \<and> nd_write (hs_node H) f"

sublocale daemon_host \<subseteq> store: daemon_store "rocksdb_env config_metadata R hash stale" val ok
  by (rule rocksdb_daemon_store) (rule rocksdb_contract_axioms)

context daemon_host
begin

lemma open_ok:
  assumes "store_ok val ok x"
  shows "\<exists>db. hs_open_db H p x = Some db \<and> ok db \<and> val db = store_map val x \<and>
    wf_map config_metadata (val db) \<and> first_chunks_ok (val db)"
proof (cases x)
  case None
  then show ?thesis using open_new [of p] by (auto simp: store_map_def wf_map_def first_chunks_ok_def)
next
  case (Some db)
  then show ?thesis using open_old [of db p] assms by (auto simp: store_map_def store_ok_def)
qed

lemma create_root_ok:
  assumes "store.fit (sv_daemon s)"
  shows "\<exists>db. create_root (rocksdb_env config_metadata R hash stale) s =
      (Inr (), s\<lparr>sv_daemon := (sv_daemon s)\<lparr>d_mdb := db\<rparr>\<rparr>) \<and> ok db \<and>
    val db = (if val (d_mdb (sv_daemon s)) [separator] = None
       then (val (d_mdb (sv_daemon s)))([separator] \<mapsto> serialize config_metadata (stamp (sv_daemon s) root_md))
       else val (d_mdb (sv_daemon s)))"
proof (cases "val (d_mdb (sv_daemon s)) [separator]")
  case None
  obtain db where db: "create (rocksdb_env config_metadata R hash stale) [separator] root_md (sv_daemon s) =
        (Inr (), (sv_daemon s)\<lparr>d_mdb := db\<rparr>)" "store.ready ((sv_daemon s)\<lparr>d_mdb := db\<rparr>)"
      "val db = (val (d_mdb (sv_daemon s)))([separator] \<mapsto> serialize config_metadata (stamp (sv_daemon s) root_md))"
    using store.create_new [OF store.fit_simps(1) [OF assms] root_facts(3) None root_facts(2)] by auto
  from db(2) have "ok db" unfolding store.ready_def store.usable_def by simp
  then show ?thesis using db(1,3) None by (auto simp: create_root_def cmd_simps on_daemon_def)
next
  case (Some v)
  note old = store.create_old [OF store.fit_simps(1) [OF assms] root_facts(3) Some, of root_md]
  have "ok (d_mdb (sv_daemon s))" using assms unfolding healthy_def by blast
  moreover have "create_root (rocksdb_env config_metadata R hash stale) s = (Inr (), s)"
    by (simp add: create_root_def cbind_apply clift_apply ccatch_apply cret_apply on_daemon_def old)
  ultimately show ?thesis using Some by (intro exI [of _ "d_mdb (sv_daemon s)"]) simp
qed

lemma init_rpc_server_ok: "quiet s \<Longrightarrow> \<exists>a. init_rpc_server H s =
    (Inr (), s\<lparr>sv_self_addr := a, sv_server_rpc_mid := True\<rparr>)"
  by (auto simp: init_rpc_server_def cmd_simps margo)

lemma register_host_ok: "\<exists>fs. register_host H s = (Inr (), s\<lparr>sv_files := fs\<rparr>)"
proof (cases "se_hosts_file (sv_settings s) = []")
  case True
  then show ?thesis by (intro exI [of _ "sv_files s"]) (simp add: register_host_def cmd_simps)
next
  case False
  then show ?thesis using appendable
    by (auto simp: register_host_def cmd_simps on_files_def populate_hosts_file_def Let_def)
qed

lemma wf_with_root: "wf_map config_metadata m \<Longrightarrow> wf_map config_metadata (with_root m)"
  by (simp add: with_root_def wf_map_upd canonical_serialize)

lemma first_chunks_with_root: "first_chunks_ok m \<Longrightarrow> first_chunks_ok (with_root m)"
  by (auto simp: with_root_def first_chunks_ok_def first_chunk_key_def separator_def)

text \<open>A daemon that is up: what it serves, and where its data is.\<close>

definition up :: "(bytes \<rightharpoonup> bytes) \<Rightarrow> path \<Rightarrow> path \<Rightarrow> 'db server \<Rightarrow> bool" where
  "up m root meta s \<longleftrightarrow> data_fit config_metadata val ok (sv_daemon s) \<and>
     val (d_mdb (sv_daemon s)) = with_root m \<and> stamp (sv_daemon s) = (\<lambda>md. md) \<and>
     root_path (storage (sv_daemon s)) = root @ [separator] @ data_chunk_dir \<and>
     sv_mdb s = Some (db_dir meta) \<and> dir_exists s (db_dir meta)"

lemma MetadataDB_ok:
  assumes "quiet s" "store_ok val ok (sv_dbs s (db_dir meta))"
  shows "\<exists>s' db. MetadataDB H (meta @ [separator] @ metadata_dir) rocksdb_backend s =
      (Inr (), s'\<lparr>sv_daemon := (sv_daemon s')\<lparr>d_mdb := db\<rparr>, sv_mdb := Some (db_dir meta)\<rparr>) \<and>
    trimmed (\<lambda>_. False) s s' \<and> conf s' = conf s \<and> dir_exists s' (db_dir meta) \<and>
    ok db \<and> val db = store_map val (sv_dbs s (db_dir meta)) \<and> wf_map config_metadata (val db) \<and>
    first_chunks_ok (val db)"
proof -
  have "db_dir meta \<noteq> []" by (simp add: db_dir_def)
  then obtain s' where s': "create_directories (db_dir meta) s = (Inr (), s')" "trimmed (\<lambda>_. False) s s'"
      "conf s' = conf s" "dir_exists s' (db_dir meta)"
    using create_directories_ok [OF assms(1)] by blast
  obtain db where db: "hs_open_db H (db_dir meta) (sv_dbs s (db_dir meta)) = Some db" "ok db"
      "val db = store_map val (sv_dbs s (db_dir meta))" "wf_map config_metadata (val db)" "first_chunks_ok (val db)"
    using open_ok [OF assms(2), of "db_dir meta"] by blast
  have "sv_dbs s' = sv_dbs s" using s'(2) by (simp add: trimmed_def)
  then have "MetadataDB H (meta @ [separator] @ metadata_dir) rocksdb_backend s =
      (Inr (), s'\<lparr>sv_daemon := (sv_daemon s')\<lparr>d_mdb := db\<rparr>, sv_mdb := Some (db_dir meta)\<rparr>)"
    using s'(1) db(1) by (simp add: MetadataDB_def RocksDBBackend_def Let_def cbind_apply db_dir_def)
  then show ?thesis using s'(2-4) db(2-5) by blast
qed

lemma init_ok:
  assumes "quiet s" "conf s = (mnt, root, meta, rocksdb_backend, keep)" "is_absolute root"
    "store_ok val ok (sv_dbs s (db_dir meta))"
  shows "\<exists>s'. daemon_init_environment (rocksdb_env config_metadata R hash stale) H s = (Inr (), s') \<and>
    up (store_map val (sv_dbs s (db_dir meta))) root meta s' \<and> dir_files s' = dir_files s \<and>
    conf s' = conf s \<and> sv_dbs s' = sv_dbs s"
proof -
  let ?E = "rocksdb_env config_metadata R hash stale"
  have c: "se_metadir (sv_settings s) = meta" "rootdir (sv_daemon s) = root"
      "se_dbbackend (sv_settings s) = rocksdb_backend"
    using assms(2) by (simp_all add: conf_def)
  obtain s1 where s1: "create_directories (meta @ [separator] @ metadata_dir) s = (Inr (), s1)"
      "trimmed (\<lambda>_. False) s s1" "conf s1 = conf s"
    using create_directories_ok [OF assms(1), of "meta @ [separator] @ metadata_dir"] by auto
  have dbs: "sv_dbs s1 = sv_dbs s" using s1(2) by (simp add: trimmed_def)
  obtain s2 db where s2: "MetadataDB H (meta @ [separator] @ metadata_dir) rocksdb_backend s1 =
        (Inr (), s2\<lparr>sv_daemon := (sv_daemon s2)\<lparr>d_mdb := db\<rparr>, sv_mdb := Some (db_dir meta)\<rparr>)"
      "trimmed (\<lambda>_. False) s1 s2" "conf s2 = conf s1" "dir_exists s2 (db_dir meta)"
    and db: "ok db" "val db = store_map val (sv_dbs s (db_dir meta))" "wf_map config_metadata (val db)"
      "first_chunks_ok (val db)"
    using MetadataDB_ok [OF trimmed_quiet [OF s1(2)], of meta] assms(4) dbs by auto
  define stats where "stats = (\<lambda>s :: 'db server. if se_enable_stats (sv_settings s) \<or>
     se_enable_chunkstats (sv_settings s) then s\<lparr>sv_stats := True\<rparr> else s)"
  define s2' where "s2' = s2\<lparr>sv_daemon := (sv_daemon s2)\<lparr>d_mdb := db\<rparr>, sv_mdb := Some (db_dir meta)\<rparr>"
  define s2'' where "s2'' = s2'\<lparr>sv_daemon := (sv_daemon s2')\<lparr>distributor_ref := SimpleHashDistributor 0 0\<rparr>\<rparr>"
  define s3 where "s3 = stats s2''"
  note s3_defs = s3_def s2''_def s2'_def stats_def
  have d3: "sv_daemon s3 = (sv_daemon s2)\<lparr>d_mdb := db, distributor_ref := SimpleHashDistributor 0 0\<rparr>"
    by (simp add: s3_defs)
  have s3: "quiet s3" "conf s3 = conf s" "dir_files s3 = dir_files s" "sv_dbs s3 = sv_dbs s"
      "dir_exists s3 (db_dir meta)" "sv_mdb s3 = Some (db_dir meta)"
    using s1(2,3) s2(2-4)
    by (simp_all add: trimmed_def quiet_def conf_def dir_files_def dir_exists_def d3 fun_eq_iff)
      (simp_all add: s3_defs)
  obtain s4 where s4: "create_directories (root @ [separator] @ data_chunk_dir) s3 = (Inr (), s4)"
      "trimmed (\<lambda>_. False) s3 s4" "conf s4 = conf s3" "\<forall>q. dir_exists s3 q \<longrightarrow> dir_exists s4 q"
    using create_directories_ok [OF s3(1), of "root @ [separator] @ data_chunk_dir"] by auto
  define d where "d = (sv_daemon s4)\<lparr>storage := (storage (sv_daemon s4))\<lparr>root_path := root @ [separator] @ data_chunk_dir,
     st_chunksize := chunksize\<rparr>\<rparr>"
  have storage: "ChunkStorage H (root @ [separator] @ data_chunk_dir) chunksize s4 = (Inr (), s4\<lparr>sv_daemon := d\<rparr>)"
    using assms(3) access by (simp add: ChunkStorage_def cmd_simps is_absolute_def d_def split: list.splits)
  have q: "quiet (s4\<lparr>sv_daemon := d\<rparr>)" using trimmed_quiet [OF s4(2)] by (simp add: quiet_def d_def)
  obtain a where rpc: "init_rpc_server H (s4\<lparr>sv_daemon := d\<rparr>) =
      (Inr (), s4\<lparr>sv_daemon := d, sv_self_addr := a, sv_server_rpc_mid := True\<rparr>)"
    using init_rpc_server_ok [OF q] by auto
  define s5 where "s5 = s4\<lparr>sv_daemon := set_metadata_states config_metadata d, sv_self_addr := a,
     sv_server_rpc_mid := True, sv_io_streams := daemon_io_xstreams\<rparr>"
  have d5: "sv_daemon s5 = set_metadata_states config_metadata d" by (simp add: s5_def)
  have "quiet (s4\<lparr>sv_daemon := d, sv_self_addr := a, sv_server_rpc_mid := True\<rparr>)"
    using q by (simp add: quiet_def)
  then have pool: "init_io_tasklet_pool (s4\<lparr>sv_daemon := d, sv_self_addr := a, sv_server_rpc_mid := True\<rparr>) =
      (Inr (), s4\<lparr>sv_daemon := d, sv_self_addr := a, sv_server_rpc_mid := True, sv_io_streams := daemon_io_xstreams\<rparr>)"
    by (simp add: init_io_tasklet_pool_def cbind_apply set_simps)
  have mdb: "d_mdb (sv_daemon s5) = db"
    using s4(2) by (simp add: d5 set_metadata_states_def d_def trimmed_def d3)
  have q5: "rpc_script (sv_daemon s5) = []" "st_script (storage (sv_daemon s5)) = []"
    using q by (simp_all add: d5 set_metadata_states_def quiet_def)
  have fit: "store.fit (sv_daemon s5)" unfolding healthy_def using mdb db q5 by auto
  have st: "stamp (sv_daemon s5) = (\<lambda>md. md)"
    by (simp add: fun_eq_iff stamp_def d5 set_metadata_states_def config_metadata_def)
  obtain db' where root: "create_root ?E s5 = (Inr (), s5\<lparr>sv_daemon := (sv_daemon s5)\<lparr>d_mdb := db'\<rparr>\<rparr>)" "ok db'"
      "val db' = with_root (val db)"
    using create_root_ok [OF fit] by (auto simp: mdb st with_root_def)
  obtain fs where reg: "register_host H (s5\<lparr>sv_daemon := (sv_daemon s5)\<lparr>d_mdb := db'\<rparr>\<rparr>) =
      (Inr (), s5\<lparr>sv_daemon := (sv_daemon s5)\<lparr>d_mdb := db'\<rparr>, sv_files := fs\<rparr>)"
    using register_host_ok [of "s5\<lparr>sv_daemon := (sv_daemon s5)\<lparr>d_mdb := db'\<rparr>\<rparr>"] by auto
  let ?s' = "s5\<lparr>sv_daemon := (sv_daemon s5)\<lparr>d_mdb := db'\<rparr>, sv_files := fs\<rparr>"
  have c3: "se_dbbackend (sv_settings s1) = rocksdb_backend" "rootdir (sv_daemon s3) = root"
    using s1(3) s3(2) c by (simp_all add: conf_def)
  have steps: "set_daemon (\<lambda>d. d\<lparr>distributor_ref := SimpleHashDistributor 0 0\<rparr>) s2' = (Inr (), s2'')"
      "upd stats s2'' = (Inr (), s3)"
      "set_daemon (set_metadata_states config_metadata) (s4\<lparr>sv_daemon := d, sv_self_addr := a,
         sv_server_rpc_mid := True, sv_io_streams := daemon_io_xstreams\<rparr>) = (Inr (), s5)"
    by (simp_all add: set_simps s2''_def s3_def s5_def)
  have run: "daemon_init_environment ?E H s = (Inr (), ?s')"
    unfolding daemon_init_environment_def stats_def [symmetric] rocksdb_env_sel
    using s1(1) s2(1) [folded s2'_def] steps s4(1) storage rpc pool root(1) reg
    by (simp add: cbind_apply cget_apply c c3)
  have "stamp (sv_daemon ?s') = (\<lambda>md. md)" using st by simp
  moreover have "data_fit config_metadata val ok (sv_daemon ?s')"
    unfolding data_fit_def healthy_def
    using root(2,3) q5 db wf_with_root first_chunks_with_root by (simp add: d5 set_metadata_states_def d_def)
  moreover have "val (d_mdb (sv_daemon ?s')) = with_root (store_map val (sv_dbs s (db_dir meta)))"
    using root(3) db(2) by simp
  moreover have "root_path (storage (sv_daemon ?s')) = root @ [separator] @ data_chunk_dir"
    "sv_mdb ?s' = Some (db_dir meta)" "dir_exists ?s' (db_dir meta)"
    using s4(2,4) s3(5,6)
    by (simp_all add: d5 set_metadata_states_def d_def dir_exists_def trimmed_def) (simp add: s5_def)
  ultimately have "up (store_map val (sv_dbs s (db_dir meta))) root meta ?s'" unfolding up_def by blast
  moreover have "dir_files ?s' = dir_files s4" "conf ?s' = conf s4" "sv_dbs ?s' = sv_dbs s4"
    by (simp_all add: s5_def fun_eq_iff dir_files_def conf_def set_metadata_states_def d_def)
  moreover have "dir_files s4 = dir_files s3" "sv_dbs s4 = sv_dbs s3" using s4(2) by (simp_all add: trimmed_def)
  ultimately show ?thesis using run s3(2-4) s4(3) by (intro exI [of _ ?s']) simp
qed

end

section \<open>Start and end\<close>

definition startup :: "'db daemon_env \<Rightarrow> 'db host \<Rightarrow> cli_options \<Rightarrow> ('db server, unit) cmd" where
  "startup E H opts = cbind (parse_input H opts) (\<lambda>_. daemon_init_environment E H)"

text \<open>The next process on the node: its singletons are new, the disk is what it was.\<close>

definition default_settings :: settings where
  "default_settings = \<lparr>se_hosts_file = [], se_bind_addr = [], se_rpc_protocol = [], se_use_auto_sm = False,
     se_rootdir_suffix = [], se_metadir = [], se_dbbackend = [], se_parallax_size_md = 8589934592,
     se_enable_stats = False, se_enable_chunkstats = False, se_stats_file = []\<rparr>"

definition new_process :: "'db server \<Rightarrow> 'db server" where
  "new_process s = s\<lparr>sv_settings := default_settings, sv_mdb := None, sv_self_addr := [],
     sv_server_rpc_mid := False, sv_io_streams := 0, sv_stats := False, sv_keep_rootdir := True\<rparr>"

lemma new_process_simps [simp]:
  "quiet (new_process s) = quiet s" "dir_files (new_process s) = dir_files s"
  "sv_dbs (new_process s) = sv_dbs s" "sv_keep_rootdir (new_process s)"
  by (simp_all add: new_process_def quiet_def dir_files_def fun_eq_iff)

lemma startup_eq:
  assumes "parse_input H opts s = (Inr (), s')"
  shows "startup E H opts s = daemon_init_environment E H s'"
  by (simp add: startup_def cbind_apply assms)

lemma destroy_ok:
  fixes s :: "'db server"
  assumes "quiet s" "sv_mdb s = Some p" "dir_exists s p" "\<not> hs_below H (daemon.mountdir (sv_daemon s)) p"
    "sv_keep_rootdir s"
  shows "\<exists>s'. destroy_enviroment H s = (Inr (), s') \<and> quiet s' \<and> sv_dbs s' p = Some (d_mdb (sv_daemon s)) \<and>
    (\<forall>q. \<not> hs_below H (daemon.mountdir (sv_daemon s)) q \<longrightarrow> dir_files s' q = dir_files s q)"
proof -
  let ?m = "daemon.mountdir (sv_daemon s)"
  obtain s1 where s1: "remove_all H ?m s = (Inr None, s1)" "trimmed (hs_below H ?m) s s1" "conf s1 = conf s"
      "\<forall>q. \<not> hs_below H ?m q \<longrightarrow> dir_exists s q \<longrightarrow> dir_exists s1 q"
    using remove_all_ok [OF assms(1), of H ?m] by blast
  define D :: "string \<Rightarrow> ('db server, unit) cmd" where
    "D = (\<lambda>f. if f \<noteq> [] then on_files (destroy_hosts_file f) else cret ())"
  obtain s2 where s2: "D (se_hosts_file (sv_settings s1)) s1 = (Inr (), s2)"
      "sv_daemon s2 = sv_daemon s1" "sv_mdb s2 = sv_mdb s1" "sv_keep_rootdir s2 = sv_keep_rootdir s1"
      "sv_dbs s2 = sv_dbs s1"
    by (cases "se_hosts_file (sv_settings s1) = []") (simp_all add: D_def cmd_simps on_files_def destroy_hosts_file_def)
  have m2: "sv_mdb s2 = Some p" "st_dirs (storage (sv_daemon s2)) p \<noteq> None" "sv_keep_rootdir s2"
    using s1(2-4) s2 assms(2-5) by (simp_all add: trimmed_def dir_exists_def conf_def)
  let ?s3 = "s2\<lparr>sv_mdb := None, sv_dbs := (sv_dbs s2)(p \<mapsto> d_mdb (sv_daemon s2))\<rparr>"
  let ?s' = "?s3\<lparr>sv_stats := False\<rparr>"
  have "close_mdb s2 = (Inr (), ?s3)" "remove_rootdirs H ?s3 = (Inr (), ?s3)"
    using m2 by (auto simp: close_mdb_def remove_rootdirs_def cmd_simps)
  then have "destroy_enviroment H s = (Inr (), ?s')"
    using s1(1) s2(1) unfolding destroy_enviroment_def D_def [symmetric, THEN fun_cong]
    by (simp add: cbind_apply cget_apply set_simps del: fun_upd_apply)
  moreover have "quiet ?s' \<and> d_mdb (sv_daemon s2) = d_mdb (sv_daemon s)"
    using s1(2) s2(2) by (simp add: trimmed_def quiet_def)
  moreover have "dir_files ?s' q = dir_files s q" if "\<not> hs_below H ?m q" for q
  proof -
    have "dir_files ?s' q = dir_files s1 q" using s2(2) by (simp add: dir_files_def)
    then show ?thesis using s1(2) that by (simp add: trimmed_def)
  qed
  ultimately show ?thesis by auto
qed

text \<open>What stands in a file of the disk, and so in a chunk.\<close>

lemma file_content_dir_files: "file_content (storage (sv_daemon s)) f = map_of (dir_files s (fst f)) (snd f)"
  by (simp add: file_content_def dir_files_def split: option.splits)

lemma stored_chunk_dir_files:
  "stored_chunk val (sv_daemon s) p c =
    (if c = 0 then (case val (d_mdb (sv_daemon s)) (first_chunk_key p) of
         None \<Rightarrow> []
       | Some v \<Rightarrow> (case deserialize_first_chunk v of Inl _ \<Rightarrow> [] | Inr fc \<Rightarrow> fc_content fc))
     else (case map_of (dir_files s (chunk_dir (storage (sv_daemon s)) p)) (dec (unat c)) of
         None \<Rightarrow> [] | Some x \<Rightarrow> x))"
  by (simp add: stored_chunk_def file_content_dir_files chunk_file_def)

lemma with_root_first_chunk [simp]: "with_root m (first_chunk_key p) = m (first_chunk_key p)"
  by (simp add: with_root_def first_chunk_key_def separator_def)

context daemon_host
begin

definition found :: "cli_options \<Rightarrow> path \<Rightarrow> path \<Rightarrow> 'db server \<Rightarrow> 'db option" where
  "found opts root meta s = (if cleaned H opts root (db_dir meta) then None else sv_dbs s (db_dir meta))"

lemma startup_ok:
  assumes "quiet s" "options_ok H opts mnt root meta" "store_ok val ok (found opts root meta s)"
  shows "\<exists>s1 s'. parse_input H opts s = (Inr (), s1) \<and>
    daemon_init_environment (rocksdb_env config_metadata R hash stale) H s1 = (Inr (), s') \<and>
    up (store_map val (found opts root meta s)) root meta s' \<and>
    dir_files s' = (\<lambda>q. if cleaned H opts root q then [] else dir_files s q) \<and>
    conf s' = (mnt, root, meta, rocksdb_backend, sv_keep_rootdir s \<and> \<not> op_clean_rootdir_finish opts)"
proof -
  obtain s1 where s1: "parse_input H opts s = (Inr (), s1)" "trimmed (cleaned H opts root) s s1"
      "conf s1 = (mnt, root, meta, rocksdb_backend, sv_keep_rootdir s \<and> \<not> op_clean_rootdir_finish opts)"
    using parse_input_ok [OF assms(1,2)] by blast
  have f: "sv_dbs s1 (db_dir meta) = found opts root meta s" using s1(2) by (simp add: trimmed_def found_def)
  have "is_absolute root" using assms(2) by (simp add: options_ok_def)
  from init_ok [OF trimmed_quiet [OF s1(2)] s1(3) this] show ?thesis
    using assms(3) s1 by (auto simp: f trimmed_def)
qed

end

section \<open>A node without faults provides the interface\<close>

text \<open>The reference store of \<open>Kv_Reference\<close> opens with what it was closed with. The name of the node,
  the canonical forms and the trees of directories may be any.\<close>

definition faultless_host ::
    "string option \<Rightarrow> (path \<Rightarrow> path res) \<Rightarrow> (path \<Rightarrow> path \<Rightarrow> bool) \<Rightarrow> lazy_store host" where
  "faultless_host name canon below =
    \<lparr>hs_node = \<lparr>nd_getenv = (\<lambda>_. None), nd_hostname = name, nd_open_append = (\<lambda>_. True), nd_write = (\<lambda>_. True)\<rparr>,
     hs_canonical = canon, hs_below = below, hs_access = (\<lambda>_. True),
     hs_open_db = (\<lambda>p x. Some (case x of None \<Rightarrow> [] | Some db \<Rightarrow> db)),
     hs_margo_init = (\<lambda>_. True), hs_self_addr = (\<lambda>mo. mo_bind_addr mo @ '':4321'')\<rparr>"

interpretation faultless: daemon_host "lazy_rocksdb config_metadata" "lazy_val config_metadata"
    "lazy_ok config_metadata" "faultless_host name canon below" hash stale for name canon below hash stale
  by unfold_locales (simp_all add: faultless_host_def lazy_ok_def lazy_val_def fun_eq_iff)

end
