(* ===== verification/Client_Start.thy ===== *)
theory Client_Start
  imports Hosts_File Intercept
begin

text \<open>
  How a client comes up and goes down: \<open>client/preload.cpp\<close> with \<open>lookup_endpoint\<close> and
  \<open>connect_to_hosts\<close> of \<open>client/preload_util.cpp\<close>. The RPC library Hermes is a parameter: its
  engine, its lookup of addresses and its messages to an endpoint. The seed of the shuffle is
  not known: the shuffled list of the host numbers is a parameter too. \<open>exit_error_msg\<close> ends the
  process; the value None stands for that.
\<close>

section \<open>Hermes\<close>

record engine_options =
  eo_use_auto_sm :: bool
  eo_force_no_block_progress :: bool
  eo_process_may_fork :: bool

text \<open>The construction of the engine (False when it throws), the lookup of an address (None when it
  throws), the endpoint of a default constructor, and the messages.\<close>

record ('n, 'ep) hermes =
  hm_engine :: "string \<Rightarrow> engine_options \<Rightarrow> ('n, bool) cmd"
  hm_lookup :: "string \<Rightarrow> ('n, 'ep option) cmd"
  hm_default :: 'ep
  hm_expose :: "('n, bool) cmd"
  hm_send :: "'ep \<Rightarrow> rpc_req \<Rightarrow> ('n, delivery) cmd"

definition init_hermes_client :: "('n, 'ep) hermes \<Rightarrow> string \<Rightarrow> bool \<Rightarrow> ('n, bool) cmd" where
  "init_hermes_client H protocol auto_sm =
    hm_engine H protocol \<lparr>eo_use_auto_sm = auto_sm,
      eo_force_no_block_progress = (''ofi+psm2'' = protocol), eo_process_may_fork = True\<rparr>"

section \<open>Endpoints\<close>

text \<open>The loop of \<open>lookup_endpoint\<close> with the attempts that are left.\<close>

primrec lookup_tries :: "('n, 'ep) hermes \<Rightarrow> string \<Rightarrow> nat \<Rightarrow> ('n, 'ep) cmd" where
  "lookup_tries H uri 0 = craise RuntimeError"
| "lookup_tries H uri (Suc k) = cbind (hm_lookup H uri) (\<lambda>r. case r of
      Some ep \<Rightarrow> cret ep
    | None \<Rightarrow> lookup_tries H uri k)"

definition lookup_endpoint :: "('n, 'ep) hermes \<Rightarrow> string \<Rightarrow> ('n, 'ep) cmd" where
  "lookup_endpoint H uri = lookup_tries H uri 3"

text \<open>The loop over the shuffled numbers; \<open>found\<close> is the local host, once it was met.\<close>

fun connect_loop ::
    "('n, 'ep) hermes \<Rightarrow> string \<Rightarrow> (string \<times> string) list \<Rightarrow> nat list \<Rightarrow> 'ep list \<Rightarrow> nat option \<Rightarrow>
     ('n, 'ep list \<times> nat option) cmd" where
  "connect_loop H local_hostname hosts [] addrs found = cret (addrs, found)"
| "connect_loop H local_hostname hosts (i # host_ids) addrs found =
     (if i \<ge> length hosts then craise OutOfRange else
      cbind (lookup_endpoint H (snd (hosts ! i))) (\<lambda>ep.
        connect_loop H local_hostname hosts host_ids (addrs[i := ep])
          (if found = None \<and> fst (hosts ! i) = local_hostname then Some i else found)))"

text \<open>The endpoints and the number of the local host.\<close>

definition connect_to_hosts ::
    "node \<Rightarrow> ('n, 'ep) hermes \<Rightarrow> (nat \<Rightarrow> nat list) \<Rightarrow> (string \<times> string) list \<Rightarrow> ('n, 'ep list \<times> u64) cmd" where
  "connect_to_hosts nd H shuffle hosts =
    cbind (connect_loop H (get_my_hostname nd True) hosts (shuffle (length hosts))
        (replicate (length hosts) (hm_default H)) None) (\<lambda>(addrs, found).
      cret (addrs, case found of None \<Rightarrow> 0 | Some i \<Rightarrow> of_nat i))"

section \<open>The environment\<close>

definition client_network :: "('n, 'ep) hermes \<Rightarrow> 'ep list \<Rightarrow> 'n network" where
  "client_network H addrs = \<lparr>net_expose = hm_expose H, net_send = (\<lambda>h. hm_send H (addrs ! unat h))\<rparr>"

definition make_client :: "(string \<Rightarrow> u64) \<Rightarrow> ('n, 'ep) hermes \<Rightarrow> 'ep list \<Rightarrow> u64 \<Rightarrow> 'n client" where
  "make_client str_hash H addrs local_host_id = \<lparr>cl_net = client_network H addrs, cl_hash = str_hash,
     cl_distributor = SimpleHashDistributor (ucast local_host_id) (of_nat (length addrs)),
     cl_hosts = of_nat (length addrs)\<rparr>"

text \<open>\<open>CTX->mountdir(...)\<close> and \<open>CTX->fs_conf()\<close> after a successful \<open>forward_get_fs_config\<close>.\<close>

definition store_fs_config :: "'n client \<Rightarrow> config_out \<Rightarrow> 'n gaofs_ctx res" where
  "store_fs_config C out = mountdir (out_mountdir out) \<lparr>ctx_client = C, ctx_mountdir = [],
     ctx_conf = \<lparr>conf_atime = out_atime_state out, conf_mtime = out_mtime_state out,
       conf_ctime = out_ctime_state out, conf_link_cnt = out_link_cnt_state out,
       conf_blocks = out_blocks_state out, conf_uid = out_uid out, conf_gid = out_gid out,
       conf_rootdir = out_rootdir out\<rparr>\<rparr>"

text \<open>A \<open>try\<close> block whose handler for every C++ exception ends the process.\<close>

definition or_exit :: "('s, 'a) cmd \<Rightarrow> ('s, 'a option) cmd" where
  "or_exit m = ccatch (cbind m (\<lambda>x. cret (Some x)))
     (\<lambda>e. if is_std_exception e then cret None else craise e)"

definition init_environment ::
    "node \<Rightarrow> files \<Rightarrow> ('n, 'ep) hermes \<Rightarrow> (nat \<Rightarrow> nat list) \<Rightarrow> (string \<Rightarrow> u64) \<Rightarrow> ('n, 'n gaofs_ctx option) cmd" where
  "init_environment nd fs H shuffle str_hash =
    cbind (or_exit (clift (read_hosts_file nd fs))) (\<lambda>r. case r of None \<Rightarrow> cret None | Some info \<Rightarrow>
    cbind (init_hermes_client H (hi_protocol info) (hi_auto_sm info)) (\<lambda>ok. if \<not> ok then cret None else
    cbind (or_exit (connect_to_hosts nd H shuffle (hi_hosts info))) (\<lambda>r. case r of
      None \<Rightarrow> cret None
    | Some (addrs, local_host_id) \<Rightarrow>
        let C = make_client str_hash H addrs local_host_id in
        cbind (forward_get_fs_config C local_host_id) (\<lambda>r. case r of
          None \<Rightarrow> cret None
        | Some out \<Rightarrow> cbind (clift (store_fs_config C out)) (\<lambda>X. cret (Some X))))))"

section \<open>Start and end of the library\<close>

text \<open>\<open>/proc/self/cmdline\<close>: None when it cannot be opened, its first line otherwise (None when it is
  empty). The last character of the line is erased.\<close>

definition log_prog_name :: "string option option \<Rightarrow> unit res" where
  "log_prog_name cmdline = (case cmdline of
      None \<Rightarrow> Inl RuntimeError
    | Some None \<Rightarrow> Inl RuntimeError
    | Some (Some line) \<Rightarrow> if line = [] then Inl OutOfRange else Inr ())"

definition set_enabled :: "bool \<Rightarrow> (('n, 'k) proc, unit) cmd" where
  "set_enabled b = (\<lambda>s. (Inr (), s\<lparr>pr_enabled := b\<rparr>))"

text \<open>The interception of the process is the second component of the result: \<open>start_self_interception\<close>
  is active during the start, then \<open>start_interception\<close>. The kernel's calls need no context.\<close>

definition init_preload ::
    "'k kernel \<Rightarrow> string option option \<Rightarrow> node \<Rightarrow> files \<Rightarrow> ('n, 'ep) hermes \<Rightarrow> (nat \<Rightarrow> nat list) \<Rightarrow>
     (string \<Rightarrow> u64) \<Rightarrow> 'n gaofs_ctx \<Rightarrow> (('n, 'k) proc, (('n, 'k) env \<times> hook_point) option) cmd" where
  "init_preload K cmdline nd fs H shuffle str_hash X0 =
    (let W0 = \<lparr>e_ctx = X0, e_kernel = K\<rparr> in
     cbind (cget (\<lambda>s. fs_errno (pr_fs s))) (\<lambda>oerrno.
     cbind (set_enabled True) (\<lambda>_.
     cbind (protect_user_fds W0) (\<lambda>_.
     cbind (clift (log_prog_name cmdline)) (\<lambda>_.
     cbind (init_cwd W0) (\<lambda>_.
     cbind (on_fs (on_net (init_environment nd fs H shuffle str_hash))) (\<lambda>r. case r of
       None \<Rightarrow> cbind (\<lambda>s. (stop_interception s, s)) (\<lambda>_. cbind (set_enabled False) (\<lambda>_. cret None))
     | Some X \<Rightarrow>
         let W = \<lparr>e_ctx = X, e_kernel = K\<rparr> in
         cbind (set_enabled True) (\<lambda>_.
         cbind (unprotect_user_fds W) (\<lambda>_.
         cbind (\<lambda>s. (start_interception s, s)) (\<lambda>hook.
         cbind (on_fs (set_errno oerrno)) (\<lambda>_. cret (Some (W, hook)))))))))))))"

text \<open>The hosts and the engine are given up, then the interception.\<close>

definition destroy_preload :: "(('n, 'k) proc, hook_point) cmd" where
  "destroy_preload =
    cbind (\<lambda>s. (stop_interception s, s)) (\<lambda>hook. cbind (set_enabled False) (\<lambda>_. cret hook))"

end
