(* ===== verification/Client_Connect.thy ===== *)
theory Client_Connect
  imports Client_Start File_Operations
begin

text \<open>
  Which daemons a client talks to after its start. The interface to the RPC library is the locale
  \<open>hermes_service\<close>: the engine starts, an address always names the same endpoint, and a daemon
  answers the request for the configuration. A cluster of daemons provides it.
\<close>

section \<open>Connecting\<close>

locale hermes_service =
  fixes H :: "('n, 'ep) hermes" and P :: "'n \<Rightarrow> bool" and ep :: "string \<Rightarrow> 'ep"
  assumes engine: "P n \<Longrightarrow> \<exists>n'. hm_engine H protocol opts n = (Inr True, n') \<and> P n'"
    and lookup: "P n \<Longrightarrow> \<exists>n'. hm_lookup H uri n = (Inr (Some (ep uri)), n') \<and> P n'"
    and config: "P n \<Longrightarrow> \<exists>out n'. hm_send H e Req_fs_config n = (Inr (Reply (Resp_config out)), n') \<and> P n' \<and>
      is_absolute (out_mountdir out) \<and> \<not> has_trailing_slash (out_mountdir out)"
begin

lemma lookup_endpoint_ok: "P n \<Longrightarrow> \<exists>n'. lookup_endpoint H uri n = (Inr (ep uri), n') \<and> P n'"
  using lookup [of n uri] by (auto simp: lookup_endpoint_def numeral_3_eq_3 cmd_simps)

lemma connect_loop_ok:
  assumes "P n" "length addrs = length hosts" "\<And>i. i \<in> set ids \<Longrightarrow> i < length hosts"
    "\<And>i. found = Some i \<Longrightarrow> i < length hosts"
  shows "\<exists>addrs' found' n'. connect_loop H local_hostname hosts ids addrs found n = (Inr (addrs', found'), n') \<and>
    P n' \<and> length addrs' = length hosts \<and> (\<forall>i. found' = Some i \<longrightarrow> i < length hosts) \<and>
    (\<forall>i < length hosts. addrs' ! i = (if i \<in> set ids then ep (snd (hosts ! i)) else addrs ! i))"
  using assms
proof (induction ids arbitrary: addrs found n)
  case (Cons i ids)
  let ?found = "if found = None \<and> fst (hosts ! i) = local_hostname then Some i else found"
  have i: "i < length hosts" using Cons.prems(3) by simp
  obtain n1 where n1: "lookup_endpoint H (snd (hosts ! i)) n = (Inr (ep (snd (hosts ! i))), n1)" "P n1"
    using lookup_endpoint_ok [OF Cons.prems(1)] by blast
  have f: "j < length hosts" if "?found = Some j" for j
    using that i Cons.prems(4) by (auto split: if_splits)
  have l: "length (addrs[i := ep (snd (hosts ! i))]) = length hosts" using Cons.prems(2) by simp
  have s: "j < length hosts" if "j \<in> set ids" for j using that Cons.prems(3) by simp
  obtain addrs' found' n' where r: "connect_loop H local_hostname hosts ids
        (addrs[i := ep (snd (hosts ! i))]) ?found n1 = (Inr (addrs', found'), n')" "P n'"
      "length addrs' = length hosts" "\<forall>i. found' = Some i \<longrightarrow> i < length hosts"
      "\<forall>j < length hosts. addrs' ! j = (if j \<in> set ids then ep (snd (hosts ! j))
         else addrs[i := ep (snd (hosts ! i))] ! j)"
    using Cons.IH [OF n1(2) l s f] by blast
  have "connect_loop H local_hostname hosts (i # ids) addrs found n = (Inr (addrs', found'), n')"
    using i r(1) n1(1) by (simp add: cbind_def)
  then show ?case using r(2-5) Cons.prems(2) i by (auto simp: nth_list_update)
qed (auto simp: cmd_simps)

lemma connect_to_hosts_ok:
  assumes "P n" "mset (shuffle (length hosts)) = mset [0..<length hosts]" "hosts \<noteq> []"
    "length hosts < 2 ^ 32"
  shows "\<exists>k n'. connect_to_hosts nd H shuffle hosts n = (Inr (map (\<lambda>h. ep (snd h)) hosts, k), n') \<and> P n' \<and>
    unat k < length hosts"
proof -
  have ids: "set (shuffle (length hosts)) = {0..<length hosts}"
    using arg_cong [OF assms(2), of set_mset] by simp
  obtain addrs' found' n' where r: "connect_loop H (get_my_hostname nd True) hosts (shuffle (length hosts))
        (replicate (length hosts) (hm_default H)) None n = (Inr (addrs', found'), n')" "P n'"
      "length addrs' = length hosts" "\<forall>i. found' = Some i \<longrightarrow> i < length hosts"
      "\<forall>i < length hosts. addrs' ! i = ep (snd (hosts ! i))"
    using connect_loop_ok [where addrs = "replicate (length hosts) (hm_default H)" and hosts = hosts
        and found = None and ids = "shuffle (length hosts)" and local_hostname = "get_my_hostname nd True",
        OF assms(1) length_replicate] by (auto simp: ids)
  have "addrs' = map (\<lambda>h. ep (snd h)) hosts" using r(3,5) by (intro nth_equalityI) simp_all
  moreover have "unat ((case found' of None \<Rightarrow> 0 | Some i \<Rightarrow> of_nat i) :: u64) < length hosts"
    using r(4) assms(3,4) by (cases found') (auto simp: unsigned_of_nat take_bit_nat_eq_self)
  ultimately show ?thesis using r(1,2) by (simp add: connect_to_hosts_def cmd_simps)
qed

text \<open>The whole start, on a hosts file of some daemons.\<close>

lemma init_environment_ok:
  assumes "P n" "read_hosts_file nd fs = Inr \<lparr>hi_hosts = hosts, hi_protocol = protocol, hi_auto_sm = sm\<rparr>"
    "mset (shuffle (length hosts)) = mset [0..<length hosts]" "hosts \<noteq> []" "length hosts < 2 ^ 32"
  shows "\<exists>X n'. init_environment nd fs H shuffle str_hash n = (Inr (Some X), n') \<and>
    cl_hosts (ctx_client X) = of_nat (length hosts) \<and> cl_hash (ctx_client X) = str_hash \<and>
    d_hosts_size (cl_distributor (ctx_client X)) = of_nat (length hosts) \<and>
    cl_net (ctx_client X) = client_network H (map (\<lambda>h. ep (snd h)) hosts)"
proof -
  obtain n1 where n1: "init_hermes_client H protocol sm n = (Inr True, n1)" "P n1"
    using engine [OF assms(1)] by (auto simp: init_hermes_client_def)
  obtain k n2 where n2: "connect_to_hosts nd H shuffle hosts n1 =
      (Inr (map (\<lambda>h. ep (snd h)) hosts, k), n2)" "P n2" "unat k < length hosts"
    using connect_to_hosts_ok [where shuffle = shuffle and hosts = hosts, OF n1(2) assms(3-5)] by blast
  define C where "C = make_client str_hash H (map (\<lambda>h. ep (snd h)) hosts) k"
  have k: "k < ucast (cl_hosts C)"
    using n2(3) assms(5) by (simp add: C_def make_client_def word_less_nat_alt unsigned_ucast_eq
        unsigned_of_nat take_bit_nat_eq_self)
  obtain out n3 where n3: "hm_send H (map (\<lambda>h. ep (snd h)) hosts ! unat (ucast k :: u32)) Req_fs_config n2 =
      (Inr (Reply (Resp_config out)), n3)" "is_absolute (out_mountdir out)" "\<not> has_trailing_slash (out_mountdir out)"
    using config [OF n2(2)] by blast
  have cfg: "forward_get_fs_config C k n2 = (Inr (Some out), n3)"
    using n3(1) k by (simp add: forward_get_fs_config_def call_host_def host_at_def cmd_simps C_def
        make_client_def client_network_def)
  obtain X where X: "store_fs_config C out = Inr X" "ctx_client X = C"
    using n3(2,3) by (simp add: store_fs_config_def Preload_Context.mountdir_def)
  have "init_environment nd fs H shuffle str_hash n = (Inr (Some X), n3)"
    using n1(1) n2(1) cfg X(1) assms(2)
    by (simp add: init_environment_def or_exit_def cmd_simps Let_def flip: C_def)
  then show ?thesis using X(2) by (simp add: C_def make_client_def)
qed

end

section \<open>The cluster provides the interface\<close>

text \<open>A faultless Hermes over a cluster of daemons; \<open>ep\<close> is the daemon behind an address.\<close>

definition cluster_hermes :: "'db daemon_env \<Rightarrow> (string \<Rightarrow> u32) \<Rightarrow> ('db cluster, u32) hermes" where
  "cluster_hermes E ep = \<lparr>hm_engine = (\<lambda>protocol opts. cret True), hm_lookup = (\<lambda>uri. cret (Some (ep uri))),
     hm_default = 0, hm_expose = cret True, hm_send = cluster_send E\<rparr>"

definition mounted :: "'db cluster \<Rightarrow> bool" where
  "mounted cl \<longleftrightarrow> (\<forall>h. is_absolute (daemon.mountdir (cl h)) \<and> \<not> has_trailing_slash (daemon.mountdir (cl h)) \<and>
     NUL \<notin> set (daemon.mountdir (cl h)))"

interpretation cluster_hermes: hermes_service "cluster_hermes E ep" mounted ep for E ep
proof unfold_locales
  fix n :: "'a cluster" and e
  assume "mounted n"
  then show "\<exists>out n'. hm_send (cluster_hermes E ep) e Req_fs_config n = (Inr (Reply (Resp_config out)), n') \<and>
      mounted n' \<and> is_absolute (out_mountdir out) \<and> \<not> has_trailing_slash (out_mountdir out)"
    by (simp add: cluster_hermes_def cluster_send_def rpc_srv_get_fs_config_def resp_of_def cmd_simps mounted_def)
qed (simp_all add: cluster_hermes_def cmd_simps)

section \<open>Every client knows the same hosts\<close>


definition sample_node :: "string \<Rightarrow> node" where
  "sample_node name = \<lparr>nd_getenv = (\<lambda>_. None), nd_hostname = Some name, nd_open_append = (\<lambda>_. True),
     nd_write = (\<lambda>_. True)\<rparr>"

definition sample_regs :: "registration list" where
  "sample_regs = [(sample_node ''n2.site'', [], ''ofi+sockets://b''),
     (sample_node ''n1'', ''x'', ''ofi+sockets://a'')]"

lemma sample_regs_ok:
  "list_all (reg_ok hostfile_path) sample_regs" "sample_regs \<noteq> []"
  "extract_protocol (snd (snd (hd sample_regs))) = Inr (''ofi+sockets'', False)"
  by (simp add: sample_regs_def reg_ok_def sample_node_def get_my_hostname_def token_def is_space_def)
    (simp add: sample_regs_def, simp add: sample_regs_def extract_protocol_def Let_def)




end
