(* ===== verification/Daemon_Cycle.thy ===== *)
theory Daemon_Cycle
  imports Daemon_Restart Client_Connect
begin

text \<open>
  What the life of the daemons gives to the file system: a new cluster holds nothing but the root
  directory and satisfies the invariants the client's operations rest on, a daemon that is stopped
  and started again serves what it served before, and a daemon that fails to start takes the
  hosts file with it.
\<close>

section \<open>One daemon\<close>

lemma namespace_with_root_None: "namespace_of config_metadata (with_root Map.empty) = [[separator] \<mapsto> root_md]"
proof -
  have "stored_fields config_metadata root_md = root_md"
    by (simp add: stored_fields_def root_md_def empty_metadata_def config_metadata_def)
  moreover have "namespace_of config_metadata Map.empty = Map.empty" by (simp add: namespace_of_def fun_eq_iff)
  moreover have "is_absolute [separator]" by (simp add: is_absolute_def)
  ultimately show ?thesis
    using namespace_upd [of "[separator]" root_md config_metadata Map.empty] by (simp add: with_root_def)
qed

lemma namespace_root_known: "namespace_of cfg m [separator] \<noteq> None \<Longrightarrow> with_root m = m"
  by (auto simp: namespace_of_def with_root_def is_absolute_def)

lemma try_std_ok: "m s = (Inr (), s') \<Longrightarrow> try_std m s = (Inr True, s')"
  by (simp add: try_std_def cmd_simps)

lemma try_std_fail: "m s = (Inl e, s') \<Longrightarrow> is_std_exception e \<Longrightarrow> try_std m s = (Inr False, s')"
  by (simp add: try_std_def cmd_simps)

text \<open>What the requests keep of a daemon that serves them.\<close>

definition served :: "('db \<Rightarrow> bytes \<rightharpoonup> bytes) \<Rightarrow> ('db \<Rightarrow> bool) \<Rightarrow> path \<Rightarrow> 'db daemon \<Rightarrow> 'db daemon \<Rightarrow> bool" where
  "served val ok meta d d' \<longleftrightarrow> data_fit config_metadata val ok d' \<and> daemon.mountdir d' = daemon.mountdir d \<and>
     root_path (storage d') = root_path (storage d) \<and> st_dirs (storage d') (db_dir meta) \<noteq> None \<and>
     daemon_ns config_metadata val d' [separator] \<noteq> None"

context daemon_host
begin

lemma first_run:
  assumes "quiet s" "options_ok H opts mnt root meta" "store_ok val ok (found opts root meta s)"
    "sv_keep_rootdir s" "\<not> op_clean_rootdir_finish opts"
    "startup (rocksdb_env config_metadata R hash stale) H opts s = (Inr (), s1)"
    "served val ok meta (sv_daemon s1) d" "\<not> hs_below H mnt (db_dir meta)"
  shows "\<exists>s2. daemon_main (rocksdb_env config_metadata R hash stale) H opts (\<lambda>_. d) s = (Inr 0, s2) \<and>
    quiet s2 \<and> sv_dbs s2 (db_dir meta) = Some (d_mdb d) \<and>
    root_path (storage d) = root @ [separator] @ data_chunk_dir \<and>
    (\<forall>q. \<not> hs_below H mnt q \<longrightarrow> dir_files s2 q = (case st_dirs (storage d) q of None \<Rightarrow> [] | Some es \<Rightarrow> es))"
proof -
  obtain s0 s1' where p: "parse_input H opts s = (Inr (), s0)"
      "daemon_init_environment (rocksdb_env config_metadata R hash stale) H s0 = (Inr (), s1')"
      "up (store_map val (found opts root meta s)) root meta s1'"
      "conf s1' = (mnt, root, meta, rocksdb_backend, True)"
    using startup_ok [OF assms(1-3)] assms(4,5) by auto
  have s1: "s1' = s1" using assms(6) p(2) by (simp add: startup_eq [OF p(1)])
  let ?s = "s1\<lparr>sv_daemon := d\<rparr>"
  have d: "quiet ?s" "sv_mdb ?s = Some (db_dir meta)" "dir_exists ?s (db_dir meta)" "sv_keep_rootdir ?s"
      "daemon.mountdir (sv_daemon ?s) = mnt"
    using p(3,4) assms(7) unfolding s1 served_def up_def data_fit_def healthy_def quiet_def dir_exists_def conf_def
    by auto
  obtain s2 where s2: "destroy_enviroment H ?s = (Inr (), s2)" "quiet s2" "sv_dbs s2 (db_dir meta) = Some (d_mdb d)"
      "\<forall>q. \<not> hs_below H mnt q \<longrightarrow> dir_files s2 q = dir_files ?s q"
    using destroy_ok [OF d(1-3) _ d(4), of H] assms(8) d(5) by auto
  have "\<not> op_version opts" using assms(2) by (simp add: options_ok_def)
  then have "daemon_main (rocksdb_env config_metadata R hash stale) H opts (\<lambda>_. d) s = (Inr 0, s2)"
    using p(1,2) s2(1) by (simp add: daemon_main_def cmd_simps s1 try_std_def)
  then show ?thesis using s2(2-4) p(3) assms(7) by (simp add: s1 up_def served_def dir_files_def)
qed

lemma second_run:
  assumes "quiet s" "options_ok H opts mnt root meta" "\<not> op_clean_rootdir opts"
    "data_fit config_metadata val ok d" "sv_dbs s (db_dir meta) = Some (d_mdb d)"
    "root_path (storage d) = root @ [separator] @ data_chunk_dir" "daemon_ns config_metadata val d [separator] \<noteq> None"
    "\<And>q. dir_files s (root @ [separator] @ data_chunk_dir @ [separator] @ q) =
      (case st_dirs (storage d) (root @ [separator] @ data_chunk_dir @ [separator] @ q) of None \<Rightarrow> [] | Some es \<Rightarrow> es)"
  shows "\<exists>s'. startup (rocksdb_env config_metadata R hash stale) H opts s = (Inr (), s') \<and>
    data_fit config_metadata val ok (sv_daemon s') \<and>
    daemon_ns config_metadata val (sv_daemon s') = daemon_ns config_metadata val d \<and>
    stored_chunk val (sv_daemon s') = stored_chunk val d"
proof -
  have f: "found opts root meta s = Some (d_mdb d)" using assms(3,5) by (simp add: found_def cleaned_def)
  have ok: "store_ok val ok (found opts root meta s)"
    using assms(4) unfolding f data_fit_def healthy_def store_ok_def by auto
  obtain s0 s' where p: "parse_input H opts s = (Inr (), s0)"
      "daemon_init_environment (rocksdb_env config_metadata R hash stale) H s0 = (Inr (), s')"
      "up (store_map val (found opts root meta s)) root meta s'" "dir_files s' = dir_files s"
    using startup_ok [OF assms(1,2) ok] assms(3) by (auto simp: cleaned_def)
  have v: "val (d_mdb (sv_daemon s')) = val (d_mdb d)"
    using p(3) namespace_root_known [of config_metadata "val (d_mdb d)"] assms(7)
    by (simp add: up_def f store_map_def daemon_ns_def)
  have dir: "chunk_dir (storage (sv_daemon s')) x = chunk_dir (storage d) x" for x
    using p(3) assms(6) by (simp add: up_def chunk_dir_def)
  let ?x = "s'\<lparr>sv_daemon := d\<rparr>"
  have "dir_files s' (chunk_dir (storage d) x) = dir_files ?x (chunk_dir (storage d) x)" for x
    using assms(8) by (simp add: p(4) chunk_dir_def assms(6)) (simp add: dir_files_def)
  then have "stored_chunk val (sv_daemon s') x c = stored_chunk val (sv_daemon ?x) x c" for x c
    by (simp only: stored_chunk_dir_files dir) (simp add: v)
  then have "stored_chunk val (sv_daemon s') = stored_chunk val d" by (simp add: fun_eq_iff)
  moreover have "daemon_ns config_metadata val (sv_daemon s') = daemon_ns config_metadata val d"
    by (simp add: daemon_ns_def v)
  ultimately show ?thesis using p(1-3) by (auto simp: up_def startup_eq)
qed

lemma restart:
  assumes "quiet s" "options_ok H opts mnt root meta" "store_ok val ok (sv_dbs s (db_dir meta))"
    "sv_keep_rootdir s" "\<not> op_clean_rootdir opts" "\<not> op_clean_rootdir_finish opts"
    "startup (rocksdb_env config_metadata R hash stale) H opts s = (Inr (), s1)"
    "served val ok meta (sv_daemon s1) d" "\<not> hs_below H mnt (db_dir meta)"
    "\<And>q. \<not> hs_below H mnt (root @ [separator] @ data_chunk_dir @ [separator] @ q)"
  shows "\<exists>s2 s3. daemon_main (rocksdb_env config_metadata R hash stale) H opts (\<lambda>_. d) s = (Inr 0, s2) \<and>
    startup (rocksdb_env config_metadata R hash stale) H opts (new_process s2) = (Inr (), s3) \<and>
    data_fit config_metadata val ok (sv_daemon s3) \<and>
    daemon_ns config_metadata val (sv_daemon s3) = daemon_ns config_metadata val d \<and>
    stored_chunk val (sv_daemon s3) = stored_chunk val d"
proof -
  have "found opts root meta s = sv_dbs s (db_dir meta)" using assms(5) by (simp add: found_def cleaned_def)
  then obtain s2 where s2: "daemon_main (rocksdb_env config_metadata R hash stale) H opts (\<lambda>_. d) s = (Inr 0, s2)"
      "quiet s2" "sv_dbs s2 (db_dir meta) = Some (d_mdb d)" "root_path (storage d) = root @ [separator] @ data_chunk_dir"
      "\<And>q. \<not> hs_below H mnt q \<Longrightarrow> dir_files s2 q = (case st_dirs (storage d) q of None \<Rightarrow> [] | Some es \<Rightarrow> es)"
    using first_run [OF assms(1,2) _ assms(4,6-9)] assms(3) by auto
  have d: "data_fit config_metadata val ok d" "daemon_ns config_metadata val d [separator] \<noteq> None"
    using assms(8) by (simp_all add: served_def)
  show ?thesis
    using second_run [OF _ assms(2,5) d(1) _ s2(4) d(2), of "new_process s2"] s2(1-3) s2(5) [OF assms(10)]
    by simp
qed

text \<open>A start on a disk with a store.\<close>

lemma kept_start:
  assumes "quiet s" "options_ok H opts mnt root meta" "\<not> op_clean_rootdir opts"
    "sv_dbs s (db_dir meta) = Some db" "store_ok val ok (Some db)"
    "namespace_of config_metadata (val db) [separator] \<noteq> None"
  shows "\<exists>s'. startup (rocksdb_env config_metadata R hash stale) H opts s = (Inr (), s') \<and>
    served val ok meta (sv_daemon s') (sv_daemon s') \<and> dir_files s' = dir_files s \<and>
    root_path (storage (sv_daemon s')) = root @ [separator] @ data_chunk_dir"
proof -
  have f: "found opts root meta s = Some db" using assms(3,4) by (simp add: found_def cleaned_def)
  have ok: "store_ok val ok (found opts root meta s)" using assms(5) by (simp only: f)
  obtain s0 s' where p: "parse_input H opts s = (Inr (), s0)"
      "daemon_init_environment (rocksdb_env config_metadata R hash stale) H s0 = (Inr (), s')"
      "up (val db) root meta s'" "dir_files s' = dir_files s"
    using startup_ok [OF assms(1,2) ok] assms(3) by (auto simp: cleaned_def f store_map_def)
  then show ?thesis using assms(6) namespace_root_known [OF assms(6)]
    by (auto simp: up_def served_def startup_eq daemon_ns_def dir_exists_def)
qed

text \<open>A start on a disk that is empty or cleaned.\<close>

lemma fresh_start:
  assumes "quiet s" "options_ok H opts mnt root meta"
    "\<And>q. cleaned H opts root q \<or> sv_dbs s q = None \<and> dir_files s q = []"
  shows "\<exists>s'. startup (rocksdb_env config_metadata R hash stale) H opts s = (Inr (), s') \<and>
    data_fit config_metadata val ok (sv_daemon s') \<and> stamp (sv_daemon s') = (\<lambda>md. md) \<and>
    daemon_ns config_metadata val (sv_daemon s') = [[separator] \<mapsto> root_md] \<and>
    stored_chunk val (sv_daemon s') = (\<lambda>p c. [])"
proof -
  have f: "found opts root meta s = None" using assms(3) [of "db_dir meta"] by (auto simp: found_def)
  obtain s0 s' where p: "parse_input H opts s = (Inr (), s0)"
      "daemon_init_environment (rocksdb_env config_metadata R hash stale) H s0 = (Inr (), s')"
      "up Map.empty root meta s'" "dir_files s' = (\<lambda>q. if cleaned H opts root q then [] else dir_files s q)"
    using startup_ok [OF assms(1,2)] by (auto simp: f store_ok_def store_map_def)
  have "dir_files s' q = []" for q using assms(3) [of q] by (auto simp: p(4))
  moreover have "val (d_mdb (sv_daemon s')) (first_chunk_key x) = None" for x
    using p(3) by (simp add: up_def)
  ultimately have "stored_chunk val (sv_daemon s') = (\<lambda>p c. [])"
    by (simp add: fun_eq_iff stored_chunk_dir_files)
  moreover have "daemon_ns config_metadata val (sv_daemon s') = [[separator] \<mapsto> root_md]"
    using p(3) namespace_with_root_None by (simp add: up_def daemon_ns_def)
  ultimately show ?thesis using p by (auto simp: up_def startup_eq)
qed

end

section \<open>Stopping and starting again\<close>

text \<open>C6: A daemon that is stopped and started again serves the same files: whatever the disk held
  and whatever the requests made of the daemon (\<open>d\<close>), \<open>main\<close> returns 0 after the signal, and the
  next process started with the same options has the same names, the same metadata and the same
  bytes in every chunk. (The options do not ask for cleaning, and the mount directory, which the
  daemon removes, holds neither the store nor the chunks.)\<close>

lemma restart_keeps_files:
  assumes "daemon_host R val ok H" "quiet s" "options_ok H opts mnt root meta"
    "store_ok val ok (sv_dbs s (db_dir meta))" "sv_keep_rootdir s"
    "\<not> op_clean_rootdir opts" "\<not> op_clean_rootdir_finish opts"
    "startup (rocksdb_env config_metadata R hash stale) H opts s = (Inr (), s1)"
    "served val ok meta (sv_daemon s1) d" "\<not> hs_below H mnt (db_dir meta)"
    "\<And>q. \<not> hs_below H mnt (root @ [separator] @ data_chunk_dir @ [separator] @ q)"
  shows "\<exists>s2 s3. daemon_main (rocksdb_env config_metadata R hash stale) H opts (\<lambda>_. d) s = (Inr 0, s2) \<and>
    startup (rocksdb_env config_metadata R hash stale) H opts (new_process s2) = (Inr (), s3) \<and>
    data_fit config_metadata val ok (sv_daemon s3) \<and>
    daemon_ns config_metadata val (sv_daemon s3) = daemon_ns config_metadata val d \<and>
    stored_chunk val (sv_daemon s3) = stored_chunk val d"
  using daemon_host.restart [OF assms] .

text \<open>A daemon on \<open>/r\<close> whose disk holds the root directory, a file and its second chunk.\<close>

definition sample_below :: "path \<Rightarrow> path \<Rightarrow> bool" where
  "sample_below p q \<longleftrightarrow> q = p \<or> take (Suc (length p)) q = p @ [separator]"

abbreviation "sample_host \<equiv> faultless_host (Some ''n1'') Inr sample_below"

definition sample_opts :: cli_options where
  "sample_opts = \<lparr>op_mountdir = Some ''/m'', op_rootdir = Some ''/r'', op_rootdir_suffix = None, op_metadir = None,
     op_listen = None, op_hosts_file = None, op_rpc_protocol = None, op_dbbackend = None, op_parallax_size = None,
     op_stats_file = None, op_auto_sm = False, op_clean_rootdir = False, op_clean_rootdir_finish = False,
     op_enable_collection = False, op_enable_chunkstats = False, op_version = False\<rparr>"

definition sample_server :: "(path \<rightharpoonup> lazy_store) \<Rightarrow> (path \<rightharpoonup> (string \<times> bytes) list) \<Rightarrow> lazy_store server" where
  "sample_server dbs dirs = \<lparr>sv_daemon = sample_daemon\<lparr>storage := (storage sample_daemon)\<lparr>st_dirs := dirs\<rparr>\<rparr>,
     sv_settings = default_settings, sv_mdb = None, sv_self_addr = [], sv_server_rpc_mid = False, sv_io_streams = 0,
     sv_stats = False, sv_keep_rootdir = True, sv_verbs_iface = None, sv_dbs = dbs, sv_files = Map.empty\<rparr>"

lemma sample_server_simps [simp]:
  "quiet (sample_server dbs dirs)" "sv_keep_rootdir (sample_server dbs dirs)" "sv_dbs (sample_server dbs dirs) = dbs"
  by (simp_all add: sample_server_def quiet_def sample_daemon_def)

lemma sample_opts_ok: "options_ok (faultless_host name Inr below) sample_opts ''/m'' ''/r'' ''/r''"
  by (simp add: options_ok_def sample_opts_def faultless_host_def is_absolute_def separator_def)

definition sample_disk :: "lazy_store server" where
  "sample_disk = sample_server [db_dir ''/r'' \<mapsto> sample_store (sample_names 1)]
     [''/r/chunks/d:f'' \<mapsto> [(''1'', ''xyz'')]]"

lemma sample_disk_map:
  "namespace_of config_metadata (lazy_val config_metadata (sample_store (sample_names 1))) = map_of (sample_names 1)"
  using sample_daemon_ns_at [of 1] by (simp add: daemon_ns_def sample_cluster_def)

lemma sample_disk_found: "store_ok (lazy_val config_metadata) (lazy_ok config_metadata) (sv_dbs sample_disk (db_dir ''/r''))"
proof -
  have "healthy config_metadata (lazy_val config_metadata) (lazy_ok config_metadata) (sample_cluster 1)"
    using sample_cluster_ok by (simp add: cluster_ok_def)
  then have "wf_map config_metadata (lazy_val config_metadata (sample_store (sample_names 1)))"
    unfolding healthy_def sample_cluster_def by simp
  moreover have "map_of (sample_names 1) (first_chunk_key p) = None" for p
    by (simp add: sample_names_def first_chunk_key_def)
  ultimately show ?thesis using sample_store_ok(1) [OF sample_names_ok(1)]
    by (simp add: store_ok_def sample_disk_def first_chunks_ok_def sample_store_ok(2) [OF sample_names_ok(1)])
qed

lemma sample_disk_started:
  "\<exists>s1. startup sample_env sample_host sample_opts sample_disk = (Inr (), s1) \<and>
    served (lazy_val config_metadata) (lazy_ok config_metadata) ''/r'' (sv_daemon s1) (sv_daemon s1) \<and>
    stored_chunk (lazy_val config_metadata) (sv_daemon s1) ''/d/f'' 1 = ''xyz''"
proof -
  have d: "quiet sample_disk" "\<not> op_clean_rootdir sample_opts"
      "sv_dbs sample_disk (db_dir ''/r'') = Some (sample_store (sample_names 1))"
      "dir_files sample_disk ''/r/chunks/d:f'' = [(''1'', ''xyz'')]"
    by (simp_all add: sample_disk_def sample_opts_def dir_files_def sample_server_def quiet_def sample_daemon_def)
  have ok: "store_ok (lazy_val config_metadata) (lazy_ok config_metadata) (Some (sample_store (sample_names 1)))"
    using sample_disk_found by (simp only: d(3))
  have ns: "namespace_of config_metadata (lazy_val config_metadata (sample_store (sample_names 1))) [separator] \<noteq> None"
    by (simp only: sample_disk_map) (simp add: sample_names_def separator_def)
  obtain s1 where s1: "startup sample_env sample_host sample_opts sample_disk = (Inr (), s1)"
      "served (lazy_val config_metadata) (lazy_ok config_metadata) ''/r'' (sv_daemon s1) (sv_daemon s1)"
      "dir_files s1 = dir_files sample_disk" "root_path (storage (sv_daemon s1)) = ''/r'' @ [separator] @ data_chunk_dir"
    using faultless.kept_start [OF d(1) sample_opts_ok d(2,3) ok ns] unfolding sample_env_def by blast
  have "chunk_dir (storage (sv_daemon s1)) ''/d/f'' = ''/r/chunks/d:f''"
    by (simp add: chunk_dir_def s1(4) data_chunk_dir_def separator_def)
  then have "stored_chunk (lazy_val config_metadata) (sv_daemon s1) ''/d/f'' 1 = ''xyz''"
    by (simp add: stored_chunk_dir_files s1(3) d(4)) (simp add: dec.simps digit_char.simps)
  then show ?thesis using s1(1,2) by blast
qed

lemma restart_keeps_files_witness:
  "\<exists>s1 s2 s3. startup sample_env sample_host sample_opts sample_disk = (Inr (), s1) \<and>
    daemon_main sample_env sample_host sample_opts (\<lambda>_. sv_daemon s1) sample_disk = (Inr 0, s2) \<and>
    startup sample_env sample_host sample_opts (new_process s2) = (Inr (), s3) \<and>
    daemon_ns config_metadata (lazy_val config_metadata) (sv_daemon s3) =
      daemon_ns config_metadata (lazy_val config_metadata) (sv_daemon s1) \<and>
    stored_chunk (lazy_val config_metadata) (sv_daemon s3) ''/d/f'' 1 = ''xyz''"
proof -
  obtain s1 where s1: "startup sample_env sample_host sample_opts sample_disk = (Inr (), s1)"
      "served (lazy_val config_metadata) (lazy_ok config_metadata) ''/r'' (sv_daemon s1) (sv_daemon s1)"
      "stored_chunk (lazy_val config_metadata) (sv_daemon s1) ''/d/f'' 1 = ''xyz''"
    using sample_disk_started by blast
  have d: "quiet sample_disk" "sv_keep_rootdir sample_disk" "\<not> op_clean_rootdir sample_opts"
      "\<not> op_clean_rootdir_finish sample_opts"
    by (simp_all add: sample_disk_def sample_opts_def)
  have b: "\<not> hs_below sample_host ''/m'' (db_dir ''/r'')"
      "\<And>q. \<not> hs_below sample_host ''/m'' (''/r'' @ [separator] @ data_chunk_dir @ [separator] @ q)"
    by (simp_all add: faultless_host_def sample_below_def db_dir_def separator_def)
  show ?thesis
    using restart_keeps_files [OF faultless.daemon_host_axioms d(1) sample_opts_ok sample_disk_found d(2-4)
        s1(1) [unfolded sample_env_def] s1(2) b] s1(1,3)
    unfolding sample_env_def by (auto dest: fun_cong)
qed

section \<open>A new file system\<close>

text \<open>C7: Daemons that start on empty disks, or on any disks with \<open>--clean-rootdir\<close>, form a new file
  system: every start succeeds, the cluster satisfies the invariant the client's operations rest
  on (every entry on its owner, every store and storage well formed), its name space holds the root
  directory and nothing else, and no chunk holds a byte.\<close>

lemma fresh_cluster:
  assumes "n \<noteq> 0" "\<And>h. h < n \<Longrightarrow> daemon_host R val ok (H h)" "\<And>h. h < n \<Longrightarrow> quiet (s h)"
    "\<And>h. h < n \<Longrightarrow> options_ok (H h) (opts h) (mnt h) (root h) (meta h)"
    "\<And>h q. h < n \<Longrightarrow> cleaned (H h) (opts h) (root h) q \<or> sv_dbs (s h) q = None \<and> dir_files (s h) q = []"
  shows "\<exists>s'. (\<forall>h < n. startup (rocksdb_env config_metadata R hash stale) (H h) (opts h) (s h) = (Inr (), s' h)) \<and>
    cluster_data_ok val ok hash n (\<lambda>h md. md) (\<lambda>h. sv_daemon (s' h)) \<and>
    cluster_ns val hash n (\<lambda>h. sv_daemon (s' h)) = [[separator] \<mapsto> root_md] \<and>
    (\<forall>h < n. stored_chunk val (sv_daemon (s' h)) = (\<lambda>p c. []))"
proof -
  let ?E = "rocksdb_env config_metadata R hash stale"
  define s' where "s' = (\<lambda>h. snd (startup ?E (H h) (opts h) (s h)))"
  have st: "startup ?E (H h) (opts h) (s h) = (Inr (), s' h)" "data_fit config_metadata val ok (sv_daemon (s' h))"
      "stamp (sv_daemon (s' h)) = (\<lambda>md. md)"
      "daemon_ns config_metadata val (sv_daemon (s' h)) = [[separator] \<mapsto> root_md]"
      "stored_chunk val (sv_daemon (s' h)) = (\<lambda>p c. [])" if "h < n" for h
    using daemon_host.fresh_start [OF assms(2) assms(3) assms(4) assms(5), OF that that that that, of hash stale]
    by (auto simp: s'_def)
  have "cluster_ok val ok hash n (\<lambda>h md. md) (\<lambda>h. sv_daemon (s' h))"
    using st(2-4) by (simp add: cluster_ok_def data_fit_def separator_def)
  moreover have "cluster_ns val hash n (\<lambda>h. sv_daemon (s' h)) = [[separator] \<mapsto> root_md]"
    using st(4) [OF owner_bound [OF assms(1)]] by (simp add: cluster_ns_def fun_eq_iff)
  ultimately show ?thesis using st(1,2,5) by (auto simp: cluster_data_ok_def)
qed

lemma fresh_cluster_witness:
  "\<exists>s'. startup sample_env sample_host sample_opts (sample_server Map.empty Map.empty) = (Inr (), s' 0) \<and>
    cluster_data_ok (lazy_val config_metadata) (lazy_ok config_metadata) sample_hash 2 (\<lambda>h md. md) (\<lambda>h. sv_daemon (s' h)) \<and>
    cluster_ns (lazy_val config_metadata) sample_hash 2 (\<lambda>h. sv_daemon (s' h)) = [''/'' \<mapsto> root_md] \<and>
    stored_chunk (lazy_val config_metadata) (sv_daemon (s' 1)) = (\<lambda>p c. [])"
proof -
  have d: "dir_files (sample_server Map.empty Map.empty) q = []" for q
    by (simp add: dir_files_def sample_server_def)
  have E: "sample_env = rocksdb_env config_metadata (lazy_rocksdb config_metadata) sample_hash (\<lambda>_. 0)"
    by (simp add: sample_env_def sample_hash_def [abs_def])
  obtain s' where s': "\<forall>h < 2. startup sample_env sample_host sample_opts (sample_server Map.empty Map.empty) = (Inr (), s' h)"
      "cluster_data_ok (lazy_val config_metadata) (lazy_ok config_metadata) sample_hash 2 (\<lambda>h md. md) (\<lambda>h. sv_daemon (s' h))"
      "cluster_ns (lazy_val config_metadata) sample_hash 2 (\<lambda>h. sv_daemon (s' h)) = [''/'' \<mapsto> root_md]"
      "\<forall>h < 2. stored_chunk (lazy_val config_metadata) (sv_daemon (s' h)) = (\<lambda>p c. [])"
    using fresh_cluster [of 2 "lazy_rocksdb config_metadata" "lazy_val config_metadata" "lazy_ok config_metadata"
        "\<lambda>_. sample_host" "\<lambda>_. sample_server Map.empty Map.empty" "\<lambda>_. sample_opts" "\<lambda>_. ''/m''" "\<lambda>_. ''/r''"
        "\<lambda>_. ''/r''" sample_hash "\<lambda>_. 0", OF _ faultless.daemon_host_axioms _ sample_opts_ok] d
    by (auto simp: E separator_def)
  then have "startup sample_env sample_host sample_opts (sample_server Map.empty Map.empty) = (Inr (), s' 0)"
    "stored_chunk (lazy_val config_metadata) (sv_daemon (s' 1)) = (\<lambda>p c. [])" by simp_all
  with s'(2,3) show ?thesis by (intro exI [of _ s']) simp
qed

section \<open>A start that fails\<close>

text \<open>The start does not change what the command line set.\<close>

definition keeps_settings :: "('db server, 'a) cmd \<Rightarrow> bool" where
  "keeps_settings m \<longleftrightarrow> (\<forall>s. sv_settings (snd (m s)) = sv_settings s)"

named_theorems keeps \<open>commands of a daemon that leave its settings alone\<close>

lemma keeps_basic [keeps]:
  "keeps_settings (cret x)" "keeps_settings (craise e)" "keeps_settings (clift r)" "keeps_settings (cassert b)"
  "keeps_settings (cget f)" "keeps_settings (set_daemon g)" "keeps_settings (on_daemon m)"
  "keeps_settings (on_disk k)" "keeps_settings (on_files l)"
  by (simp_all add: keeps_settings_def cmd_simps on_daemon_def on_disk_def on_files_def split: prod.splits)

lemma keeps_upd [keeps]: "(\<And>s. sv_settings (f s) = sv_settings s) \<Longrightarrow> keeps_settings (upd f)"
  by (simp add: keeps_settings_def cmd_simps)

lemma keeps_cbind [keeps]: "keeps_settings m \<Longrightarrow> (\<And>x. keeps_settings (f x)) \<Longrightarrow> keeps_settings (cbind m f)"
  unfolding keeps_settings_def cbind_def by (auto split: prod.splits sum.splits) (metis snd_conv)+

lemma keeps_ccatch [keeps]: "keeps_settings m \<Longrightarrow> (\<And>e. keeps_settings (h e)) \<Longrightarrow> keeps_settings (ccatch m h)"
  unfolding keeps_settings_def ccatch_def by (auto split: prod.splits sum.splits) (metis snd_conv)+

lemma keeps_if [keeps]: "keeps_settings m \<Longrightarrow> keeps_settings k \<Longrightarrow> keeps_settings (if b then m else k)"
  by simp

lemma keeps_create_directories [keeps]: "keeps_settings (create_directories p)"
  unfolding create_directories_def by (intro keeps)

lemma keeps_must [keeps]: "keeps_settings must"
  unfolding must_def by (intro keeps)

lemma keeps_create_xstreams [keeps]: "keeps_settings (create_xstreams k)"
  by (induction k) (auto intro: keeps)

lemma keeps_RocksDBBackend [keeps]: "keeps_settings (RocksDBBackend H p)"
  by (simp add: keeps_settings_def RocksDBBackend_def split: option.splits)

lemma keeps_init: "keeps_settings (daemon_init_environment E H)"
  unfolding daemon_init_environment_def MetadataDB_def Let_def ChunkStorage_def init_rpc_server_def
    init_io_tasklet_pool_def create_root_def register_host_def
  by (intro keeps | simp add: keeps split: prod.splits)+

lemma remove_all_frame: "\<exists>r s'. remove_all H p s = (Inr r, s') \<and> sv_settings s' = sv_settings s \<and>
    (sv_files s f = None \<longrightarrow> sv_files s' f = None)"
proof -
  obtain x s1 where "on_disk pop_outcome s = (Inr x, s1)" "sv_settings s1 = sv_settings s" "sv_files s1 = sv_files s"
    by (cases "st_script (storage (sv_daemon s))")
      (simp_all add: on_disk_def on_daemon_def on_storage_def pop_outcome_def)
  then show ?thesis by (cases x) (simp_all add: remove_all_def cbind_apply)
qed

lemma remove_rootdirs_frame: "\<exists>s'. remove_rootdirs H s = (Inr (), s') \<and> (sv_files s f = None \<longrightarrow> sv_files s' f = None)"
proof -
  obtain r1 s1 where 1: "remove_all H (se_metadir (sv_settings s)) s = (Inr r1, s1)"
      "sv_files s f = None \<longrightarrow> sv_files s1 f = None"
    using remove_all_frame by blast
  obtain r2 s2 where 2: "remove_all H (rootdir (sv_daemon s)) s1 = (Inr r2, s2)"
      "sv_files s1 f = None \<longrightarrow> sv_files s2 f = None"
    using remove_all_frame by blast
  show ?thesis using 1 2 by (simp add: remove_rootdirs_def cmd_simps)
qed

lemma destroy_removes_hosts:
  assumes "se_hosts_file (sv_settings s) \<noteq> []"
  shows "\<exists>s'. destroy_enviroment H s = (Inr (), s') \<and> sv_files s' (se_hosts_file (sv_settings s)) = None"
proof -
  let ?f = "se_hosts_file (sv_settings s)"
  obtain r s1 where s1: "remove_all H (daemon.mountdir (sv_daemon s)) s = (Inr r, s1)" "sv_settings s1 = sv_settings s"
    using remove_all_frame by blast
  let ?s2 = "s1\<lparr>sv_files := (sv_files s1)(?f := None)\<rparr>"
  have s2: "on_files (destroy_hosts_file ?f) s1 = (Inr (), ?s2)"
    by (simp add: on_files_def destroy_hosts_file_def)
  obtain s3 where s3: "close_mdb ?s2 = (Inr (), s3)" "sv_files s3 ?f = None"
    by (cases "sv_mdb s1") (simp_all add: close_mdb_def set_simps)
  obtain s4 where s4: "remove_rootdirs H s3 = (Inr (), s4)" "sv_files s4 ?f = None"
    using remove_rootdirs_frame [of H s3 ?f] s3(2) by blast
  have "destroy_enviroment H s = (Inr (), s4\<lparr>sv_stats := False\<rparr>)"
    using s1 s2 s3(1) s4(1) assms
    by (simp add: destroy_enviroment_def cbind_apply cget_apply set_simps del: fun_upd_apply)
  then show ?thesis using s4(2) by simp
qed


text \<open>The store of a second daemon of the cluster is locked: the line of the first daemon is gone.\<close>

definition locked_host :: "lazy_store host" where
  "locked_host = sample_host\<lparr>hs_open_db := (\<lambda>p x. None)\<rparr>"

definition shared_server :: "lazy_store server" where
  "shared_server = (sample_server Map.empty Map.empty)\<lparr>sv_files := [''./gaofs_hosts.txt'' \<mapsto> ''n0 ofi+sockets://n0'']\<rparr>"

lemma locked_parse: "\<exists>s1. parse_input locked_host sample_opts shared_server = (Inr (), s1) \<and> quiet s1 \<and>
    se_hosts_file (sv_settings s1) = ''./gaofs_hosts.txt'' \<and> se_dbbackend (sv_settings s1) = rocksdb_backend"
  by (simp add: parse_input_def parse_rpc_def parse_hosts_file_def parse_mountdir_def parse_rootdir_def
      parse_suffix_def parse_metadir_def parse_backend_def parse_stats_def sample_opts_def shared_server_def
      sample_server_def locked_host_def faultless_host_def sample_daemon_def cmd_simps given_def get_var_def
      hostfile_path_def create_directories_def on_disk_def on_daemon_def on_storage_def pop_outcome_def
      Let_def quiet_def)

lemma locked_init:
  assumes "quiet s" "se_dbbackend (sv_settings s) = rocksdb_backend"
  shows "\<exists>s'. daemon_init_environment sample_env locked_host s = (Inl RuntimeError, s')"
proof -
  let ?p = "se_metadir (sv_settings s) @ [separator] @ metadata_dir"
  obtain s1 where s1: "create_directories ?p s = (Inr (), s1)" "quiet s1" "sv_settings s1 = sv_settings s"
    using create_directories_ok [OF assms(1), of ?p] by (auto simp: trimmed_def)
  obtain s2 where s2: "create_directories (?p @ [separator] @ rocksdb_backend) s1 = (Inr (), s2)"
    using create_directories_ok [OF s1(2), of "?p @ [separator] @ rocksdb_backend"] by auto
  show ?thesis using s1 s2 assms(2)
    by (simp add: daemon_init_environment_def cbind_apply cget_apply MetadataDB_def Let_def RocksDBBackend_def
        locked_host_def)
qed


end
