(* ===== verification/Statistics.thy ===== *)
theory Statistics
  imports Config "HOL-Library.Char_ord" "HOL-Library.List_Lexorder" "HOL-Library.Product_Lexorder" "HOL-Library.AList"
begin

text \<open>
  The statistics of a daemon: \<open>common/statistics/stats.cpp\<close>. A clock reading is a number of
  nanoseconds, and every call is told the readings it makes. The means are quotients of
  floating-point numbers: the sums and the operands of the quotients are modelled, the divisions
  and the thread that prints them are not.
\<close>

section \<open>Stats\<close>

datatype iops_op = iops_create | iops_write | iops_read | iops_stats | iops_dirent | iops_remove
datatype size_op = write_size | read_size

type_synonym instant = int

abbreviation seconds :: int where "seconds \<equiv> 1000000000"
abbreviation minutes :: int where "minutes \<equiv> 60 * seconds"

record stats =
  start :: instant
  iops_mean :: "iops_op \<Rightarrow> u64"
  size_mean :: "size_op \<Rightarrow> u64"
  time_iops :: "iops_op \<Rightarrow> instant list"
  time_size :: "size_op \<Rightarrow> (instant \<times> u64) list"
  chunk_reads :: "((path \<times> u64) \<times> u32) list"
  chunk_writes :: "((path \<times> u64) \<times> u32) list"

text \<open>Every window starts with one reading, so that it is never empty.\<close>

definition Stats :: "instant \<Rightarrow> stats" where
  "Stats now = \<lparr>start = now, iops_mean = (\<lambda>_. 0), size_mean = (\<lambda>_. 0), time_iops = (\<lambda>_. [now]),
     time_size = (\<lambda>_. [(now, 0)]), chunk_reads = [], chunk_writes = []\<rparr>"

definition bump :: "path \<times> u64 \<Rightarrow> ((path \<times> u64) \<times> u32) list \<Rightarrow> ((path \<times> u64) \<times> u32) list" where
  "bump k m = AList.update k ((case map_of m k of None \<Rightarrow> 0 | Some x \<Rightarrow> x) + 1) m"

definition add_read :: "path \<Rightarrow> u64 \<Rightarrow> stats \<Rightarrow> stats" where
  "add_read p chunk st = st\<lparr>chunk_reads := bump (p, chunk) (chunk_reads st)\<rparr>"

definition add_write :: "path \<Rightarrow> u64 \<Rightarrow> stats \<Rightarrow> stats" where
  "add_write p chunk st = st\<lparr>chunk_writes := bump (p, chunk) (chunk_writes st)\<rparr>"

text \<open>One entry is dropped from the front when it is older than ten seconds, or the window is full.\<close>

definition push_window :: "('a \<Rightarrow> instant) \<Rightarrow> instant \<Rightarrow> 'a \<Rightarrow> 'a list \<Rightarrow> 'a list" where
  "push_window t now x q =
    (if now - t (hd q) > 10 * seconds then tl q else if length q \<ge> max_stats then tl q else q) @ [x]"

definition add_value_iops :: "instant \<Rightarrow> instant \<Rightarrow> iops_op \<Rightarrow> stats \<Rightarrow> stats" where
  "add_value_iops now now' iop st =
    st\<lparr>iops_mean := (iops_mean st)(iop := iops_mean st iop + 1),
       time_iops := (time_iops st)(iop := push_window (\<lambda>t. t) now now' (time_iops st iop))\<rparr>"

definition add_value_size ::
    "instant \<Rightarrow> instant \<Rightarrow> instant \<Rightarrow> instant \<Rightarrow> size_op \<Rightarrow> u64 \<Rightarrow> stats \<Rightarrow> stats" where
  "add_value_size now now1 now2 now3 iop v st =
    (let st = st\<lparr>size_mean := (size_mean st)(iop := size_mean st iop + v),
           time_size := (time_size st)(iop := push_window fst now (now1, v) (time_size st iop))\<rparr>
     in case iop of
          read_size \<Rightarrow> add_value_iops now2 now3 iops_read st
        | write_size \<Rightarrow> add_value_iops now2 now3 iops_write st)"

section \<open>Means\<close>

text \<open>\<open>duration_cast\<close> cuts off the fraction.\<close>

definition whole_minutes :: "int \<Rightarrow> int" where
  "whole_minutes d = (if d < 0 then - ((- d) div minutes) else d div minutes)"

text \<open>The total and the seconds it is divided by.\<close>

definition get_mean_size :: "instant \<Rightarrow> size_op \<Rightarrow> stats \<Rightarrow> u64 \<times> int" where
  "get_mean_size now sop st = (size_mean st sop, (now - start st) div seconds)"

definition get_mean_iops :: "instant \<Rightarrow> iops_op \<Rightarrow> stats \<Rightarrow> u64 \<times> int" where
  "get_mean_iops now iop st = (iops_mean st iop, (now - start st) div seconds)"

text \<open>The loop of \<open>get_four_means\<close>: the sums over one, five and ten minutes.\<close>

fun mean_loop :: "instant \<Rightarrow> (instant \<times> nat) list \<Rightarrow> nat \<times> nat \<times> nat \<Rightarrow> nat \<times> nat \<times> nat" where
  "mean_loop now [] r = r"
| "mean_loop now ((t, v) # es) (r1, r2, r3) =
    (let duration = whole_minutes (now - t) in
     if duration > 10 then (r1, r2, r3)
     else let r3 = r3 + v in
     if duration > 5 then mean_loop now es (r1, r2, r3)
     else let r2 = r2 + v in
     if duration > 1 then mean_loop now es (r1, r2, r3)
     else mean_loop now es (r1 + v, r2, r3))"

definition get_four_means_size :: "instant \<Rightarrow> size_op \<Rightarrow> stats \<Rightarrow> nat \<times> nat \<times> nat" where
  "get_four_means_size now sop st = mean_loop now (map (\<lambda>(t, v). (t, unat v)) (time_size st sop)) (0, 0, 0)"

definition get_four_means_iops :: "instant \<Rightarrow> iops_op \<Rightarrow> stats \<Rightarrow> nat \<times> nat \<times> nat" where
  "get_four_means_iops now iop st = mean_loop now (map (\<lambda>t. (t, 1)) (time_iops st iop)) (0, 0, 0)"

section \<open>The chunk map\<close>

text \<open>The chunks by the number of their accesses, in ascending order: the lines printed.\<close>

definition chunk_map :: "string \<Rightarrow> ((path \<times> u64) \<times> u32) list \<Rightarrow> string" where
  "chunk_map caption m =
    caption @ [CHR 0x0A] @ concat (map (\<lambda>k. dec (unat k) @ '' -- '' @
      concat (map (\<lambda>(p, c). p @ '' // '' @ dec (unat c) @ [CHR 0x0A]) (sort (map fst (filter (\<lambda>e. snd e = k) m)))))
      (sort (remdups (map snd m))))"

definition output_map :: "stats \<Rightarrow> string" where
  "output_map st = chunk_map ''READ CHUNK MAP'' (chunk_reads st) @ chunk_map ''WRITE CHUNK MAP'' (chunk_writes st)"

section \<open>Windows\<close>

text \<open>A window is in the order of time, never empty, and never longer than the limit.\<close>

definition window_ok :: "('a \<Rightarrow> instant) \<Rightarrow> instant \<Rightarrow> 'a list \<Rightarrow> bool" where
  "window_ok t now q \<longleftrightarrow> q \<noteq> [] \<and> length q \<le> max_stats \<and> sorted (map t q) \<and> (\<forall>x \<in> set q. t x \<le> now)"

lemma push_window_ok:
  assumes "window_ok t now q" "now \<le> t x"
  shows "window_ok t (t x) (push_window t now x q)"
proof -
  obtain y ys where q: "q = y # ys" using assms(1) by (cases q) (auto simp: window_ok_def)
  have le: "t z \<le> t x" if "z \<in> set q" for z using assms that by (force simp: window_ok_def)
  have s: "sorted (map t q)" "length q \<le> max_stats" using assms(1) by (simp_all add: window_ok_def)
  have m: "0 < max_stats" by (simp add: max_stats_def)
  show ?thesis using s le m by (auto simp: window_ok_def push_window_def q sorted_append max_stats_def)
qed

definition stats_ok :: "instant \<Rightarrow> stats \<Rightarrow> bool" where
  "stats_ok now st \<longleftrightarrow> (\<forall>iop. window_ok (\<lambda>t. t) now (time_iops st iop)) \<and>
     (\<forall>sop. window_ok fst now (time_size st sop))"

lemma window_later: "window_ok t now q \<Longrightarrow> now \<le> now' \<Longrightarrow> window_ok t now' q"
  by (auto simp: window_ok_def)

lemma Stats_ok: "stats_ok now (Stats now)"
  by (simp add: stats_ok_def Stats_def window_ok_def max_stats_def)

lemma add_value_iops_ok:
  assumes "stats_ok now st" "now \<le> now1" "now1 \<le> now2"
  shows "stats_ok now2 (add_value_iops now1 now2 iop st)"
  using assms push_window_ok [of "\<lambda>t. t" now1 "time_iops st iop" now2]
  by (auto simp: stats_ok_def add_value_iops_def intro: window_later)

lemma add_value_size_ok:
  assumes "stats_ok now st" "now \<le> now1" "now1 \<le> now2" "now2 \<le> now3" "now3 \<le> now4"
  shows "stats_ok now4 (add_value_size now1 now2 now3 now4 sop v st)"
proof -
  have "stats_ok now2 (st\<lparr>size_mean := g, time_size := (time_size st)(sop := push_window fst now1 (now2, v) (time_size st sop))\<rparr>)"
    for g using assms(1-3) push_window_ok [of fst now1 "time_size st sop" "(now2, v)"]
    by (auto simp: stats_ok_def intro: window_later)
  from add_value_iops_ok [OF this assms(4,5)] show ?thesis
    by (cases sop) (simp_all add: add_value_size_def Let_def)
qed

lemma whole_minutes_windows:
  assumes "0 \<le> d"
  shows "whole_minutes d > 10 \<longleftrightarrow> d \<ge> 11 * minutes" "whole_minutes d > 5 \<longleftrightarrow> d \<ge> 6 * minutes"
    "whole_minutes d > 1 \<longleftrightarrow> d \<ge> 2 * minutes"
  using assms by (simp_all add: whole_minutes_def) arith+

definition sum_since :: "int \<Rightarrow> instant \<Rightarrow> (instant \<times> nat) list \<Rightarrow> nat" where
  "sum_since d now es = sum_list (map snd (filter (\<lambda>e. now - fst e < d) es))"

lemma sum_since_simps [simp]:
  "sum_since d now [] = 0"
  "sum_since d now ((t, v) # es) = (if now - t < d then v else 0) + sum_since d now es"
  by (simp_all add: sum_since_def)

lemma mean_loop_recent:
  assumes "\<forall>e \<in> set es. fst e \<le> now \<and> now - fst e < 11 * minutes"
  shows "mean_loop now es (r1, r2, r3) =
    (r1 + sum_since (2 * minutes) now es, r2 + sum_since (6 * minutes) now es, r3 + sum_since (11 * minutes) now es)"
  using assms
proof (induction es arbitrary: r1 r2 r3)
  case (Cons e es)
  obtain t v where e: "e = (t, v)" by fastforce
  have d: "0 \<le> now - t" "now - t < 11 * minutes" using Cons.prems by (auto simp: e)
  show ?case
    using Cons whole_minutes_windows [OF d(1)] d(2) by (simp add: e Let_def not_le del: mult_numeral_left)
qed simp

lemma mean_loop_stale: "t \<le> now \<Longrightarrow> now - t \<ge> 11 * minutes \<Longrightarrow> mean_loop now ((t, v) # es) r = r"
  using whole_minutes_windows(1) [of "now - t"] by (cases r) simp

text \<open>The sums of a window in order.\<close>

lemma mean_loop_window:
  assumes "es \<noteq> []" "sorted (map fst es)" "\<forall>e \<in> set es. fst e \<le> now"
  shows "mean_loop now es (0, 0, 0) =
    (if now - fst (hd es) \<ge> 11 * minutes then (0, 0, 0)
     else (sum_since (2 * minutes) now es, sum_since (6 * minutes) now es, sum_since (11 * minutes) now es))"
proof -
  obtain e es' where es: "es = e # es'" using assms(1) by (cases es) auto
  obtain t v where e: "e = (t, v)" by fastforce
  show ?thesis
  proof (cases "now - t \<ge> 11 * minutes")
    case True
    then show ?thesis using mean_loop_stale assms(3) by (simp add: es e del: mean_loop.simps)
  next
    case False
    have "\<forall>x \<in> set es. fst x \<le> now \<and> now - fst x < 11 * minutes"
      using assms(2,3) False by (auto simp: es e)
    from mean_loop_recent [OF this, of 0 0 0] show ?thesis using False by (simp add: es e del: mean_loop.simps)
  qed
qed

lemma mean_loop_entries:
  assumes "window_ok t now q" "\<And>x. fst (f x) = t x"
  shows "mean_loop now (map f q) (0, 0, 0) =
    (if now - t (hd q) \<ge> 11 * minutes then (0, 0, 0)
     else (sum_since (2 * minutes) now (map f q), sum_since (6 * minutes) now (map f q),
       sum_since (11 * minutes) now (map f q)))"
proof -
  have "map fst (map f q) = map t q" using assms(2) by simp
  then show ?thesis
    using assms mean_loop_window [of "map f q" now] by (simp only: window_ok_def) (auto simp: hd_map)
qed

text \<open>C39: What \<open>get_four_means\<close> sums up. The bounds of one, five and ten minutes include everything that
  is less than two, six and eleven minutes old (the age is cut to whole minutes, and compared with
  \<open>>\<close>). And the loop ends at the first entry that is too old, but the entries are in the
  order of time: as long as the oldest one of the window is eleven minutes old, all sums are zero,
  whatever was done since.\<close>

lemma get_four_means_windows:
  assumes "stats_ok now0 st" "now0 \<le> now"
  shows "get_four_means_iops now iop st =
      (let es = map (\<lambda>t. (t, 1)) (time_iops st iop) in
       if now - hd (time_iops st iop) \<ge> 11 * minutes then (0, 0, 0)
       else (sum_since (2 * minutes) now es, sum_since (6 * minutes) now es, sum_since (11 * minutes) now es)) \<and>
    get_four_means_size now sop st =
      (let es = map (\<lambda>(t, v). (t, unat v)) (time_size st sop) in
       if now - fst (hd (time_size st sop)) \<ge> 11 * minutes then (0, 0, 0)
       else (sum_since (2 * minutes) now es, sum_since (6 * minutes) now es, sum_since (11 * minutes) now es))"
proof -
  have q: "window_ok (\<lambda>t. t) now (time_iops st iop)" "window_ok fst now (time_size st sop)"
    using assms(1) by (simp_all add: stats_ok_def window_later [OF _ assms(2)])
  show ?thesis
    unfolding get_four_means_iops_def get_four_means_size_def Let_def
    using mean_loop_entries [OF q(1), of "\<lambda>t. (t, 1)"] mean_loop_entries [OF q(2), of "\<lambda>(t, v). (t, unat v)"]
    by (simp only: fst_conv case_prod_unfold simp_thms)
qed

text \<open>Two reads in the first second and one after 700 seconds: a second later, nothing is reported.\<close>

definition sample_stats :: stats where
  "sample_stats = add_value_iops (700 * seconds) (700 * seconds) iops_read
     (add_value_iops seconds seconds iops_read (Stats 0))"

lemma get_four_means_windows_witness:
  "get_four_means_iops (701 * seconds) iops_read sample_stats = (0, 0, 0) \<and>
   time_iops sample_stats iops_read = [seconds, 700 * seconds]"
proof -
  have "stats_ok (700 * seconds) sample_stats"
    unfolding sample_stats_def by (intro add_value_iops_ok [where now = seconds] add_value_iops_ok [where now = 0] Stats_ok) simp_all
  moreover have "time_iops sample_stats iops_read = [seconds, 700 * seconds]"
    by (simp add: sample_stats_def add_value_iops_def push_window_def Stats_def max_stats_def)
  ultimately show ?thesis
    using get_four_means_windows [of "700 * seconds" sample_stats "701 * seconds" iops_read] by simp
qed

end
