(* ===== verification/Logging.thy ===== *)
theory Logging
  imports Hosts_File
begin

text \<open>
  Which messages are logged: the options of the client's logger (\<open>client/logging.cpp\<close>,
  \<open>client/logging.hpp\<close>) and the level of the daemon's (\<open>common/log_util.cpp\<close>). The build is
  the release build with logging. The text and the output of the messages are left out.
\<close>

section \<open>Log levels of the client\<close>

type_synonym log_level = u32

definition print_syscalls :: log_level where "print_syscalls = 1"
definition print_syscalls_entry :: log_level where "print_syscalls_entry = 2"
definition print_info :: log_level where "print_info = 4"
definition print_critical :: log_level where "print_critical = 8"
definition print_errors :: log_level where "print_errors = 16"
definition print_warnings :: log_level where "print_warnings = 32"
definition print_hermes :: log_level where "print_hermes = 64"
definition print_mercury :: log_level where "print_mercury = 128"
definition print_debug :: log_level where "print_debug = 256"
definition print_trace_reads :: log_level where "print_trace_reads = 512"
definition print_none :: log_level where "print_none = 0"

definition print_all :: log_level where
  "print_all = print_syscalls OR print_syscalls_entry OR print_info OR print_critical OR print_errors OR
     print_warnings OR print_hermes OR print_mercury OR print_debug"

definition print_help :: log_level where "print_help = 1024"

text \<open>The operators work on \<open>short\<close>.\<close>

definition level_or :: "log_level \<Rightarrow> log_level \<Rightarrow> log_level" where
  "level_or l1 l2 = scast ((ucast l1 :: 16 word) OR ucast l2)"

definition level_and :: "log_level \<Rightarrow> log_level \<Rightarrow> log_level" where
  "level_and l1 l2 = scast ((ucast l1 :: 16 word) AND ucast l2)"

definition level_names :: "string list" where
  "level_names = [''syscall'', ''syscall'', ''info'', ''critical'', ''error'', ''warning'', ''hermes'',
     ''mercury'', ''debug'', ''trace_reads'']"

text \<open>The number of trailing zeros of the \<open>short\<close>, read as an \<open>int\<close>; for 0 it is undefined.\<close>

definition ctz :: "log_level \<Rightarrow> nat" where
  "ctz l = length (takeWhile (\<lambda>i. \<not> bit (scast (ucast l :: 16 word) :: u32) i) [0..<32])"

definition lookup_level_name :: "log_level \<Rightarrow> string res" where
  "lookup_level_name l =
    (if l = print_none \<or> l = print_help then Inl Abort
     else if ctz l \<ge> length level_names then Inl Abort else Inr (level_names ! ctz l))"

section \<open>The options\<close>

definition debug_opts :: "(string \<times> log_level) list" where
  "debug_opts = [(''none'', print_none), (''info'', print_info), (''critical'', print_critical),
     (''errors'', print_errors), (''warnings'', print_warnings), (''hermes'', print_hermes),
     (''mercury'', print_mercury), (''trace_reads'', print_trace_reads), (''all'', print_all),
     (''help'', print_help)]"

lemma length_dropWhile_Suc [simp]: "length (dropWhile P s) < Suc (length s)"
  using length_dropWhile_le [of P s] by simp

text \<open>The pieces between the matches of \<open>[delimiter]+\<close>: a delimiter at the start gives an empty piece, one
  at the end does not.\<close>

fun pieces :: "(char \<Rightarrow> bool) \<Rightarrow> string \<Rightarrow> string \<Rightarrow> string list" where
  "pieces dl cur [] = (if cur = [] then [] else [cur])"
| "pieces dl cur (c # s) =
    (if dl c then cur # pieces dl [] (dropWhile dl s) else pieces dl (cur @ [c]) s)"

definition split_str :: "string \<Rightarrow> string \<Rightarrow> string list" where
  "split_str input delimiter = (if input = [] then [[]] else pieces (\<lambda>c. c \<in> set delimiter) [] input)"

text \<open>One token: the options in order up to the first of its name. None is the return of \<open>none\<close>.\<close>

definition add_option :: "log_level \<Rightarrow> string \<Rightarrow> log_level option" where
  "add_option dm t = (if t = ''none'' then None
     else case map_of debug_opts t of Some m \<Rightarrow> Some (level_or dm m) | None \<Rightarrow> Some dm)"

fun option_loop :: "log_level \<Rightarrow> string list \<Rightarrow> log_level option" where
  "option_loop dm [] = Some dm"
| "option_loop dm (t # ts) = (case add_option dm t of None \<Rightarrow> None | Some dm \<Rightarrow> option_loop dm ts)"

text \<open>None: the process prints the help and exits.\<close>

definition process_log_options :: "string \<Rightarrow> log_level option" where
  "process_log_options gaofs_debug =
    (case option_loop print_none (split_str gaofs_debug '' ,'') of
       None \<Rightarrow> Some print_none
     | Some dm \<Rightarrow> if level_and dm print_help \<noteq> 0 then None else Some dm)"

text \<open>Mask and file of the logger of \<open>init_logging\<close>; standard error (2) when the file does not open.\<close>

definition init_logging :: "node \<Rightarrow> (path \<Rightarrow> bool \<Rightarrow> int option) \<Rightarrow> (log_level \<times> int) option" where
  "init_logging nd open_log =
    (let log_opts = get_var nd ''LIBGAOFS_LOG'' ''info,errors,critical,hermes'';
         log_output = get_var nd ''LIBGAOFS_LOG_OUTPUT'' ''/tmp/gaofs_client.log'';
         trunc_val = get_var nd ''LIBGAOFS_LOG_OUTPUT_TRUNC'' [];
         log_trunc = (trunc_val \<noteq> [] \<and> hd trunc_val \<noteq> CHR ''0'')
     in map_option (\<lambda>dm. (dm, if log_output = [] then 2
          else case open_log log_output log_trunc of None \<Rightarrow> 2 | Some fd \<Rightarrow> fd)) (process_log_options log_opts))"

section \<open>System calls\<close>

text \<open>\<open>log_syscall\<close>: whether a call is written, from what is known of it.\<close>

definition log_syscall :: "log_level \<Rightarrow> bool \<Rightarrow> bool \<Rightarrow> bool \<Rightarrow> bool" where
  "log_syscall log_mask no_info may_not_return pending =
    (let log_syscall_entry = (level_and print_syscalls_entry log_mask \<noteq> 0);
         log_syscall_result = (level_and print_syscalls log_mask \<noteq> 0)
     in if \<not> log_syscall_entry \<and> \<not> log_syscall_result then False
        else if no_info then True
        else if may_not_return then True
        else if log_syscall_entry \<and> pending then True
        else if log_syscall_result \<and> \<not> pending then True
        else False)"

section \<open>The level of the daemon\<close>

datatype spd_level = trace | debug | info | warn | err | critical | off

definition level_of_number :: "nat \<Rightarrow> spd_level" where
  "level_of_number level = (if level = 0 then off else if level = 1 then critical else if level = 2 then err
     else if level = 3 then warn else if level = 4 then info else if level = 5 then debug else trace)"

definition tolower :: "char \<Rightarrow> char" where
  "tolower c = (if c \<in> set ''ABCDEFGHIJKLMNOPQRSTUVWXYZ'' then char_of (of_char c + (32 :: nat)) else c)"

text \<open>\<open>strtoul\<close> clamps and never throws. Without a digit it stops at the start, which is the end of an
  empty string.\<close>

definition strtoul :: "string \<Rightarrow> u64 \<times> nat" where
  "strtoul s = (case scan_num s of
      None \<Rightarrow> (0, 0)
    | Some (neg, v, n) \<Rightarrow> (if v \<ge> 2 ^ 64 then - 1 else if neg then - of_nat v else of_nat v, n))"

definition get_level :: "string \<Rightarrow> spd_level res" where
  "get_level level_str =
    (let (level, parse_end) = strtoul (c_str level_str) in
     if parse_end \<noteq> length level_str then
       let s = map tolower level_str in
       if s = ''off'' then Inr off
       else if s = ''critical'' then Inr critical
       else if s = ''err'' then Inr err
       else if s = ''warn'' then Inr warn
       else if s = ''info'' then Inr info
       else if s = ''debug'' then Inr debug
       else if s = ''trace'' then Inr trace
       else Inl RuntimeError
     else Inr (level_of_number (unat level)))"

section \<open>Lemmas\<close>

lemmas level_defs = print_syscalls_def print_syscalls_entry_def print_info_def print_critical_def
  print_errors_def print_warnings_def print_hermes_def print_mercury_def print_debug_def
  print_trace_reads_def print_none_def print_help_def

text \<open>Every level has its name; the combined level has the name of its first bit.\<close>

lemma lookup_level_names:
  "list_all (\<lambda>i. lookup_level_name (push_bit i 1) = Inr (level_names ! i)) [0..<10]"
  by code_simp

text \<open>The options of the default; \<open>none\<close> wins over every other option; \<open>all\<close> leaves out
  \<open>trace_reads\<close>.\<close>

lemma default_options: "process_log_options ''info,errors,critical,hermes'' =
    Some (print_info OR print_errors OR print_critical OR print_hermes)"
  by code_simp

lemma option_loop_none: "''none'' \<in> set ts \<Longrightarrow> option_loop dm ts = None"
  by (induction ts arbitrary: dm) (auto simp: add_option_def split: option.splits)

lemma all_without_trace_reads: "level_and print_all print_trace_reads = 0"
  by code_simp

text \<open>A number or its name mean the same level; the empty string is \<open>off\<close>.\<close>

lemma get_level_dec: "n < 2 ^ 64 \<Longrightarrow> get_level (dec n) = Inr (level_of_number n)"
proof -
  assume n: "n < 2 ^ 64"
  have "NUL \<notin> set (dec n)" using dec_digits [of n] is_digit_not_special by blast
  then have c: "c_str (dec n) = dec n" by simp
  have "scan_num (dec n) = Some (False, n, length (dec n))" using scan_num_dec [of "[]" n] by simp
  then show ?thesis using n by (simp add: get_level_def strtoul_def c unsigned_of_nat take_bit_nat_eq_self)
qed

lemma get_level_empty: "get_level [] = Inr off"
  by code_simp

end
