(* ===== verification/Spec2Isabelle.thy ===== *)
theory Spec2Isabelle
  imports Truncation Hook_Safety Daemon_Cycle Statistics Logging
begin

text \<open>
  GaoFS is a distributed file system in user space. A client library (\<open>src/client\<close>) intercepts the
  system calls of an application; paths below the mount directory are served by daemons
  (\<open>src/daemon\<close>), one per node, over remote procedure calls. The metadata of a file is one entry of
  the RocksDB store of the daemon its path hashes to; its data is cut into chunks of 512 KiB, each
  on the daemon its path and number hash to. Chunk 0 is kept in the key-value store (the first
  chunk), the others are files of the daemon's local file system.

  Theories, from the bottom up:

  \<^item> \<open>Gaofs_Prelude\<close>: integers, byte strings, exceptions as values, the state monad \<open>cmd\<close>, the
    number printing and parsing of the standard library, and facts about them.
  \<^item> \<open>Arithmetic\<close> (\<open>include/common/arithmetic/arithmetic.hpp\<close>) and \<open>Config\<close> (\<open>include/config.hpp\<close>):
    block arithmetic on 64-bit words; the locale \<open>block_size\<close> is interpreted on the chunk size.
  \<^item> \<open>Path_Util\<close> (\<open>common/path_util.cpp\<close>), \<open>Metadata\<close> (\<open>common/metadata.cpp\<close>,
    \<open>common/first_chunk.cpp\<close>), \<open>Distributor\<close> (\<open>common/rpc/distributor.cpp\<close>).
  \<^item> \<open>Merge\<close>, \<open>Rocksdb_Backend\<close>, \<open>Metadata_Db\<close> (\<open>daemon/backend/metadata\<close>): the merge operator, the
    backend over RocksDB and the database class. RocksDB is a record of operations, a parameter;
    \<open>Kv_Contract\<close> states what the program relies on as a locale over the map from keys to values,
    and \<open>Kv_Reference\<close> interprets it on a store that keeps the merge operands and folds them
    when a key is read.
  \<^item> \<open>Chunk_Storage\<close> (\<open>daemon/backend/data/chunk_storage.cpp\<close>) over a local file system whose calls
    may be short or fail.
  \<^item> \<open>Daemon_State\<close> (the singletons and \<open>daemon/ops/metadentry.cpp\<close>), \<open>Data_Ops\<close>
    (\<open>daemon/ops/data.cpp\<close>), \<open>Srv_Metadata\<close> and \<open>Srv_Data\<close> (\<open>daemon/handler\<close>), \<open>Rpc_Types\<close> (requests,
    responses, dispatch, a cluster of daemons as a network).
  \<^item> \<open>Rpc_Wire\<close> (\<open>common/rpc/rpc_types.hpp\<close>): the structures of the messages, their encoders and
    decoders; every pair interprets the locale \<open>hg_proc\<close>. \<open>Rpc_Classes\<close>: the request types of
    \<open>client/rpc/rpc_types.hpp\<close>, the table of \<open>daemon/daemon.cpp\<close>, and a call from the input of the
    client through the daemon to the output of the client, which is \<open>dispatch\<close>.
  \<^item> \<open>Forward_Data\<close> (\<open>client/rpc/forward_data.cpp\<close>) and \<open>Data_Plan\<close>, which composes the client's
    requests with the rounds of the data handlers.
  \<^item> \<open>Forward_Metadata\<close> (\<open>client/rpc/forward_metadata.cpp\<close>, \<open>forward_management.cpp\<close>) and
    \<open>Open_File_Map\<close> (\<open>client/open_file_map.cpp\<close>, \<open>open_dir.cpp\<close>): the descriptor table over a heap of
    shared open files. \<open>Gaofs_Functions\<close> (\<open>client/gaofs_functions.cpp\<close>, \<open>preload_util.cpp\<close>): the file
    operations as state-passing functions of the client.
  \<^item> \<open>Namespace\<close> and \<open>Meta_Service\<close>: the abstract name space of a daemon (a map from paths to metadata),
    its refinement by the handlers, and the locale of a service that implements it; \<open>Dirents\<close>: the
    buffer format of directory listings; \<open>Cluster\<close>: the network of healthy daemons, each with its own
    name space; \<open>File_Operations\<close>: what the operations of the client do on such a cluster.
  \<^item> \<open>Daemon_Data\<close>: the effect of one read or write request on the chunks of a daemon; \<open>Data_Service\<close>:
    the locale of a service that stores contents of files, and the client's calls over it;
    \<open>File_Data\<close>: the cluster provides it; \<open>File_Content\<close>: writing and reading back through the whole
    system; \<open>Truncation\<close>: truncating a file through the whole system.
  \<^item> \<open>Path_Resolve\<close> (\<open>client/path.cpp\<close>), \<open>Preload_Context\<close> (\<open>client/preload_context.cpp\<close>), \<open>Hooks\<close>
    (\<open>client/hooks.cpp\<close>), \<open>Intercept\<close> (\<open>client/intercept.cpp\<close>): from a system call of the application to
    a call of the kernel or an operation of the library. The kernel is a parameter (a record of
    functions on a state of any type).
  \<^item> \<open>Hook_Frames\<close> and \<open>Hook_Safety\<close>: which state a call may change (locales \<open>step_relation\<close> and
    \<open>process_relation\<close>), and what that gives for every program of the application.

  \<^item> \<open>Hosts_File\<close> (\<open>daemon/util.cpp\<close>, \<open>client/preload_util.cpp\<close>): the file in which the daemons
    announce themselves; \<open>Client_Start\<close> (\<open>client/preload.cpp\<close>): how a client finds and connects to
    them; \<open>Client_Connect\<close>: which daemons it ends up with (locale \<open>hermes_service\<close>).
  \<^item> \<open>Daemon_Start\<close> (\<open>daemon/daemon.cpp\<close>): options, start, end and \<open>main\<close> of a daemon; \<open>Daemon_Restart\<close>:
    what a start makes of the disk it finds (locale \<open>daemon_host\<close>); \<open>Daemon_Cycle\<close>: a new cluster, a
    restart, and a start that fails.
  \<^item> \<open>Statistics\<close> (\<open>common/statistics/stats.cpp\<close>): counters and time windows. \<open>Logging\<close>
    (\<open>client/logging.cpp\<close>, \<open>common/log_util.cpp\<close>): which messages are logged.

  Conventions. \<open>size_t\<close>, \<open>uint64_t\<close> and the signed 64-bit types are \<open>64 word\<close>, read signed by
  \<open>sint\<close>; arithmetic wraps. A C++ exception is \<open>Inl\<close> of an \<open>exn\<close>; a failing \<open>assert\<close> is
  \<open>Abort\<close> (the assertions are modelled, as in a debug build), a loop that never ends is \<open>Hang\<close>.
  A command returns the state also when it throws. System calls take their outcomes from the
  script \<open>st_script\<close>, margo and Argobots calls from \<open>rpc_script\<close>: an empty script means success, so
  the scripts range over every pattern of failures. Loops are structural recursions on the lists
  they walk or on the script. The loops that may run for ever (\<open>read_loop\<close> of the chunk storage,
  \<open>follow_links\<close> and \<open>open_links\<close> of the client, \<open>free_fd\<close> of the descriptor table) are partial
  functions into option, and no theorem rests on fuel.

  Modelling choices: a task runs when it is created (the tasks of one request touch different
  chunks); the range of a bulk transfer is checked against both buffers; the daemon's bulk buffer
  starts as zeros; a failing \<open>remove_all\<close> leaves the directory as it is; a failing
  \<open>margo_respond\<close> is only logged, so the handler's result is the response. Mutexes are left out:
  every operation of the client runs to its end before the next one starts.

  Locales and their interpretations: \<open>block_size\<close> (the chunk size), \<open>kv_backend\<close> (the reference
  store), \<open>daemon_store\<close>, \<open>meta_service\<close> and \<open>data_service\<close> (the handlers over that store), \<open>cluster\<close>
  (the network of daemons), \<open>hg_proc\<close> (every structure of a message), \<open>hermes_service\<close> (a
  cluster behind the RPC library), \<open>daemon_host\<close> (a node with the reference store on its disk),
  \<open>step_relation\<close> and \<open>process_relation\<close> (the relations of \<open>Hook_Frames\<close>).

  Properties. \<open>File_Content\<close>: what \<open>pwritev\<close> writes \<open>pread\<close> returns, on any number of daemons; what a
  read returns of a sparse file; binary data that is lost. \<open>Truncation\<close>: a call through the messages is
  the handler's call, and truncating a file stops its daemons and keeps its data. \<open>Daemon_Cycle\<close>: a
  new cluster satisfies the invariants and holds only the root directory, a restarted daemon serves
  what it served, and a failed start deletes the hosts file. \<open>Client_Connect\<close>: every client knows the
  same daemons in the same order. \<open>Data_Plan\<close>: the requests a client sends for a range and the rounds
  the daemons derive from them cover every byte exactly once, at the right place of the file and within all
  buffers. \<open>Chunk_Storage\<close>: the effect of writes under arbitrary short transfers and retries, that
  they end, that a read returns what was written, exact trimming, and the two defects of the
  storage (read errors, colons). \<open>Metadata\<close>: round trips of the stored texts and their limits.
  \<open>Merge\<close>: folding operands early or late is the same, and what they compute. \<open>Distributor\<close>: every
  chunk has exactly one daemon and client and daemon agree on it. \<open>Arithmetic\<close>, \<open>Path_Util\<close>:
  functional specifications. \<open>Namespace\<close>: a run of metadata requests refines the abstract name
  space. \<open>Open_File_Map\<close>: the descriptor table refines a map from numbers to shared files.
  \<open>File_Operations\<close>: create, remove, rmdir, stat and listing on a cluster. \<open>Path_Resolve\<close>: the
  resolution agrees with a reference on component lists. \<open>Hook_Safety\<close>: a call on a foreign path
  leaves GaoFS alone, a call on a GaoFS path leaves the kernel's files alone, the client's state stays
  well formed along every run, and the cases in which the hooks go wrong.

  Not modelled: the text of log messages and the set-up of loggers, the library that parses
  command lines, the quotients and the output of the statistics, the bytes Mercury makes of
  the fields of a message, and code the build leaves out
  (statx, statvfs, readlink, forwarding mode).
\<close>

end
